(* ===== verification/Prelude.thy ===== *)
theory Prelude
  imports Complex_Main "HOL-Library.Word"
begin

text \<open>
  Shared vocabulary of the development: the Go types that every component uses (instants,
  durations, identifiers, IEEE numbers, values of a decoded JSON document), the arithmetic
  of Go's package \<open>time\<close> with its saturation at 64 bits, and the row operations that
  the SQL statements of \<open>internal/store\<close> perform on a table.  A table is a list of rows
  in insertion order; an \<open>UPDATE .. WHERE\<close> is \<open>update_rows\<close>, a \<open>DELETE .. WHERE\<close> is
  \<open>delete_rows\<close>, \<open>ORDER BY\<close> is the library's stable \<open>sort_key\<close>.
\<close>

section \<open>Collections of facts\<close>

named_theorems guar_intro \<open>rules that bound the effect of a repository operation\<close>
named_theorems row_simps \<open>equations for row operations\<close>

section \<open>Scalar types\<close>

type_synonym uuid = "128 word"

text \<open>Instants are nanoseconds since the Unix epoch in UTC, durations are nanoseconds.\<close>

type_synonym time = int
type_synonym duration = int

text \<open>
  Finite float64 values are rationals.  A JSON request body cannot carry an infinity or a
  NaN, and the database columns reject them.
\<close>

type_synonym float64 = rat

datatype any_val =
    VNull
  | VBool bool
  | VFloat float64
  | VInt int
  | VInt64 int
  | VString string
  | VTime time
  | VList "any_val list"
  | VObject "(string \<times> any_val) list"

type_synonym any_map = "(string \<times> any_val) list"

section \<open>Package time\<close>

definition nanosecond :: duration where "nanosecond = 1"
definition second :: duration where "second = 1000000000"
definition minute :: duration where "minute = 60 * second"
definition hour :: duration where "hour = 60 * minute"

text \<open>The zero value of \<open>time.Time\<close>, January 1 of the year 1.\<close>

definition zero_time :: time where "zero_time = - 62135596800 * second"

definition min_duration :: duration where "min_duration = - (2 ^ 63)"
definition max_duration :: duration where "max_duration = 2 ^ 63 - 1"

text \<open>\<open>Time.Sub\<close> saturates; \<open>-d\<close> on a Duration wraps at the smallest value.\<close>

definition time_sub :: "time \<Rightarrow> time \<Rightarrow> duration" where
  "time_sub a b = max min_duration (min max_duration (a - b))"

definition dur_neg :: "duration \<Rightarrow> duration" where
  "dur_neg d = (if d = min_duration then min_duration else - d)"

definition time_add :: "time \<Rightarrow> duration \<Rightarrow> time" where
  "time_add t d = t + d"

definition before :: "time \<Rightarrow> time \<Rightarrow> bool" where
  "before a b \<longleftrightarrow> a < b"

definition after :: "time \<Rightarrow> time \<Rightarrow> bool" where
  "after a b \<longleftrightarrow> b < a"

text \<open>\<open>if d < 0 { d = -d }\<close>, the absolute value as the code computes it.\<close>

definition dur_abs :: "duration \<Rightarrow> duration" where
  "dur_abs d = (if d < 0 then dur_neg d else d)"

lemma time_sub_exact:
  "\<bar>a - b\<bar> \<le> max_duration \<Longrightarrow> time_sub a b = a - b"
  by (simp add: time_sub_def min_duration_def max_duration_def)

lemma dur_abs_sub_le:
  assumes "0 \<le> tol" and "\<bar>a - b\<bar> \<le> max_duration"
  shows "dur_abs (time_sub a b) \<le> tol \<longleftrightarrow> \<bar>a - b\<bar> \<le> tol"
  using assms
  by (auto simp: time_sub_exact dur_abs_def dur_neg_def min_duration_def max_duration_def)

section \<open>Row operations\<close>

definition update_rows :: "('r \<Rightarrow> bool) \<Rightarrow> ('r \<Rightarrow> 'r) \<Rightarrow> 'r list \<Rightarrow> 'r list" where
  "update_rows P f rows = map (\<lambda>r. if P r then f r else r) rows"

definition delete_rows :: "('r \<Rightarrow> bool) \<Rightarrow> 'r list \<Rightarrow> 'r list" where
  "delete_rows P rows = filter (\<lambda>r. \<not> P r) rows"

definition rows_affected :: "('r \<Rightarrow> bool) \<Rightarrow> 'r list \<Rightarrow> nat" where
  "rows_affected P rows = length (filter P rows)"

definition exists_row :: "('r \<Rightarrow> bool) \<Rightarrow> 'r list \<Rightarrow> bool" where
  "exists_row P rows \<longleftrightarrow> list_ex P rows"

fun first_row :: "'r list \<Rightarrow> 'r option" where
  "first_row [] = None"
| "first_row (r # _) = Some r"

definition find_row :: "('r \<Rightarrow> bool) \<Rightarrow> 'r list \<Rightarrow> 'r option" where
  "find_row P rows = first_row (filter P rows)"

lemma find_row_Nil [simp, row_simps]: "find_row P [] = None"
  by (simp add: find_row_def)

lemma find_row_Cons [simp, row_simps]:
  "find_row P (r # rs) = (if P r then Some r else find_row P rs)"
  by (simp add: find_row_def)

lemma find_row_append [simp, row_simps]:
  "find_row P (xs @ ys) = (case find_row P xs of None \<Rightarrow> find_row P ys | Some r \<Rightarrow> Some r)"
  by (induction xs) auto

lemma find_row_SomeD: "find_row P rows = Some r \<Longrightarrow> r \<in> set rows \<and> P r"
  by (induction rows) (auto split: if_splits)

lemma find_row_None: "find_row P rows = None \<longleftrightarrow> (\<forall>r\<in>set rows. \<not> P r)"
  by (induction rows) auto

lemma find_row_update:
  assumes "\<And>r. r \<in> set rows \<Longrightarrow> Q (if P r then f r else r) = Q r"
  shows "find_row Q (update_rows P f rows) =
    map_option (\<lambda>r. if P r then f r else r) (find_row Q rows)"
  using assms by (induction rows) (auto simp: update_rows_def)

lemma exists_row_iff [row_simps]: "exists_row P rows \<longleftrightarrow> (\<exists>r\<in>set rows. P r)"
  by (simp add: exists_row_def list_ex_iff)

lemma rows_affected_0 [row_simps]: "rows_affected P rows = 0 \<longleftrightarrow> (\<forall>r\<in>set rows. \<not> P r)"
  by (simp add: rows_affected_def filter_empty_conv)

lemma rows_affected_pos [row_simps]: "0 < rows_affected P rows \<longleftrightarrow> (\<exists>r\<in>set rows. P r)"
  using rows_affected_0 [of P rows] by auto

lemma set_delete_rows [simp, row_simps]: "set (delete_rows P rows) = {r \<in> set rows. \<not> P r}"
  by (auto simp: delete_rows_def)

lemma length_update_rows [simp, row_simps]: "length (update_rows P f rows) = length rows"
  by (simp add: update_rows_def)

lemma nth_update_rows [simp, row_simps]:
  "i < length rows \<Longrightarrow>
    update_rows P f rows ! i = (if P (rows ! i) then f (rows ! i) else rows ! i)"
  by (simp add: update_rows_def)

lemma set_update_rows [row_simps]:
  "set (update_rows P f rows) = (\<lambda>r. if P r then f r else r) ` set rows"
  by (simp add: update_rows_def)

lemma map_update_rows:
  assumes "\<And>r. g (f r) = g r"
  shows "map g (update_rows P f rows) = map g rows"
  using assms by (simp add: update_rows_def)

lemma update_rows_ident: "(\<And>r. r \<in> set rows \<Longrightarrow> \<not> P r) \<Longrightarrow> update_rows P f rows = rows"
  by (simp add: update_rows_def map_idI)

lemma exists_row_updated:
  assumes "find_row P rows = Some r" and "Q (f r)"
  shows "exists_row Q (update_rows P f rows)"
proof -
  from find_row_SomeD [OF assms(1)] have "f r \<in> set (update_rows P f rows)"
    by (auto simp: set_update_rows)
  with assms(2) show ?thesis by (auto simp: exists_row_iff)
qed

text \<open>A row is found by its key exactly when it is in the table, if keys are distinct.\<close>

lemma find_row_key:
  assumes "distinct (map key rows)" and "r \<in> set rows"
  shows "find_row (\<lambda>x. key x = key r) rows = Some r"
  using assms by (induction rows) (auto simp: rev_image_eqI)

text \<open>\<open>ORDER BY key LIMIT n\<close>; a limit of zero or less means no limit where the code says so.\<close>

definition limit_rows :: "int \<Rightarrow> 'r list \<Rightarrow> 'r list" where
  "limit_rows n rows = (if 0 < n then take (nat n) rows else rows)"

lemma first_row_sort_key:
  fixes key :: "'r \<Rightarrow> int"
  assumes "first_row (sort_key key rows) = Some r"
  shows "r \<in> set rows \<and> (\<forall>x\<in>set rows. key r \<le> key x)"
proof -
  from assms obtain rest where eq: "sort_key key rows = r # rest"
    by (cases "sort_key key rows") auto
  have "sorted (map key (sort_key key rows))" by simp
  with eq have "\<forall>x\<in>set (r # rest). key r \<le> key x" by auto
  moreover from eq have "set (r # rest) = set rows" by (metis set_sort)
  ultimately show ?thesis by auto
qed

lemma first_row_sort_key_None:
  "first_row (sort_key key rows) = None \<longleftrightarrow> rows = []"
  by (metis first_row.elims length_0_conv length_sort option.distinct(1) first_row.simps(1))

end
