(* ===== verification/Domain.thy ===== *)
theory Domain
  imports Prelude
begin

text \<open>
  The data model of \<open>internal/domain/domain.go\<close>.  The enumerations are Go string types:
  any string can be converted to one (\<open>domain.RFBand(request.Band)\<close>), so each datatype
  has a constructor per declared constant and one constructor for every other string.  The
  conversion from a string is the \<open>_of\<close> function, the conversion back is the \<open>_string\<close>
  function; the two are inverse.  Each struct is a record with the fields in source order.
\<close>

section \<open>Enumerations\<close>

datatype user_role = RoleRoot | RoleAdmin | RoleUser | RoleOther string

fun user_role_string :: "user_role \<Rightarrow> string" where
  "user_role_string RoleRoot = ''root''"
| "user_role_string RoleAdmin = ''admin''"
| "user_role_string RoleUser = ''user''"
| "user_role_string (RoleOther s) = s"

definition user_role_of :: "string \<Rightarrow> user_role" where
  "user_role_of s =
     (if s = ''root'' then RoleRoot else if s = ''admin'' then RoleAdmin
      else if s = ''user'' then RoleUser else RoleOther s)"

datatype rf_band = BandVHF | BandUHF | BandOther string

fun rf_band_string :: "rf_band \<Rightarrow> string" where
  "rf_band_string BandVHF = ''vhf''"
| "rf_band_string BandUHF = ''uhf''"
| "rf_band_string (BandOther s) = s"

definition rf_band_of :: "string \<Rightarrow> rf_band" where
  "rf_band_of s =
     (if s = ''vhf'' then BandVHF else if s = ''uhf'' then BandUHF else BandOther s)"

datatype pass_status =
    PassPendingApproval
  | PassApproved
  | PassRejected
  | PassCancelled
  | PassExecuting
  | PassCompleted
  | PassFailed
  | PassMissed
  | PassStatusOther string

fun pass_status_string :: "pass_status \<Rightarrow> string" where
  "pass_status_string PassPendingApproval = ''pending_approval''"
| "pass_status_string PassApproved = ''approved''"
| "pass_status_string PassRejected = ''rejected''"
| "pass_status_string PassCancelled = ''cancelled''"
| "pass_status_string PassExecuting = ''executing''"
| "pass_status_string PassCompleted = ''completed''"
| "pass_status_string PassFailed = ''failed''"
| "pass_status_string PassMissed = ''missed''"
| "pass_status_string (PassStatusOther s) = s"

definition pass_status_of :: "string \<Rightarrow> pass_status" where
  "pass_status_of s =
     (if s = ''pending_approval'' then PassPendingApproval
      else if s = ''approved'' then PassApproved
      else if s = ''rejected'' then PassRejected
      else if s = ''cancelled'' then PassCancelled
      else if s = ''executing'' then PassExecuting
      else if s = ''completed'' then PassCompleted
      else if s = ''failed'' then PassFailed
      else if s = ''missed'' then PassMissed
      else PassStatusOther s)"

datatype pass_visibility = VisibilityPrivate | VisibilityPublic | VisibilityOther string

fun pass_visibility_string :: "pass_visibility \<Rightarrow> string" where
  "pass_visibility_string VisibilityPrivate = ''private''"
| "pass_visibility_string VisibilityPublic = ''public''"
| "pass_visibility_string (VisibilityOther s) = s"

definition pass_visibility_of :: "string \<Rightarrow> pass_visibility" where
  "pass_visibility_of s =
     (if s = ''private'' then VisibilityPrivate
      else if s = ''public'' then VisibilityPublic else VisibilityOther s)"

datatype cancellation_reason =
    CancelledByOwner
  | CancelledByAdmin
  | CancelledByRootOverride

fun cancellation_reason_string :: "cancellation_reason \<Rightarrow> string" where
  "cancellation_reason_string CancelledByOwner = ''cancelled_by_owner''"
| "cancellation_reason_string CancelledByAdmin = ''cancelled_by_admin''"
| "cancellation_reason_string CancelledByRootOverride = ''cancelled_by_root_override''"

datatype recording_mode = RecordRaw | RecordProcess | RecordRawAndProcess | RecordOther string

fun recording_mode_string :: "recording_mode \<Rightarrow> string" where
  "recording_mode_string RecordRaw = ''raw''"
| "recording_mode_string RecordProcess = ''process''"
| "recording_mode_string RecordRawAndProcess = ''raw_and_process''"
| "recording_mode_string (RecordOther s) = s"

definition recording_mode_of :: "string \<Rightarrow> recording_mode" where
  "recording_mode_of s =
     (if s = ''raw'' then RecordRaw else if s = ''process'' then RecordProcess
      else if s = ''raw_and_process'' then RecordRawAndProcess else RecordOther s)"

datatype tle_source = SourceCelestrak | SourceSatNOGS | SourceManual | SourceOther string

fun tle_source_string :: "tle_source \<Rightarrow> string" where
  "tle_source_string SourceCelestrak = ''celestrak''"
| "tle_source_string SourceSatNOGS = ''satnogs''"
| "tle_source_string SourceManual = ''manual''"
| "tle_source_string (SourceOther s) = s"

definition tle_source_of :: "string \<Rightarrow> tle_source" where
  "tle_source_of s =
     (if s = ''celestrak'' then SourceCelestrak else if s = ''satnogs'' then SourceSatNOGS
      else if s = ''manual'' then SourceManual else SourceOther s)"

datatype worker_connection_state = WorkerOnline | WorkerOffline

section \<open>Structs\<close>

record user =
  u_ID :: uuid
  u_Username :: string
  u_PasswordHash :: string
  u_Role :: user_role
  u_MustChangePassword :: bool
  u_CreatedAt :: time
  u_UpdatedAt :: time

record station =
  st_ID :: uuid
  st_Name :: string
  st_Latitude :: float64
  st_Longitude :: float64
  st_AltitudeM :: float64
  st_Timezone :: string
  st_ActiveRFBand :: rf_band
  st_CreatedAt :: time
  st_UpdatedAt :: time

record scheduling_config =
  sc_ID :: uuid
  sc_StationID :: uuid
  sc_MinimumLeadTime :: duration
  sc_PrePassBuffer :: duration
  sc_PostPassBuffer :: duration
  sc_RecordingPreRoll :: duration
  sc_RecordingPostRoll :: duration
  sc_MinimumElevationDegrees :: float64
  sc_CreatedBy :: "uuid option"
  sc_CreatedAt :: time
  sc_EffectiveFrom :: time

record worker =
  w_ID :: uuid
  w_StationID :: uuid
  w_Name :: string
  w_WorkerVersion :: string
  w_ConnectionState :: worker_connection_state
  w_LastSeenAt :: "time option"
  w_LastSyncAt :: "time option"
  w_DesiredStateGeneration :: int
  w_PendingUploads :: int
  w_PendingReports :: int
  w_SyncedGeneration :: string
  w_CreatedAt :: time
  w_UpdatedAt :: time

record satellite =
  sat_ID :: uuid
  sat_NoradID :: int
  sat_Name :: string
  sat_Description :: string
  sat_Metadata :: any_map
  sat_IsSchedulable :: bool
  sat_CreatedAt :: time
  sat_UpdatedAt :: time

record tle_record =
  tle_ID :: uuid
  tle_SatelliteID :: uuid
  tle_Line1 :: string
  tle_Line2 :: string
  tle_Epoch :: time
  tle_Source :: tle_source
  tle_FetchedAt :: time

record pass =
  p_ID :: uuid
  p_StationID :: uuid
  p_SatelliteID :: uuid
  p_RequestedBy :: uuid
  p_TLERecordID :: uuid
  p_SchedulingConfigID :: uuid
  p_Status :: pass_status
  p_Visibility :: pass_visibility
  p_Band :: rf_band
  p_AOSAt :: time
  p_LOSAt :: time
  p_TCAAt :: "time option"
  p_MaxElevationDegrees :: float64
  p_ReservedFrom :: time
  p_ReservedTo :: time
  p_RecordingMode :: recording_mode
  p_RecordingPreRoll :: duration
  p_RecordingPostRoll :: duration
  p_PipelineID :: "uuid option"
  p_RadioSettings :: any_map
  p_ApprovedBy :: "uuid option"
  p_ApprovedAt :: "time option"
  p_CancellationReason :: "cancellation_reason option"
  p_CancelledBy :: "uuid option"
  p_CancelledAt :: "time option"
  p_CreatedAt :: time
  p_UpdatedAt :: time

text \<open>
  \<open>EntityID\<close> is a string in the source, always either the text of an identifier or a
  name; the two forms are kept apart.
\<close>

datatype entity_ref = RefID uuid | RefText string

record audit_record =
  a_ID :: int
  a_ActorUserID :: "uuid option"
  a_Action :: string
  a_EntityType :: string
  a_EntityID :: entity_ref
  a_PreviousState :: any_map
  a_NewState :: any_map
  a_Reason :: string
  a_CreatedAt :: time

record station_band_config =
  bc_StationID :: uuid
  bc_Band :: rf_band
  bc_AntennaDescription :: string
  bc_CenterFrequencyHz :: "int option"
  bc_SampleRateHz :: "int option"
  bc_GainDB :: "float64 option"
  bc_PPMCorrection :: int
  bc_BiasTeeEnabled :: bool

record station_hardware_config =
  hw_StationID :: uuid
  hw_RotatorSerialPort :: string
  hw_RotatorBaudRate :: int
  hw_RotatorParkAzimuthDegrees :: int
  hw_RotatorParkElevationDegrees :: int
  hw_SDRDeviceIdentifier :: string

section \<open>The string conversions are inverse\<close>

lemma user_role_string_of [simp]: "user_role_string (user_role_of s) = s"
  by (simp add: user_role_of_def)

lemma rf_band_string_of [simp]: "rf_band_string (rf_band_of s) = s"
  by (simp add: rf_band_of_def)

lemma pass_status_string_of [simp]: "pass_status_string (pass_status_of s) = s"
  by (simp add: pass_status_of_def)

lemma pass_visibility_string_of [simp]: "pass_visibility_string (pass_visibility_of s) = s"
  by (simp add: pass_visibility_of_def)

lemma recording_mode_string_of [simp]: "recording_mode_string (recording_mode_of s) = s"
  by (simp add: recording_mode_of_def)

text \<open>The values a PostgreSQL enum column admits.\<close>

fun role_in_enum :: "user_role \<Rightarrow> bool" where
  "role_in_enum (RoleOther _) = False"
| "role_in_enum _ = True"

fun band_in_enum :: "rf_band \<Rightarrow> bool" where
  "band_in_enum (BandOther _) = False"
| "band_in_enum _ = True"

fun status_in_enum :: "pass_status \<Rightarrow> bool" where
  "status_in_enum (PassStatusOther _) = False"
| "status_in_enum _ = True"

fun visibility_in_enum :: "pass_visibility \<Rightarrow> bool" where
  "visibility_in_enum (VisibilityOther _) = False"
| "visibility_in_enum _ = True"

fun mode_in_enum :: "recording_mode \<Rightarrow> bool" where
  "mode_in_enum (RecordOther _) = False"
| "mode_in_enum _ = True"

fun source_in_enum :: "tle_source \<Rightarrow> bool" where
  "source_in_enum (SourceOther _) = False"
| "source_in_enum _ = True"

end
