(* ===== verification/Errors.thy ===== *)
theory Errors
  imports Prelude
begin

text \<open>
  Go errors.  A sentinel (\<open>errors.New\<close> at package level) is a constructor of
  \<open>sentinel\<close>; \<open>fmt.Errorf\<close> with a \<open>%w\<close> verb is \<open>ErrWrap\<close>, with its literal prefix as the text
  (data rendered into the message is left out, as no code reads it back); an \<open>Errorf\<close> or
  \<open>errors.New\<close> without a wrapped error is \<open>ErrText\<close>.  \<open>ConflictError\<close> of
  \<open>internal/scheduling/service.go\<close> and the lead-time error carry the instants they report.
  \<open>ErrDb\<close> is a driver error that \<open>translate\<close> leaves as it is.  \<open>errors_is\<close> is Go's
  \<open>errors.Is\<close> for these values: it follows the chain of \<open>Unwrap\<close>.
\<close>

datatype sentinel =
    ErrNotFound | ErrStationOverlap | ErrReferenced | ErrDuplicate | ErrSerialization
  | ErrRootProtected | ErrSessionNotFound
  | ErrInvalidCredentials | ErrPasswordChangeRequired | ErrAuthForbidden | ErrUnauthenticated
  | ErrPasswordMismatch | ErrInvalidHash | ErrPasswordTooShort | ErrPasswordIsBootstrap
  | ErrInvalidTransition | ErrLeadTime | ErrStationConflict | ErrWorkerOffline
  | ErrNotSchedulable | ErrPipelineRequired | ErrPassNotFound | ErrForbidden
  | ErrNotApproved | ErrStationNotConfigured
  | ErrMalformed | ErrChecksum | ErrTLENotFound
  | ErrNoOrbitalData | ErrAlreadyExists
  | ErrUnsafePath | ErrNoSpace | ErrInvalidRequest

text \<open>
  Errors of the PostgreSQL driver: no row to scan, an error reported by the server with its
  SQLSTATE and constraint name, or a broken connection.
\<close>

datatype dberr =
    NoRows
  | PgError (pg_code: string) (pg_constraint: string)
  | ConnError

datatype err =
    Err sentinel
  | ErrText string
  | ErrWrap string err
  | ConflictError (occupied_from: time) (occupied_to: time)
  | LeadTimeError (earliest_start: time)
  | ErrDb dberr
  | ErrContext
  | GrpcStatus string string

fun unwrap :: "err \<Rightarrow> err option" where
  "unwrap (ErrWrap _ e) = Some e"
| "unwrap (ConflictError _ _) = Some (Err ErrStationConflict)"
| "unwrap (LeadTimeError _) = Some (Err ErrLeadTime)"
| "unwrap _ = None"

fun errors_is :: "err \<Rightarrow> sentinel \<Rightarrow> bool" where
  "errors_is (Err s) t = (s = t)"
| "errors_is (ErrWrap _ e) t = errors_is e t"
| "errors_is (ConflictError _ _) t = (t = ErrStationConflict)"
| "errors_is (LeadTimeError _) t = (t = ErrLeadTime)"
| "errors_is _ _ = False"

text \<open>\<open>errors.Is\<close> is membership in the unwrapping chain.\<close>

lemma errors_is_unwrap:
  "errors_is e t \<longleftrightarrow> e = Err t \<or> (\<exists>e'. unwrap e = Some e' \<and> errors_is e' t)"
  by (cases e) auto

section \<open>Results\<close>

fun is_ok :: "err + 'a \<Rightarrow> bool" where
  "is_ok (Inr _) = True"
| "is_ok (Inl _) = False"

lemma is_ok_iff: "is_ok r \<longleftrightarrow> (\<exists>x. r = Inr x)"
  by (cases r) auto

end
