(* ===== verification/Sched_Rules.thy ===== *)
theory Sched_Rules
  imports Domain Errors
begin

text \<open>
  The pure rules of the scheduler and of role-based access control:
  \<open>internal/scheduling/statemachine.go\<close>, \<open>internal/scheduling/rules.go\<close> and
  \<open>internal/auth/rbac.go\<close>.  An error of Go is a value of \<open>err + unit\<close>.
\<close>

section \<open>internal/scheduling/statemachine.go\<close>

fun allowedTransitions :: "pass_status \<rightharpoonup> pass_status list" where
  "allowedTransitions PassPendingApproval = Some [PassApproved, PassRejected, PassCancelled]"
| "allowedTransitions PassApproved = Some [PassCancelled, PassExecuting, PassMissed]"
| "allowedTransitions PassExecuting = Some [PassCompleted, PassFailed]"
| "allowedTransitions PassRejected = Some []"
| "allowedTransitions PassCancelled = Some []"
| "allowedTransitions PassCompleted = Some []"
| "allowedTransitions PassFailed = Some []"
| "allowedTransitions PassMissed = Some []"
| "allowedTransitions (PassStatusOther _) = None"

definition liveStatuses :: "pass_status list" where
  "liveStatuses = [PassPendingApproval, PassApproved, PassExecuting]"

definition IsTerminal :: "pass_status \<Rightarrow> bool" where
  "IsTerminal status =
     (case allowedTransitions status of None \<Rightarrow> False | Some nexts \<Rightarrow> length nexts = 0)"

definition HoldsStationResource :: "pass_status \<Rightarrow> bool" where
  "HoldsStationResource status = (status \<in> set liveStatuses)"

definition LiveStatuses :: "pass_status list" where
  "LiveStatuses = liveStatuses"

definition CanTransition :: "pass_status \<Rightarrow> pass_status \<Rightarrow> bool" where
  "CanTransition from to =
     (case allowedTransitions from of None \<Rightarrow> False | Some nexts \<Rightarrow> to \<in> set nexts)"

definition ValidateTransition :: "pass_status \<Rightarrow> pass_status \<Rightarrow> err + unit" where
  "ValidateTransition from to =
     (if allowedTransitions from = None
      then Inl (ErrWrap ''unknown pass status'' (Err ErrInvalidTransition))
      else if allowedTransitions to = None
      then Inl (ErrWrap ''unknown target status'' (Err ErrInvalidTransition))
      else if from = to
      then Inl (ErrWrap ''this pass is already there'' (Err ErrInvalidTransition))
      else if IsTerminal from
      then Inl (ErrWrap ''this pass cannot change state'' (Err ErrInvalidTransition))
      else if \<not> CanTransition from to
      then Inl (ErrWrap ''this pass cannot become that'' (Err ErrInvalidTransition))
      else Inr ())"

section \<open>internal/scheduling/rules.go\<close>

record reservation =
  From :: time
  To :: time

definition ReservationFor :: "time \<Rightarrow> time \<Rightarrow> scheduling_config \<Rightarrow> reservation" where
  "ReservationFor aos los config =
     \<lparr>From = time_add aos (dur_neg (sc_PrePassBuffer config)),
      To = time_add los (sc_PostPassBuffer config)\<rparr>"

definition Overlaps :: "reservation \<Rightarrow> reservation \<Rightarrow> bool" where
  "Overlaps r other \<longleftrightarrow> before (From r) (To other) \<and> before (From other) (To r)"

definition CheckLeadTime :: "time \<Rightarrow> time \<Rightarrow> scheduling_config \<Rightarrow> err + unit" where
  "CheckLeadTime now aos config =
     (let earliest = time_add now (sc_MinimumLeadTime config)
      in if before aos earliest then Inl (LeadTimeError earliest) else Inr ())"

definition EffectiveFromForNewConfig :: "time \<Rightarrow> duration \<Rightarrow> duration \<Rightarrow> time" where
  "EffectiveFromForNewConfig now currentLeadTime newLeadTime =
     (if newLeadTime < currentLeadTime then time_add now newLeadTime else now)"

fun upper :: "rf_band \<Rightarrow> string" where
  "upper BandVHF = ''VHF''"
| "upper BandUHF = ''UHF''"
| "upper (BandOther s) = s"

record warning =
  Code :: string
  Message :: string

definition BandMismatchWarning :: "rf_band \<Rightarrow> rf_band \<Rightarrow> warning option" where
  "BandMismatchWarning passBand stationBand =
     (if passBand = stationBand then None
      else Some \<lparr>Code = ''band_mismatch'',
        Message = ''The station is currently configured for '' @ upper stationBand @
          '', while this pass requires '' @ upper passBand @ ''. '' @
          ''Reception may be poor unless the station configuration is changed before execution.''\<rparr>)"

definition CanViewPass :: "user \<Rightarrow> pass \<Rightarrow> bool" where
  "CanViewPass actor pass =
     (if p_Visibility pass = VisibilityPublic then True
      else if p_RequestedBy pass = u_ID actor then True
      else u_Role actor = RoleAdmin \<or> u_Role actor = RoleRoot)"

definition CanCancelPass :: "user \<Rightarrow> pass \<Rightarrow> bool" where
  "CanCancelPass actor pass =
     (if p_RequestedBy pass = u_ID actor then True
      else u_Role actor = RoleAdmin \<or> u_Role actor = RoleRoot)"

definition CancellationReasonFor :: "user \<Rightarrow> pass \<Rightarrow> cancellation_reason" where
  "CancellationReasonFor actor pass =
     (if p_RequestedBy pass = u_ID actor then CancelledByOwner else CancelledByAdmin)"

section \<open>internal/auth/rbac.go\<close>

fun Authority :: "user_role \<Rightarrow> int" where
  "Authority RoleRoot = 3"
| "Authority RoleAdmin = 2"
| "Authority RoleUser = 1"
| "Authority (RoleOther _) = 0"

definition IsValidRole :: "user_role \<Rightarrow> bool" where
  "IsValidRole role \<longleftrightarrow> 0 < Authority role"

definition AtLeast :: "user \<Rightarrow> user_role \<Rightarrow> bool" where
  "AtLeast actor required \<longleftrightarrow> Authority required \<le> Authority (u_Role actor)"

definition CanApprovePasses :: "user \<Rightarrow> bool" where
  "CanApprovePasses actor = AtLeast actor RoleAdmin"

definition CanManageUsers :: "user \<Rightarrow> bool" where
  "CanManageUsers actor = AtLeast actor RoleAdmin"

definition CanCreateUserWithRole :: "user \<Rightarrow> user_role \<Rightarrow> bool" where
  "CanCreateUserWithRole actor role =
     (if \<not> IsValidRole role \<or> role = RoleRoot then False
      else if role = RoleAdmin then u_Role actor = RoleRoot
      else CanManageUsers actor)"

definition CanChangeRole :: "user \<Rightarrow> user \<Rightarrow> user_role \<Rightarrow> bool" where
  "CanChangeRole actor target newRole =
     (if u_Role actor \<noteq> RoleRoot then False
      else if \<not> IsValidRole newRole \<or> newRole = RoleRoot then False
      else u_Role target \<noteq> RoleRoot)"

definition CanDeleteUser :: "user \<Rightarrow> user \<Rightarrow> bool" where
  "CanDeleteUser actor target =
     (if u_Role actor \<noteq> RoleRoot then False
      else if u_Role target = RoleRoot \<or> u_ID target = u_ID actor then False
      else True)"

definition CanConfigureStation :: "user \<Rightarrow> bool" where
  "CanConfigureStation actor \<longleftrightarrow> u_Role actor = RoleRoot"

definition CanRunFirstRunSetup :: "user \<Rightarrow> bool" where
  "CanRunFirstRunSetup actor \<longleftrightarrow> u_Role actor = RoleRoot"

section \<open>Facts\<close>

lemma known_status: "allowedTransitions s = None \<longleftrightarrow> (\<exists>t. s = PassStatusOther t)"
  by (cases s) auto

lemma IsTerminal_iff:
  "IsTerminal s \<longleftrightarrow> s \<in> {PassRejected, PassCancelled, PassCompleted, PassFailed, PassMissed}"
  by (cases s) (auto simp: IsTerminal_def)

lemma CanTransition_known: "CanTransition s t \<Longrightarrow> allowedTransitions s \<noteq> None \<and> allowedTransitions t \<noteq> None"
  by (cases s) (auto simp: CanTransition_def )

lemma CanTransition_irrefl: "\<not> CanTransition s s"
  by (cases s) (auto simp: CanTransition_def )

lemma CanTransition_not_terminal: "CanTransition s t \<Longrightarrow> \<not> IsTerminal s"
  by (cases s) (auto simp: CanTransition_def  IsTerminal_def)

lemma ValidateTransition_ok: "ValidateTransition s t = Inr () \<longleftrightarrow> CanTransition s t"
  using CanTransition_known CanTransition_irrefl CanTransition_not_terminal
  by (auto simp: ValidateTransition_def)

lemma ValidateTransition_cases:
  "ValidateTransition s t = Inr () \<or> (\<exists>e. ValidateTransition s t = Inl e \<and> errors_is e ErrInvalidTransition)"
  by (auto simp: ValidateTransition_def)

lemma Authority_admin: "CanApprovePasses actor \<longleftrightarrow> u_Role actor = RoleAdmin \<or> u_Role actor = RoleRoot"
  by (cases "u_Role actor") (auto simp: CanApprovePasses_def AtLeast_def)

lemma IsValidRole_iff: "IsValidRole r \<longleftrightarrow> r \<in> {RoleRoot, RoleAdmin, RoleUser}"
  by (cases r) (auto simp: IsValidRole_def)

text \<open>
  A status that no chain of allowed transitions leaves is terminal, and from every known
  status a terminal one is reached in at most three transitions.
\<close>

lemma terminal_reached:
  assumes "allowedTransitions s \<noteq> None"
  shows "IsTerminal s \<or> (\<exists>t. CanTransition s t \<and> IsTerminal t)"
  using assms
  by (cases s) (auto simp: IsTerminal_iff CanTransition_def )

end
