(* ===== verification/Database.thy ===== *)
theory Database
  imports Domain Errors
begin

text \<open>
  The state of the server and the way its Go code reaches it.  \<open>database\<close> holds the
  PostgreSQL tables of \<open>internal/store/migrations\<close> as lists of rows; \<open>world\<close> adds the
  Redis sessions, the file system, the transaction state of the connection and the
  environment.  The environment gives every external choice as a function of \<open>tick\<close>, which
  counts the external actions so far: which statement fails and how, what \<open>now()\<close> and
  \<open>time.Now()\<close> return, which identifier \<open>gen_random_uuid()\<close> draws, whether the request
  context is cancelled.  It also holds the third-party conversions the code relies on: the
  rounding of a \<open>timestamptz\<close>, an \<open>interval\<close> and a \<open>numeric\<close> column, \<open>citext\<close> folding,
  \<open>uuid.Parse\<close> and \<open>UUID.String\<close>, \<open>Time.Format(RFC3339)\<close>, SHA-256, the rounding of a float64
  operation, and what the processor makes of a float that does not fit the integer type it is
  converted to; further what \<open>statfs\<close> reports, the name of a temporary file, how much a failed
  write has written, the working directory, whether a response can be sent, the reading of an
  RFC 3339 time, the case folding of JSON field names, and the order in which \<open>range\<close> visits a
  map at a tick.  Properties hold for every environment unless they say otherwise.

  An operation of \<open>store.Repository\<close> is a function \<open>world \<Rightarrow> (err + 'a) \<times> world\<close>;
  \<open>attempt\<close> is Go's \<open>if err != nil { return err }\<close> and \<open>attempt_or\<close> is the same with a handler.
\<close>

section \<open>Rows that have no struct in the domain package\<close>

record pipeline =
  pl_ID :: uuid
  pl_Name :: string
  pl_IsCustom :: bool
  pl_DefinitionPath :: "string option"
  pl_ChecksumSHA256 :: "string option"
  pl_UploadedBy :: "uuid option"

type_synonym bytes = string

record stored_pass_plan =
  pp_PassID :: uuid
  pp_Generation :: string
  pp_PlanVersion :: int
  pp_Encoded :: bytes
  pp_GeneratedAt :: time

record recording =
  r_RecordingID :: string
  r_PassID :: uuid
  r_WorkerID :: "uuid option"
  r_StationID :: uuid
  r_RelativePath :: string
  r_StoredPath :: string
  r_SizeBytes :: int
  r_ChecksumSHA256 :: string
  r_Status :: string
  r_StartedAt :: "time option"
  r_FinishedAt :: "time option"
  r_ReceivedAt :: time

record session =
  s_UserID :: uuid
  s_Role :: string
  s_CreatedAt :: time

record database =
  t_users :: "user list"
  t_stations :: "station list"
  t_band_configs :: "station_band_config list"
  t_hardware_configs :: "station_hardware_config list"
  t_scheduling_configs :: "scheduling_config list"
  t_workers :: "worker list"
  t_satellites :: "satellite list"
  t_tle_records :: "tle_record list"
  t_pipelines :: "pipeline list"
  t_passes :: "pass list"
  t_pass_plans :: "stored_pass_plan list"
  t_recordings :: "recording list"
  t_audit_records :: "audit_record list"
  t_initialized_at :: "time option"

definition empty_database :: database where
  "empty_database =
     \<lparr>t_users = [], t_stations = [], t_band_configs = [], t_hardware_configs = [],
      t_scheduling_configs = [], t_workers = [], t_satellites = [], t_tle_records = [],
      t_pipelines = [], t_passes = [], t_pass_plans = [], t_recordings = [],
      t_audit_records = [], t_initialized_at = None\<rparr>"

section \<open>Environment and world\<close>

datatype fault = SerializationFault | DeadlockFault | ConnectionFault

record env =
  env_fault :: "nat \<Rightarrow> fault option"
  env_uuid :: "nat \<Rightarrow> uuid"
  env_now :: "nat \<Rightarrow> time"
  env_clock :: "nat \<Rightarrow> time"
  env_cancelled :: "nat \<Rightarrow> bool"
  env_redis_up :: "nat \<Rightarrow> bool"
  env_fs_ok :: "nat \<Rightarrow> bool"
  env_token :: "nat \<Rightarrow> string option"
  env_salt :: "nat \<Rightarrow> bytes option"
  env_ts :: "time \<Rightarrow> time"
  env_interval :: "duration \<Rightarrow> duration"
  env_numeric :: "nat \<Rightarrow> float64 \<Rightarrow> float64"
  env_citext :: "string \<Rightarrow> string"
  env_parse_uuid :: "string \<Rightarrow> uuid option"
  env_sha256hex :: "bytes \<Rightarrow> string"
  env_overflow :: "nat \<Rightarrow> float64 \<Rightarrow> int"
  env_uuid_text :: "uuid \<Rightarrow> string"
  env_time_text :: "time \<Rightarrow> string"
  env_round :: "rat \<Rightarrow> float64"
  env_statfs :: "nat \<Rightarrow> (64 word \<times> 64 word \<times> 64 word) option"
  env_temp :: "nat \<Rightarrow> 32 word"
  env_send_ok :: "nat \<Rightarrow> bool"
  env_partial :: "nat \<Rightarrow> nat option"
  env_cwd :: "string option"
  env_parse_time :: "string \<Rightarrow> time option"
  env_fold :: "string \<Rightarrow> string"
  env_map_rank :: "nat \<Rightarrow> string \<Rightarrow> nat"

datatype tx_state = NoTx | TxOpen | TxAborted

record world =
  env :: env
  tick :: nat
  tx :: tx_state
  db :: database
  redis :: "string \<rightharpoonup> session \<times> time"
  files :: "string \<rightharpoonup> bytes"

definition advance :: "world \<Rightarrow> world" where
  "advance w = w\<lparr>tick := Suc (tick w)\<rparr>"

section \<open>SQL statements\<close>

text \<open>
  A statement reads the environment at its tick and the tables, and either raises an error
  of the server, leaving the tables as they were, or returns a result and the new tables.
  In a transaction an error puts the connection in the aborted state, where the server
  rejects every further statement with SQLSTATE 25P02.
\<close>

type_synonym 'a stmt = "env \<Rightarrow> nat \<Rightarrow> database \<Rightarrow> dberr + 'a \<times> database"

fun fault_error :: "fault \<Rightarrow> dberr" where
  "fault_error SerializationFault = PgError ''40001'' ''''"
| "fault_error DeadlockFault = PgError ''40P01'' ''''"
| "fault_error ConnectionFault = ConnError"

definition fail_tx :: "world \<Rightarrow> world" where
  "fail_tx w = (if tx w = NoTx then w else w\<lparr>tx := TxAborted\<rparr>)"

definition run_stmt :: "'a stmt \<Rightarrow> world \<Rightarrow> (dberr + 'a) \<times> world" where
  "run_stmt q w =
     (if tx w = TxAborted then (Inl (PgError ''25P02'' ''''), advance w)
      else case env_fault (env w) (tick w) of
             Some f \<Rightarrow> (Inl (fault_error f), fail_tx (advance w))
           | None \<Rightarrow>
               (case q (env w) (tick w) (db w) of
                  Inl e \<Rightarrow> (Inl e, fail_tx (advance w))
                | Inr (x, d) \<Rightarrow> (Inr x, (advance w)\<lparr>db := d\<rparr>)))"

text \<open>\<open>QueryRow(..).Scan(..)\<close>: a statement without a row makes Scan return ErrNoRows.\<close>

definition scan_row :: "'a option stmt \<Rightarrow> world \<Rightarrow> (dberr + 'a) \<times> world" where
  "scan_row q w =
     (case run_stmt q w of
        (Inl e, w') \<Rightarrow> (Inl e, w')
      | (Inr None, w') \<Rightarrow> (Inl NoRows, w')
      | (Inr (Some x), w') \<Rightarrow> (Inr x, w'))"

text \<open>A read leaves the tables alone.\<close>

definition select :: "(env \<Rightarrow> nat \<Rightarrow> database \<Rightarrow> 'a) \<Rightarrow> 'a stmt" where
  "select f e n d = Inr (f e n d, d)"

text \<open>The number of rows affected by an UPDATE that the model writes with RETURNING.\<close>

definition affected_stmt :: "'a option stmt \<Rightarrow> nat stmt" where
  "affected_stmt q e n d =
     (case q e n d of
        Inl err \<Rightarrow> Inl err
      | Inr (v, d') \<Rightarrow> Inr (case v of None \<Rightarrow> 0 | Some _ \<Rightarrow> 1, d'))"

section \<open>Operations of the repository\<close>

type_synonym 'a repo = "world \<Rightarrow> (err + 'a) \<times> world"

definition ret :: "'a \<Rightarrow> 'a repo" where
  "ret x w = (Inr x, w)"

definition fail :: "err \<Rightarrow> 'a repo" where
  "fail e w = (Inl e, w)"

definition attempt_or :: "'a repo \<Rightarrow> (err \<Rightarrow> 'b repo) \<Rightarrow> ('a \<Rightarrow> 'b repo) \<Rightarrow> 'b repo" where
  "attempt_or m h k w = (case m w of (Inl e, w') \<Rightarrow> h e w' | (Inr x, w') \<Rightarrow> k x w')"

definition attempt :: "'a repo \<Rightarrow> ('a \<Rightarrow> 'b repo) \<Rightarrow> 'b repo" where
  "attempt m k = attempt_or m fail k"

text \<open>An error that the code only logs.\<close>

definition ignoring :: "'a repo \<Rightarrow> 'b repo \<Rightarrow> 'b repo" where
  "ignoring m k = attempt_or m (\<lambda>_. k) (\<lambda>_. k)"

definition wrapping :: "string \<Rightarrow> 'a repo \<Rightarrow> 'a repo" where
  "wrapping msg m = attempt_or m (\<lambda>e. fail (ErrWrap msg e)) ret"

fun for_each :: "'a list \<Rightarrow> ('a \<Rightarrow> unit repo) \<Rightarrow> unit repo" where
  "for_each [] f = ret ()"
| "for_each (x # xs) f = attempt (f x) (\<lambda>_. for_each xs f)"

definition from_result :: "err + 'a \<Rightarrow> 'a repo" where
  "from_result r = (case r of Inl e \<Rightarrow> fail e | Inr x \<Rightarrow> ret x)"

text \<open>\<open>time.Now().UTC()\<close> and \<open>ctx.Err() != nil\<close>.\<close>

definition clock_now :: "time repo" where
  "clock_now w = (Inr (env_clock (env w) (tick w)), advance w)"

definition ctx_cancelled :: "bool repo" where
  "ctx_cancelled w = (Inr (env_cancelled (env w) (tick w)), advance w)"

text \<open>A value that is computed from the environment, and the answer of another process.\<close>

definition asks :: "(env \<Rightarrow> 'a) \<Rightarrow> 'a repo" where
  "asks f w = (Inr (f (env w)), w)"

definition external :: "(nat \<Rightarrow> err + 'a) \<Rightarrow> 'a repo" where
  "external f w = (f (tick w), advance w)"

text \<open>\<open>int64(f)\<close> and \<open>int32(f)\<close>: truncation towards zero where the result fits.\<close>

definition truncate :: "float64 \<Rightarrow> int" where
  "truncate x = (if 0 \<le> x then \<lfloor>x\<rfloor> else \<lceil>x\<rceil>)"

definition float_to_int64 :: "env \<Rightarrow> float64 \<Rightarrow> int" where
  "float_to_int64 e x =
     (if - (2 ^ 63) \<le> truncate x \<and> truncate x < 2 ^ 63 then truncate x
      else sint (word_of_int (env_overflow e 64 x) :: 64 word))"

definition float_to_int32 :: "env \<Rightarrow> float64 \<Rightarrow> int" where
  "float_to_int32 e x =
     (if - (2 ^ 31) \<le> truncate x \<and> truncate x < 2 ^ 31 then truncate x
      else sint (word_of_int (env_overflow e 32 x) :: 32 word))"

section \<open>internal/store/repository.go: errors and transactions\<close>

definition serializationFailure :: string where "serializationFailure = ''40001''"
definition deadlockDetected :: string where "deadlockDetected = ''40P01''"
definition foreignKeyViolation :: string where "foreignKeyViolation = ''23503''"
definition restrictViolation :: string where "restrictViolation = ''23001''"
definition overlapConstraintName :: string where
  "overlapConstraintName = ''passes_no_station_overlap''"

fun translate :: "dberr \<Rightarrow> err" where
  "translate NoRows = Err ErrNotFound"
| "translate (PgError code constraint) =
     (if constraint = overlapConstraintName then Err ErrStationOverlap
      else if code = serializationFailure \<or> code = deadlockDetected then Err ErrSerialization
      else if code = ''23505'' then ErrWrap constraint (Err ErrDuplicate)
      else if code = foreignKeyViolation then ErrWrap constraint (Err ErrReferenced)
      else ErrDb (PgError code constraint))"
| "translate ConnError = ErrDb ConnError"

definition translated :: "(world \<Rightarrow> (dberr + 'a) \<times> world) \<Rightarrow> 'a repo" where
  "translated m w = (case m w of (Inl e, w') \<Rightarrow> (Inl (translate e), w') | (Inr x, w') \<Rightarrow> (Inr x, w'))"

definition query :: "'a stmt \<Rightarrow> 'a repo" where
  "query q = translated (run_stmt q)"

definition query_row :: "'a option stmt \<Rightarrow> 'a repo" where
  "query_row q = translated (scan_row q)"

text \<open>\<open>Exec\<close> of an UPDATE or DELETE by key: no row affected is \<open>ErrNotFound\<close>.\<close>

definition exec_one :: "nat stmt \<Rightarrow> unit repo" where
  "exec_one q = attempt (query q) (\<lambda>n. if n = 0 then fail (Err ErrNotFound) else ret ())"

definition InTx :: "'a repo \<Rightarrow> 'a repo" where
  "InTx fn w =
     (if tx w \<noteq> NoTx then (Inl (ErrText ''nested transactions are not supported''), w)
      else case env_fault (env w) (tick w) of
             Some f \<Rightarrow> (Inl (ErrWrap ''begin transaction'' (ErrDb (fault_error f))), advance w)
           | None \<Rightarrow>
               (case fn ((advance w)\<lparr>tx := TxOpen\<rparr>) of
                  (Inl e, w') \<Rightarrow> (Inl e, w'\<lparr>db := db w, tx := NoTx\<rparr>)
                | (Inr x, w') \<Rightarrow>
                    (case env_fault (env w') (tick w') of
                       Some f \<Rightarrow> (Inl (ErrDb (fault_error f)), (advance w')\<lparr>db := db w, tx := NoTx\<rparr>)
                     | None \<Rightarrow>
                         if tx w' = TxAborted
                         then (Inl (ErrDb (PgError ''25P02'' '''')), (advance w')\<lparr>db := db w, tx := NoTx\<rparr>)
                         else (Inr x, (advance w')\<lparr>tx := NoTx\<rparr>))))"

lemmas repo_defs = ret_def fail_def attempt_or_def attempt_def ignoring_def wrapping_def
  from_result_def clock_now_def ctx_cancelled_def asks_def external_def

lemmas query_defs = query_def query_row_def exec_one_def translated_def scan_row_def run_stmt_def
  select_def

section \<open>Effects on the tables\<close>

text \<open>
  \<open>guar G m\<close>: whatever \<open>m\<close> returns, it takes the tables along the relation \<open>G\<close>.  The
  locale collects the proof rules, one for each way an operation is put together; a client
  supplies \<open>G\<close>.
\<close>

definition guar :: "(database \<Rightarrow> database \<Rightarrow> bool) \<Rightarrow> 'a repo \<Rightarrow> bool" where
  "guar G m \<longleftrightarrow> (\<forall>w. G (db w) (db (snd (m w))))"

definition stmt_guar :: "(database \<Rightarrow> database \<Rightarrow> bool) \<Rightarrow> 'a stmt \<Rightarrow> bool" where
  "stmt_guar G q \<longleftrightarrow> (\<forall>e n d x d'. q e n d = Inr (x, d') \<longrightarrow> G d d')"

lemma guarD: "guar G m \<Longrightarrow> m w = (r, w') \<Longrightarrow> G (db w) (db w')"
  unfolding guar_def by (metis snd_conv)

lemma db_advance [simp]: "db (advance w) = db w"
  and env_advance [simp]: "env (advance w) = env w"
  and tx_advance [simp]: "tx (advance w) = tx w"
  and tick_advance [simp]: "tick (advance w) = Suc (tick w)"
  and redis_advance [simp]: "redis (advance w) = redis w"
  and files_advance [simp]: "files (advance w) = files w"
  by (simp_all add: advance_def)

lemma db_fail_tx [simp]: "db (fail_tx w) = db w"
  and env_fail_tx [simp]: "env (fail_tx w) = env w"
  and tick_fail_tx [simp]: "tick (fail_tx w) = tick w"
  and redis_fail_tx [simp]: "redis (fail_tx w) = redis w"
  and files_fail_tx [simp]: "files (fail_tx w) = files w"
  by (simp_all add: fail_tx_def)

lemma fail_tx_NoTx [simp]: "tx w = NoTx \<Longrightarrow> fail_tx w = w"
  by (simp add: fail_tx_def)

locale guarantee =
  fixes G :: "database \<Rightarrow> database \<Rightarrow> bool"
  assumes G_refl: "G d d"
    and G_trans: "G d1 d2 \<Longrightarrow> G d2 d3 \<Longrightarrow> G d1 d3"
begin

lemma ret [guar_intro]: "guar G (ret x)"
  by (simp add: guar_def ret_def G_refl)

lemma fail [guar_intro]: "guar G (fail e)"
  by (simp add: guar_def fail_def G_refl)

lemma attempt_or [guar_intro]:
  assumes "guar G m" and "\<And>e. guar G (h e)" and "\<And>x. guar G (k x)"
  shows "guar G (attempt_or m h k)"
  unfolding guar_def
proof
  fix w
  obtain r w' where mw: "m w = (r, w')" by fastforce
  then have "G (db w) (db w')" using assms(1) by (rule guarD [rotated])
  moreover have "G (db w') (db (snd (attempt_or m h k w)))"
    using assms(2,3) mw by (cases r) (auto simp: attempt_or_def guar_def)
  ultimately show "G (db w) (db (snd (attempt_or m h k w)))" by (rule G_trans)
qed

lemma attempt [guar_intro]: "guar G m \<Longrightarrow> (\<And>x. guar G (k x)) \<Longrightarrow> guar G (attempt m k)"
  by (simp add: attempt_def attempt_or fail)

lemma ignoring [guar_intro]: "guar G m \<Longrightarrow> guar G k \<Longrightarrow> guar G (ignoring m k)"
  by (simp add: ignoring_def attempt_or)

lemma wrapping [guar_intro]: "guar G m \<Longrightarrow> guar G (wrapping msg m)"
  by (simp add: wrapping_def attempt_or fail ret)

lemma for_each [guar_intro]: "(\<And>x. guar G (f x)) \<Longrightarrow> guar G (for_each xs f)"
  by (induction xs) (simp_all add: ret attempt)

lemma from_result [guar_intro]: "guar G (from_result r)"
  by (cases r) (simp_all add: from_result_def fail ret)

lemma clock_now [guar_intro]: "guar G clock_now"
  by (simp add: guar_def clock_now_def G_refl)

lemma ctx_cancelled [guar_intro]: "guar G ctx_cancelled"
  by (simp add: guar_def ctx_cancelled_def G_refl)

lemma asks [guar_intro]: "guar G (asks f)"
  by (simp add: guar_def asks_def G_refl)

lemma external [guar_intro]: "guar G (external f)"
  by (simp add: guar_def external_def G_refl)

lemma if_guar [guar_intro]: "(b \<Longrightarrow> guar G m) \<Longrightarrow> (\<not> b \<Longrightarrow> guar G k) \<Longrightarrow> guar G (if b then m else k)"
  by simp

lemma case_option_guar [guar_intro]:
  "guar G m \<Longrightarrow> (\<And>x. guar G (k x)) \<Longrightarrow> guar G (case v of None \<Rightarrow> m | Some x \<Rightarrow> k x)"
  by (cases v) simp_all

lemma case_sum_guar [guar_intro]:
  "(\<And>x. guar G (m x)) \<Longrightarrow> (\<And>x. guar G (k x)) \<Longrightarrow> guar G (case v of Inl x \<Rightarrow> m x | Inr x \<Rightarrow> k x)"
  by (cases v) simp_all

lemma case_prod_guar [guar_intro]:
  "(\<And>x y. guar G (k x y)) \<Longrightarrow> guar G (case v of (x, y) \<Rightarrow> k x y)"
  by (cases v) simp

lemma let_guar [guar_intro]: "guar G (k v) \<Longrightarrow> guar G (let x = v in k x)"
  by simp

lemma run_stmt_G: "stmt_guar G q \<Longrightarrow> run_stmt q w = (r, w') \<Longrightarrow> G (db w) (db w')"
  by (auto simp: run_stmt_def stmt_guar_def G_refl split: option.splits sum.splits prod.splits if_splits)

lemma query [guar_intro]: "stmt_guar G q \<Longrightarrow> guar G (query q)"
  by (auto simp: guar_def query_def translated_def dest: run_stmt_G split: sum.splits prod.splits)

lemma query_row [guar_intro]: "stmt_guar G q \<Longrightarrow> guar G (query_row q)"
  by (auto simp: guar_def query_row_def scan_row_def translated_def dest: run_stmt_G
      split: sum.splits prod.splits option.splits)

lemma exec_one [guar_intro]: "stmt_guar G q \<Longrightarrow> guar G (exec_one q)"
  by (simp add: exec_one_def attempt query if_guar fail ret)

lemma select [guar_intro]: "stmt_guar G (select f)"
  by (simp add: stmt_guar_def select_def G_refl)

lemma affected_stmt [guar_intro]: "stmt_guar G q \<Longrightarrow> stmt_guar G (affected_stmt q)"
  by (auto simp: stmt_guar_def affected_stmt_def split: sum.splits prod.splits)

text \<open>A transaction that fails restores the tables, one that commits keeps what its body did.\<close>

lemma InTx [guar_intro]:
  assumes "guar G m"
  shows "guar G (InTx m)"
  unfolding guar_def
proof
  fix w
  obtain r w' where m: "m ((advance w)\<lparr>tx := TxOpen\<rparr>) = (r, w')" by fastforce
  from guarD [OF assms m] have "G (db w) (db w')" by simp
  then show "G (db w) (db (snd (InTx m w)))"
    using m by (simp add: InTx_def G_refl split: option.split sum.split)
qed

end

text \<open>Reading is the instance that leaves every table as it is.\<close>

interpretation reading: guarantee "(=)"
  by unfold_locales auto

lemma guar_eqD: "guar (=) m \<Longrightarrow> db (snd (m w)) = db w"
  by (simp add: guar_def)

end
