(* ===== verification/Store_Accounts.thy ===== *)
theory Store_Accounts
  imports Database
begin

text \<open>
  Users, the first-run marker and the audit log: the part of \<open>internal/store/repository.go\<close>
  and \<open>users.go\<close> that works on the tables \<open>users\<close>, \<open>system_state\<close> and \<open>audit_records\<close>,
  with the constraints and triggers that the migrations put on them.  An SQL statement is a
  definition with the suffix \<open>_stmt\<close>, the Go method has the method's name.
\<close>

section \<open>Constraints of the users table\<close>

definition is_blank :: "string \<Rightarrow> bool" where
  "is_blank s \<longleftrightarrow> list_all (\<lambda>c. c = CHR '' '') s"

definition argon2id_shape :: "string \<Rightarrow> bool" where
  "argon2id_shape s \<longleftrightarrow> take 10 s = ''$argon2id$''"

text \<open>
  The checks, then the unique indexes in the order of their creation.  \<open>others\<close> are the
  rows the new one is compared with.
\<close>

definition user_error :: "env \<Rightarrow> user list \<Rightarrow> user \<Rightarrow> dberr option" where
  "user_error e others u =
     (if \<not> role_in_enum (u_Role u) then Some (PgError ''22P02'' '''')
      else if is_blank (u_Username u) then Some (PgError ''23514'' ''users_username_not_blank'')
      else if \<not> argon2id_shape (u_PasswordHash u)
      then Some (PgError ''23514'' ''users_password_hash_is_argon2id'')
      else if exists_row (\<lambda>v. u_ID v = u_ID u) others then Some (PgError ''23505'' ''users_pkey'')
      else if exists_row (\<lambda>v. env_citext e (u_Username v) = env_citext e (u_Username u)) others
      then Some (PgError ''23505'' ''users_username_key'')
      else if u_Role u = RoleRoot \<and> exists_row (\<lambda>v. u_Role v = RoleRoot) others
      then Some (PgError ''23505'' ''users_single_root'')
      else None)"

section \<open>Users\<close>

definition insert_user_stmt :: "user \<Rightarrow> user option stmt" where
  "insert_user_stmt u e n d =
     (let row = u\<lparr>u_ID := env_uuid e n, u_CreatedAt := env_now e n, u_UpdatedAt := env_now e n\<rparr>
      in case user_error e (t_users d) row of
           Some err \<Rightarrow> Inl err
         | None \<Rightarrow> Inr (Some row, d\<lparr>t_users := t_users d @ [row]\<rparr>))"

definition CreateUser :: "user \<Rightarrow> user repo" where
  "CreateUser u = query_row (insert_user_stmt u)"

definition GetUserByUsername :: "string \<Rightarrow> user repo" where
  "GetUserByUsername username =
     query_row (select (\<lambda>e n d.
       find_row (\<lambda>u. env_citext e (u_Username u) = env_citext e username) (t_users d)))"

definition GetUserByID :: "uuid \<Rightarrow> user repo" where
  "GetUserByID uid = query_row (select (\<lambda>e n d. find_row (\<lambda>u. u_ID u = uid) (t_users d)))"

fun translateUser :: "dberr \<Rightarrow> err" where
  "translateUser (PgError code constraint) =
     (if code = restrictViolation then Err ErrRootProtected
      else translate (PgError code constraint))"
| "translateUser e = translate e"

definition exec_user :: "nat stmt \<Rightarrow> unit repo" where
  "exec_user q w =
     (case run_stmt q w of
        (Inl e, w') \<Rightarrow> (Inl (translateUser e), w')
      | (Inr k, w') \<Rightarrow> (if k = 0 then (Inl (Err ErrNotFound), w') else (Inr (), w')))"

definition CountUsers :: "nat repo" where
  "CountUsers = query (select (\<lambda>e n d. length (t_users d)))"

definition ListUsers :: "user list repo" where
  "ListUsers = query (select (\<lambda>e n d. sort_key u_CreatedAt (t_users d)))"

text \<open>
  \<open>UPDATE users SET .. WHERE id = $1\<close> with the trigger \<open>protect_root_user\<close> before each row
  and \<open>set_updated_at\<close> after it, then the constraints of the changed row.
\<close>

definition update_user_stmt :: "uuid \<Rightarrow> (user \<Rightarrow> user) \<Rightarrow> nat stmt" where
  "update_user_stmt uid f e n d =
     (case find_row (\<lambda>u. u_ID u = uid) (t_users d) of
        None \<Rightarrow> Inr (0, d)
      | Some old \<Rightarrow>
          (let new = (f old)\<lparr>u_UpdatedAt := env_now e n\<rparr>;
               others = delete_rows (\<lambda>u. u_ID u = uid) (t_users d)
           in if u_Role old = RoleRoot \<and> u_Role new \<noteq> RoleRoot
              then Inl (PgError restrictViolation '''')
              else case user_error e others new of
                     Some err \<Rightarrow> Inl err
                   | None \<Rightarrow> Inr (1, d\<lparr>t_users := update_rows (\<lambda>u. u_ID u = uid) (\<lambda>_. new) (t_users d)\<rparr>)))"

definition SetPassword :: "uuid \<Rightarrow> string \<Rightarrow> unit repo" where
  "SetPassword uid passwordHash =
     exec_user (update_user_stmt uid
       (\<lambda>u. u\<lparr>u_PasswordHash := passwordHash, u_MustChangePassword := False\<rparr>))"

definition SetUserRole :: "uuid \<Rightarrow> user_role \<Rightarrow> unit repo" where
  "SetUserRole uid role = exec_user (update_user_stmt uid (\<lambda>u. u\<lparr>u_Role := role\<rparr>))"

text \<open>
  \<open>DELETE FROM users\<close>: the trigger rejects the root row, a pass requested by the user
  restricts the deletion, the other references to the user are set to NULL.
\<close>

definition forget_user :: "uuid \<Rightarrow> uuid option \<Rightarrow> uuid option" where
  "forget_user uid v = (if v = Some uid then None else v)"

definition delete_user_stmt :: "uuid \<Rightarrow> nat stmt" where
  "delete_user_stmt uid e n d =
     (case find_row (\<lambda>u. u_ID u = uid) (t_users d) of
        None \<Rightarrow> Inr (0, d)
      | Some old \<Rightarrow>
          (if u_Role old = RoleRoot then Inl (PgError restrictViolation '''')
           else if exists_row (\<lambda>p. p_RequestedBy p = uid) (t_passes d)
           then Inl (PgError foreignKeyViolation ''passes_requested_by_fkey'')
           else Inr (1, d\<lparr>
             t_users := delete_rows (\<lambda>u. u_ID u = uid) (t_users d),
             t_scheduling_configs := map (\<lambda>c. c\<lparr>sc_CreatedBy := forget_user uid (sc_CreatedBy c)\<rparr>)
               (t_scheduling_configs d),
             t_pipelines := map (\<lambda>p. p\<lparr>pl_UploadedBy := forget_user uid (pl_UploadedBy p)\<rparr>)
               (t_pipelines d),
             t_passes := update_rows (\<lambda>p. p_ApprovedBy p = Some uid \<or> p_CancelledBy p = Some uid)
               (\<lambda>p. p\<lparr>p_ApprovedBy := forget_user uid (p_ApprovedBy p),
                      p_CancelledBy := forget_user uid (p_CancelledBy p),
                      p_UpdatedAt := env_now e n\<rparr>) (t_passes d)\<rparr>)))"

definition DeleteUser :: "uuid \<Rightarrow> unit repo" where
  "DeleteUser uid = exec_user (delete_user_stmt uid)"

section \<open>System state\<close>

definition SystemInitializedAt :: "time option repo" where
  "SystemInitializedAt = query (select (\<lambda>e n d. t_initialized_at d))"

definition mark_initialized_stmt :: "time \<Rightarrow> unit stmt" where
  "mark_initialized_stmt moment e n d =
     Inr ((), if t_initialized_at d = None then d\<lparr>t_initialized_at := Some (env_ts e moment)\<rparr> else d)"

definition MarkSystemInitialized :: "time \<Rightarrow> unit repo" where
  "MarkSystemInitialized moment = query (mark_initialized_stmt moment)"

section \<open>Audit log\<close>

text \<open>
  The identity column is numbered by the tick of the insertion: like a sequence, it
  increases and may leave gaps.
\<close>

definition insert_audit_stmt :: "audit_record \<Rightarrow> audit_record option stmt" where
  "insert_audit_stmt a e n d =
     (if is_blank (a_Action a) then Inl (PgError ''23514'' ''audit_records_action_not_blank'')
      else let row = a\<lparr>a_ID := int n, a_CreatedAt := env_now e n\<rparr>
           in Inr (Some row, d\<lparr>t_audit_records := t_audit_records d @ [row]\<rparr>))"

definition AppendAudit :: "audit_record \<Rightarrow> audit_record repo" where
  "AppendAudit a = query_row (insert_audit_stmt a)"

definition CountAuditRecords :: "string \<Rightarrow> entity_ref \<Rightarrow> nat repo" where
  "CountAuditRecords entityType entityID =
     query (select (\<lambda>e n d.
       rows_affected (\<lambda>a. a_EntityType a = entityType \<and> a_EntityID a = entityID) (t_audit_records d)))"

record audit_filter =
  af_Action :: string
  af_EntityType :: string
  af_EntityID :: string
  af_Limit :: int

text \<open>The column \<open>entity_id\<close> is text.\<close>

fun entity_text :: "env \<Rightarrow> entity_ref \<Rightarrow> string" where
  "entity_text e (RefID i) = env_uuid_text e i"
| "entity_text e (RefText s) = s"

definition audit_matches :: "env \<Rightarrow> audit_filter \<Rightarrow> audit_record \<Rightarrow> bool" where
  "audit_matches e f a \<longleftrightarrow>
     (af_Action f = '''' \<or> a_Action a = af_Action f) \<and>
     (af_EntityType f = '''' \<or> a_EntityType a = af_EntityType f) \<and>
     (af_EntityID f = '''' \<or> entity_text e (a_EntityID a) = af_EntityID f)"

definition ListAuditRecords :: "audit_filter \<Rightarrow> audit_record list repo" where
  "ListAuditRecords f =
     query (select (\<lambda>e n d.
       limit_rows (af_Limit f)
         (sort_key (\<lambda>a. - a_ID a) (filter (audit_matches e f) (t_audit_records d)))))"

text \<open>A record with the fields that the callers of \<open>AppendAudit\<close> leave at zero.\<close>

definition audit_entry ::
  "uuid option \<Rightarrow> string \<Rightarrow> string \<Rightarrow> entity_ref \<Rightarrow> any_map \<Rightarrow> audit_record" where
  "audit_entry actor action entityType entityID details =
     \<lparr>a_ID = 0, a_ActorUserID = actor, a_Action = action, a_EntityType = entityType,
      a_EntityID = entityID, a_PreviousState = [], a_NewState = details, a_Reason = '''',
      a_CreatedAt = 0\<rparr>"

section \<open>Facts\<close>

lemma user_error_None:
  "user_error e others u = None \<longleftrightarrow>
     role_in_enum (u_Role u) \<and> \<not> is_blank (u_Username u) \<and> argon2id_shape (u_PasswordHash u) \<and>
     (\<forall>v\<in>set others. u_ID v \<noteq> u_ID u \<and>
        env_citext e (u_Username v) \<noteq> env_citext e (u_Username u) \<and>
        (u_Role u = RoleRoot \<longrightarrow> u_Role v \<noteq> RoleRoot))"
  by (auto simp: user_error_def exists_row_iff)

context guarantee begin

lemma exec_user [guar_intro]: "stmt_guar G q \<Longrightarrow> guar G (exec_user q)"
  by (auto simp: guar_def exec_user_def dest: run_stmt_G split: sum.splits prod.splits)

end

end
