(* ===== verification/Store_Station.thy ===== *)
theory Store_Station
  imports Database
begin

text \<open>
  Stations, band and hardware settings, scheduling configurations and workers: the rest of
  \<open>internal/store/repository.go\<close>, the station part of \<open>users.go\<close> and the worker part of
  \<open>passes.go\<close>.  Where \<open>ORDER BY\<close> leaves ties open the model keeps insertion order.
\<close>

section \<open>Stations\<close>

definition station_error :: "station list \<Rightarrow> station \<Rightarrow> dberr option" where
  "station_error others s =
     (if \<not> band_in_enum (st_ActiveRFBand s) then Some (PgError ''22P02'' '''')
      else if \<not> (-90 \<le> st_Latitude s \<and> st_Latitude s \<le> 90)
      then Some (PgError ''23514'' ''stations_latitude_check'')
      else if \<not> (-180 \<le> st_Longitude s \<and> st_Longitude s \<le> 180)
      then Some (PgError ''23514'' ''stations_longitude_check'')
      else if exists_row (\<lambda>t. st_ID t = st_ID s) others then Some (PgError ''23505'' ''stations_pkey'')
      else if exists_row (\<lambda>t. st_Name t = st_Name s) others
      then Some (PgError ''23505'' ''stations_name_key'')
      else None)"

definition insert_station_stmt :: "station \<Rightarrow> station option stmt" where
  "insert_station_stmt s e n d =
     (let row = s\<lparr>st_ID := env_uuid e n, st_CreatedAt := env_now e n, st_UpdatedAt := env_now e n\<rparr>
      in case station_error (t_stations d) row of
           Some err \<Rightarrow> Inl err
         | None \<Rightarrow> Inr (Some row, d\<lparr>t_stations := t_stations d @ [row]\<rparr>))"

definition CreateStation :: "station \<Rightarrow> station repo" where
  "CreateStation s = query_row (insert_station_stmt s)"

definition GetStationByID :: "uuid \<Rightarrow> station repo" where
  "GetStationByID sid = query_row (select (\<lambda>e n d. find_row (\<lambda>s. st_ID s = sid) (t_stations d)))"

definition ListStations :: "station list repo" where
  "ListStations = query (select (\<lambda>e n d. sort_key st_CreatedAt (t_stations d)))"

definition update_station_stmt ::
  "uuid \<Rightarrow> (station \<Rightarrow> station) \<Rightarrow> station option stmt" where
  "update_station_stmt sid f e n d =
     (case find_row (\<lambda>s. st_ID s = sid) (t_stations d) of
        None \<Rightarrow> Inr (None, d)
      | Some old \<Rightarrow>
          (let new = (f old)\<lparr>st_UpdatedAt := env_now e n\<rparr>
           in case station_error (delete_rows (\<lambda>s. st_ID s = sid) (t_stations d)) new of
                Some err \<Rightarrow> Inl err
              | None \<Rightarrow> Inr (Some new,
                  d\<lparr>t_stations := update_rows (\<lambda>s. st_ID s = sid) (\<lambda>_. new) (t_stations d)\<rparr>)))"

definition SetStationActiveBand :: "uuid \<Rightarrow> rf_band \<Rightarrow> unit repo" where
  "SetStationActiveBand sid band =
     exec_one (affected_stmt (update_station_stmt sid (\<lambda>s. s\<lparr>st_ActiveRFBand := band\<rparr>)))"

definition UpdateStation :: "station \<Rightarrow> station repo" where
  "UpdateStation st = query_row (update_station_stmt (st_ID st)
     (\<lambda>s. s\<lparr>st_Name := st_Name st, st_Latitude := st_Latitude st, st_Longitude := st_Longitude st,
           st_AltitudeM := st_AltitudeM st, st_Timezone := st_Timezone st\<rparr>))"

section \<open>Band and hardware settings\<close>

definition band_config_error :: "database \<Rightarrow> station_band_config \<Rightarrow> dberr option" where
  "band_config_error d c =
     (if \<not> band_in_enum (bc_Band c) then Some (PgError ''22P02'' '''')
      else if (case bc_CenterFrequencyHz c of None \<Rightarrow> False | Some f \<Rightarrow> f \<le> 0)
      then Some (PgError ''23514'' ''station_band_configs_center_frequency_hz_check'')
      else if (case bc_SampleRateHz c of None \<Rightarrow> False | Some f \<Rightarrow> f \<le> 0)
      then Some (PgError ''23514'' ''station_band_configs_sample_rate_hz_check'')
      else if \<not> exists_row (\<lambda>s. st_ID s = bc_StationID c) (t_stations d)
      then Some (PgError foreignKeyViolation ''station_band_configs_station_id_fkey'')
      else None)"

definition same_band :: "station_band_config \<Rightarrow> station_band_config \<Rightarrow> bool" where
  "same_band c b \<longleftrightarrow> bc_StationID b = bc_StationID c \<and> bc_Band b = bc_Band c"

definition upsert_band_stmt :: "station_band_config \<Rightarrow> unit stmt" where
  "upsert_band_stmt c e n d =
     (let row = c\<lparr>bc_GainDB := map_option (env_numeric e 2) (bc_GainDB c)\<rparr>
      in case band_config_error d row of
           Some err \<Rightarrow> Inl err
         | None \<Rightarrow> Inr ((), d\<lparr>t_band_configs :=
             (if exists_row (same_band row) (t_band_configs d)
              then update_rows (same_band row) (\<lambda>_. row) (t_band_configs d)
              else t_band_configs d @ [row])\<rparr>))"

definition UpsertStationBandConfig :: "station_band_config \<Rightarrow> unit repo" where
  "UpsertStationBandConfig c = query (upsert_band_stmt c)"

text \<open>\<open>ORDER BY band\<close> follows the order of the enum's labels.\<close>

fun band_rank :: "rf_band \<Rightarrow> int" where
  "band_rank BandVHF = 0"
| "band_rank BandUHF = 1"
| "band_rank (BandOther _) = 2"

definition GetStationBandConfigs :: "uuid \<Rightarrow> station_band_config list repo" where
  "GetStationBandConfigs sid =
     query (select (\<lambda>e n d.
       sort_key (\<lambda>c. band_rank (bc_Band c)) (filter (\<lambda>c. bc_StationID c = sid) (t_band_configs d))))"

definition hardware_config_error :: "database \<Rightarrow> station_hardware_config \<Rightarrow> dberr option" where
  "hardware_config_error d c =
     (if \<not> 0 < hw_RotatorBaudRate c
      then Some (PgError ''23514'' ''station_hardware_configs_rotator_baud_rate_check'')
      else if \<not> (0 \<le> hw_RotatorParkAzimuthDegrees c \<and> hw_RotatorParkAzimuthDegrees c \<le> 359)
      then Some (PgError ''23514'' ''station_hardware_configs_rotator_park_azimuth_degrees_check'')
      else if \<not> (0 \<le> hw_RotatorParkElevationDegrees c \<and> hw_RotatorParkElevationDegrees c \<le> 90)
      then Some (PgError ''23514'' ''station_hardware_configs_rotator_park_elevation_degrees_check'')
      else if \<not> exists_row (\<lambda>s. st_ID s = hw_StationID c) (t_stations d)
      then Some (PgError foreignKeyViolation ''station_hardware_configs_station_id_fkey'')
      else None)"

definition upsert_hardware_stmt :: "station_hardware_config \<Rightarrow> unit stmt" where
  "upsert_hardware_stmt c e n d =
     (case hardware_config_error d c of
        Some err \<Rightarrow> Inl err
      | None \<Rightarrow> Inr ((), d\<lparr>t_hardware_configs :=
          (if exists_row (\<lambda>h. hw_StationID h = hw_StationID c) (t_hardware_configs d)
           then update_rows (\<lambda>h. hw_StationID h = hw_StationID c) (\<lambda>_. c) (t_hardware_configs d)
           else t_hardware_configs d @ [c])\<rparr>))"

definition UpsertStationHardwareConfig :: "station_hardware_config \<Rightarrow> unit repo" where
  "UpsertStationHardwareConfig c = query (upsert_hardware_stmt c)"

definition GetStationHardwareConfig :: "uuid \<Rightarrow> station_hardware_config repo" where
  "GetStationHardwareConfig sid =
     query_row (select (\<lambda>e n d. find_row (\<lambda>h. hw_StationID h = sid) (t_hardware_configs d)))"

section \<open>Scheduling configurations\<close>

text \<open>
  The five durations travel as \<open>seconds\<close>, an \<open>interval\<close> column and back through \<open>duration\<close>;
  \<open>env_interval\<close> is that round trip.
\<close>

definition stored_config :: "env \<Rightarrow> nat \<Rightarrow> scheduling_config \<Rightarrow> scheduling_config" where
  "stored_config e n c =
     c\<lparr>sc_ID := env_uuid e n,
       sc_MinimumLeadTime := env_interval e (sc_MinimumLeadTime c),
       sc_PrePassBuffer := env_interval e (sc_PrePassBuffer c),
       sc_PostPassBuffer := env_interval e (sc_PostPassBuffer c),
       sc_RecordingPreRoll := env_interval e (sc_RecordingPreRoll c),
       sc_RecordingPostRoll := env_interval e (sc_RecordingPostRoll c),
       sc_MinimumElevationDegrees := env_numeric e 1 (sc_MinimumElevationDegrees c),
       sc_CreatedAt := env_now e n,
       sc_EffectiveFrom := env_ts e (sc_EffectiveFrom c)\<rparr>"

definition config_checks :: "scheduling_config \<Rightarrow> bool" where
  "config_checks c \<longleftrightarrow>
     0 \<le> sc_MinimumLeadTime c \<and> 0 \<le> sc_PrePassBuffer c \<and> 0 \<le> sc_PostPassBuffer c \<and>
     0 \<le> sc_RecordingPreRoll c \<and> 0 \<le> sc_RecordingPostRoll c \<and>
     0 \<le> sc_MinimumElevationDegrees c \<and> sc_MinimumElevationDegrees c \<le> 90"

definition insert_scheduling_config_stmt :: "scheduling_config \<Rightarrow> scheduling_config option stmt" where
  "insert_scheduling_config_stmt c e n d =
     (let row = stored_config e n c
      in if \<not> config_checks row then Inl (PgError ''23514'' ''scheduling_configs_check'')
         else if exists_row (\<lambda>x. sc_ID x = sc_ID row) (t_scheduling_configs d)
         then Inl (PgError ''23505'' ''scheduling_configs_pkey'')
         else if \<not> exists_row (\<lambda>s. st_ID s = sc_StationID row) (t_stations d)
         then Inl (PgError foreignKeyViolation ''scheduling_configs_station_id_fkey'')
         else if (case sc_CreatedBy row of None \<Rightarrow> False
                  | Some u \<Rightarrow> \<not> exists_row (\<lambda>v. u_ID v = u) (t_users d))
         then Inl (PgError foreignKeyViolation ''scheduling_configs_created_by_fkey'')
         else Inr (Some row, d\<lparr>t_scheduling_configs := t_scheduling_configs d @ [row]\<rparr>))"

definition CreateSchedulingConfig :: "scheduling_config \<Rightarrow> scheduling_config repo" where
  "CreateSchedulingConfig c = query_row (insert_scheduling_config_stmt c)"

text \<open>\<open>ORDER BY created_at DESC LIMIT 1\<close>.\<close>

definition newest_config :: "scheduling_config list \<Rightarrow> scheduling_config option" where
  "newest_config cs = first_row (sort_key (\<lambda>c. - sc_CreatedAt c) cs)"

definition effective_configs :: "uuid \<Rightarrow> time \<Rightarrow> scheduling_config list \<Rightarrow> scheduling_config list" where
  "effective_configs sid t cs =
     filter (\<lambda>c. sc_StationID c = sid \<and> sc_EffectiveFrom c \<le> t) cs"

definition LatestEffectiveSchedulingConfig :: "uuid \<Rightarrow> time \<Rightarrow> scheduling_config repo" where
  "LatestEffectiveSchedulingConfig sid moment =
     query_row (select (\<lambda>e n d.
       newest_config (effective_configs sid (env_ts e moment) (t_scheduling_configs d))))"

text \<open>
  The pending configuration: not yet effective, and created after every effective one
  (\<open>COALESCE(max(created_at), '-infinity')\<close>).
\<close>

definition pending_configs :: "uuid \<Rightarrow> time \<Rightarrow> scheduling_config list \<Rightarrow> scheduling_config list" where
  "pending_configs sid t cs =
     filter (\<lambda>c. sc_StationID c = sid \<and> t < sc_EffectiveFrom c \<and>
        list_all (\<lambda>x. sc_CreatedAt x < sc_CreatedAt c) (effective_configs sid t cs)) cs"

definition PendingSchedulingConfig :: "uuid \<Rightarrow> time \<Rightarrow> scheduling_config repo" where
  "PendingSchedulingConfig sid moment =
     query_row (select (\<lambda>e n d.
       newest_config (pending_configs sid (env_ts e moment) (t_scheduling_configs d))))"

definition GetSchedulingConfigByID :: "uuid \<Rightarrow> scheduling_config repo" where
  "GetSchedulingConfigByID cid =
     query_row (select (\<lambda>e n d. find_row (\<lambda>c. sc_ID c = cid) (t_scheduling_configs d)))"

section \<open>Workers\<close>

definition insert_worker_stmt :: "worker \<Rightarrow> worker option stmt" where
  "insert_worker_stmt wk e n d =
     (let row = wk\<lparr>w_ID := env_uuid e n, w_LastSeenAt := None, w_LastSyncAt := None,
                   w_DesiredStateGeneration := 0, w_PendingUploads := 0, w_PendingReports := 0,
                   w_SyncedGeneration := '''', w_CreatedAt := env_now e n, w_UpdatedAt := env_now e n\<rparr>
      in if exists_row (\<lambda>x. w_ID x = w_ID row) (t_workers d) then Inl (PgError ''23505'' ''workers_pkey'')
         else if exists_row (\<lambda>x. w_Name x = w_Name row) (t_workers d)
         then Inl (PgError ''23505'' ''workers_name_key'')
         else if \<not> exists_row (\<lambda>s. st_ID s = w_StationID row) (t_stations d)
         then Inl (PgError foreignKeyViolation ''workers_station_id_fkey'')
         else Inr (Some row, d\<lparr>t_workers := t_workers d @ [row]\<rparr>))"

definition CreateWorker :: "worker \<Rightarrow> worker repo" where
  "CreateWorker wk = query_row (insert_worker_stmt wk)"

definition GetWorkerByName :: "string \<Rightarrow> worker repo" where
  "GetWorkerByName nm = query_row (select (\<lambda>e n d. find_row (\<lambda>w. w_Name w = nm) (t_workers d)))"

definition GetWorkerByID :: "uuid \<Rightarrow> worker repo" where
  "GetWorkerByID wid = query_row (select (\<lambda>e n d. find_row (\<lambda>w. w_ID w = wid) (t_workers d)))"

definition GetStationWorker :: "uuid \<Rightarrow> worker repo" where
  "GetStationWorker sid =
     query_row (select (\<lambda>e n d.
       first_row (sort_key w_CreatedAt (filter (\<lambda>w. w_StationID w = sid) (t_workers d)))))"

definition update_worker_stmt :: "uuid \<Rightarrow> (env \<Rightarrow> worker \<Rightarrow> worker) \<Rightarrow> nat stmt" where
  "update_worker_stmt wid f e n d =
     Inr (rows_affected (\<lambda>w. w_ID w = wid) (t_workers d),
       d\<lparr>t_workers := update_rows (\<lambda>w. w_ID w = wid)
          (\<lambda>w. (f e w)\<lparr>w_UpdatedAt := env_now e n\<rparr>) (t_workers d)\<rparr>)"

definition SetWorkerConnectionState ::
  "uuid \<Rightarrow> worker_connection_state \<Rightarrow> time option \<Rightarrow> unit repo" where
  "SetWorkerConnectionState wid state seenAt =
     exec_one (update_worker_stmt wid (\<lambda>e w. w\<lparr>w_ConnectionState := state,
       w_LastSeenAt := (case seenAt of None \<Rightarrow> w_LastSeenAt w | Some t \<Rightarrow> Some (env_ts e t))\<rparr>))"

record heartbeat_update =
  hb_WorkerID :: uuid
  hb_SeenAt :: time
  hb_WorkerVersion :: string
  hb_PendingUploads :: int
  hb_PendingReports :: int

text \<open>The counters are \<open>integer\<close> columns; the driver rejects a value outside 32 bits.\<close>

definition int4 :: "int \<Rightarrow> bool" where
  "int4 v \<longleftrightarrow> - (2 ^ 31) \<le> v \<and> v < 2 ^ 31"

definition heartbeat_row :: "heartbeat_update \<Rightarrow> env \<Rightarrow> worker \<Rightarrow> worker" where
  "heartbeat_row u e w = w\<lparr>w_ConnectionState := WorkerOnline,
     w_LastSeenAt := Some (env_ts e (hb_SeenAt u)),
     w_WorkerVersion := (if hb_WorkerVersion u = '''' then w_WorkerVersion w else hb_WorkerVersion u),
     w_PendingUploads := hb_PendingUploads u,
     w_PendingReports := hb_PendingReports u\<rparr>"

lemma heartbeat_row_ID [simp]: "w_ID (heartbeat_row u e w) = w_ID w"
  by (simp add: heartbeat_row_def)

definition heartbeat_stmt :: "heartbeat_update \<Rightarrow> nat stmt" where
  "heartbeat_stmt u e n d =
     (if \<not> int4 (hb_PendingUploads u) \<or> \<not> int4 (hb_PendingReports u)
      then Inl (PgError ''22003'' '''')
      else if exists_row (\<lambda>w. w_ID w = hb_WorkerID u) (t_workers d) \<and>
              (hb_PendingUploads u < 0 \<or> hb_PendingReports u < 0)
      then Inl (PgError ''23514'' ''workers_pending_uploads_check'')
      else update_worker_stmt (hb_WorkerID u) (heartbeat_row u) e n d)"

definition RecordHeartbeat :: "heartbeat_update \<Rightarrow> unit repo" where
  "RecordHeartbeat u = exec_one (heartbeat_stmt u)"

definition RecordWorkerSync :: "uuid \<Rightarrow> time \<Rightarrow> string \<Rightarrow> unit repo" where
  "RecordWorkerSync wid moment generation =
     attempt (query (update_worker_stmt wid (\<lambda>e w. w\<lparr>w_LastSyncAt := Some (env_ts e moment),
       w_SyncedGeneration := generation\<rparr>))) (\<lambda>_. ret ())"

definition is_stale :: "time \<Rightarrow> worker \<Rightarrow> bool" where
  "is_stale cutoff w \<longleftrightarrow> w_ConnectionState w = WorkerOnline \<and>
     (case w_LastSeenAt w of None \<Rightarrow> True | Some t \<Rightarrow> t < cutoff)"

definition mark_stale_stmt :: "time \<Rightarrow> string list stmt" where
  "mark_stale_stmt cutoff e n d =
     Inr (map w_Name (filter (is_stale (env_ts e cutoff)) (t_workers d)),
       d\<lparr>t_workers := update_rows (is_stale (env_ts e cutoff))
          (\<lambda>w. w\<lparr>w_ConnectionState := WorkerOffline, w_UpdatedAt := env_now e n\<rparr>) (t_workers d)\<rparr>)"

definition MarkStaleWorkersOffline :: "time \<Rightarrow> string list repo" where
  "MarkStaleWorkersOffline cutoff = query (mark_stale_stmt cutoff)"

text \<open>\<open>ORDER BY name\<close> under the database's collation, which is left to the environment.\<close>

definition ListWorkers :: "(string \<Rightarrow> nat) \<Rightarrow> worker list repo" where
  "ListWorkers collate = query (select (\<lambda>e n d. sort_key (\<lambda>w. collate (w_Name w)) (t_workers d)))"

section \<open>Facts\<close>

lemma newest_config_None: "newest_config cs = None \<longleftrightarrow> cs = []"
  by (simp add: newest_config_def first_row_sort_key_None)

lemma newest_configD:
  assumes "newest_config cs = Some c"
  shows "c \<in> set cs" and "\<forall>x\<in>set cs. sc_CreatedAt x \<le> sc_CreatedAt c"
  using first_row_sort_key [of "\<lambda>c. - sc_CreatedAt c" cs c] assms
  by (auto simp: newest_config_def)

text \<open>With distinct creation times the newest configuration is determined.\<close>

lemma newest_config_unique:
  assumes "c \<in> set cs" and "\<forall>x\<in>set cs. x \<noteq> c \<longrightarrow> sc_CreatedAt x < sc_CreatedAt c"
  shows "newest_config cs = Some c"
proof (cases "newest_config cs")
  case None
  with assms(1) show ?thesis by (auto simp: newest_config_None)
next
  case (Some y)
  from newest_configD [OF Some] assms have "y = c" by (metis not_less)
  with Some show ?thesis by simp
qed

end
