(* ===== verification/Store_Catalog.thy ===== *)
theory Store_Catalog
  imports Database
begin

text \<open>
  Satellites, orbital elements and SatDump pipelines: \<open>internal/store/satellites.go\<close>, the
  satellite and TLE part of \<open>repository.go\<close> and the pipeline part of \<open>passes.go\<close>.
\<close>

section \<open>Values that pass through a jsonb column\<close>

text \<open>\<open>json.Marshal\<close> and \<open>json.Unmarshal\<close> into \<open>map[string]any\<close>: numbers come back as float64.\<close>

fun json_norm :: "any_val \<Rightarrow> any_val" where
  "json_norm (VInt i) = VFloat (of_int i)"
| "json_norm (VInt64 i) = VFloat (of_int i)"
| "json_norm (VList vs) = VList (map json_norm vs)"
| "json_norm (VObject kvs) = VObject (map (\<lambda>(k, v). (k, json_norm v)) kvs)"
| "json_norm v = v"

definition json_map :: "any_map \<Rightarrow> any_map" where
  "json_map m = map (\<lambda>(k, v). (k, json_norm v)) m"

definition hex_digit :: "char \<Rightarrow> bool" where
  "hex_digit c \<longleftrightarrow> c \<in> set ''0123456789abcdef''"

text \<open>The constraint \<open>~ '^[a-f0-9]{64}$'\<close>.\<close>

definition hex64 :: "string \<Rightarrow> bool" where
  "hex64 s \<longleftrightarrow> length s = 64 \<and> list_all hex_digit s"

section \<open>Satellites\<close>

definition satellite_insert_error :: "database \<Rightarrow> satellite \<Rightarrow> dberr option" where
  "satellite_insert_error d s =
     (if \<not> (- (2 ^ 31) \<le> sat_NoradID s \<and> sat_NoradID s < 2 ^ 31) then Some (PgError ''22003'' '''')
      else if \<not> 0 < sat_NoradID s then Some (PgError ''23514'' ''satellites_norad_id_check'')
      else if exists_row (\<lambda>t. sat_ID t = sat_ID s) (t_satellites d)
      then Some (PgError ''23505'' ''satellites_pkey'')
      else if exists_row (\<lambda>t. sat_NoradID t = sat_NoradID s) (t_satellites d)
      then Some (PgError ''23505'' ''satellites_norad_id_key'')
      else None)"

definition insert_satellite_stmt :: "satellite \<Rightarrow> satellite option stmt" where
  "insert_satellite_stmt s e n d =
     (let row = s\<lparr>sat_ID := env_uuid e n, sat_Metadata := json_map (sat_Metadata s),
                  sat_CreatedAt := env_now e n, sat_UpdatedAt := env_now e n\<rparr>
      in case satellite_insert_error d row of
           Some err \<Rightarrow> Inl err
         | None \<Rightarrow> Inr (Some row, d\<lparr>t_satellites := t_satellites d @ [row]\<rparr>))"

definition CreateSatellite :: "satellite \<Rightarrow> satellite repo" where
  "CreateSatellite s = query_row (insert_satellite_stmt s)"

definition GetSatelliteByNoradID :: "int \<Rightarrow> satellite repo" where
  "GetSatelliteByNoradID noradID =
     query_row (select (\<lambda>e n d. find_row (\<lambda>s. sat_NoradID s = noradID) (t_satellites d)))"

definition GetSatelliteByID :: "uuid \<Rightarrow> satellite repo" where
  "GetSatelliteByID sid = query_row (select (\<lambda>e n d. find_row (\<lambda>s. sat_ID s = sid) (t_satellites d)))"

definition ListSatellites :: "satellite list repo" where
  "ListSatellites = query (select (\<lambda>e n d. sort_key sat_NoradID (t_satellites d)))"

definition update_satellite_stmt ::
  "uuid \<Rightarrow> (satellite \<Rightarrow> satellite) \<Rightarrow> satellite option stmt" where
  "update_satellite_stmt sid f e n d =
     (let rows = update_rows (\<lambda>s. sat_ID s = sid)
                   (\<lambda>s. (f s)\<lparr>sat_UpdatedAt := env_now e n\<rparr>) (t_satellites d)
      in Inr (find_row (\<lambda>s. sat_ID s = sid) rows, d\<lparr>t_satellites := rows\<rparr>))"

definition UpdateSatellite :: "uuid \<Rightarrow> string \<Rightarrow> string \<Rightarrow> bool \<Rightarrow> satellite repo" where
  "UpdateSatellite sid nm description schedulable =
     query_row (update_satellite_stmt sid
       (\<lambda>s. s\<lparr>sat_Name := nm, sat_Description := description, sat_IsSchedulable := schedulable\<rparr>))"

definition SetSatelliteMetadata :: "uuid \<Rightarrow> any_map \<Rightarrow> unit repo" where
  "SetSatelliteMetadata sid metadata =
     exec_one (affected_stmt (update_satellite_stmt sid (\<lambda>s. s\<lparr>sat_Metadata := json_map metadata\<rparr>)))"

text \<open>A pass restricts the deletion of its satellite and of its elements; the elements cascade.\<close>

definition delete_satellite_stmt :: "uuid \<Rightarrow> nat stmt" where
  "delete_satellite_stmt sid e n d =
     (if \<not> exists_row (\<lambda>s. sat_ID s = sid) (t_satellites d) then Inr (0, d)
      else if exists_row (\<lambda>p. p_SatelliteID p = sid) (t_passes d)
      then Inl (PgError foreignKeyViolation ''passes_satellite_id_fkey'')
      else if exists_row (\<lambda>t. tle_SatelliteID t = sid \<and>
                exists_row (\<lambda>p. p_TLERecordID p = tle_ID t) (t_passes d)) (t_tle_records d)
      then Inl (PgError foreignKeyViolation ''passes_tle_record_id_fkey'')
      else Inr (1, d\<lparr>t_satellites := delete_rows (\<lambda>s. sat_ID s = sid) (t_satellites d),
                     t_tle_records := delete_rows (\<lambda>t. tle_SatelliteID t = sid) (t_tle_records d)\<rparr>))"

definition DeleteSatellite :: "uuid \<Rightarrow> unit repo" where
  "DeleteSatellite sid = exec_one (delete_satellite_stmt sid)"

section \<open>Orbital elements\<close>

definition line_shape :: "char \<Rightarrow> string \<Rightarrow> bool" where
  "line_shape c s \<longleftrightarrow> take 2 s = [c, CHR '' ''] \<and> 68 \<le> length s \<and> length s \<le> 69"

definition insert_tle_stmt :: "tle_record \<Rightarrow> tle_record option stmt" where
  "insert_tle_stmt t e n d =
     (let row = t\<lparr>tle_ID := env_uuid e n, tle_Epoch := env_ts e (tle_Epoch t), tle_FetchedAt := env_now e n\<rparr>
      in if \<not> source_in_enum (tle_Source row) then Inl (PgError ''22P02'' '''')
         else if \<not> line_shape (CHR ''1'') (tle_Line1 row)
         then Inl (PgError ''23514'' ''tle_records_line1_shape'')
         else if \<not> line_shape (CHR ''2'') (tle_Line2 row)
         then Inl (PgError ''23514'' ''tle_records_line2_shape'')
         else if exists_row (\<lambda>x. tle_ID x = tle_ID row) (t_tle_records d)
         then Inl (PgError ''23505'' ''tle_records_pkey'')
         else if exists_row (\<lambda>x. tle_SatelliteID x = tle_SatelliteID row \<and>
                tle_Line1 x = tle_Line1 row \<and> tle_Line2 x = tle_Line2 row) (t_tle_records d)
         then Inl (PgError ''23505'' ''tle_records_satellite_id_line1_line2_key'')
         else if \<not> exists_row (\<lambda>s. sat_ID s = tle_SatelliteID row) (t_satellites d)
         then Inl (PgError foreignKeyViolation ''tle_records_satellite_id_fkey'')
         else Inr (Some row, d\<lparr>t_tle_records := t_tle_records d @ [row]\<rparr>))"

definition CreateTLERecord :: "tle_record \<Rightarrow> tle_record repo" where
  "CreateTLERecord t = query_row (insert_tle_stmt t)"

text \<open>\<open>ORDER BY epoch DESC, fetched_at DESC\<close>: a stable sort by the second key, then the first.\<close>

definition newest_first :: "tle_record list \<Rightarrow> tle_record list" where
  "newest_first ts = sort_key (\<lambda>t. - tle_Epoch t) (sort_key (\<lambda>t. - tle_FetchedAt t) ts)"

definition records_of :: "uuid \<Rightarrow> database \<Rightarrow> tle_record list" where
  "records_of sid d = newest_first (filter (\<lambda>t. tle_SatelliteID t = sid) (t_tle_records d))"

definition LatestTLERecord :: "uuid \<Rightarrow> tle_record repo" where
  "LatestTLERecord sid = query_row (select (\<lambda>e n d. first_row (records_of sid d)))"

definition ListTLERecords :: "uuid \<Rightarrow> nat \<Rightarrow> tle_record list repo" where
  "ListTLERecords sid k = query (select (\<lambda>e n d. take k (records_of sid d)))"

definition GetTLERecordByID :: "uuid \<Rightarrow> tle_record repo" where
  "GetTLERecordByID tid = query_row (select (\<lambda>e n d. find_row (\<lambda>t. tle_ID t = tid) (t_tle_records d)))"

definition LatestTLERecordForEach :: "(uuid \<rightharpoonup> tle_record) repo" where
  "LatestTLERecordForEach = query (select (\<lambda>e n d sid. first_row (records_of sid d)))"

section \<open>Pipelines\<close>

text \<open>The struct \<open>store.Pipeline\<close>; its field \<open>Definition\<close> has no column.\<close>

record Pipeline =
  pi_ID :: uuid
  pi_Name :: string
  pi_IsCustom :: bool
  pi_DefinitionPath :: string
  pi_ChecksumSHA256 :: string
  pi_Definition :: string

definition deref :: "string option \<Rightarrow> string" where
  "deref v = (case v of None \<Rightarrow> '''' | Some s \<Rightarrow> s)"

definition scan_pipeline :: "pipeline \<Rightarrow> Pipeline" where
  "scan_pipeline r =
     \<lparr>pi_ID = pl_ID r, pi_Name = pl_Name r, pi_IsCustom = pl_IsCustom r,
      pi_DefinitionPath = deref (pl_DefinitionPath r),
      pi_ChecksumSHA256 = deref (pl_ChecksumSHA256 r), pi_Definition = ''''\<rparr>"

definition GetPipelineByID :: "uuid \<Rightarrow> Pipeline repo" where
  "GetPipelineByID pid =
     query_row (select (\<lambda>e n d. map_option scan_pipeline (find_row (\<lambda>p. pl_ID p = pid) (t_pipelines d))))"

definition pipeline_error :: "database \<Rightarrow> pipeline \<Rightarrow> dberr option" where
  "pipeline_error d p =
     (if (case pl_ChecksumSHA256 p of None \<Rightarrow> False | Some c \<Rightarrow> \<not> hex64 c)
      then Some (PgError ''23514'' ''satdump_pipelines_checksum_sha256_check'')
      else if pl_IsCustom p \<and> pl_DefinitionPath p = None
      then Some (PgError ''23514'' ''satdump_pipelines_custom_has_definition'')
      else if exists_row (\<lambda>q. pl_ID q = pl_ID p) (t_pipelines d)
      then Some (PgError ''23505'' ''satdump_pipelines_pkey'')
      else if exists_row (\<lambda>q. pl_Name q = pl_Name p) (t_pipelines d)
      then Some (PgError ''23505'' ''satdump_pipelines_name_key'')
      else if (case pl_UploadedBy p of None \<Rightarrow> False | Some u \<Rightarrow> \<not> exists_row (\<lambda>v. u_ID v = u) (t_users d))
      then Some (PgError foreignKeyViolation ''satdump_pipelines_uploaded_by_fkey'')
      else None)"

definition optional :: "string \<Rightarrow> string option" where
  "optional s = (if s = '''' then None else Some s)"

definition insert_pipeline_stmt :: "Pipeline \<Rightarrow> uuid option \<Rightarrow> uuid option stmt" where
  "insert_pipeline_stmt p uploadedBy e n d =
     (let row = \<lparr>pl_ID = env_uuid e n, pl_Name = pi_Name p, pl_IsCustom = pi_IsCustom p,
                 pl_DefinitionPath = optional (pi_DefinitionPath p),
                 pl_ChecksumSHA256 = optional (pi_ChecksumSHA256 p), pl_UploadedBy = uploadedBy\<rparr>
      in case pipeline_error d row of
           Some err \<Rightarrow> Inl err
         | None \<Rightarrow> Inr (Some (pl_ID row), d\<lparr>t_pipelines := t_pipelines d @ [row]\<rparr>))"

definition CreatePipeline :: "Pipeline \<Rightarrow> uuid option \<Rightarrow> Pipeline repo" where
  "CreatePipeline p uploadedBy =
     attempt (query_row (insert_pipeline_stmt p uploadedBy)) (\<lambda>i. ret (p\<lparr>pi_ID := i\<rparr>))"

text \<open>\<open>ORDER BY is_custom, name\<close>; the collation of names is the caller's parameter.\<close>

definition ListPipelines :: "(string \<Rightarrow> nat) \<Rightarrow> Pipeline list repo" where
  "ListPipelines collate =
     query (select (\<lambda>e n d. map scan_pipeline
       (sort_key (\<lambda>p. if pl_IsCustom p then 1 else 0 :: nat)
         (sort_key (\<lambda>p. collate (pl_Name p)) (t_pipelines d)))))"

definition withdrawn :: "string list \<Rightarrow> database \<Rightarrow> pipeline \<Rightarrow> bool" where
  "withdrawn names d p \<longleftrightarrow> \<not> pl_IsCustom p \<and> pl_Name p \<notin> set names \<and>
     \<not> exists_row (\<lambda>q. p_PipelineID q = Some (pl_ID p)) (t_passes d)"

definition withdraw_pipelines_stmt :: "string list \<Rightarrow> nat stmt" where
  "withdraw_pipelines_stmt names e n d =
     Inr (rows_affected (withdrawn names d) (t_pipelines d),
       d\<lparr>t_pipelines := delete_rows (withdrawn names d) (t_pipelines d)\<rparr>)"

definition insert_standard_stmt :: "string \<Rightarrow> unit stmt" where
  "insert_standard_stmt nm e n d =
     (if exists_row (\<lambda>q. pl_Name q = nm) (t_pipelines d) then Inr ((), d)
      else if exists_row (\<lambda>q. pl_ID q = env_uuid e n) (t_pipelines d)
      then Inl (PgError ''23505'' ''satdump_pipelines_pkey'')
      else Inr ((), d\<lparr>t_pipelines := t_pipelines d @
        [\<lparr>pl_ID = env_uuid e n, pl_Name = nm, pl_IsCustom = False, pl_DefinitionPath = None,
          pl_ChecksumSHA256 = None, pl_UploadedBy = None\<rparr>]\<rparr>))"

definition ReplaceStandardPipelines :: "string list \<Rightarrow> nat repo" where
  "ReplaceStandardPipelines names =
     (if names = [] then ret 0
      else attempt (query (withdraw_pipelines_stmt names)) (\<lambda>removed.
           attempt (for_each names (\<lambda>nm. query (insert_standard_stmt nm))) (\<lambda>_. ret removed)))"

definition set_pipeline_path_stmt :: "uuid \<Rightarrow> string \<Rightarrow> nat stmt" where
  "set_pipeline_path_stmt pid path e n d =
     Inr (rows_affected (\<lambda>p. pl_ID p = pid) (t_pipelines d),
       d\<lparr>t_pipelines := update_rows (\<lambda>p. pl_ID p = pid) (\<lambda>p. p\<lparr>pl_DefinitionPath := Some path\<rparr>)
          (t_pipelines d)\<rparr>)"

definition SetPipelineDefinitionPath :: "uuid \<Rightarrow> string \<Rightarrow> unit repo" where
  "SetPipelineDefinitionPath pid path = exec_one (set_pipeline_path_stmt pid path)"

section \<open>Facts\<close>

lemma json_norm_idem [simp]: "json_norm (json_norm v) = json_norm v"
  by (induction v rule: json_norm.induct) auto

lemma set_newest_first [simp]: "set (newest_first ts) = set ts"
  by (simp add: newest_first_def)

lemma newest_first_Nil_iff: "newest_first ts = [] \<longleftrightarrow> ts = []"
  by (metis set_empty set_newest_first)

lemma first_newest:
  assumes "first_row (newest_first ts) = Some t"
  shows "t \<in> set ts" and "\<forall>x\<in>set ts. tle_Epoch x \<le> tle_Epoch t"
  using first_row_sort_key [OF assms [unfolded newest_first_def]] by auto

end
