(* ===== verification/Store_Passes.thy ===== *)
theory Store_Passes
  imports Store_Catalog
begin

text \<open>
  The pass table and the tables that hang off it: \<open>internal/store/passes.go\<close>, the pass part
  of \<open>repository.go\<close>, \<open>passplans.go\<close> and \<open>recordings.go\<close>.  The table of passes carries the
  exclusion constraint \<open>passes_no_station_overlap\<close>, which every insertion and update checks;
  that the constraint makes double booking impossible for every sequence of statements is
  proved in \<open>Store_Steps\<close>.
\<close>

section \<open>The constraints of the passes table\<close>

definition live :: "pass \<Rightarrow> bool" where
  "live p \<longleftrightarrow> p_Status p \<in> {PassPendingApproval, PassApproved, PassExecuting}"

text \<open>\<open>tstzrange(f1, t1, '[)') && tstzrange(f2, t2, '[)')\<close>; an empty range overlaps nothing.\<close>

definition ranges_overlap :: "time \<Rightarrow> time \<Rightarrow> time \<Rightarrow> time \<Rightarrow> bool" where
  "ranges_overlap f1 t1 f2 t2 \<longleftrightarrow> f1 < t1 \<and> f2 < t2 \<and> f1 < t2 \<and> f2 < t1"

definition excludes :: "pass \<Rightarrow> pass \<Rightarrow> bool" where
  "excludes p q \<longleftrightarrow> p_StationID p = p_StationID q \<and> live p \<and> live q \<and>
     ranges_overlap (p_ReservedFrom p) (p_ReservedTo p) (p_ReservedFrom q) (p_ReservedTo q)"

fun overlap_free :: "pass list \<Rightarrow> bool" where
  "overlap_free [] = True"
| "overlap_free (p # ps) = (list_all (\<lambda>q. \<not> excludes p q) ps \<and> overlap_free ps)"

definition pass_enums :: "pass \<Rightarrow> bool" where
  "pass_enums p \<longleftrightarrow> status_in_enum (p_Status p) \<and> visibility_in_enum (p_Visibility p) \<and>
     band_in_enum (p_Band p) \<and> mode_in_enum (p_RecordingMode p)"

definition pass_checks :: "pass \<Rightarrow> bool" where
  "pass_checks p \<longleftrightarrow>
     0 \<le> p_MaxElevationDegrees p \<and> p_MaxElevationDegrees p \<le> 90 \<and>
     0 \<le> p_RecordingPreRoll p \<and> 0 \<le> p_RecordingPostRoll p \<and>
     p_AOSAt p < p_LOSAt p \<and>
     p_ReservedFrom p \<le> p_AOSAt p \<and> p_LOSAt p \<le> p_ReservedTo p \<and>
     (p_Status p = PassCancelled \<longleftrightarrow> p_CancellationReason p \<noteq> None)"

definition missing :: "('r \<Rightarrow> uuid) \<Rightarrow> 'r list \<Rightarrow> uuid \<Rightarrow> bool" where
  "missing key rows k \<longleftrightarrow> \<not> exists_row (\<lambda>r. key r = k) rows"

definition missing_opt :: "('r \<Rightarrow> uuid) \<Rightarrow> 'r list \<Rightarrow> uuid option \<Rightarrow> bool" where
  "missing_opt key rows v \<longleftrightarrow> (case v of None \<Rightarrow> False | Some k \<Rightarrow> missing key rows k)"

definition pass_fk_error :: "database \<Rightarrow> pass \<Rightarrow> dberr option" where
  "pass_fk_error d p =
     (if missing st_ID (t_stations d) (p_StationID p)
      then Some (PgError foreignKeyViolation ''passes_station_id_fkey'')
      else if missing sat_ID (t_satellites d) (p_SatelliteID p)
      then Some (PgError foreignKeyViolation ''passes_satellite_id_fkey'')
      else if missing u_ID (t_users d) (p_RequestedBy p)
      then Some (PgError foreignKeyViolation ''passes_requested_by_fkey'')
      else if missing tle_ID (t_tle_records d) (p_TLERecordID p)
      then Some (PgError foreignKeyViolation ''passes_tle_record_id_fkey'')
      else if missing sc_ID (t_scheduling_configs d) (p_SchedulingConfigID p)
      then Some (PgError foreignKeyViolation ''passes_scheduling_config_id_fkey'')
      else if missing_opt pl_ID (t_pipelines d) (p_PipelineID p)
      then Some (PgError foreignKeyViolation ''passes_pipeline_id_fkey'')
      else None)"

text \<open>
  Errors of an INSERT in the server's order: conversion of the enum values, the generated
  range column, the checks, the indexes with the exclusion constraint last, the foreign keys.
\<close>

definition pass_insert_error :: "database \<Rightarrow> pass \<Rightarrow> dberr option" where
  "pass_insert_error d p =
     (if \<not> pass_enums p then Some (PgError ''22P02'' '''')
      else if p_ReservedTo p < p_ReservedFrom p then Some (PgError ''22000'' '''')
      else if \<not> pass_checks p then Some (PgError ''23514'' ''passes_check'')
      else if exists_row (\<lambda>q. p_ID q = p_ID p) (t_passes d) then Some (PgError ''23505'' ''passes_pkey'')
      else if exists_row (excludes p) (t_passes d) then Some (PgError ''23P01'' overlapConstraintName)
      else pass_fk_error d p)"

section \<open>Creating and reading passes\<close>

text \<open>The row that the INSERT stores and returns: the columns not named get their defaults.\<close>

definition stored_pass :: "env \<Rightarrow> nat \<Rightarrow> pass \<Rightarrow> pass" where
  "stored_pass e n p =
     p\<lparr>p_ID := env_uuid e n,
       p_AOSAt := env_ts e (p_AOSAt p), p_LOSAt := env_ts e (p_LOSAt p),
       p_TCAAt := map_option (env_ts e) (p_TCAAt p),
       p_MaxElevationDegrees := env_numeric e 1 (p_MaxElevationDegrees p),
       p_ReservedFrom := env_ts e (p_ReservedFrom p), p_ReservedTo := env_ts e (p_ReservedTo p),
       p_RecordingPreRoll := env_interval e (p_RecordingPreRoll p),
       p_RecordingPostRoll := env_interval e (p_RecordingPostRoll p),
       p_RadioSettings := json_map (p_RadioSettings p),
       p_ApprovedBy := None, p_ApprovedAt := None, p_CancellationReason := None,
       p_CancelledBy := None, p_CancelledAt := None,
       p_CreatedAt := env_now e n, p_UpdatedAt := env_now e n\<rparr>"

definition insert_pass_stmt :: "pass \<Rightarrow> pass option stmt" where
  "insert_pass_stmt p e n d =
     (case pass_insert_error d (stored_pass e n p) of
        Some err \<Rightarrow> Inl err
      | None \<Rightarrow> Inr (Some (stored_pass e n p), d\<lparr>t_passes := t_passes d @ [stored_pass e n p]\<rparr>))"

definition createPassOnce :: "pass \<Rightarrow> pass repo" where
  "createPassOnce p = query_row (insert_pass_stmt p)"

definition createPassRetries :: nat where "createPassRetries = 5"

text \<open>
  The loop of \<open>CreatePass\<close>: the fuel counts the attempts that are left, \<open>lastErr\<close> is the
  variable of the same name.  The pause between two attempts has no effect on the state.
\<close>

fun create_pass_attempts :: "nat \<Rightarrow> err \<Rightarrow> pass \<Rightarrow> pass repo" where
  "create_pass_attempts 0 lastErr p = fail lastErr"
| "create_pass_attempts (Suc k) lastErr p =
     attempt_or (createPassOnce p)
       (\<lambda>e. if \<not> errors_is e ErrSerialization then fail e
            else attempt ctx_cancelled (\<lambda>cancelled.
                   if cancelled then fail ErrContext else create_pass_attempts k e p))
       ret"

definition CreatePass :: "pass \<Rightarrow> pass repo" where
  "CreatePass p = create_pass_attempts createPassRetries (ErrText '''') p"

definition GetPassByID :: "uuid \<Rightarrow> pass repo" where
  "GetPassByID pid = query_row (select (\<lambda>e n d. find_row (\<lambda>p. p_ID p = pid) (t_passes d)))"

record pass_filter =
  pf_RequestedBy :: "uuid option"
  pf_Statuses :: "pass_status list"
  pf_From :: "time option"
  pf_To :: "time option"
  pf_OnlyPublic :: bool
  pf_Limit :: int

definition pass_matches :: "env \<Rightarrow> pass_filter \<Rightarrow> pass \<Rightarrow> bool" where
  "pass_matches e f p \<longleftrightarrow>
     (case pf_RequestedBy f of None \<Rightarrow> True | Some u \<Rightarrow> p_RequestedBy p = u) \<and>
     (pf_Statuses f \<noteq> [] \<longrightarrow> p_Status p \<in> set (pf_Statuses f)) \<and>
     (case pf_From f of None \<Rightarrow> True | Some t \<Rightarrow> env_ts e t \<le> p_AOSAt p) \<and>
     (case pf_To f of None \<Rightarrow> True | Some t \<Rightarrow> p_AOSAt p \<le> env_ts e t) \<and>
     (pf_OnlyPublic f \<longrightarrow> p_Visibility p = VisibilityPublic)"

definition list_passes_stmt :: "pass_filter \<Rightarrow> pass list stmt" where
  "list_passes_stmt f e n d =
     (if \<not> list_all status_in_enum (pf_Statuses f) then Inl (PgError ''22P02'' '''')
      else Inr (limit_rows (pf_Limit f) (sort_key p_AOSAt (filter (pass_matches e f) (t_passes d))), d))"

definition ListPasses :: "pass_filter \<Rightarrow> pass list repo" where
  "ListPasses f = query (list_passes_stmt f)"

definition conflicting :: "uuid \<Rightarrow> time \<Rightarrow> time \<Rightarrow> pass_status list \<Rightarrow> pass \<Rightarrow> bool" where
  "conflicting sid from to statuses p \<longleftrightarrow> p_StationID p = sid \<and> p_Status p \<in> set statuses \<and>
     ranges_overlap (p_ReservedFrom p) (p_ReservedTo p) from to"

definition find_conflicting_stmt ::
  "uuid \<Rightarrow> time \<Rightarrow> time \<Rightarrow> pass_status list \<Rightarrow> pass list stmt" where
  "find_conflicting_stmt sid from to statuses e n d =
     (if \<not> list_all status_in_enum statuses then Inl (PgError ''22P02'' '''')
      else if env_ts e to < env_ts e from then Inl (PgError ''22000'' '''')
      else Inr (sort_key p_ReservedFrom
             (filter (conflicting sid (env_ts e from) (env_ts e to) statuses) (t_passes d)), d))"

definition FindConflictingPasses ::
  "uuid \<Rightarrow> time \<Rightarrow> time \<Rightarrow> pass_status list \<Rightarrow> pass list repo" where
  "FindConflictingPasses sid from to statuses = query (find_conflicting_stmt sid from to statuses)"

section \<open>Changing the status of a pass\<close>

text \<open>
  \<open>UPDATE passes SET .. WHERE id = $1 AND status ..\<close>: \<open>P\<close> is the condition, \<open>f\<close> the new
  values, \<open>user\<close> the foreign key that a column newly holds, with its constraint.  The server rejects the statement if a
  changed row fails a check, overlaps another live pass or refers to a missing user.
\<close>

definition touch :: "time \<Rightarrow> (pass \<Rightarrow> pass) \<Rightarrow> pass \<Rightarrow> pass" where
  "touch t f p = (f p)\<lparr>p_UpdatedAt := t\<rparr>"

definition update_passes_stmt ::
  "(pass \<Rightarrow> bool) \<Rightarrow> (pass \<Rightarrow> pass) \<Rightarrow> (string \<times> uuid) option \<Rightarrow> nat stmt" where
  "update_passes_stmt P f user e n d =
     (let rows = update_rows P (touch (env_now e n) f) (t_passes d)
      in if \<not> exists_row P (t_passes d) then Inr (0, d)
         else if exists_row (\<lambda>p. P p \<and> \<not> pass_checks (f p)) (t_passes d)
         then Inl (PgError ''23514'' ''passes_check'')
         else if \<not> overlap_free rows then Inl (PgError ''23P01'' overlapConstraintName)
         else if missing_opt u_ID (t_users d) (map_option snd user)
         then Inl (PgError foreignKeyViolation (fst (the user)))
         else Inr (rows_affected P (t_passes d), d\<lparr>t_passes := rows\<rparr>))"

definition is_pending :: "uuid \<Rightarrow> pass \<Rightarrow> bool" where
  "is_pending pid p \<longleftrightarrow> p_ID p = pid \<and> p_Status p = PassPendingApproval"

definition approve_pass_stmt :: "uuid \<Rightarrow> uuid \<Rightarrow> time \<Rightarrow> nat stmt" where
  "approve_pass_stmt pid approvedBy moment e =
     update_passes_stmt (is_pending pid)
       (\<lambda>p. p\<lparr>p_Status := PassApproved, p_ApprovedBy := Some approvedBy,
             p_ApprovedAt := Some (env_ts e moment)\<rparr>) (Some (''passes_approved_by_fkey'', approvedBy)) e"

definition ApprovePass :: "uuid \<Rightarrow> uuid \<Rightarrow> time \<Rightarrow> unit repo" where
  "ApprovePass pid approvedBy moment = exec_one (approve_pass_stmt pid approvedBy moment)"

definition reject_pass_stmt :: "uuid \<Rightarrow> uuid \<Rightarrow> time \<Rightarrow> nat stmt" where
  "reject_pass_stmt pid decidedBy moment e =
     update_passes_stmt (is_pending pid)
       (\<lambda>p. p\<lparr>p_Status := PassRejected, p_ApprovedBy := Some decidedBy,
             p_ApprovedAt := Some (env_ts e moment)\<rparr>) (Some (''passes_approved_by_fkey'', decidedBy)) e"

definition RejectPass :: "uuid \<Rightarrow> uuid \<Rightarrow> time \<Rightarrow> unit repo" where
  "RejectPass pid decidedBy moment = exec_one (reject_pass_stmt pid decidedBy moment)"

definition cancel_pass_stmt :: "uuid \<Rightarrow> uuid \<Rightarrow> cancellation_reason \<Rightarrow> time \<Rightarrow> nat stmt" where
  "cancel_pass_stmt pid cancelledBy reason moment e =
     update_passes_stmt
       (\<lambda>p. p_ID p = pid \<and> (p_Status p = PassPendingApproval \<or> p_Status p = PassApproved))
       (\<lambda>p. p\<lparr>p_Status := PassCancelled, p_CancellationReason := Some reason,
             p_CancelledBy := Some cancelledBy, p_CancelledAt := Some (env_ts e moment)\<rparr>)
       (Some (''passes_cancelled_by_fkey'', cancelledBy)) e"

definition CancelPass :: "uuid \<Rightarrow> uuid \<Rightarrow> cancellation_reason \<Rightarrow> time \<Rightarrow> unit repo" where
  "CancelPass pid cancelledBy reason moment = exec_one (cancel_pass_stmt pid cancelledBy reason moment)"

text \<open>A status that comes as a parameter is converted to the enum first.\<close>

definition set_status_stmt :: "(pass \<Rightarrow> bool) \<Rightarrow> pass_status \<Rightarrow> nat stmt" where
  "set_status_stmt P status e n d =
     (if \<not> status_in_enum status then Inl (PgError ''22P02'' '''')
      else update_passes_stmt P (\<lambda>p. p\<lparr>p_Status := status\<rparr>) None e n d)"

definition pass_outcome_stmt :: "uuid \<Rightarrow> pass_status \<Rightarrow> nat stmt" where
  "pass_outcome_stmt pid status =
     set_status_stmt
       (\<lambda>p. p_ID p = pid \<and> (p_Status p = PassApproved \<or> p_Status p = PassExecuting)) status"

definition SetPassOutcome :: "uuid \<Rightarrow> pass_status \<Rightarrow> bool repo" where
  "SetPassOutcome pid status = attempt (query (pass_outcome_stmt pid status)) (\<lambda>k. ret (k = 1))"

text \<open>\<open>SetPassStatus\<close> has no condition on the old status; only the integration test calls it.\<close>

definition SetPassStatus :: "uuid \<Rightarrow> pass_status \<Rightarrow> unit repo" where
  "SetPassStatus pid status =
     exec_one (set_status_stmt (\<lambda>p. p_ID p = pid) status)"

section \<open>Pass plans\<close>

definition plan_error :: "database \<Rightarrow> stored_pass_plan \<Rightarrow> dberr option" where
  "plan_error d p =
     (if \<not> 0 < pp_PlanVersion p then Some (PgError ''23514'' ''pass_plans_plan_version_check'')
      else if \<not> hex64 (pp_Generation p) then Some (PgError ''23514'' ''pass_plans_generation_shape'')
      else if pp_Encoded p = [] then Some (PgError ''23514'' ''pass_plans_encoded_not_empty'')
      else if missing p_ID (t_passes d) (pp_PassID p)
      then Some (PgError foreignKeyViolation ''pass_plans_pass_id_fkey'')
      else None)"

text \<open>
  \<open>INSERT .. ON CONFLICT (pass_id) DO UPDATE .. WHERE generation <> EXCLUDED.generation
  RETURNING true\<close>: no row comes back when the stored generation is the same.
\<close>

definition upsert_plan_stmt :: "stored_pass_plan \<Rightarrow> bool option stmt" where
  "upsert_plan_stmt plan e n d =
     (let row = plan\<lparr>pp_GeneratedAt := env_ts e (pp_GeneratedAt plan)\<rparr>
      in case plan_error d row of
           Some err \<Rightarrow> Inl err
         | None \<Rightarrow>
             (case find_row (\<lambda>p. pp_PassID p = pp_PassID row) (t_pass_plans d) of
                None \<Rightarrow> Inr (Some True, d\<lparr>t_pass_plans := t_pass_plans d @ [row]\<rparr>)
              | Some old \<Rightarrow>
                  if pp_Generation old = pp_Generation row then Inr (None, d)
                  else Inr (Some True, d\<lparr>t_pass_plans :=
                    update_rows (\<lambda>p. pp_PassID p = pp_PassID row) (\<lambda>_. row) (t_pass_plans d)\<rparr>)))"

text \<open>\<open>isNoRows\<close> is tested before \<open>translate\<close>.\<close>

definition UpsertPassPlan :: "stored_pass_plan \<Rightarrow> bool repo" where
  "UpsertPassPlan plan w =
     (case scan_row (upsert_plan_stmt plan) w of
        (Inl NoRows, w') \<Rightarrow> (Inr False, w')
      | (Inl e, w') \<Rightarrow> (Inl (translate e), w')
      | (Inr changed, w') \<Rightarrow> (Inr changed, w'))"

definition GetPassPlan :: "uuid \<Rightarrow> stored_pass_plan repo" where
  "GetPassPlan pid = query_row (select (\<lambda>e n d. find_row (\<lambda>p. pp_PassID p = pid) (t_pass_plans d)))"

text \<open>The join of plans and passes, in the order of \<open>passes.aos_at\<close>.\<close>

definition plan_due :: "uuid \<Rightarrow> time \<Rightarrow> pass \<Rightarrow> bool" where
  "plan_due sid notBefore p \<longleftrightarrow>
     p_StationID p = sid \<and> p_Status p = PassApproved \<and> notBefore \<le> p_LOSAt p"

definition plans_for_station :: "uuid \<Rightarrow> time \<Rightarrow> database \<Rightarrow> stored_pass_plan list" where
  "plans_for_station sid notBefore d =
     concat (map (\<lambda>p. filter (\<lambda>pl. pp_PassID pl = p_ID p) (t_pass_plans d))
       (sort_key p_AOSAt (filter (plan_due sid notBefore) (t_passes d))))"

definition ListPassPlansForStation :: "uuid \<Rightarrow> time \<Rightarrow> stored_pass_plan list repo" where
  "ListPassPlansForStation sid notBefore =
     query (select (\<lambda>e n d. plans_for_station sid (env_ts e notBefore) d))"

definition delete_plan_stmt :: "uuid \<Rightarrow> unit stmt" where
  "delete_plan_stmt pid e n d =
     Inr ((), d\<lparr>t_pass_plans := delete_rows (\<lambda>p. pp_PassID p = pid) (t_pass_plans d)\<rparr>)"

definition DeletePassPlan :: "uuid \<Rightarrow> unit repo" where
  "DeletePassPlan pid = query (delete_plan_stmt pid)"

section \<open>Recordings\<close>

definition recording_error :: "database \<Rightarrow> recording \<Rightarrow> dberr option" where
  "recording_error d r =
     (if r_Status r \<noteq> ''stored'' \<and> r_Status r \<noteq> ''failed'' then Some (PgError ''22P02'' '''')
      else if r_SizeBytes r < 0 then Some (PgError ''23514'' ''recordings_size_bytes_check'')
      else if \<not> hex64 (r_RecordingID r) then Some (PgError ''23514'' ''recordings_id_shape'')
      else if \<not> hex64 (r_ChecksumSHA256 r) then Some (PgError ''23514'' ''recordings_checksum_shape'')
      else None)"

definition recording_fk_error :: "database \<Rightarrow> recording \<Rightarrow> dberr option" where
  "recording_fk_error d r =
     (if missing p_ID (t_passes d) (r_PassID r)
      then Some (PgError foreignKeyViolation ''recordings_pass_id_fkey'')
      else if missing_opt w_ID (t_workers d) (r_WorkerID r)
      then Some (PgError foreignKeyViolation ''recordings_worker_id_fkey'')
      else if missing st_ID (t_stations d) (r_StationID r)
      then Some (PgError foreignKeyViolation ''recordings_station_id_fkey'')
      else None)"

text \<open>
  \<open>ON CONFLICT (recording_id) DO NOTHING\<close> covers the primary key only: a second recording
  with the same pass and relative path still violates its unique constraint.
\<close>

definition insert_recording_stmt :: "recording \<Rightarrow> nat stmt" where
  "insert_recording_stmt r e n d =
     (case recording_error d r of
        Some err \<Rightarrow> Inl err
      | None \<Rightarrow>
          if exists_row (\<lambda>x. r_RecordingID x = r_RecordingID r) (t_recordings d) then Inr (0, d)
          else if exists_row (\<lambda>x. r_PassID x = r_PassID r \<and> r_RelativePath x = r_RelativePath r)
                 (t_recordings d)
          then Inl (PgError ''23505'' ''recordings_pass_id_relative_path_key'')
          else case recording_fk_error d r of
                 Some err \<Rightarrow> Inl err
               | None \<Rightarrow> Inr (1, d\<lparr>t_recordings := t_recordings d @
                   [r\<lparr>r_StartedAt := map_option (env_ts e) (r_StartedAt r),
                      r_FinishedAt := map_option (env_ts e) (r_FinishedAt r),
                      r_ReceivedAt := env_now e n\<rparr>]\<rparr>))"

definition InsertRecordingIfAbsent :: "recording \<Rightarrow> bool repo" where
  "InsertRecordingIfAbsent r = attempt (query (insert_recording_stmt r)) (\<lambda>k. ret (k = 1))"

definition GetRecording :: "string \<Rightarrow> recording repo" where
  "GetRecording rid =
     query_row (select (\<lambda>e n d. find_row (\<lambda>r. r_RecordingID r = rid) (t_recordings d)))"

definition ListRecordingsForPass :: "(string \<Rightarrow> nat) \<Rightarrow> uuid \<Rightarrow> recording list repo" where
  "ListRecordingsForPass collate pid =
     query (select (\<lambda>e n d. sort_key (\<lambda>r. collate (r_RelativePath r))
       (filter (\<lambda>r. r_PassID r = pid) (t_recordings d))))"

definition CountRecordings :: "uuid \<Rightarrow> nat repo" where
  "CountRecordings pid =
     query (select (\<lambda>e n d. rows_affected (\<lambda>r. r_PassID r = pid) (t_recordings d)))"

record recording_with_pass =
  rp_Recording :: recording
  rp_SatelliteID :: uuid
  rp_PassAOS :: time
  rp_Visibility :: pass_visibility
  rp_RequestedBy :: uuid

definition with_pass :: "recording \<Rightarrow> pass \<Rightarrow> recording_with_pass" where
  "with_pass r p =
     \<lparr>rp_Recording = r, rp_SatelliteID = p_SatelliteID p, rp_PassAOS = p_AOSAt p,
      rp_Visibility = p_Visibility p, rp_RequestedBy = p_RequestedBy p\<rparr>"

definition visible_recordings ::
  "(pass \<Rightarrow> bool) \<Rightarrow> nat \<Rightarrow> database \<Rightarrow> recording_with_pass list" where
  "visible_recordings P k d =
     take k (concat (map (\<lambda>r. map (with_pass r) (filter (\<lambda>p. p_ID p = r_PassID r \<and> P p) (t_passes d)))
       (sort_key (\<lambda>r. - r_ReceivedAt r) (t_recordings d))))"

definition ListRecordingsVisibleTo ::
  "uuid option \<Rightarrow> bool \<Rightarrow> bool \<Rightarrow> nat \<Rightarrow> recording_with_pass list repo" where
  "ListRecordingsVisibleTo ownerID publicOnly includeAll k =
     (if includeAll then query (select (\<lambda>e n d. visible_recordings (\<lambda>p. True) k d))
      else if publicOnly
      then query (select (\<lambda>e n d. visible_recordings (\<lambda>p. p_Visibility p = VisibilityPublic) k d))
      else case ownerID of
             Some u \<Rightarrow> query (select (\<lambda>e n d. visible_recordings (\<lambda>p. p_RequestedBy p = u) k d))
           | None \<Rightarrow> ret [])"

end
