(* ===== verification/Store_Steps.thy ===== *)
theory Store_Steps
  imports Store_Accounts Store_Station Store_Passes
begin

text \<open>
  Every write statement that the server issues, as one step relation on the tables.  A
  handler is a sequence of such steps, and handlers that run concurrently interleave them,
  so a relation that contains every step and is reflexive and transitive holds between the
  tables before and after any part of any execution.  The locale \<open>server_guarantee\<close> proves
  for each method of the repository that it stays within such a relation; the
  interpretations supply the relations that matter: no station is booked twice, a pass only
  moves along its life cycle, the audit log only grows, the root account stays.

  The guards of the rules are what every caller in the server ensures: a pass is inserted
  as pending, and a worker reports completed, failed or missed.
\<close>

section \<open>The step relation\<close>

inductive sql_step :: "database \<Rightarrow> database \<Rightarrow> bool" where
  insert_user: "insert_user_stmt u e n d = Inr (x, d') \<Longrightarrow> sql_step d d'"
| update_user: "update_user_stmt uid f e n d = Inr (k, d') \<Longrightarrow> (\<And>u. u_ID (f u) = u_ID u) \<Longrightarrow> sql_step d d'"
| delete_user: "delete_user_stmt uid e n d = Inr (k, d') \<Longrightarrow> sql_step d d'"
| mark_initialized: "mark_initialized_stmt t e n d = Inr (v, d') \<Longrightarrow> sql_step d d'"
| insert_audit: "insert_audit_stmt a e n d = Inr (y, d') \<Longrightarrow> sql_step d d'"
| insert_station: "insert_station_stmt s e n d = Inr (z, d') \<Longrightarrow> sql_step d d'"
| update_station: "update_station_stmt sid g e n d = Inr (z, d') \<Longrightarrow> (\<And>s. st_ID (g s) = st_ID s) \<Longrightarrow> sql_step d d'"
| upsert_band: "upsert_band_stmt c e n d = Inr (v, d') \<Longrightarrow> sql_step d d'"
| upsert_hardware: "upsert_hardware_stmt h e n d = Inr (v, d') \<Longrightarrow> sql_step d d'"
| insert_config: "insert_scheduling_config_stmt sc e n d = Inr (sx, d') \<Longrightarrow> sql_step d d'"
| insert_worker: "insert_worker_stmt wk e n d = Inr (wx, d') \<Longrightarrow> sql_step d d'"
| update_worker: "update_worker_stmt wid wkf e n d = Inr (k, d') \<Longrightarrow> (\<And>e w. w_ID (wkf e w) = w_ID w) \<Longrightarrow> sql_step d d'"
| mark_stale: "mark_stale_stmt t e n d = Inr (names, d') \<Longrightarrow> sql_step d d'"
| insert_satellite: "insert_satellite_stmt sat e n d = Inr (satx, d') \<Longrightarrow> sql_step d d'"
| update_satellite: "update_satellite_stmt sid sf e n d = Inr (satx, d') \<Longrightarrow> (\<And>s. sat_ID (sf s) = sat_ID s) \<Longrightarrow> sql_step d d'"
| delete_satellite: "delete_satellite_stmt sid e n d = Inr (k, d') \<Longrightarrow> sql_step d d'"
| insert_tle: "insert_tle_stmt tle e n d = Inr (tlex, d') \<Longrightarrow> sql_step d d'"
| insert_pipeline: "insert_pipeline_stmt pl by_user e n d = Inr (plx, d') \<Longrightarrow> sql_step d d'"
| withdraw_pipelines: "withdraw_pipelines_stmt names e n d = Inr (k, d') \<Longrightarrow> sql_step d d'"
| insert_standard: "insert_standard_stmt nm e n d = Inr (v, d') \<Longrightarrow> sql_step d d'"
| set_pipeline_path: "set_pipeline_path_stmt pid path e n d = Inr (k, d') \<Longrightarrow> sql_step d d'"
| insert_pass: "insert_pass_stmt p e n d = Inr (px, d') \<Longrightarrow> p_Status p = PassPendingApproval \<Longrightarrow> sql_step d d'"
| approve_pass: "approve_pass_stmt pid actor t e n d = Inr (k, d') \<Longrightarrow> sql_step d d'"
| reject_pass: "reject_pass_stmt pid actor t e n d = Inr (k, d') \<Longrightarrow> sql_step d d'"
| cancel_pass: "cancel_pass_stmt pid actor reason t e n d = Inr (k, d') \<Longrightarrow> sql_step d d'"
| pass_outcome: "pass_outcome_stmt pid status e n d = Inr (k, d') \<Longrightarrow>
     status \<in> {PassCompleted, PassFailed, PassMissed} \<Longrightarrow> sql_step d d'"
| upsert_plan: "upsert_plan_stmt plan e n d = Inr (b, d') \<Longrightarrow> sql_step d d'"
| delete_plan: "delete_plan_stmt pid e n d = Inr (v, d') \<Longrightarrow> sql_step d d'"
| insert_recording: "insert_recording_stmt r e n d = Inr (k, d') \<Longrightarrow> sql_step d d'"

section \<open>The methods that only read\<close>

context guarantee begin

lemma stmt_list_passes [guar_intro]: "stmt_guar G (list_passes_stmt f)"
  by (auto simp: stmt_guar_def list_passes_stmt_def G_refl split: if_splits)

lemma stmt_find_conflicting [guar_intro]: "stmt_guar G (find_conflicting_stmt sid from to sts)"
  by (auto simp: stmt_guar_def find_conflicting_stmt_def G_refl split: if_splits)

lemma reads [guar_intro]:
  "guar G (GetUserByUsername nm)" "guar G (GetUserByID uid)" "guar G CountUsers" "guar G ListUsers"
  "guar G SystemInitializedAt" "guar G (ListAuditRecords af)"
  "guar G (GetStationByID sid)" "guar G ListStations"
  "guar G (GetStationBandConfigs sid)" "guar G (GetStationHardwareConfig sid)"
  "guar G (LatestEffectiveSchedulingConfig sid t)" "guar G (PendingSchedulingConfig sid t)"
  "guar G (GetSchedulingConfigByID cid)" "guar G (GetStationWorker sid)"
  "guar G (GetSatelliteByID sid)" "guar G (GetTLERecordByID tid)" "guar G (LatestTLERecord sid)"
  "guar G (GetPipelineByID pid)" "guar G (GetPassByID pid)" "guar G (ListPasses pf)"
  "guar G (FindConflictingPasses sid from to sts)" "guar G (GetPassPlan pid)"
  "guar G (ListPassPlansForStation sid t)" "guar G (GetRecording rid)"
  by (auto simp: GetUserByUsername_def GetUserByID_def CountUsers_def ListUsers_def
      SystemInitializedAt_def ListAuditRecords_def GetStationByID_def ListStations_def
      GetStationBandConfigs_def GetStationHardwareConfig_def LatestEffectiveSchedulingConfig_def
      PendingSchedulingConfig_def GetSchedulingConfigByID_def GetStationWorker_def
      GetSatelliteByID_def GetTLERecordByID_def LatestTLERecord_def GetPipelineByID_def
      GetPassByID_def ListPasses_def FindConflictingPasses_def GetPassPlan_def
      ListPassPlansForStation_def GetRecording_def
      intro!: query query_row select stmt_list_passes stmt_find_conflicting)

end

section \<open>Each method of the repository takes steps only\<close>

locale server_guarantee = guarantee +
  assumes step: "sql_step d d' \<Longrightarrow> G d d'"
begin

lemma stmts [guar_intro]:
  "stmt_guar G (insert_user_stmt u)"
  "(\<And>v. u_ID (f v) = u_ID v) \<Longrightarrow> stmt_guar G (update_user_stmt uid f)"
  "stmt_guar G (delete_user_stmt uid)"
  "stmt_guar G (mark_initialized_stmt t)"
  "stmt_guar G (insert_audit_stmt a)"
  "stmt_guar G (insert_station_stmt s)"
  "(\<And>s. st_ID (g s) = st_ID s) \<Longrightarrow> stmt_guar G (update_station_stmt sid g)"
  "stmt_guar G (upsert_band_stmt c)"
  "stmt_guar G (upsert_hardware_stmt h)"
  "stmt_guar G (insert_scheduling_config_stmt sc)"
  "stmt_guar G (insert_worker_stmt wk)"
  "(\<And>e w. w_ID (wkf e w) = w_ID w) \<Longrightarrow> stmt_guar G (update_worker_stmt wid wkf)"
  "stmt_guar G (mark_stale_stmt t)"
  by (auto simp: stmt_guar_def intro: step sql_step.intros)

lemma stmts_catalog [guar_intro]:
  "stmt_guar G (insert_satellite_stmt sat)"
  "(\<And>s. sat_ID (sf s) = sat_ID s) \<Longrightarrow> stmt_guar G (update_satellite_stmt sid sf)"
  "stmt_guar G (delete_satellite_stmt sid)"
  "stmt_guar G (insert_tle_stmt tle)"
  "stmt_guar G (insert_pipeline_stmt pl by_user)"
  "stmt_guar G (withdraw_pipelines_stmt names)"
  "stmt_guar G (insert_standard_stmt nm)"
  "stmt_guar G (set_pipeline_path_stmt pid path)"
  by (auto simp: stmt_guar_def intro: step sql_step.intros)

lemma stmts_passes [guar_intro]:
  "p_Status p = PassPendingApproval \<Longrightarrow> stmt_guar G (insert_pass_stmt p)"
  "stmt_guar G (approve_pass_stmt pid actor t)"
  "stmt_guar G (reject_pass_stmt pid actor t)"
  "stmt_guar G (cancel_pass_stmt pid actor reason t)"
  "status \<in> {PassCompleted, PassFailed, PassMissed} \<Longrightarrow> stmt_guar G (pass_outcome_stmt pid status)"
  "stmt_guar G (upsert_plan_stmt plan)"
  "stmt_guar G (delete_plan_stmt pid)"
  "stmt_guar G (insert_recording_stmt r)"
  by (auto simp: stmt_guar_def intro: step sql_step.intros)

lemma stmt_heartbeat [guar_intro]: "stmt_guar G (heartbeat_stmt u)"
  using stmts(12) [of "heartbeat_row u" "hb_WorkerID u"]
  by (auto simp: stmt_guar_def heartbeat_stmt_def split: if_splits)

lemma accounts [guar_intro]:
  "guar G (CreateUser u)" "guar G (GetUserByUsername nm)" "guar G (GetUserByID uid)"
  "guar G CountUsers" "guar G ListUsers" "guar G (SetPassword uid hash)"
  "guar G (SetUserRole uid role)" "guar G (DeleteUser uid)"
  "guar G SystemInitializedAt" "guar G (MarkSystemInitialized t)"
  "guar G (AppendAudit a)" "guar G (CountAuditRecords ty ent)" "guar G (ListAuditRecords af)"
  by (auto simp: CreateUser_def GetUserByUsername_def GetUserByID_def CountUsers_def ListUsers_def
      SetPassword_def SetUserRole_def DeleteUser_def SystemInitializedAt_def MarkSystemInitialized_def
      AppendAudit_def CountAuditRecords_def ListAuditRecords_def
      intro!: query query_row exec_user select stmts)

lemma station_methods [guar_intro]:
  "guar G (CreateStation s)" "guar G (GetStationByID sid)" "guar G ListStations"
  "guar G (SetStationActiveBand sid band)" "guar G (UpdateStation s)"
  "guar G (UpsertStationBandConfig c)" "guar G (GetStationBandConfigs sid)"
  "guar G (UpsertStationHardwareConfig h)" "guar G (GetStationHardwareConfig sid)"
  "guar G (CreateSchedulingConfig sc)" "guar G (LatestEffectiveSchedulingConfig sid t)"
  "guar G (PendingSchedulingConfig sid t)" "guar G (GetSchedulingConfigByID cid)"
  by (auto simp: CreateStation_def GetStationByID_def ListStations_def SetStationActiveBand_def
      UpdateStation_def UpsertStationBandConfig_def GetStationBandConfigs_def
      UpsertStationHardwareConfig_def GetStationHardwareConfig_def CreateSchedulingConfig_def
      LatestEffectiveSchedulingConfig_def PendingSchedulingConfig_def GetSchedulingConfigByID_def
      intro!: query query_row exec_one select stmts affected_stmt)

lemma worker_methods [guar_intro]:
  "guar G (CreateWorker wk)" "guar G (GetWorkerByName nm)" "guar G (GetWorkerByID wid)"
  "guar G (GetStationWorker sid)" "guar G (SetWorkerConnectionState wid state seen)"
  "guar G (RecordHeartbeat hb)" "guar G (RecordWorkerSync wid t gen)"
  "guar G (MarkStaleWorkersOffline t)" "guar G (ListWorkers coll)"
  by (auto simp: CreateWorker_def GetWorkerByName_def GetWorkerByID_def GetStationWorker_def
      SetWorkerConnectionState_def RecordHeartbeat_def RecordWorkerSync_def
      MarkStaleWorkersOffline_def ListWorkers_def
      intro!: query query_row exec_one select stmts stmt_heartbeat attempt ret)

lemma catalog_methods [guar_intro]:
  "guar G (CreateSatellite sat)" "guar G (GetSatelliteByNoradID nid)" "guar G (GetSatelliteByID sid)"
  "guar G ListSatellites" "guar G (UpdateSatellite sid nm desc sch)"
  "guar G (SetSatelliteMetadata sid meta)" "guar G (DeleteSatellite sid)"
  "guar G (CreateTLERecord tle)" "guar G (LatestTLERecord sid)" "guar G (ListTLERecords sid k)"
  "guar G (GetTLERecordByID tid)" "guar G LatestTLERecordForEach"
  "guar G (GetPipelineByID pid)" "guar G (CreatePipeline pl by_user)" "guar G (ListPipelines coll)"
  "guar G (ReplaceStandardPipelines names)" "guar G (SetPipelineDefinitionPath pid path)"
  by (auto simp: CreateSatellite_def GetSatelliteByNoradID_def GetSatelliteByID_def ListSatellites_def
      UpdateSatellite_def SetSatelliteMetadata_def DeleteSatellite_def CreateTLERecord_def
      LatestTLERecord_def ListTLERecords_def GetTLERecordByID_def LatestTLERecordForEach_def
      GetPipelineByID_def CreatePipeline_def ListPipelines_def ReplaceStandardPipelines_def
      SetPipelineDefinitionPath_def
      intro!: query query_row exec_one select stmts_catalog affected_stmt attempt for_each ret)

lemma create_pass_attempts [guar_intro]:
  "p_Status p = PassPendingApproval \<Longrightarrow> guar G (create_pass_attempts k err p)"
  by (induction k arbitrary: err)
     (auto simp: createPassOnce_def intro!: fail attempt_or attempt ret ctx_cancelled query_row stmts_passes if_guar)

lemma CreatePass [guar_intro]: "p_Status p = PassPendingApproval \<Longrightarrow> guar G (CreatePass p)"
  by (simp add: CreatePass_def create_pass_attempts)

lemma UpsertPassPlan [guar_intro]: "guar G (UpsertPassPlan plan)"
  using query_row [OF stmts_passes(6) [of plan]]
  by (auto simp: guar_def UpsertPassPlan_def query_row_def translated_def
      split: sum.splits prod.splits dberr.splits) (metis snd_conv)+

lemma pass_methods [guar_intro]:
  "guar G (GetPassByID pid)" "guar G (ListPasses pf)"
  "guar G (FindConflictingPasses sid from to sts)" "guar G (ApprovePass pid actor t)"
  "guar G (RejectPass pid actor t)" "guar G (CancelPass pid actor reason t)"
  "status \<in> {PassCompleted, PassFailed, PassMissed} \<Longrightarrow> guar G (SetPassOutcome pid status)"
  "guar G (GetPassPlan pid)" "guar G (ListPassPlansForStation sid t)" "guar G (DeletePassPlan pid)"
  "guar G (InsertRecordingIfAbsent r)" "guar G (GetRecording rid)"
  "guar G (ListRecordingsForPass coll pid)" "guar G (CountRecordings pid)"
  "guar G (ListRecordingsVisibleTo owner po ia k)"
  by (auto simp: GetPassByID_def ListPasses_def FindConflictingPasses_def ApprovePass_def RejectPass_def
      CancelPass_def SetPassOutcome_def GetPassPlan_def ListPassPlansForStation_def DeletePassPlan_def
      InsertRecordingIfAbsent_def GetRecording_def ListRecordingsForPass_def CountRecordings_def
      ListRecordingsVisibleTo_def
      intro!: query query_row exec_one select stmts_passes stmt_list_passes stmt_find_conflicting
        attempt ret if_guar split: option.splits)

end

end
