(* ===== verification/Store_Invariants.thy ===== *)
theory Store_Invariants
  imports Store_Steps
begin

text \<open>
  The relations between tables that every statement keeps, as interpretations of
  \<open>server_guarantee\<close>: \<open>booking\<close> (well-formed passes without double booking), \<open>life\<close> (a pass
  keeps its data and moves along the life cycle), \<open>log\<close> (the audit log is append-only),
  \<open>accounts\<close> (distinct users, one root account that stays) and \<open>first_run\<close> (the first-run marker
  is written once).
\<close>

lemmas write_stmt_defs = insert_user_stmt_def update_user_stmt_def delete_user_stmt_def
  mark_initialized_stmt_def insert_audit_stmt_def insert_station_stmt_def update_station_stmt_def
  upsert_band_stmt_def upsert_hardware_stmt_def insert_scheduling_config_stmt_def
  insert_worker_stmt_def update_worker_stmt_def mark_stale_stmt_def insert_satellite_stmt_def
  update_satellite_stmt_def delete_satellite_stmt_def insert_tle_stmt_def insert_pipeline_stmt_def
  withdraw_pipelines_stmt_def insert_standard_stmt_def set_pipeline_path_stmt_def
  insert_pass_stmt_def approve_pass_stmt_def reject_pass_stmt_def cancel_pass_stmt_def
  pass_outcome_stmt_def set_status_stmt_def update_passes_stmt_def upsert_plan_stmt_def
  delete_plan_stmt_def insert_recording_stmt_def

section \<open>What a step does to the table of passes\<close>

definition status_update :: "(pass_status \<Rightarrow> pass_status \<Rightarrow> bool) \<Rightarrow> pass \<Rightarrow> pass \<Rightarrow> bool" where
  "status_update R p q \<longleftrightarrow>
     R (p_Status p) (p_Status q) \<and>
     p_ID q = p_ID p \<and> p_StationID q = p_StationID p \<and> p_SatelliteID q = p_SatelliteID p \<and>
     p_RequestedBy q = p_RequestedBy p \<and> p_TLERecordID q = p_TLERecordID p \<and>
     p_SchedulingConfigID q = p_SchedulingConfigID p \<and> p_Visibility q = p_Visibility p \<and>
     p_Band q = p_Band p \<and> p_AOSAt q = p_AOSAt p \<and> p_LOSAt q = p_LOSAt p \<and>
     p_ReservedFrom q = p_ReservedFrom p \<and> p_ReservedTo q = p_ReservedTo p \<and>
     p_RecordingMode q = p_RecordingMode p \<and> p_PipelineID q = p_PipelineID p \<and>
     p_CreatedAt q = p_CreatedAt p"

text \<open>The moves that the conditions of the UPDATE statements admit.\<close>

fun sql_moves :: "pass_status \<Rightarrow> pass_status set" where
  "sql_moves PassPendingApproval = {PassApproved, PassRejected, PassCancelled}"
| "sql_moves PassApproved = {PassCancelled, PassCompleted, PassFailed, PassMissed}"
| "sql_moves PassExecuting = {PassCompleted, PassFailed, PassMissed}"
| "sql_moves _ = {}"

definition sql_move :: "pass_status \<Rightarrow> pass_status \<Rightarrow> bool" where
  "sql_move s t \<longleftrightarrow> t \<in> sql_moves s"

lemma update_passes_stmtD:
  assumes "update_passes_stmt P f user e n d = Inr (k, d')"
  shows "d' = d\<lparr>t_passes := update_rows P (touch (env_now e n) f) (t_passes d)\<rparr>"
    and "\<exists>p\<in>set (t_passes d). P p \<Longrightarrow> overlap_free (t_passes d')"
    and "\<forall>p\<in>set (t_passes d). P p \<longrightarrow> pass_checks (f p)"
proof -
  have "update_rows P g (t_passes d) = t_passes d" if "\<not> exists_row P (t_passes d)" for g
    using that by (auto simp: exists_row_iff intro: update_rows_ident)
  then show "d' = d\<lparr>t_passes := update_rows P (touch (env_now e n) f) (t_passes d)\<rparr>"
    using assms by (auto simp: update_passes_stmt_def Let_def split: if_splits)
qed (use assms in \<open>auto simp: update_passes_stmt_def Let_def exists_row_iff split: if_splits\<close>)

lemma is_pendingD: "is_pending pid p \<Longrightarrow> p_Status p = PassPendingApproval"
  by (simp add: is_pending_def)

lemma status_update_touch:
  "status_update R p (f p) \<Longrightarrow> status_update R p (touch t f p)"
  by (simp add: status_update_def touch_def)

lemma sql_step_passes [consumes 1, case_names same inserted moved forgot]:
  assumes "sql_step d d'"
  obtains "t_passes d' = t_passes d"
  | p e n where "pass_insert_error d (stored_pass e n p) = None" "p_Status p = PassPendingApproval"
      "t_passes d' = t_passes d @ [stored_pass e n p]"
  | P f t where "t_passes d' = update_rows P (touch t f) (t_passes d)"
      "\<exists>p\<in>set (t_passes d). P p \<Longrightarrow> overlap_free (t_passes d')"
      "\<forall>p\<in>set (t_passes d). P p \<longrightarrow> pass_checks (f p)"
      "\<And>p. P p \<Longrightarrow> status_update sql_move p (f p)"
  | uid t where "t_passes d' = update_rows (\<lambda>p. p_ApprovedBy p = Some uid \<or> p_CancelledBy p = Some uid)
               (\<lambda>p. p\<lparr>p_ApprovedBy := forget_user uid (p_ApprovedBy p),
                      p_CancelledBy := forget_user uid (p_CancelledBy p),
                      p_UpdatedAt := t\<rparr>) (t_passes d)"
  using assms
proof cases
  case (insert_pass p e n px)
  then show ?thesis
    by (auto simp: insert_pass_stmt_def split: option.splits intro: that(2))
next
  case (approve_pass pid actor t e n k)
  note u = update_passes_stmtD [OF approve_pass [unfolded approve_pass_stmt_def]]
  show ?thesis
    by (rule that(3) [where t = "env_now e n", OF _ u(2) u(3)])
       (use u(1) in \<open>auto simp: status_update_def sql_move_def dest: is_pendingD\<close>)
next
  case (reject_pass pid actor t e n k)
  note u = update_passes_stmtD [OF reject_pass [unfolded reject_pass_stmt_def]]
  show ?thesis
    by (rule that(3) [where t = "env_now e n", OF _ u(2) u(3)])
       (use u(1) in \<open>auto simp: status_update_def sql_move_def dest: is_pendingD\<close>)
next
  case (cancel_pass pid actor reason t e n k)
  note u = update_passes_stmtD [OF cancel_pass [unfolded cancel_pass_stmt_def]]
  show ?thesis
    by (rule that(3) [where t = "env_now e n", OF _ u(2) u(3)])
       (use u(1) in \<open>auto simp: status_update_def sql_move_def\<close>)
next
  case (pass_outcome pid status e n k)
  from pass_outcome(1) have upd: "update_passes_stmt
      (\<lambda>p. p_ID p = pid \<and> (p_Status p = PassApproved \<or> p_Status p = PassExecuting))
      (\<lambda>p. p\<lparr>p_Status := status\<rparr>) None e n d = Inr (k, d')"
    by (simp add: pass_outcome_stmt_def set_status_stmt_def split: if_splits)
  note u = update_passes_stmtD [OF upd]
  show ?thesis
    by (rule that(3) [where t = "env_now e n", OF _ u(2) u(3)])
       (use u(1) pass_outcome(2) in \<open>auto simp: status_update_def sql_move_def\<close>)
next
  case (delete_user uid e n k)
  then show ?thesis
    by (auto simp: delete_user_stmt_def split: option.splits if_splits intro: that(1) that(4))
qed (rule that(1), (auto simp: write_stmt_defs Let_def split: option.splits if_splits)[1])+

section \<open>Booking: well-formed passes without overlap\<close>

definition booking_key :: "pass \<Rightarrow> uuid \<times> bool \<times> time \<times> time" where
  "booking_key p = (p_StationID p, live p, p_ReservedFrom p, p_ReservedTo p)"

lemma excludes_key: "booking_key p = booking_key p' \<Longrightarrow> booking_key q = booking_key q' \<Longrightarrow>
    excludes p q = excludes p' q'"
  by (simp add: booking_key_def excludes_def)

lemma overlap_free_cong:
  "map booking_key ps = map booking_key qs \<Longrightarrow> overlap_free ps = overlap_free qs"
proof (induction ps arbitrary: qs)
  case (Cons p ps)
  then obtain q qs' where qs: "qs = q # qs'" "booking_key p = booking_key q"
    "map booking_key ps = map booking_key qs'" by auto
  have "list_all (\<lambda>x. \<not> excludes p x) ps = list_all (\<lambda>x. \<not> excludes q x) qs'"
    using qs(2,3) by (induction ps qs' rule: list_induct2') (auto dest: excludes_key)
  with Cons.IH [OF qs(3)] qs(1) show ?case by simp
qed simp

lemma overlap_free_append:
  "overlap_free (ps @ [p]) \<longleftrightarrow> overlap_free ps \<and> (\<forall>q\<in>set ps. \<not> excludes q p)"
  by (induction ps) (auto simp: list_all_iff)

lemma excludes_sym: "excludes p q = excludes q p"
  by (auto simp: excludes_def ranges_overlap_def)

lemma overlap_freeD:
  "overlap_free ps \<Longrightarrow> i < j \<Longrightarrow> j < length ps \<Longrightarrow> \<not> excludes (ps ! i) (ps ! j)"
proof (induction ps arbitrary: i j)
  case (Cons p ps)
  then show ?case by (cases i; cases j) (auto simp: list_all_iff)
qed simp

definition bookings_ok :: "database \<Rightarrow> bool" where
  "bookings_ok d \<longleftrightarrow>
     distinct (map p_ID (t_passes d)) \<and> list_all pass_checks (t_passes d) \<and> overlap_free (t_passes d)"

lemma bookings_okD:
  assumes "bookings_ok d" and "p \<in> set (t_passes d)" and "q \<in> set (t_passes d)" and "p \<noteq> q"
  shows "\<not> excludes p q"
proof -
  from assms(2,3) obtain i j where ij: "i < length (t_passes d)" "p = t_passes d ! i"
    "j < length (t_passes d)" "q = t_passes d ! j" by (metis in_set_conv_nth)
  with assms(4) have "i < j \<or> j < i" by (metis linorder_neqE_nat)
  with ij assms(1) show ?thesis
    by (metis bookings_ok_def excludes_sym overlap_freeD)
qed

lemma pass_insert_error_None:
  "pass_insert_error d p = None \<longleftrightarrow>
     pass_enums p \<and> p_ReservedFrom p \<le> p_ReservedTo p \<and> pass_checks p \<and>
     (\<forall>q\<in>set (t_passes d). p_ID q \<noteq> p_ID p \<and> \<not> excludes p q) \<and> pass_fk_error d p = None"
  by (auto simp: pass_insert_error_def exists_row_iff)

lemma pass_checks_forget:
  "pass_checks (p\<lparr>p_ApprovedBy := a, p_CancelledBy := c, p_UpdatedAt := t\<rparr>) = pass_checks p"
  "pass_checks (touch t f p) = pass_checks (f p)"
  by (simp_all add: pass_checks_def touch_def)

lemma distinct_update_rows:
  "(\<And>r. P r \<Longrightarrow> g (f r) = g r) \<Longrightarrow> map g (update_rows P f rows) = map g rows"
  by (simp add: update_rows_def)

lemma bookings_ok_step:
  assumes "sql_step d d'" and ok: "bookings_ok d"
  shows "bookings_ok d'"
  using assms(1)
proof (cases rule: sql_step_passes)
  case same
  with ok show ?thesis by (simp add: bookings_ok_def)
next
  case (inserted p e n)
  from inserted(1) have new: "pass_checks (stored_pass e n p)"
    "\<forall>q\<in>set (t_passes d). p_ID q \<noteq> p_ID (stored_pass e n p) \<and> \<not> excludes (stored_pass e n p) q"
    unfolding pass_insert_error_None by blast+
  with ok show ?thesis
    by (auto simp: bookings_ok_def inserted(3) overlap_free_append excludes_sym)
next
  case (moved P f t)
  show ?thesis
  proof (cases "\<exists>p\<in>set (t_passes d). P p")
    case True
    have "map p_ID (t_passes d') = map p_ID (t_passes d)"
      unfolding moved(1) using moved(4)
      by (auto intro!: distinct_update_rows simp: touch_def status_update_def)
    with ok True moved show ?thesis
      by (auto simp: bookings_ok_def list_all_iff set_update_rows pass_checks_forget)
  next
    case False
    with moved(1) have "t_passes d' = t_passes d" by (auto intro: update_rows_ident)
    with ok show ?thesis by (simp add: bookings_ok_def)
  qed
next
  case (forgot uid t)
  have "map p_ID (t_passes d') = map p_ID (t_passes d)"
    and "map booking_key (t_passes d') = map booking_key (t_passes d)"
    unfolding forgot
    by (auto intro!: distinct_update_rows simp: booking_key_def live_def)
  with ok show ?thesis
    by (auto simp: bookings_ok_def forgot list_all_iff set_update_rows pass_checks_forget
        dest: overlap_free_cong)
qed

definition keeps_bookings :: "database \<Rightarrow> database \<Rightarrow> bool" where
  "keeps_bookings d d' \<longleftrightarrow> (bookings_ok d \<longrightarrow> bookings_ok d')"

interpretation booking: server_guarantee keeps_bookings
  by unfold_locales (auto simp: keeps_bookings_def intro: bookings_ok_step)

section \<open>The life cycle of a pass\<close>

definition life_path :: "pass_status \<Rightarrow> pass_status \<Rightarrow> bool" where
  "life_path = sql_move\<^sup>*\<^sup>*"

definition keeps_passes :: "database \<Rightarrow> database \<Rightarrow> bool" where
  "keeps_passes d d' \<longleftrightarrow>
     (\<exists>qs new. t_passes d' = qs @ new \<and> list_all2 (status_update life_path) (t_passes d) qs)"

lemma status_update_refl [simp]: "status_update life_path p p"
  by (simp add: status_update_def life_path_def)

lemma status_update_trans:
  "status_update life_path p q \<Longrightarrow> status_update life_path q r \<Longrightarrow> status_update life_path p r"
  by (auto simp: status_update_def life_path_def)

lemma status_update_move: "status_update sql_move p q \<Longrightarrow> status_update life_path p q"
  by (auto simp: status_update_def life_path_def)

lemma list_all2_update_rows:
  "(\<And>p. P p \<Longrightarrow> status_update life_path p (f p)) \<Longrightarrow>
    list_all2 (status_update life_path) ps (update_rows P f ps)"
  by (induction ps) (auto simp: update_rows_def)

lemma keeps_passes_refl: "keeps_passes d d"
  unfolding keeps_passes_def by (rule exI [of _ "t_passes d"]) (simp add: list_all2_refl)

lemma keeps_passes_trans:
  assumes "keeps_passes d1 d2" and "keeps_passes d2 d3"
  shows "keeps_passes d1 d3"
proof -
  from assms obtain q1 r1 q2 r2 where
    1: "t_passes d2 = q1 @ r1" "list_all2 (status_update life_path) (t_passes d1) q1" and
    2: "t_passes d3 = q2 @ r2" "list_all2 (status_update life_path) (q1 @ r1) q2"
    unfolding keeps_passes_def by auto
  from 2(2) obtain u v where uv: "q2 = u @ v" "list_all2 (status_update life_path) q1 u"
    by (auto simp: list_all2_append1)
  have "list_all2 (status_update life_path) (t_passes d1) u"
    using list_all2_trans [of "status_update life_path" "status_update life_path"
        "status_update life_path" "t_passes d1" q1 u] status_update_trans 1(2) uv(2) by blast
  with 2(1) uv(1) show ?thesis
    unfolding keeps_passes_def by (intro exI [of _ u] exI [of _ "v @ r2"]) simp
qed

lemma keeps_passes_step:
  assumes "sql_step d d'"
  shows "keeps_passes d d'"
  using assms
proof (cases rule: sql_step_passes)
  case same
  then show ?thesis using keeps_passes_refl by (simp add: keeps_passes_def)
next
  case (inserted p e n)
  then show ?thesis
    unfolding keeps_passes_def
    by (intro exI [of _ "t_passes d"] exI [of _ "[stored_pass e n p]"]) (simp add: list_all2_refl)
next
  case (moved P f t)
  have "list_all2 (status_update life_path) (t_passes d) (t_passes d')"
    unfolding moved(1)
    by (rule list_all2_update_rows) (blast intro: status_update_touch status_update_move moved(4))
  then show ?thesis unfolding keeps_passes_def by (intro exI [of _ "t_passes d'"] exI [of _ "[]"]) simp
next
  case (forgot uid t)
  have "list_all2 (status_update life_path) (t_passes d) (t_passes d')"
    unfolding forgot
    by (rule list_all2_update_rows) (simp add: status_update_def life_path_def)
  then show ?thesis unfolding keeps_passes_def by (intro exI [of _ "t_passes d'"] exI [of _ "[]"]) simp
qed

interpretation life: server_guarantee keeps_passes
  by unfold_locales (auto intro: keeps_passes_refl keeps_passes_trans keeps_passes_step)

text \<open>The row that a pass has become.\<close>

lemma keeps_passesD:
  assumes "keeps_passes d d'" and "p \<in> set (t_passes d)"
  obtains q where "q \<in> set (t_passes d')" "status_update life_path p q"
proof -
  from assms(1) obtain qs new where q: "t_passes d' = qs @ new"
    "list_all2 (status_update life_path) (t_passes d) qs"
    unfolding keeps_passes_def by auto
  from assms(2) obtain i where i: "i < length (t_passes d)" "p = t_passes d ! i"
    by (metis in_set_conv_nth)
  with q have "status_update life_path p (qs ! i)" and "qs ! i \<in> set qs"
    by (auto simp: list_all2_conv_all_nth)
  then show ?thesis using q(1) that by auto
qed

lemma life_path_final:
  assumes "life_path s t" and "sql_moves s = {}"
  shows "t = s"
  using assms unfolding life_path_def
  by (induction rule: converse_rtranclp_induct) (auto simp: sql_move_def)

section \<open>The audit log\<close>

definition log_grows :: "database \<Rightarrow> database \<Rightarrow> bool" where
  "log_grows d d' \<longleftrightarrow> (\<exists>new. t_audit_records d' = t_audit_records d @ new)"

lemma log_grows_step: "sql_step d d' \<Longrightarrow> log_grows d d'"
  by (erule sql_step.cases;
      auto simp: log_grows_def write_stmt_defs Let_def split: option.splits if_splits)

interpretation log: server_guarantee log_grows
proof
  show "log_grows d d" for d by (simp add: log_grows_def)
  show "log_grows d1 d2 \<Longrightarrow> log_grows d2 d3 \<Longrightarrow> log_grows d1 d3" for d1 d2 d3
    by (auto simp: log_grows_def)
qed (rule log_grows_step)

section \<open>Accounts\<close>

definition unique_root :: "user list \<Rightarrow> bool" where
  "unique_root us \<longleftrightarrow>
     (\<forall>u\<in>set us. \<forall>v\<in>set us. u_Role u = RoleRoot \<longrightarrow> u_Role v = RoleRoot \<longrightarrow> u = v)"

definition accounts_ok :: "database \<Rightarrow> bool" where
  "accounts_ok d \<longleftrightarrow> distinct (map u_ID (t_users d)) \<and>
     unique_root (t_users d)"

definition root_ids :: "database \<Rightarrow> uuid set" where
  "root_ids d = {u_ID u |u. u \<in> set (t_users d) \<and> u_Role u = RoleRoot}"

definition keeps_root :: "database \<Rightarrow> database \<Rightarrow> bool" where
  "keeps_root d d' \<longleftrightarrow> (accounts_ok d \<longrightarrow> accounts_ok d' \<and> root_ids d \<subseteq> root_ids d')"

lemma sql_step_touches_users:
  "sql_step d d' \<Longrightarrow> t_users d' = t_users d \<or>
     (\<exists>u e n x. insert_user_stmt u e n d = Inr (x, d')) \<or>
     (\<exists>uid f e n k. update_user_stmt uid f e n d = Inr (k, d') \<and> (\<forall>u. u_ID (f u) = u_ID u)) \<or>
     (\<exists>uid e n k. delete_user_stmt uid e n d = Inr (k, d'))"
  by (erule sql_step.cases;
      ((rule disjI1, (auto simp: write_stmt_defs Let_def split: option.splits if_splits; fail)) | blast))

lemma insert_user_effect:
  "insert_user_stmt u e n d = Inr (x, d') \<Longrightarrow>
    \<exists>row. user_error e (t_users d) row = None \<and> t_users d' = t_users d @ [row]"
  by (auto simp: insert_user_stmt_def Let_def split: option.splits)

lemma update_user_effect:
  assumes "update_user_stmt uid f e n d = Inr (k, d')" and "\<And>u. u_ID (f u) = u_ID u"
  shows "t_users d' = t_users d \<or>
    (\<exists>old new. find_row (\<lambda>u. u_ID u = uid) (t_users d) = Some old \<and> u_ID new = uid \<and>
       (u_Role old = RoleRoot \<longrightarrow> u_Role new = RoleRoot) \<and>
       user_error e (delete_rows (\<lambda>u. u_ID u = uid) (t_users d)) new = None \<and>
       t_users d' = update_rows (\<lambda>u. u_ID u = uid) (\<lambda>_. new) (t_users d))"
proof (cases "find_row (\<lambda>u. u_ID u = uid) (t_users d)")
  case None
  with assms(1) show ?thesis by (simp add: update_user_stmt_def)
next
  case (Some old)
  with find_row_SomeD [OF Some] assms show ?thesis
    by (intro disjI2 exI [of _ old] exI [of _ "(f old)\<lparr>u_UpdatedAt := env_now e n\<rparr>"])
       (auto simp: update_user_stmt_def Let_def split: option.splits if_splits)
qed

lemma delete_user_effect:
  "delete_user_stmt uid e n d = Inr (k, d') \<Longrightarrow> t_users d' = t_users d \<or>
    (\<exists>old. find_row (\<lambda>u. u_ID u = uid) (t_users d) = Some old \<and> u_Role old \<noteq> RoleRoot \<and>
       t_users d' = delete_rows (\<lambda>u. u_ID u = uid) (t_users d))"
  by (auto simp: delete_user_stmt_def split: option.splits if_splits)

lemma sql_step_users [consumes 1, case_names same inserted updated deleted]:
  assumes "sql_step d d'"
  obtains "t_users d' = t_users d"
  | e u where "user_error e (t_users d) u = None" "t_users d' = t_users d @ [u]"
  | e uid old new where "find_row (\<lambda>u. u_ID u = uid) (t_users d) = Some old" "u_ID new = uid"
      "u_Role old = RoleRoot \<Longrightarrow> u_Role new = RoleRoot"
      "user_error e (delete_rows (\<lambda>u. u_ID u = uid) (t_users d)) new = None"
      "t_users d' = update_rows (\<lambda>u. u_ID u = uid) (\<lambda>_. new) (t_users d)"
  | uid old where "find_row (\<lambda>u. u_ID u = uid) (t_users d) = Some old" "u_Role old \<noteq> RoleRoot"
      "t_users d' = delete_rows (\<lambda>u. u_ID u = uid) (t_users d)"
  using sql_step_touches_users [OF assms]
  by (elim disjE exE conjE) (blast dest!: insert_user_effect update_user_effect delete_user_effect)+

text \<open>The accounts that carry the root role, and the rule for a step on the users.\<close>

lemma keeps_rootI:
  assumes ids: "distinct (map u_ID (t_users d)) \<Longrightarrow> distinct (map u_ID (t_users d'))"
    and unique: "\<And>u v. distinct (map u_ID (t_users d)) \<Longrightarrow> unique_root (t_users d) \<Longrightarrow>
      u \<in> set (t_users d') \<Longrightarrow> v \<in> set (t_users d') \<Longrightarrow> u_Role u = RoleRoot \<Longrightarrow>
      u_Role v = RoleRoot \<Longrightarrow> u = v"
    and stays: "\<And>u. distinct (map u_ID (t_users d)) \<Longrightarrow> u \<in> set (t_users d) \<Longrightarrow>
      u_Role u = RoleRoot \<Longrightarrow> u_ID u \<in> root_ids d'"
  shows "keeps_root d d'"
  unfolding keeps_root_def
proof (intro impI conjI subsetI)
  assume ok: "accounts_ok d"
  with ids unique show "accounts_ok d'"
    unfolding accounts_ok_def unique_root_def by simp
  fix i
  assume "i \<in> root_ids d"
  then obtain u where "u \<in> set (t_users d)" "u_Role u = RoleRoot" "i = u_ID u"
    unfolding root_ids_def by auto
  with stays ok show "i \<in> root_ids d'" by (simp add: accounts_ok_def)
qed

lemma unique_rootD:
  "unique_root us \<Longrightarrow> u \<in> set us \<Longrightarrow> v \<in> set us \<Longrightarrow> u_Role u = RoleRoot \<Longrightarrow> u_Role v = RoleRoot \<Longrightarrow> u = v"
  unfolding unique_root_def by simp

lemma root_idsI: "u \<in> set (t_users d) \<Longrightarrow> u_Role u = RoleRoot \<Longrightarrow> u_ID u \<in> root_ids d"
  unfolding root_ids_def by (rule CollectI) (intro exI [of _ u] conjI refl)

lemma row_of_id: "distinct (map u_ID us) \<Longrightarrow> u \<in> set us \<Longrightarrow> v \<in> set us \<Longrightarrow> u_ID u = u_ID v \<Longrightarrow> u = v"
  by (auto simp: distinct_map dest: inj_onD)

lemma accounts_ok_step:
  assumes "sql_step d d'"
  shows "keeps_root d d'"
  using assms
proof (cases rule: sql_step_users)
  case same
  show ?thesis by (rule keeps_rootI) (simp_all add: same unique_rootD root_idsI)
next
  case (inserted e u)
  then have new: "v \<in> set (t_users d) \<Longrightarrow> u_ID v \<noteq> u_ID u"
    "v \<in> set (t_users d) \<Longrightarrow> u_Role u = RoleRoot \<Longrightarrow> u_Role v \<noteq> RoleRoot" for v
    by (simp_all add: user_error_None)
  have roots: "r \<in> set (t_users d') \<longleftrightarrow> r = u \<or> r \<in> set (t_users d)" for r
    by (simp add: inserted(2))
  show ?thesis
  proof (rule keeps_rootI)
    show "distinct (map u_ID (t_users d'))" if "distinct (map u_ID (t_users d))"
      using that by (auto simp: inserted(2) dest: new(1))
    show "r = v" if "unique_root (t_users d)" "r \<in> set (t_users d')" "v \<in> set (t_users d')"
      "u_Role r = RoleRoot" "u_Role v = RoleRoot" for r v
      using that new(2) unique_rootD [OF that(1), of r v] unfolding roots by metis
  qed (simp add: root_idsI roots)
next
  case (updated e uid old new)
  have keys: "map u_ID (t_users d') = map u_ID (t_users d)"
    unfolding updated(5) using updated(2) by (auto intro: distinct_update_rows)
  have rows: "r \<in> set (t_users d') \<longleftrightarrow> r = new \<or> (r \<in> set (t_users d) \<and> u_ID r \<noteq> uid)" for r
    using find_row_SomeD [OF updated(1)] by (auto simp: updated(5) set_update_rows)
  have others: "u_Role v \<noteq> RoleRoot" if "v \<in> set (t_users d)" "u_ID v \<noteq> uid" "u_Role new = RoleRoot" for v
    using updated(4) that by (simp add: user_error_None)
  show ?thesis
  proof (rule keeps_rootI)
    show "r = v" if "unique_root (t_users d)" "r \<in> set (t_users d')" "v \<in> set (t_users d')"
      "u_Role r = RoleRoot" "u_Role v = RoleRoot" for r v
      using that others unique_rootD [OF that(1), of r v] unfolding rows by metis
    show "u_ID r \<in> root_ids d'" if "distinct (map u_ID (t_users d))" "r \<in> set (t_users d)"
      "u_Role r = RoleRoot" for r
    proof (cases "u_ID r = uid")
      case True
      with row_of_id [OF that(1,2)] find_row_SomeD [OF updated(1)] have "r = old" by simp
      with that(3) updated(3) have "u_Role new = RoleRoot" by simp
      with root_idsI [of new d'] rows updated(2) True show ?thesis by simp
    next
      case False
      with that root_idsI [of r d'] rows show ?thesis by simp
    qed
  qed (simp add: keys)
next
  case (deleted uid old)
  show ?thesis
  proof (rule keeps_rootI)
    show "distinct (map u_ID (t_users d'))" if "distinct (map u_ID (t_users d))"
      using that by (simp add: deleted(3) delete_rows_def distinct_map_filter)
    show "u_ID r \<in> root_ids d'" if "distinct (map u_ID (t_users d))" "r \<in> set (t_users d)"
      "u_Role r = RoleRoot" for r
      using row_of_id [OF that(1,2), of old] find_row_SomeD [OF deleted(1)] deleted(2) that(2,3)
        root_idsI [of r d'] by (auto simp: deleted(3))
  qed (simp add: deleted(3) unique_rootD)
qed

interpretation accounts: server_guarantee keeps_root
proof
  show "keeps_root d d" for d by (simp add: keeps_root_def)
  show "keeps_root d1 d2 \<Longrightarrow> keeps_root d2 d3 \<Longrightarrow> keeps_root d1 d3" for d1 d2 d3
    by (auto simp: keeps_root_def)
qed (rule accounts_ok_step)

section \<open>First-run setup\<close>

definition setup_once :: "database \<Rightarrow> database \<Rightarrow> bool" where
  "setup_once d d' \<longleftrightarrow>
     (t_initialized_at d \<noteq> None \<longrightarrow> t_initialized_at d' = t_initialized_at d)"

lemma setup_once_step: "sql_step d d' \<Longrightarrow> setup_once d d'"
  by (erule sql_step.cases;
      auto simp: setup_once_def write_stmt_defs Let_def split: option.splits if_splits)

interpretation first_run: server_guarantee setup_once
proof
  show "setup_once d d" for d by (simp add: setup_once_def)
  show "setup_once d1 d2 \<Longrightarrow> setup_once d2 d3 \<Longrightarrow> setup_once d1 d3" for d1 d2 d3
    by (auto simp: setup_once_def)
qed (rule setup_once_step)

section \<open>Reachable tables\<close>

inductive reachable :: "database \<Rightarrow> bool" where
  start: "reachable empty_database"
| step: "reachable d \<Longrightarrow> sql_step d d' \<Longrightarrow> reachable d'"

lemma reachable_bookings_ok: "reachable d \<Longrightarrow> bookings_ok d"
  by (induction rule: reachable.induct)
     (simp add: bookings_ok_def empty_database_def, rule bookings_ok_step)

lemma reachable_accounts_ok: "reachable d \<Longrightarrow> accounts_ok d"
proof (induction rule: reachable.induct)
  case start
  show ?case by (simp add: accounts_ok_def unique_root_def empty_database_def)
next
  case (step d d')
  then show ?case using accounts_ok_step [of d d'] by (simp add: keeps_root_def)
qed

lemma reachable_run: "sql_step\<^sup>*\<^sup>* d d' \<Longrightarrow> reachable d \<Longrightarrow> reachable d'"
  by (induction rule: rtranclp_induct) (auto intro: reachable.step)

interpretation steps: server_guarantee "sql_step\<^sup>*\<^sup>*"
  by unfold_locales auto

lemma run_bookings_ok: "sql_step\<^sup>*\<^sup>* d d' \<Longrightarrow> bookings_ok d \<Longrightarrow> bookings_ok d'"
  by (induction rule: rtranclp_induct) (auto intro: bookings_ok_step)

lemma run_keeps_passes: "sql_step\<^sup>*\<^sup>* d d' \<Longrightarrow> keeps_passes d d'"
  by (induction rule: rtranclp_induct) (auto intro: keeps_passes_refl keeps_passes_trans keeps_passes_step)

lemma run_log_grows: "sql_step\<^sup>*\<^sup>* d d' \<Longrightarrow> log_grows d d'"
  by (induction rule: rtranclp_induct) (auto intro: log.G_refl log.G_trans log_grows_step)

end
