(* ===== verification/Prediction.thy ===== *)
theory Prediction
  imports Database
begin

text \<open>
  \<open>internal/prediction/predict.go\<close>: the client of the prediction service.  The service is
  another process, so its answer is the parameter \<open>backend\<close>, a function of the tick and
  the request message.  The messages are those of \<open>prediction.proto\<close>, with the accessors'
  defaults: a missing timestamp reads as the Unix epoch.
\<close>

section \<open>Messages\<close>

record proto_track_point =
  ptp_at :: "time option"
  ptp_azimuth :: float64
  ptp_elevation :: float64
  ptp_range :: float64

record proto_pass =
  ppp_aos :: "time option"
  ppp_tca :: "time option"
  ppp_los :: "time option"
  ppp_aos_azimuth :: float64
  ppp_tca_azimuth :: float64
  ppp_los_azimuth :: float64
  ppp_max_elevation :: float64
  ppp_duration_seconds :: float64
  ppp_track :: "proto_track_point list"

record proto_request =
  prq_line1 :: string
  prq_line2 :: string
  prq_latitude :: float64
  prq_longitude :: float64
  prq_altitude :: float64
  prq_minimum_elevation :: float64
  prq_search_start :: time
  prq_search_end :: time
  prq_track_step_seconds :: "32 word"
  prq_max_passes :: "32 word"

record proto_response =
  prs_norad_id :: int
  prs_passes :: "proto_pass list"

type_synonym backend = "nat \<Rightarrow> proto_request \<Rightarrow> err + proto_response"

definition as_time :: "time option \<Rightarrow> time" where
  "as_time v = (case v of None \<Rightarrow> 0 | Some t \<Rightarrow> t)"

section \<open>Types of the package\<close>

record track_point =
  tp_At :: time
  tp_AzimuthDegrees :: float64
  tp_ElevationDegrees :: float64
  tp_RangeKm :: float64

record predicted_pass =
  pr_AOS :: time
  pr_TCA :: time
  pr_LOS :: time
  pr_AOSAzimuthDegrees :: float64
  pr_TCAAzimuthDegrees :: float64
  pr_LOSAzimuthDegrees :: float64
  pr_MaxElevationDegrees :: float64
  pr_Duration :: duration
  pr_Track :: "track_point list"

record prediction_request =
  rq_Line1 :: string
  rq_Line2 :: string
  rq_LatitudeDegrees :: float64
  rq_LongitudeDegrees :: float64
  rq_AltitudeM :: float64
  rq_MinimumElevationDegrees :: float64
  rq_SearchStart :: time
  rq_SearchEnd :: time
  rq_TrackStep :: duration
  rq_MaxPasses :: int

record prediction_result =
  rs_NoradID :: int
  rs_Passes :: "predicted_pass list"

section \<open>PredictPasses\<close>

text \<open>
  \<open>uint32(d.Seconds())\<close> truncates, \<open>uint32(n)\<close> wraps.  The product of a float and
  \<open>time.Second\<close> is exact here, where Go rounds it to a float64 first.
\<close>

definition fromProto :: "env \<Rightarrow> proto_pass \<Rightarrow> predicted_pass" where
  "fromProto e p =
     \<lparr>pr_AOS = as_time (ppp_aos p), pr_TCA = as_time (ppp_tca p), pr_LOS = as_time (ppp_los p),
      pr_AOSAzimuthDegrees = ppp_aos_azimuth p, pr_TCAAzimuthDegrees = ppp_tca_azimuth p,
      pr_LOSAzimuthDegrees = ppp_los_azimuth p, pr_MaxElevationDegrees = ppp_max_elevation p,
      pr_Duration = float_to_int64 e (ppp_duration_seconds p * of_int second),
      pr_Track = map (\<lambda>t. \<lparr>tp_At = as_time (ptp_at t), tp_AzimuthDegrees = ptp_azimuth t,
        tp_ElevationDegrees = ptp_elevation t, tp_RangeKm = ptp_range t\<rparr>) (ppp_track p)\<rparr>"

definition to_proto :: "prediction_request \<Rightarrow> proto_request" where
  "to_proto rq =
     \<lparr>prq_line1 = rq_Line1 rq, prq_line2 = rq_Line2 rq,
      prq_latitude = rq_LatitudeDegrees rq, prq_longitude = rq_LongitudeDegrees rq,
      prq_altitude = rq_AltitudeM rq, prq_minimum_elevation = rq_MinimumElevationDegrees rq,
      prq_search_start = rq_SearchStart rq, prq_search_end = rq_SearchEnd rq,
      prq_track_step_seconds = word_of_int (rq_TrackStep rq div second),
      prq_max_passes = word_of_int (rq_MaxPasses rq)\<rparr>"

fun prediction_error :: "err \<Rightarrow> err" where
  "prediction_error (GrpcStatus code msg) =
     (if code = ''InvalidArgument'' then ErrWrap msg (Err ErrInvalidRequest)
      else ErrWrap ''predict passes'' (GrpcStatus code msg))"
| "prediction_error e = ErrWrap ''predict passes'' e"

definition PredictPasses :: "backend \<Rightarrow> prediction_request \<Rightarrow> prediction_result repo" where
  "PredictPasses backend rq =
     attempt_or (external (\<lambda>n. backend n (to_proto rq)))
       (\<lambda>e. fail (prediction_error e))
       (\<lambda>response. attempt (asks id) (\<lambda>e.
          ret \<lparr>rs_NoradID = prs_norad_id response,
               rs_Passes = map (fromProto e) (prs_passes response)\<rparr>))"

text \<open>
  The search that the scheduler and the plan generator share: the first candidate whose
  AOS lies within a tolerance of the wanted instant.
\<close>

definition near_to :: "duration \<Rightarrow> time \<Rightarrow> predicted_pass \<Rightarrow> bool" where
  "near_to tolerance wanted candidate \<longleftrightarrow>
     dur_abs (time_sub (pr_AOS candidate) wanted) \<le> tolerance"

context guarantee begin

lemma PredictPasses [guar_intro]: "guar G (PredictPasses backend rq)"
  by (auto simp: PredictPasses_def intro!: attempt_or attempt external asks ret fail)

end

lemma PredictPasses_reads: "db (snd (PredictPasses backend rq w)) = db w"
  by (rule guar_eqD) (rule reading.PredictPasses)

end
