(* ===== verification/PassPlan.thy ===== *)
theory PassPlan
  imports Store_Invariants Prediction
begin

text \<open>
  \<open>internal/passplan/generator.go\<close>: the executable plan of an approved pass.  The messages
  are those of \<open>passplan.proto\<close>; identifiers are kept as identifiers where the message
  carries their text.  The protobuf encoding is the parameter \<open>codec\<close>: the deterministic
  encoder, which fails on text that is not UTF-8, and the decoder.
\<close>

section \<open>Messages\<close>

datatype proto_band = RF_BAND_UNSPECIFIED | RF_BAND_VHF | RF_BAND_UHF

datatype proto_mode =
    RECORDING_MODE_UNSPECIFIED | RECORDING_MODE_RAW
  | RECORDING_MODE_PROCESS | RECORDING_MODE_RAW_AND_PROCESS

record orbital_elements =
  el_Line1 :: string
  el_Line2 :: string
  el_Epoch :: time
  el_TleRecordId :: uuid

record radio_settings =
  ra_Source :: string
  ra_FrequencyHz :: int
  ra_SampleRateHz :: int
  ra_GainDb :: float64
  ra_PpmCorrection :: int
  ra_BiasTeeEnabled :: bool

record satdump_pipeline =
  sd_Identifier :: string
  sd_IsCustom :: bool
  sd_DefinitionJson :: string
  sd_ChecksumSha256 :: string

record pass_plan =
  pn_PlanVersion :: int
  pn_PassId :: uuid
  pn_StationId :: uuid
  pn_WorkerId :: uuid
  pn_NoradId :: "32 word"
  pn_SatelliteName :: string
  pn_Elements :: orbital_elements
  pn_Aos :: time
  pn_Tca :: "time option"
  pn_Los :: time
  pn_MaxElevationDegrees :: float64
  pn_RecordingStart :: time
  pn_RecordingEnd :: time
  pn_Band :: proto_band
  pn_Radio :: radio_settings
  pn_RecordingMode :: proto_mode
  pn_Pipeline :: satdump_pipeline
  pn_Track :: "track_point list"
  pn_Generation :: string
  pn_GeneratedAt :: "time option"

record codec =
  co_marshal :: "pass_plan \<Rightarrow> bytes option"
  co_unmarshal :: "bytes \<Rightarrow> pass_plan option"

section \<open>Conversions\<close>

fun bandToProto :: "rf_band \<Rightarrow> proto_band" where
  "bandToProto BandVHF = RF_BAND_VHF"
| "bandToProto BandUHF = RF_BAND_UHF"
| "bandToProto (BandOther _) = RF_BAND_UNSPECIFIED"

fun recordingModeToProto :: "recording_mode \<Rightarrow> proto_mode" where
  "recordingModeToProto RecordRaw = RECORDING_MODE_RAW"
| "recordingModeToProto RecordProcess = RECORDING_MODE_PROCESS"
| "recordingModeToProto RecordRawAndProcess = RECORDING_MODE_RAW_AND_PROCESS"
| "recordingModeToProto (RecordOther _) = RECORDING_MODE_UNSPECIFIED"

section \<open>Generation, Marshal, Unmarshal\<close>

definition Generation :: "codec \<Rightarrow> pass_plan \<Rightarrow> string repo" where
  "Generation codec plan =
     (case co_marshal codec (plan\<lparr>pn_GeneratedAt := None, pn_Generation := ''''\<rparr>) of
        None \<Rightarrow> fail (ErrWrap ''hash pass plan'' (ErrText ''proto''))
      | Some encoded \<Rightarrow> asks (\<lambda>e. env_sha256hex e encoded))"

definition Marshal :: "codec \<Rightarrow> pass_plan \<Rightarrow> err + bytes" where
  "Marshal codec plan =
     (case co_marshal codec plan of
        None \<Rightarrow> Inl (ErrWrap ''encode pass plan'' (ErrText ''proto''))
      | Some encoded \<Rightarrow> Inr encoded)"

definition Unmarshal :: "codec \<Rightarrow> bytes \<Rightarrow> err + pass_plan" where
  "Unmarshal codec encoded =
     (case co_unmarshal codec encoded of
        None \<Rightarrow> Inl (ErrWrap ''decode pass plan'' (ErrText ''proto''))
      | Some plan \<Rightarrow> Inr plan)"

definition SetGeneration :: "env \<Rightarrow> pass_plan list \<Rightarrow> string" where
  "SetGeneration e plans = env_sha256hex e (concat (map pn_Generation plans))"

section \<open>Radio settings\<close>

fun numeric :: "any_val option \<Rightarrow> float64 option" where
  "numeric (Some (VFloat x)) = Some x"
| "numeric (Some (VInt n)) = Some (of_int n)"
| "numeric (Some (VInt64 n)) = Some (of_int n)"
| "numeric _ = None"

definition on_numeric ::
  "any_map \<Rightarrow> string \<Rightarrow> (float64 \<Rightarrow> radio_settings \<Rightarrow> radio_settings) \<Rightarrow> radio_settings \<Rightarrow> radio_settings" where
  "on_numeric overrides name f radio =
     (case numeric (map_of overrides name) of None \<Rightarrow> radio | Some v \<Rightarrow> f v radio)"

definition applyRadioOverrides :: "env \<Rightarrow> any_map \<Rightarrow> radio_settings \<Rightarrow> radio_settings" where
  "applyRadioOverrides e overrides r0 =
     (let r1 = on_numeric overrides ''frequency_hz'' (\<lambda>v r. r\<lparr>ra_FrequencyHz := float_to_int64 e v\<rparr>) r0;
          r2 = on_numeric overrides ''sample_rate_hz'' (\<lambda>v r. r\<lparr>ra_SampleRateHz := float_to_int64 e v\<rparr>) r1;
          r3 = on_numeric overrides ''gain_db'' (\<lambda>v r. r\<lparr>ra_GainDb := v\<rparr>) r2;
          r4 = on_numeric overrides ''ppm_correction'' (\<lambda>v r. r\<lparr>ra_PpmCorrection := float_to_int32 e v\<rparr>) r3;
          r5 = (case map_of overrides ''bias_tee_enabled'' of
                  Some (VBool b) \<Rightarrow> r4\<lparr>ra_BiasTeeEnabled := b\<rparr> | _ \<Rightarrow> r4)
      in (case map_of overrides ''source'' of
            Some (VString s) \<Rightarrow> if s \<noteq> '''' then r5\<lparr>ra_Source := s\<rparr> else r5
          | _ \<Rightarrow> r5))"

definition default_radio :: radio_settings where
  "default_radio =
     \<lparr>ra_Source = ''rtlsdr'', ra_FrequencyHz = 0, ra_SampleRateHz = 0, ra_GainDb = 0,
      ra_PpmCorrection = 0, ra_BiasTeeEnabled = False\<rparr>"

definition band_radio :: "station_band_config \<Rightarrow> radio_settings \<Rightarrow> radio_settings" where
  "band_radio c r =
     r\<lparr>ra_FrequencyHz := (case bc_CenterFrequencyHz c of None \<Rightarrow> ra_FrequencyHz r | Some v \<Rightarrow> v),
       ra_SampleRateHz := (case bc_SampleRateHz c of None \<Rightarrow> ra_SampleRateHz r | Some v \<Rightarrow> v),
       ra_GainDb := (case bc_GainDB c of None \<Rightarrow> ra_GainDb r | Some v \<Rightarrow> v),
       ra_PpmCorrection := bc_PPMCorrection c,
       ra_BiasTeeEnabled := bc_BiasTeeEnabled c\<rparr>"

text \<open>The loop stops at the first configuration of the band.\<close>

fun radio_from_configs :: "rf_band \<Rightarrow> station_band_config list \<Rightarrow> radio_settings" where
  "radio_from_configs band [] = default_radio"
| "radio_from_configs band (c # cs) =
     (if bc_Band c \<noteq> band then radio_from_configs band cs else band_radio c default_radio)"

definition radioFor :: "station \<Rightarrow> pass \<Rightarrow> radio_settings repo" where
  "radioFor station pass =
     attempt (wrapping ''load band configuration'' (GetStationBandConfigs (st_ID station))) (\<lambda>configs.
     attempt (asks id) (\<lambda>e.
       let radio = applyRadioOverrides e (p_RadioSettings pass) (radio_from_configs (p_Band pass) configs)
       in if ra_FrequencyHz radio \<le> 0
          then fail (ErrWrap ''no centre frequency'' (Err ErrStationNotConfigured))
          else if ra_SampleRateHz radio \<le> 0
          then fail (ErrWrap ''no sample rate'' (Err ErrStationNotConfigured))
          else ret radio))"

section \<open>Pipeline and track\<close>

definition empty_pipeline :: satdump_pipeline where
  "empty_pipeline =
     \<lparr>sd_Identifier = '''', sd_IsCustom = False, sd_DefinitionJson = '''', sd_ChecksumSha256 = ''''\<rparr>"

definition pipelineFor :: "pass \<Rightarrow> satdump_pipeline repo" where
  "pipelineFor pass =
     (case p_PipelineID pass of
        None \<Rightarrow> ret empty_pipeline
      | Some pid \<Rightarrow>
          attempt (wrapping ''load pipeline'' (GetPipelineByID pid)) (\<lambda>pipeline.
            ret \<lparr>sd_Identifier = pi_Name pipeline, sd_IsCustom = pi_IsCustom pipeline,
                 sd_DefinitionJson = (if pi_IsCustom pipeline then pi_Definition pipeline else ''''),
                 sd_ChecksumSha256 = pi_ChecksumSHA256 pipeline\<rparr>))"

definition plan_TrackStep :: duration where "plan_TrackStep = 5 * second"

fun matching_track :: "time \<Rightarrow> predicted_pass list \<Rightarrow> track_point list option" where
  "matching_track aos [] = None"
| "matching_track aos (candidate # rest) =
     (if \<not> near_to minute aos candidate then matching_track aos rest
      else Some (pr_Track candidate))"

definition trackFor :: "backend \<Rightarrow> station \<Rightarrow> pass \<Rightarrow> tle_record \<Rightarrow> track_point list repo" where
  "trackFor backend station pass elements =
     attempt (wrapping ''load scheduling config'' (GetSchedulingConfigByID (p_SchedulingConfigID pass)))
       (\<lambda>config.
     attempt (wrapping ''compute track'' (PredictPasses backend
         \<lparr>rq_Line1 = tle_Line1 elements, rq_Line2 = tle_Line2 elements,
          rq_LatitudeDegrees = st_Latitude station, rq_LongitudeDegrees = st_Longitude station,
          rq_AltitudeM = st_AltitudeM station,
          rq_MinimumElevationDegrees = sc_MinimumElevationDegrees config,
          rq_SearchStart = time_add (p_AOSAt pass) (- hour),
          rq_SearchEnd = time_add (p_LOSAt pass) hour,
          rq_TrackStep = plan_TrackStep, rq_MaxPasses = 0\<rparr>)) (\<lambda>result.
       case matching_track (p_AOSAt pass) (rs_Passes result) of
         Some points \<Rightarrow> ret points
       | None \<Rightarrow> fail (ErrText ''no predicted pass matches the stored pass window'')))"

section \<open>Generate\<close>

definition PlanVersion :: int where "PlanVersion = 1"

definition build_plan ::
  "pass \<Rightarrow> satellite \<Rightarrow> tle_record \<Rightarrow> worker \<Rightarrow> radio_settings \<Rightarrow> satdump_pipeline \<Rightarrow>
   track_point list \<Rightarrow> pass_plan" where
  "build_plan pass satellite elements worker radio pipeline track =
     \<lparr>pn_PlanVersion = PlanVersion, pn_PassId = p_ID pass, pn_StationId = p_StationID pass,
      pn_WorkerId = w_ID worker, pn_NoradId = word_of_int (sat_NoradID satellite),
      pn_SatelliteName = sat_Name satellite,
      pn_Elements = \<lparr>el_Line1 = tle_Line1 elements, el_Line2 = tle_Line2 elements,
        el_Epoch = tle_Epoch elements, el_TleRecordId = tle_ID elements\<rparr>,
      pn_Aos = p_AOSAt pass, pn_Tca = p_TCAAt pass, pn_Los = p_LOSAt pass,
      pn_MaxElevationDegrees = p_MaxElevationDegrees pass,
      pn_RecordingStart = time_add (p_AOSAt pass) (dur_neg (p_RecordingPreRoll pass)),
      pn_RecordingEnd = time_add (p_LOSAt pass) (p_RecordingPostRoll pass),
      pn_Band = bandToProto (p_Band pass), pn_Radio = radio,
      pn_RecordingMode = recordingModeToProto (p_RecordingMode pass), pn_Pipeline = pipeline,
      pn_Track = track, pn_Generation = '''', pn_GeneratedAt = None\<rparr>"

definition Generate :: "backend \<Rightarrow> codec \<Rightarrow> pass \<Rightarrow> pass_plan repo" where
  "Generate backend codec pass =
     (if p_Status pass \<noteq> PassApproved then fail (ErrWrap ''pass is'' (Err ErrNotApproved))
      else
        attempt (wrapping ''load satellite'' (GetSatelliteByID (p_SatelliteID pass))) (\<lambda>satellite.
        attempt (wrapping ''load station'' (GetStationByID (p_StationID pass))) (\<lambda>station.
        attempt (wrapping ''load orbital data'' (GetTLERecordByID (p_TLERecordID pass))) (\<lambda>elements.
        attempt (wrapping ''load worker'' (GetStationWorker (p_StationID pass))) (\<lambda>worker.
        attempt (radioFor station pass) (\<lambda>radio.
        attempt (pipelineFor pass) (\<lambda>pipeline.
        attempt (trackFor backend station pass elements) (\<lambda>track.
          let plan = build_plan pass satellite elements worker radio pipeline track
          in attempt (Generation codec plan) (\<lambda>generation.
               ret (plan\<lparr>pn_Generation := generation\<rparr>))))))))))"

definition GenerateAndStore :: "backend \<Rightarrow> codec \<Rightarrow> pass \<Rightarrow> (pass_plan \<times> bool) repo" where
  "GenerateAndStore backend codec pass =
     attempt (Generate backend codec pass) (\<lambda>plan.
     attempt clock_now (\<lambda>now.
       let stamped = plan\<lparr>pn_GeneratedAt := Some now\<rparr>
       in attempt (from_result (Marshal codec stamped)) (\<lambda>encoded.
          attempt (UpsertPassPlan
              \<lparr>pp_PassID = p_ID pass, pp_Generation = pn_Generation stamped,
               pp_PlanVersion = pn_PlanVersion stamped, pp_Encoded = encoded,
               pp_GeneratedAt = as_time (pn_GeneratedAt stamped)\<rparr>) (\<lambda>changed.
            ret (stamped, changed)))))"

section \<open>Facts\<close>

text \<open>Generating a plan only reads; storing it is the one write.\<close>

context guarantee begin

lemma radioFor [guar_intro]: "guar G (radioFor station pass)"
  by (auto simp: radioFor_def Let_def intro!: attempt wrapping reads asks if_guar fail ret)

lemma pipelineFor [guar_intro]: "guar G (pipelineFor pass)"
  by (auto simp: pipelineFor_def intro!: attempt wrapping reads ret split: option.split)

lemma trackFor [guar_intro]: "guar G (trackFor backend station pass elements)"
  by (auto simp: trackFor_def intro!: attempt wrapping reads PredictPasses case_option_guar fail ret)

lemma Generation [guar_intro]: "guar G (Generation codec plan)"
  by (auto simp: Generation_def intro!: fail asks split: option.split)

lemma Generate [guar_intro]: "guar G (Generate backend codec pass)"
  by (auto simp: Generate_def Let_def intro!: if_guar fail attempt wrapping reads radioFor
      pipelineFor trackFor Generation ret)

lemma GenerateAndStore_if:
  "(\<And>plan. guar G (UpsertPassPlan plan)) \<Longrightarrow> guar G (GenerateAndStore backend codec pass)"
  by (auto simp: GenerateAndStore_def Let_def intro!: attempt Generate clock_now from_result ret)

end

context server_guarantee begin

lemma GenerateAndStore [guar_intro]: "guar G (GenerateAndStore backend codec pass)"
  by (rule GenerateAndStore_if) (rule UpsertPassPlan)

end

text \<open>Storing a plan leaves the passes alone.\<close>

definition same_passes :: "database \<Rightarrow> database \<Rightarrow> bool" where
  "same_passes d d' \<longleftrightarrow> t_passes d' = t_passes d"

interpretation passes_kept: guarantee same_passes
  by unfold_locales (auto simp: same_passes_def)

lemma UpsertPassPlan_keeps_passes: "guar same_passes (UpsertPassPlan plan)"
proof -
  have "stmt_guar same_passes (upsert_plan_stmt plan)"
    by (auto simp: stmt_guar_def same_passes_def upsert_plan_stmt_def Let_def split: option.splits if_splits)
  then have "run_stmt (upsert_plan_stmt plan) w = (r, w') \<Longrightarrow> same_passes (db w) (db w')" for r w w'
    by (rule passes_kept.run_stmt_G)
  then show ?thesis
    by (auto simp: guar_def UpsertPassPlan_def scan_row_def
        split: prod.splits sum.splits dberr.splits option.splits)
qed

lemma GenerateAndStore_keeps_passes: "guar same_passes (GenerateAndStore backend codec pass)"
  by (rule passes_kept.GenerateAndStore_if) (rule UpsertPassPlan_keeps_passes)

end
