(* ===== verification/Sched_Service.thy ===== *)
theory Sched_Service
  imports Sched_Rules PassPlan
begin

text \<open>
  \<open>internal/scheduling/service.go\<close>: requesting a pass, the override by the root user, the
  decision of an administrator, cancellation and the scheduling configuration.  The service
  is its interfaces: the prediction backend and, when one is set, the plan generator.
\<close>

section \<open>The service and its types\<close>

record service =
  sv_predictor :: backend
  sv_plans :: "codec option"

record request_input =
  ri_SatelliteID :: uuid
  ri_RequestedAOS :: time
  ri_Band :: rf_band
  ri_RecordingMode :: recording_mode
  ri_Visibility :: pass_visibility
  ri_PipelineID :: "uuid option"
  ri_RadioSettings :: any_map

record request_result =
  rr_Pass :: pass
  rr_Warnings :: "warning list"
  rr_OverriddenPassIDs :: "uuid list"

definition matchTolerance :: duration where "matchTolerance = 2 * minute"
definition searchMargin :: duration where "searchMargin = 3 * hour"
definition trackStep :: duration where "trackStep = 5 * second"

definition needsPipeline :: "recording_mode \<Rightarrow> bool" where
  "needsPipeline mode \<longleftrightarrow> mode = RecordProcess \<or> mode = RecordRawAndProcess"

section \<open>Steps that several operations share\<close>

definition stationAndConfig :: "(station \<times> scheduling_config) repo" where
  "stationAndConfig =
     attempt ListStations (\<lambda>stations.
       case stations of
         [] \<Rightarrow> fail (ErrText ''no station is configured; complete first-run setup'')
       | station # _ \<Rightarrow>
           attempt clock_now (\<lambda>now.
           attempt (LatestEffectiveSchedulingConfig (st_ID station) now) (\<lambda>config.
             ret (station, config))))"

definition requireWorkerOnline :: "uuid \<Rightarrow> unit repo" where
  "requireWorkerOnline stationID =
     attempt_or (GetStationWorker stationID)
       (\<lambda>e. if errors_is e ErrNotFound then fail (Err ErrWorkerOffline) else fail e)
       (\<lambda>worker. if w_ConnectionState worker \<noteq> WorkerOnline then fail (Err ErrWorkerOffline) else ret ())"

fun matching_candidate :: "time \<Rightarrow> predicted_pass list \<Rightarrow> predicted_pass option" where
  "matching_candidate aos [] = None"
| "matching_candidate aos (candidate # rest) =
     (if near_to matchTolerance aos candidate then Some candidate else matching_candidate aos rest)"

definition resolvePass ::
  "service \<Rightarrow> station \<Rightarrow> scheduling_config \<Rightarrow> tle_record \<Rightarrow> time \<Rightarrow> predicted_pass repo" where
  "resolvePass sv station config tleRecord requestedAOS =
     attempt (wrapping ''predict pass'' (PredictPasses (sv_predictor sv)
         \<lparr>rq_Line1 = tle_Line1 tleRecord, rq_Line2 = tle_Line2 tleRecord,
          rq_LatitudeDegrees = st_Latitude station, rq_LongitudeDegrees = st_Longitude station,
          rq_AltitudeM = st_AltitudeM station,
          rq_MinimumElevationDegrees = sc_MinimumElevationDegrees config,
          rq_SearchStart = time_add requestedAOS (- searchMargin),
          rq_SearchEnd = time_add requestedAOS searchMargin,
          rq_TrackStep = trackStep, rq_MaxPasses = 0\<rparr>)) (\<lambda>result.
       case matching_candidate requestedAOS (rs_Passes result) of
         Some candidate \<Rightarrow> ret candidate
       | None \<Rightarrow> fail (Err ErrPassNotFound))"

text \<open>The loop over the conflicts that widens the reported window.\<close>

fun occupied :: "pass list \<Rightarrow> time \<Rightarrow> time \<Rightarrow> time \<times> time" where
  "occupied [] from to = (from, to)"
| "occupied (c # cs) from to =
     occupied cs (if before (p_ReservedFrom c) from then p_ReservedFrom c else from)
                 (if after (p_ReservedTo c) to then p_ReservedTo c else to)"

definition conflictFor :: "uuid \<Rightarrow> reservation \<Rightarrow> err repo" where
  "conflictFor stationID r =
     attempt_or (FindConflictingPasses stationID (From r) (To r) LiveStatuses)
       (\<lambda>_. ret (ConflictError (From r) (To r)))
       (\<lambda>conflicts.
          case conflicts of
            [] \<Rightarrow> ret (ConflictError (From r) (To r))
          | c # cs \<Rightarrow>
              (let (from, to) = occupied cs (p_ReservedFrom c) (p_ReservedTo c)
               in ret (ConflictError from to)))"

definition generatePlan :: "service \<Rightarrow> pass \<Rightarrow> unit repo" where
  "generatePlan sv pass =
     (case sv_plans sv of
        None \<Rightarrow> ret ()
      | Some codec \<Rightarrow>
          attempt (wrapping ''generate pass plan'' (GenerateAndStore (sv_predictor sv) codec pass))
            (\<lambda>_. ret ()))"

definition pass_audit :: "uuid option \<Rightarrow> string \<Rightarrow> uuid \<Rightarrow> any_map \<Rightarrow> audit_record repo" where
  "pass_audit actor action passID details =
     AppendAudit (audit_entry actor action ''pass'' (RefID passID) details)"

section \<open>Requesting a pass\<close>

definition band_warnings :: "rf_band \<Rightarrow> rf_band \<Rightarrow> warning list" where
  "band_warnings passBand stationBand =
     (case BandMismatchWarning passBand stationBand of None \<Rightarrow> [] | Some wn \<Rightarrow> [wn])"

definition default_visibility :: "pass_visibility \<Rightarrow> pass_visibility" where
  "default_visibility v = (if v = pass_visibility_of '''' then VisibilityPrivate else v)"

definition default_mode :: "recording_mode \<Rightarrow> recording_mode" where
  "default_mode m = (if m = recording_mode_of '''' then RecordRaw else m)"

definition requested_pass ::
  "user \<Rightarrow> request_input \<Rightarrow> satellite \<Rightarrow> station \<Rightarrow> scheduling_config \<Rightarrow> tle_record \<Rightarrow>
   predicted_pass \<Rightarrow> pass" where
  "requested_pass actor input satellite station config tleRecord predicted =
     (let r = ReservationFor (pr_AOS predicted) (pr_LOS predicted) config
      in \<lparr>p_ID = 0, p_StationID = st_ID station, p_SatelliteID = sat_ID satellite,
          p_RequestedBy = u_ID actor, p_TLERecordID = tle_ID tleRecord,
          p_SchedulingConfigID = sc_ID config, p_Status = PassPendingApproval,
          p_Visibility = default_visibility (ri_Visibility input), p_Band = ri_Band input,
          p_AOSAt = pr_AOS predicted, p_LOSAt = pr_LOS predicted,
          p_TCAAt = Some (pr_TCA predicted),
          p_MaxElevationDegrees = pr_MaxElevationDegrees predicted,
          p_ReservedFrom = From r, p_ReservedTo = To r,
          p_RecordingMode = default_mode (ri_RecordingMode input),
          p_RecordingPreRoll = sc_RecordingPreRoll config,
          p_RecordingPostRoll = sc_RecordingPostRoll config,
          p_PipelineID = ri_PipelineID input, p_RadioSettings = ri_RadioSettings input,
          p_ApprovedBy = None, p_ApprovedAt = None, p_CancellationReason = None,
          p_CancelledBy = None, p_CancelledAt = None, p_CreatedAt = 0, p_UpdatedAt = 0\<rparr>)"

definition RequestPass :: "service \<Rightarrow> user \<Rightarrow> request_input \<Rightarrow> request_result repo" where
  "RequestPass sv actor input =
     attempt (GetSatelliteByID (ri_SatelliteID input)) (\<lambda>satellite.
     if \<not> sat_IsSchedulable satellite then fail (Err ErrNotSchedulable)
     else if ri_Band input \<noteq> BandVHF \<and> ri_Band input \<noteq> BandUHF
     then fail (ErrText ''band must be vhf or uhf'')
     else
     attempt stationAndConfig (\<lambda>(station, config).
     attempt (requireWorkerOnline (st_ID station)) (\<lambda>_.
     attempt_or (LatestTLERecord (sat_ID satellite))
       (\<lambda>e. if errors_is e ErrNotFound then fail (ErrText ''satellite has no orbital data'') else fail e)
     (\<lambda>tleRecord.
     attempt (resolvePass sv station config tleRecord (ri_RequestedAOS input)) (\<lambda>predicted.
     attempt clock_now (\<lambda>now.
     attempt (from_result (CheckLeadTime now (pr_AOS predicted) config)) (\<lambda>_.
     if needsPipeline (default_mode (ri_RecordingMode input)) \<and> ri_PipelineID input = None
     then fail (Err ErrPipelineRequired)
     else
     attempt_or (CreatePass (requested_pass actor input satellite station config tleRecord predicted))
       (\<lambda>e. if errors_is e ErrStationOverlap
            then attempt (conflictFor (st_ID station)
                   (ReservationFor (pr_AOS predicted) (pr_LOS predicted) config)) fail
            else fail e)
     (\<lambda>created.
     ignoring (pass_audit (Some (u_ID actor)) ''pass.requested'' (p_ID created)
         [(''satellite_norad_id'', VInt (sat_NoradID satellite)), (''aos'', VTime (p_AOSAt created)),
          (''band'', VString (rf_band_string (p_Band created))),
          (''visibility'', VString (pass_visibility_string (p_Visibility created)))])
     (ret \<lparr>rr_Pass = created,
           rr_Warnings = band_warnings (ri_Band input) (st_ActiveRFBand station),
           rr_OverriddenPassIDs = []\<rparr>)))))))))"

section \<open>The override by the root user\<close>

text \<open>The body of the transaction.\<close>

definition override_audit :: "uuid \<Rightarrow> pass \<Rightarrow> audit_record" where
  "override_audit actorID c =
     (audit_entry (Some actorID) ''pass.cancelled_by_root_override'' ''pass'' (RefID (p_ID c))
       [(''status'', VString (pass_status_string PassCancelled))])
       \<lparr>a_PreviousState := [(''status'', VString (pass_status_string (p_Status c)))],
        a_Reason := ''root override''\<rparr>"

definition cancel_conflicting :: "uuid \<Rightarrow> time \<Rightarrow> pass \<Rightarrow> unit repo" where
  "cancel_conflicting actorID now c =
     attempt (wrapping ''cancel conflicting pass''
       (CancelPass (p_ID c) actorID CancelledByRootOverride now)) (\<lambda>_.
     attempt (AppendAudit (override_audit actorID c)) (\<lambda>_. ret ()))"

definition override_tx :: "uuid \<Rightarrow> time \<Rightarrow> pass \<Rightarrow> (pass \<times> uuid list) repo" where
  "override_tx actorID now p =
     attempt (FindConflictingPasses (p_StationID p) (p_ReservedFrom p) (p_ReservedTo p) LiveStatuses)
       (\<lambda>conflicts.
     attempt (for_each conflicts (cancel_conflicting actorID now)) (\<lambda>_.
     attempt (CreatePass p) (\<lambda>created.
     attempt (ApprovePass (p_ID created) actorID now) (\<lambda>_.
       let result = created\<lparr>p_Status := PassApproved, p_ApprovedBy := Some actorID, p_ApprovedAt := Some now\<rparr>
       in attempt (AppendAudit (audit_entry (Some actorID) ''pass.root_override_created'' ''pass''
            (RefID (p_ID created))
            [(''overridden_pass_count'', VInt (int (length conflicts))),
             (''aos'', VTime (p_AOSAt created))]))
          (\<lambda>_. ret (result, map p_ID conflicts))))))"

definition RequestPassWithRootOverride ::
  "service \<Rightarrow> user \<Rightarrow> request_input \<Rightarrow> request_result repo" where
  "RequestPassWithRootOverride sv actor input =
     (if u_Role actor \<noteq> RoleRoot then fail (Err ErrForbidden)
      else
      attempt (GetSatelliteByID (ri_SatelliteID input)) (\<lambda>satellite.
      if \<not> sat_IsSchedulable satellite then fail (Err ErrNotSchedulable)
      else
      attempt stationAndConfig (\<lambda>(station, config).
      attempt (requireWorkerOnline (st_ID station)) (\<lambda>_.
      attempt (LatestTLERecord (sat_ID satellite)) (\<lambda>tleRecord.
      attempt (resolvePass sv station config tleRecord (ri_RequestedAOS input)) (\<lambda>predicted.
      attempt clock_now (\<lambda>now.
      attempt (from_result (CheckLeadTime now (pr_AOS predicted) config)) (\<lambda>_.
      if needsPipeline (default_mode (ri_RecordingMode input)) \<and> ri_PipelineID input = None
      then fail (Err ErrPipelineRequired)
      else
      attempt (InTx (override_tx (u_ID actor) now
                 (requested_pass actor input satellite station config tleRecord predicted)))
        (\<lambda>(result, overridden).
      attempt (generatePlan sv result) (\<lambda>_.
        ret \<lparr>rr_Pass = result,
             rr_Warnings = band_warnings (ri_Band input) (st_ActiveRFBand station),
             rr_OverriddenPassIDs = overridden\<rparr>))))))))))"

section \<open>Decisions, cancellation, configuration\<close>

definition decide :: "service \<Rightarrow> user \<Rightarrow> uuid \<Rightarrow> pass_status \<Rightarrow> pass repo" where
  "decide sv actor passID target =
     (if \<not> CanApprovePasses actor then fail (Err ErrForbidden)
      else
      attempt (GetPassByID passID) (\<lambda>pass.
      attempt (from_result (ValidateTransition (p_Status pass) target)) (\<lambda>_.
      attempt (if target = PassApproved then generatePlan sv (pass\<lparr>p_Status := PassApproved\<rparr>) else ret ())
        (\<lambda>_.
      attempt clock_now (\<lambda>now.
      attempt (if target = PassApproved then ApprovePass passID (u_ID actor) now
               else RejectPass passID (u_ID actor) now) (\<lambda>_.
      ignoring (pass_audit (Some (u_ID actor)) (''pass.'' @ pass_status_string target) passID
          [(''previous_status'', VString (pass_status_string (p_Status pass)))])
        (GetPassByID passID)))))))"

definition Approve :: "service \<Rightarrow> user \<Rightarrow> uuid \<Rightarrow> pass repo" where
  "Approve sv actor passID = decide sv actor passID PassApproved"

definition Reject :: "service \<Rightarrow> user \<Rightarrow> uuid \<Rightarrow> pass repo" where
  "Reject sv actor passID = decide sv actor passID PassRejected"

definition Cancel :: "user \<Rightarrow> uuid \<Rightarrow> pass repo" where
  "Cancel actor passID =
     attempt (GetPassByID passID) (\<lambda>pass.
     if \<not> CanCancelPass actor pass then fail (Err ErrForbidden)
     else
     attempt (from_result (ValidateTransition (p_Status pass) PassCancelled)) (\<lambda>_.
     let reason = CancellationReasonFor actor pass
     in attempt clock_now (\<lambda>now.
        attempt (CancelPass passID (u_ID actor) reason now) (\<lambda>_.
        ignoring (pass_audit (Some (u_ID actor)) ''pass.cancelled'' passID
            [(''previous_status'', VString (pass_status_string (p_Status pass))),
             (''reason'', VString (cancellation_reason_string reason))])
          (GetPassByID passID)))))"

text \<open>\<open>Seconds()\<close> of a duration, as an exact quotient.\<close>

definition UpdateSchedulingConfig :: "user \<Rightarrow> scheduling_config \<Rightarrow> scheduling_config repo" where
  "UpdateSchedulingConfig actor config =
     (if \<not> CanConfigureStation actor then fail (Err ErrForbidden)
      else
      attempt stationAndConfig (\<lambda>(station, current).
      attempt clock_now (\<lambda>now.
      let config' = config\<lparr>sc_StationID := st_ID station, sc_CreatedBy := Some (u_ID actor),
            sc_EffectiveFrom := EffectiveFromForNewConfig now (sc_MinimumLeadTime current)
              (sc_MinimumLeadTime config)\<rparr>
      in attempt (CreateSchedulingConfig config') (\<lambda>saved.
         ignoring (pass_audit (Some (u_ID actor)) ''scheduling_config.updated'' (sc_ID saved)
             [(''minimum_lead_time_seconds'',
                VFloat (of_int (sc_MinimumLeadTime config') / of_int second)),
              (''effective_from'', VTime (sc_EffectiveFrom saved))])
           (ret saved)))))"

section \<open>Every operation takes steps of the server only\<close>

lemma requested_pass_pending [simp]:
  "p_Status (requested_pass actor input satellite station config tleRecord predicted) = PassPendingApproval"
  by (simp add: requested_pass_def Let_def)

context guarantee begin

lemma stationAndConfig [guar_intro]: "guar G stationAndConfig"
  by (auto simp: stationAndConfig_def intro!: attempt reads clock_now fail ret split: list.split)

lemma requireWorkerOnline [guar_intro]: "guar G (requireWorkerOnline sid)"
  by (auto simp: requireWorkerOnline_def intro!: attempt_or reads if_guar fail ret)

lemma resolvePass [guar_intro]: "guar G (resolvePass sv station config tleRecord requestedAOS)"
  by (auto simp: resolvePass_def intro!: attempt wrapping PredictPasses case_option_guar fail ret)

lemma generatePlan_if:
  "(\<And>codec p. guar G (GenerateAndStore (sv_predictor sv) codec p)) \<Longrightarrow> guar G (generatePlan sv p)"
  by (auto simp: generatePlan_def intro!: attempt wrapping ret split: option.split)

lemma conflictFor [guar_intro]: "guar G (conflictFor sid r)"
  by (auto simp: conflictFor_def intro!: attempt_or reads ret split: list.split prod.split)

end

context server_guarantee begin

lemma generatePlan [guar_intro]: "guar G (generatePlan sv p)"
  by (rule generatePlan_if) (rule GenerateAndStore)

lemma pass_audit [guar_intro]: "guar G (pass_audit actor action pid details)"
  by (simp add: pass_audit_def accounts)

lemma RequestPass [guar_intro]: "guar G (RequestPass sv actor input)"
  unfolding RequestPass_def
  by (intro attempt attempt_or if_guar case_prod_guar ignoring fail ret reads stationAndConfig
      requireWorkerOnline resolvePass clock_now from_result conflictFor CreatePass pass_audit
      requested_pass_pending)

lemma override_tx [guar_intro]:
  "p_Status p = PassPendingApproval \<Longrightarrow> guar G (override_tx actorID now p)"
  unfolding override_tx_def cancel_conflicting_def
  by (intro attempt for_each wrapping let_guar ret reads CreatePass pass_methods accounts)

lemma RequestPassWithRootOverride [guar_intro]: "guar G (RequestPassWithRootOverride sv actor input)"
  unfolding RequestPassWithRootOverride_def
  by (intro attempt if_guar case_prod_guar fail ret reads stationAndConfig requireWorkerOnline
      resolvePass clock_now from_result InTx override_tx generatePlan requested_pass_pending)

lemma decide [guar_intro]: "guar G (decide sv actor passID target)"
  unfolding decide_def
  by (intro attempt if_guar fail ret reads from_result clock_now ignoring generatePlan
      pass_methods pass_audit)

lemma Cancel [guar_intro]: "guar G (Cancel actor passID)"
  unfolding Cancel_def
  by (intro attempt if_guar let_guar fail reads from_result clock_now ignoring pass_methods pass_audit)

lemma UpdateSchedulingConfig [guar_intro]: "guar G (UpdateSchedulingConfig actor config)"
  unfolding UpdateSchedulingConfig_def
  by (intro attempt if_guar case_prod_guar let_guar fail ret stationAndConfig clock_now ignoring
      station_methods pass_audit)

end

end
