(* ===== verification/Sample.thy ===== *)
theory Sample
  imports Sched_Service
begin

text \<open>
  A small concrete system on which the properties are instantiated: one station with an
  online worker, one schedulable satellite with its elements, a root, an administrator and
  two users, and a prediction service that predicts one pass two hours ahead.
\<close>

definition sample_env :: env where
  "sample_env =
     \<lparr>env_fault = (\<lambda>_. None), env_uuid = (\<lambda>n. word_of_nat (100 + n)), env_now = (\<lambda>n. int n),
      env_clock = (\<lambda>n. int n), env_cancelled = (\<lambda>_. False), env_redis_up = (\<lambda>_. True),
      env_fs_ok = (\<lambda>_. True), env_token = (\<lambda>_. Some ''token''), env_salt = (\<lambda>_. Some ''salt''),
      env_ts = (\<lambda>t. t), env_interval = (\<lambda>d. d), env_numeric = (\<lambda>_ x. x), env_citext = (\<lambda>s. s),
      env_parse_uuid = (\<lambda>s. if s = ''one'' then Some 1 else None),
      env_sha256hex = (\<lambda>b. replicate 64 (CHR ''0'')), env_overflow = (\<lambda>_ _. 0),
      env_uuid_text = (\<lambda>u. if u = 1 then ''one'' else ''other''), env_time_text = (\<lambda>_. ''now''),
      env_round = (\<lambda>x. x), env_statfs = (\<lambda>_. Some (2 ^ 20, 2 ^ 21, 4096)),
      env_temp = (\<lambda>_. 7), env_send_ok = (\<lambda>_. True), env_partial = (\<lambda>_. None),
      env_cwd = Some ''/srv'',
      env_parse_time = (\<lambda>s. if s = ''soon'' then Some 7260000000000 else None), env_fold = (\<lambda>s. s),
      env_map_rank = (\<lambda>_ _. 0)\<rparr>"

definition sample_user :: "uuid \<Rightarrow> string \<Rightarrow> user_role \<Rightarrow> user" where
  "sample_user i name role =
     \<lparr>u_ID = i, u_Username = name, u_PasswordHash = ''$argon2id$'', u_Role = role,
      u_MustChangePassword = False, u_CreatedAt = 0, u_UpdatedAt = 0\<rparr>"

definition root :: user where "root = sample_user 1 ''root'' RoleRoot"
definition admin :: user where "admin = sample_user 2 ''admin'' RoleAdmin"
definition alice :: user where "alice = sample_user 3 ''alice'' RoleUser"
definition bob :: user where "bob = sample_user 4 ''bob'' RoleUser"

definition sample_station :: station where
  "sample_station =
     \<lparr>st_ID = 1, st_Name = ''station'', st_Latitude = 13, st_Longitude = 77, st_AltitudeM = 900,
      st_Timezone = ''UTC'', st_ActiveRFBand = BandVHF, st_CreatedAt = 0, st_UpdatedAt = 0\<rparr>"

definition sample_config :: scheduling_config where
  "sample_config =
     \<lparr>sc_ID = 1, sc_StationID = 1, sc_MinimumLeadTime = hour, sc_PrePassBuffer = minute,
      sc_PostPassBuffer = minute, sc_RecordingPreRoll = second, sc_RecordingPostRoll = second,
      sc_MinimumElevationDegrees = 10, sc_CreatedBy = Some 1, sc_CreatedAt = 0,
      sc_EffectiveFrom = 0\<rparr>"

definition sample_worker :: worker where
  "sample_worker =
     \<lparr>w_ID = 1, w_StationID = 1, w_Name = ''worker'', w_WorkerVersion = ''1'',
      w_ConnectionState = WorkerOnline, w_LastSeenAt = None, w_LastSyncAt = None,
      w_DesiredStateGeneration = 0, w_PendingUploads = 0, w_PendingReports = 0,
      w_SyncedGeneration = '''', w_CreatedAt = 0, w_UpdatedAt = 0\<rparr>"

definition sample_satellite :: satellite where
  "sample_satellite =
     \<lparr>sat_ID = 1, sat_NoradID = 25544, sat_Name = ''ISS'', sat_Description = '''',
      sat_Metadata = [], sat_IsSchedulable = True, sat_CreatedAt = 0, sat_UpdatedAt = 0\<rparr>"

definition sample_tle :: tle_record where
  "sample_tle =
     \<lparr>tle_ID = 1, tle_SatelliteID = 1, tle_Line1 = ''1'', tle_Line2 = ''2'', tle_Epoch = 0,
      tle_Source = SourceManual, tle_FetchedAt = 0\<rparr>"

definition sample_database :: database where
  "sample_database = empty_database
     \<lparr>t_users := [root, admin, alice, bob], t_stations := [sample_station],
      t_scheduling_configs := [sample_config], t_workers := [sample_worker],
      t_satellites := [sample_satellite], t_tle_records := [sample_tle]\<rparr>"

definition world_with :: "nat \<Rightarrow> database \<Rightarrow> world" where
  "world_with n d = \<lparr>env = sample_env, tick = n, tx = NoTx, db = d, redis = Map.empty, files = Map.empty\<rparr>"

definition sample_world :: world where
  "sample_world = world_with 0 sample_database"

definition sample_prediction :: proto_pass where
  "sample_prediction =
     \<lparr>ppp_aos = Some (2 * hour), ppp_tca = Some (2 * hour + 5 * minute),
      ppp_los = Some (2 * hour + 10 * minute), ppp_aos_azimuth = 0, ppp_tca_azimuth = 90,
      ppp_los_azimuth = 180, ppp_max_elevation = 45, ppp_duration_seconds = 600, ppp_track = []\<rparr>"

definition sample_service :: service where
  "sample_service =
     \<lparr>sv_predictor = (\<lambda>n rq. Inr \<lparr>prs_norad_id = 25544, prs_passes = [sample_prediction]\<rparr>),
      sv_plans = None\<rparr>"

definition sample_input :: request_input where
  "sample_input =
     \<lparr>ri_SatelliteID = 1, ri_RequestedAOS = 2 * hour + minute, ri_Band = BandVHF,
      ri_RecordingMode = RecordRaw, ri_Visibility = VisibilityPublic, ri_PipelineID = None,
      ri_RadioSettings = []\<rparr>"

text \<open>The same system once alice has requested the pass, and its approval.\<close>

definition sample_pass :: "pass_status \<Rightarrow> pass" where
  "sample_pass status =
     \<lparr>p_ID = 10, p_StationID = 1, p_SatelliteID = 1, p_RequestedBy = 3, p_TLERecordID = 1,
      p_SchedulingConfigID = 1, p_Status = status, p_Visibility = VisibilityPrivate,
      p_Band = BandVHF, p_AOSAt = 7200000000000, p_LOSAt = 7800000000000,
      p_TCAAt = Some 7500000000000, p_MaxElevationDegrees = 45,
      p_ReservedFrom = 7140000000000, p_ReservedTo = 7860000000000,
      p_RecordingMode = RecordRaw, p_RecordingPreRoll = 1000000000,
      p_RecordingPostRoll = 1000000000, p_PipelineID = None, p_RadioSettings = [],
      p_ApprovedBy = None, p_ApprovedAt = None, p_CancellationReason = None,
      p_CancelledBy = None, p_CancelledAt = None, p_CreatedAt = 0, p_UpdatedAt = 0\<rparr>"

definition booked_world :: world where
  "booked_world =
     world_with 20 (sample_database\<lparr>t_passes := [sample_pass PassPendingApproval]\<rparr>)"

definition approved_world :: world where
  "approved_world =
     world_with 20 (sample_database\<lparr>t_passes := [sample_pass PassApproved]\<rparr>)"

text \<open>
  A system built up from empty tables by the server's own operations: the root account, a
  station with its configuration and a worker that reports in, a satellite with elements, and
  two requests for passes two and four hours ahead.
\<close>

definition later_service :: service where
  "later_service = sample_service
     \<lparr>sv_predictor := (\<lambda>n rq. Inr \<lparr>prs_norad_id = 25544, prs_passes = [sample_prediction
        \<lparr>ppp_aos := Some (4 * hour), ppp_tca := Some (4 * hour + 5 * minute),
         ppp_los := Some (4 * hour + 10 * minute)\<rparr>]\<rparr>)\<rparr>"

definition demo_run :: "uuid list repo" where
  "demo_run =
     attempt (CreateUser root) (\<lambda>u.
     attempt (CreateStation sample_station) (\<lambda>s.
     attempt (CreateSchedulingConfig (sample_config\<lparr>sc_StationID := st_ID s, sc_CreatedBy := Some (u_ID u)\<rparr>))
       (\<lambda>c.
     attempt (CreateWorker (sample_worker\<lparr>w_StationID := st_ID s\<rparr>)) (\<lambda>k.
     attempt (RecordHeartbeat \<lparr>hb_WorkerID = w_ID k, hb_SeenAt = 0, hb_WorkerVersion = ''1'',
        hb_PendingUploads = 0, hb_PendingReports = 0\<rparr>) (\<lambda>_.
     attempt (CreateSatellite sample_satellite) (\<lambda>x.
     attempt (CreateTLERecord (sample_tle\<lparr>tle_SatelliteID := sat_ID x,
        tle_Line1 := ''1 '' @ replicate 67 (CHR ''0''), tle_Line2 := ''2 '' @ replicate 67 (CHR ''0'')\<rparr>))
       (\<lambda>_.
     attempt (RequestPass sample_service u (sample_input\<lparr>ri_SatelliteID := sat_ID x\<rparr>)) (\<lambda>r1.
     attempt (RequestPass later_service u
        (sample_input\<lparr>ri_SatelliteID := sat_ID x, ri_RequestedAOS := 4 * hour\<rparr>)) (\<lambda>r2.
       ret [p_ID (rr_Pass r1), p_ID (rr_Pass r2)])))))))))"

definition demo_world :: world where
  "demo_world = snd (demo_run (world_with 0 empty_database))"

text \<open>The booked system with a plan generator and a configured VHF band.\<close>

definition sample_codec :: codec where
  "sample_codec = \<lparr>co_marshal = (\<lambda>plan. Some (''plan '' @ pn_SatelliteName plan)), co_unmarshal = (\<lambda>_. None)\<rparr>"

definition planning_service :: service where
  "planning_service = sample_service\<lparr>sv_plans := Some sample_codec\<rparr>"

definition sample_band :: station_band_config where
  "sample_band =
     \<lparr>bc_StationID = 1, bc_Band = BandVHF, bc_AntennaDescription = '''',
      bc_CenterFrequencyHz = Some 145800000, bc_SampleRateHz = Some 2400000, bc_GainDB = Some 30,
      bc_PPMCorrection = 0, bc_BiasTeeEnabled = False\<rparr>"

definition planning_world :: world where
  "planning_world = world_with 20 (sample_database
     \<lparr>t_passes := [sample_pass PassPendingApproval], t_band_configs := [sample_band]\<rparr>)"

end
