(* ===== verification/Outcomes.thy ===== *)
theory Outcomes
  imports Store_Steps
begin

text \<open>
  Proof rules for what an operation returns: an equation for each combinator that says when
  a result or an error comes out (\<open>outcome\<close>), and the class \<open>clean_fail\<close> of operations that
  leave the tables alone when they return an error.
\<close>

named_theorems outcome \<open>when an operation returns a result or an error\<close>
named_theorems clean_intro \<open>rules for operations that fail without a trace in the tables\<close>

section \<open>Results\<close>

lemma ret_eq [outcome]: "ret x w = (r, w') \<longleftrightarrow> r = Inr x \<and> w' = w"
  by (auto simp: ret_def)

lemma fail_eq [outcome]: "fail e w = (r, w') \<longleftrightarrow> r = Inl e \<and> w' = w"
  by (auto simp: fail_def)

lemma attempt_or_eq [outcome]:
  "attempt_or m h k w = (r, w') \<longleftrightarrow>
     (\<exists>e w1. m w = (Inl e, w1) \<and> h e w1 = (r, w')) \<or> (\<exists>x w1. m w = (Inr x, w1) \<and> k x w1 = (r, w'))"
  by (auto simp: attempt_or_def split: prod.splits sum.splits)

lemma attempt_Inr [outcome]:
  "attempt m k w = (Inr y, w') \<longleftrightarrow> (\<exists>x w1. m w = (Inr x, w1) \<and> k x w1 = (Inr y, w'))"
  by (auto simp: attempt_def attempt_or_eq fail_eq)

lemma attempt_Inl:
  "attempt m k w = (Inl e, w') \<longleftrightarrow>
     m w = (Inl e, w') \<or> (\<exists>x w1. m w = (Inr x, w1) \<and> k x w1 = (Inl e, w'))"
  by (auto simp: attempt_def attempt_or_eq fail_eq)

lemma ignoring_eq [outcome]: "ignoring m k w = (r, w') \<longleftrightarrow> (\<exists>s w1. m w = (s, w1) \<and> k w1 = (r, w'))"
  unfolding ignoring_def attempt_or_eq by (metis obj_sumE)

lemma wrapping_Inr [outcome]: "wrapping msg m w = (Inr x, w') \<longleftrightarrow> m w = (Inr x, w')"
  by (auto simp: wrapping_def attempt_or_eq fail_eq ret_eq)

lemma from_result_eq [outcome]: "from_result v w = (r, w') \<longleftrightarrow> v = r \<and> w' = w"
  by (auto simp: from_result_def fail_eq ret_eq split: sum.splits)

lemma clock_now_eq [outcome]:
  "clock_now w = (r, w') \<longleftrightarrow> r = Inr (env_clock (env w) (tick w)) \<and> w' = advance w"
  by (auto simp: clock_now_def)

lemma asks_eq [outcome]: "asks f w = (r, w') \<longleftrightarrow> r = Inr (f (env w)) \<and> w' = w"
  by (auto simp: asks_def)

definition runs :: "world \<Rightarrow> bool" where
  "runs w \<longleftrightarrow> tx w \<noteq> TxAborted \<and> env_fault (env w) (tick w) = None"

lemma run_stmt_Inr:
  "run_stmt q w = (Inr x, w') \<longleftrightarrow>
     runs w \<and> (\<exists>d. q (env w) (tick w) (db w) = Inr (x, d) \<and> w' = (advance w)\<lparr>db := d\<rparr>)"
  by (auto simp: run_stmt_def runs_def split: option.splits sum.splits prod.splits)

lemma run_stmt_Inl_db: "run_stmt q w = (Inl e, w') \<Longrightarrow> db w' = db w"
  by (auto simp: run_stmt_def split: option.splits sum.splits prod.splits if_splits)

lemma query_Inr [outcome]:
  "query q w = (Inr x, w') \<longleftrightarrow>
     runs w \<and> (\<exists>d. q (env w) (tick w) (db w) = Inr (x, d) \<and> w' = (advance w)\<lparr>db := d\<rparr>)"
  by (auto simp: query_def translated_def run_stmt_Inr [symmetric] split: prod.splits sum.splits)

lemma scan_row_Inr:
  "scan_row q w = (Inr x, w') \<longleftrightarrow> run_stmt q w = (Inr (Some x), w')"
  by (auto simp: scan_row_def split: prod.splits sum.splits option.splits)

lemma query_row_Inr [outcome]:
  "query_row q w = (Inr x, w') \<longleftrightarrow>
     runs w \<and> (\<exists>d. q (env w) (tick w) (db w) = Inr (Some x, d) \<and> w' = (advance w)\<lparr>db := d\<rparr>)"
  by (auto simp: query_row_def translated_def run_stmt_Inr [symmetric] scan_row_Inr [symmetric]
      split: prod.splits sum.splits)

lemma select_Inr [outcome]: "select f e n d = Inr (x, d') \<longleftrightarrow> x = f e n d \<and> d' = d"
  by (auto simp: select_def)

lemma exec_one_Inr [outcome]:
  "exec_one q w = (Inr u, w') \<longleftrightarrow>
     runs w \<and> (\<exists>n d. q (env w) (tick w) (db w) = Inr (n, d) \<and> n \<noteq> 0 \<and> w' = (advance w)\<lparr>db := d\<rparr>)"
  by (auto simp: exec_one_def attempt_Inr query_Inr fail_eq ret_eq split: if_splits)

lemma InTx_Inr:
  "InTx m w = (Inr x, w') \<Longrightarrow> tx w = NoTx \<and>
     (\<exists>w1. m ((advance w)\<lparr>tx := TxOpen\<rparr>) = (Inr x, w1) \<and> tx w1 \<noteq> TxAborted \<and> w' = (advance w1)\<lparr>tx := NoTx\<rparr>)"
  by (auto simp: InTx_def split: if_splits option.splits prod.splits sum.splits)

text \<open>Branches of an operation, as alternatives of its outcome.\<close>

lemma branches:
  "(if b then m else k) w = z \<longleftrightarrow> b \<and> m w = z \<or> \<not> b \<and> k w = z"
  "(case v of Inl x \<Rightarrow> f x | Inr y \<Rightarrow> g y) w = z \<longleftrightarrow>
     (\<exists>x. v = Inl x \<and> f x w = z) \<or> (\<exists>y. v = Inr y \<and> g y w = z)"
  "(case u of None \<Rightarrow> m | Some y \<Rightarrow> h y) w = z \<longleftrightarrow>
     u = None \<and> m w = z \<or> (\<exists>y. u = Some y \<and> h y w = z)"
  "(case p of (x, y) \<Rightarrow> l x y) w = z \<longleftrightarrow> l (fst p) (snd p) w = z"
  by (auto split: sum.split option.split prod.split)

section \<open>Errors without an effect on the tables\<close>

definition clean_fail :: "'a repo \<Rightarrow> bool" where
  "clean_fail m \<longleftrightarrow> (\<forall>w e w'. m w = (Inl e, w') \<longrightarrow> db w' = db w)"

lemma clean_failD: "clean_fail m \<Longrightarrow> m w = (Inl e, w') \<Longrightarrow> db w' = db w"
  by (simp add: clean_fail_def)

lemma reads_db: "guar (=) m \<Longrightarrow> m w = (r, w') \<Longrightarrow> db w' = db w"
  by (drule (1) guarD) simp

lemma clean_read: "guar (=) m \<Longrightarrow> clean_fail m"
  by (auto simp: clean_fail_def dest: reads_db)

lemma clean_ret [clean_intro]: "clean_fail (ret x)"
  by (simp add: clean_fail_def ret_def)

lemma clean_fail_fail [clean_intro]: "clean_fail (fail e)"
  by (simp add: clean_fail_def fail_def)

lemma clean_attempt_or_read:
  assumes m: "guar (=) m" and h: "\<And>e. clean_fail (h e)" and k: "\<And>x. clean_fail (k x)"
  shows "clean_fail (attempt_or m h k)"
  unfolding clean_fail_def attempt_or_eq
proof (intro allI impI, elim disjE exE conjE)
  fix w e w' e1 w1
  assume 1: "m w = (Inl e1, w1)" and 2: "h e1 w1 = (Inl e, w')"
  show "db w' = db w" using reads_db [OF m 1] clean_failD [OF h 2] by simp
next
  fix w e w' x w1
  assume 1: "m w = (Inr x, w1)" and 2: "k x w1 = (Inl e, w')"
  show "db w' = db w" using reads_db [OF m 1] clean_failD [OF k 2] by simp
qed

lemma clean_attempt_read:
  "guar (=) m \<Longrightarrow> (\<And>x. clean_fail (k x)) \<Longrightarrow> clean_fail (attempt m k)"
  unfolding attempt_def by (rule clean_attempt_or_read) (auto intro: clean_fail_fail)

lemma clean_attempt_or_write:
  assumes m: "clean_fail m" and h: "\<And>e. clean_fail (h e)" and k: "\<And>x w. \<exists>y w'. k x w = (Inr y, w')"
  shows "clean_fail (attempt_or m h k)"
  unfolding clean_fail_def attempt_or_eq
proof (intro allI impI)
  fix w e w'
  have no: "k x w1 \<noteq> (Inl e, w')" for x w1 using k [of x w1] by auto
  assume "(\<exists>e1 w1. m w = (Inl e1, w1) \<and> h e1 w1 = (Inl e, w')) \<or>
    (\<exists>x w1. m w = (Inr x, w1) \<and> k x w1 = (Inl e, w'))"
  then show "db w' = db w"
    by (auto simp: no dest!: clean_failD [OF m] clean_failD [OF h])
qed

lemma clean_if [clean_intro]: "(b \<Longrightarrow> clean_fail m) \<Longrightarrow> (\<not> b \<Longrightarrow> clean_fail k) \<Longrightarrow> clean_fail (if b then m else k)"
  by simp

lemma clean_case_prod [clean_intro]:
  "(\<And>x y. clean_fail (k x y)) \<Longrightarrow> clean_fail (case v of (x, y) \<Rightarrow> k x y)"
  by (cases v) simp

lemma clean_let [clean_intro]: "clean_fail (k v) \<Longrightarrow> clean_fail (let x = v in k x)"
  by simp

lemma clean_query [clean_intro]: "clean_fail (query q)"
  by (auto simp: clean_fail_def query_def translated_def dest: run_stmt_Inl_db
      split: prod.splits sum.splits)

lemma clean_query_row:
  assumes "\<And>e n d d'. q e n d = Inr (None, d') \<Longrightarrow> d' = d"
  shows "clean_fail (query_row q)"
proof -
  have "db w' = db w" if "run_stmt q w = (Inr None, w')" for w w'
    using that assms by (auto simp: run_stmt_Inr)
  then show ?thesis
    by (auto simp: clean_fail_def query_row_def scan_row_def translated_def dest: run_stmt_Inl_db
        split: prod.splits sum.splits option.splits)
qed

lemma clean_InTx [clean_intro]: "clean_fail (InTx m)"
  by (auto simp: clean_fail_def InTx_def split: if_splits option.splits prod.splits sum.splits)

lemma clean_createPassOnce: "clean_fail (createPassOnce p)"
  unfolding createPassOnce_def
  by (rule clean_query_row) (auto simp: insert_pass_stmt_def split: option.splits)

lemma clean_create_pass_attempts: "clean_fail (create_pass_attempts k e p)"
proof (induction k arbitrary: e)
  case 0
  show ?case by (simp add: clean_fail_fail)
next
  case (Suc k)
  show ?case unfolding create_pass_attempts.simps
    by (rule clean_attempt_or_write [OF clean_createPassOnce])
       (auto intro!: clean_if clean_fail_fail clean_attempt_read reading.ctx_cancelled Suc.IH
         simp: ret_def)
qed

lemma clean_CreatePass [clean_intro]: "clean_fail (CreatePass p)"
  by (simp add: CreatePass_def clean_create_pass_attempts)

lemma CreatePass_Inr:
  assumes "CreatePass p w = (Inr created, w')"
  obtains w1 where "db w1 = db w" "env w1 = env w" "runs w1"
    "pass_insert_error (db w1) (stored_pass (env w) (tick w1) p) = None"
    "created = stored_pass (env w) (tick w1) p"
    "w' = (advance w1)\<lparr>db := (db w)\<lparr>t_passes := t_passes (db w) @ [created]\<rparr>\<rparr>"
proof -
  have "\<exists>w1. db w1 = db w \<and> env w1 = env w \<and> runs w1 \<and>
      pass_insert_error (db w1) (stored_pass (env w) (tick w1) p) = None \<and>
      created = stored_pass (env w) (tick w1) p \<and>
      w' = (advance w1)\<lparr>db := (db w)\<lparr>t_passes := t_passes (db w) @ [created]\<rparr>\<rparr>"
    if "create_pass_attempts k e p w = (Inr created, w')" for k e
    using that
  proof (induction k arbitrary: e w)
    case 0
    then show ?case by (simp add: fail_def)
  next
    case (Suc k)
    from Suc.prems consider
        (stored) w0 where "createPassOnce p w = (Inr created, w0)" "w' = w0"
      | (again) e0 w0 where "createPassOnce p w = (Inl e0, w0)"
          "create_pass_attempts k e0 p (advance w0) = (Inr created, w')"
      by (auto simp: attempt_or_eq outcome ctx_cancelled_def split: if_splits)
    then show ?case
    proof cases
      case stored
      then show ?thesis
        by (auto simp: createPassOnce_def query_row_Inr insert_pass_stmt_def split: option.splits
            intro!: exI [of _ w])
    next
      case (again e0 w0)
      have "db w0 = db w" using clean_failD [OF clean_createPassOnce again(1)] .
      moreover have "env w0 = env w"
        using again(1) by (auto simp: createPassOnce_def query_row_def translated_def scan_row_def
            run_stmt_def split: prod.splits sum.splits option.splits if_splits)
      ultimately show ?thesis using Suc.IH [OF again(2)] by simp
    qed
  qed
  from this [OF assms [unfolded CreatePass_def]] show ?thesis using that by blast
qed

text \<open>An operation that fails without a trace except in the case \<open>Q\<close>.\<close>

definition clean_unless :: "(err \<Rightarrow> world \<Rightarrow> bool) \<Rightarrow> 'a repo \<Rightarrow> bool" where
  "clean_unless Q m \<longleftrightarrow> (\<forall>w e w'. m w = (Inl e, w') \<longrightarrow> db w' = db w \<or> Q e w')"

lemma clean_unlessD: "clean_unless Q m \<Longrightarrow> m w = (Inl e, w') \<Longrightarrow> db w' = db w \<or> Q e w'"
  by (simp add: clean_unless_def)

lemma clean_unless_clean: "clean_fail m \<Longrightarrow> clean_unless Q m"
  by (auto simp: clean_unless_def clean_fail_def)

lemma clean_unless_read:
  assumes m: "guar (=) m" and k: "\<And>x. clean_unless Q (k x)"
  shows "clean_unless Q (attempt m k)"
  unfolding clean_unless_def attempt_Inl
proof (intro allI impI, elim disjE exE conjE)
  fix w e w'
  assume "m w = (Inl e, w')"
  from reads_db [OF m this] show "db w' = db w \<or> Q e w'" by blast
next
  fix w e w' x w1
  assume 1: "m w = (Inr x, w1)" and 2: "k x w1 = (Inl e, w')"
  show "db w' = db w \<or> Q e w'" using reads_db [OF m 1] clean_unlessD [OF k 2] by simp
qed

lemma clean_unless_cases:
  "(b \<Longrightarrow> clean_unless Q m) \<Longrightarrow> (\<not> b \<Longrightarrow> clean_unless Q k) \<Longrightarrow> clean_unless Q (if b then m else k)"
  "(\<And>x y. clean_unless Q (g x y)) \<Longrightarrow> clean_unless Q (case p of (x, y) \<Rightarrow> g x y)"
  by (auto split: prod.split)

section \<open>The environment does not change\<close>

named_theorems env_intro \<open>rules for operations that keep the environment\<close>

definition keeps_env :: "'a repo \<Rightarrow> bool" where
  "keeps_env m \<longleftrightarrow> (\<forall>w. env (snd (m w)) = env w)"

lemma keeps_envD: "keeps_env m \<Longrightarrow> m w = (r, w') \<Longrightarrow> env w' = env w"
  unfolding keeps_env_def by (metis snd_conv)

lemma keeps_env_basic [env_intro]:
  "keeps_env (ret x)" "keeps_env (fail e)" "keeps_env clock_now" "keeps_env ctx_cancelled"
  "keeps_env (asks f)" "keeps_env (external g)" "keeps_env (from_result v)"
  by (simp_all add: keeps_env_def repo_defs split: sum.split)

lemma env_run_stmt: "run_stmt q w = (r, w') \<Longrightarrow> env w' = env w"
  by (auto simp: run_stmt_def split: if_splits option.splits sum.splits)

lemma keeps_env_query [env_intro]: "keeps_env (query q)"
  by (auto simp: keeps_env_def query_def translated_def dest: env_run_stmt split: prod.splits sum.splits)

lemma keeps_env_query_row [env_intro]: "keeps_env (query_row q)"
  by (auto simp: keeps_env_def query_row_def translated_def scan_row_def dest: env_run_stmt
      split: prod.splits sum.splits option.splits)

lemma keeps_env_attempt_or [env_intro]:
  assumes "keeps_env m" and "\<And>e. keeps_env (h e)" and "\<And>x. keeps_env (k x)"
  shows "keeps_env (attempt_or m h k)"
  using assms by (auto simp: keeps_env_def attempt_or_def split: prod.splits sum.splits)
    (metis snd_conv)+

lemma keeps_env_attempt [env_intro]:
  "keeps_env m \<Longrightarrow> (\<And>x. keeps_env (k x)) \<Longrightarrow> keeps_env (attempt m k)"
  unfolding attempt_def by (intro env_intro)

lemma keeps_env_wrapping [env_intro]: "keeps_env m \<Longrightarrow> keeps_env (wrapping msg m)"
  unfolding wrapping_def by (intro env_intro)

lemma keeps_env_ignoring [env_intro]: "keeps_env m \<Longrightarrow> keeps_env k \<Longrightarrow> keeps_env (ignoring m k)"
  unfolding ignoring_def by (intro env_intro)

lemma keeps_env_cases [env_intro]:
  "(b \<Longrightarrow> keeps_env m) \<Longrightarrow> (\<not> b \<Longrightarrow> keeps_env k) \<Longrightarrow> keeps_env (if b then m else k)"
  "keeps_env m \<Longrightarrow> (\<And>x. keeps_env (f x)) \<Longrightarrow> keeps_env (case v of None \<Rightarrow> m | Some x \<Rightarrow> f x)"
  "(\<And>x y. keeps_env (g x y)) \<Longrightarrow> keeps_env (case p of (x, y) \<Rightarrow> g x y)"
  "keeps_env (l z) \<Longrightarrow> keeps_env (let x = z in l x)"
  by (auto split: option.split prod.split)

lemma keeps_env_for_each [env_intro]: "(\<And>x. keeps_env (f x)) \<Longrightarrow> keeps_env (for_each xs f)"
  by (induction xs) (auto intro: env_intro)

lemma keeps_env_exec_one [env_intro]: "keeps_env (exec_one q)"
  unfolding exec_one_def by (intro env_intro)

lemma keeps_env_reads [env_intro]:
  "keeps_env (GetUserByID uid)" "keeps_env ListStations"
  "keeps_env (LatestEffectiveSchedulingConfig sid t)" "keeps_env (GetStationWorker sid)"
  "keeps_env (GetSatelliteByID sid)" "keeps_env (LatestTLERecord sid)" "keeps_env (GetPassByID pid)"
  "keeps_env (FindConflictingPasses sid from to sts)" "keeps_env (AppendAudit a)"
  by (simp_all add: GetUserByID_def ListStations_def LatestEffectiveSchedulingConfig_def
      GetStationWorker_def GetSatelliteByID_def LatestTLERecord_def GetPassByID_def
      FindConflictingPasses_def AppendAudit_def keeps_env_query keeps_env_query_row)

section \<open>A part of the world that an operation leaves alone\<close>

named_theorems keeps_intro \<open>rules for operations that leave a part of the world alone\<close>

definition keeps :: "(world \<Rightarrow> 'v) \<Rightarrow> 'a repo \<Rightarrow> bool" where
  "keeps view m \<longleftrightarrow> (\<forall>w. view (snd (m w)) = view w)"

lemma keepsD: "keeps view m \<Longrightarrow> m w = (r, w') \<Longrightarrow> view w' = view w"
  unfolding keeps_def by (metis snd_conv)

lemma keeps_pure [keeps_intro]:
  "keeps view (ret x)" "keeps view (fail e)" "keeps view (asks f)" "keeps view (from_result v)"
  by (simp_all add: keeps_def repo_defs split: sum.split)

lemma keeps_attempt_or [keeps_intro]:
  assumes "keeps view m" and "\<And>e. keeps view (h e)" and "\<And>x. keeps view (k x)"
  shows "keeps view (attempt_or m h k)"
  using assms by (auto simp: keeps_def attempt_or_def split: prod.splits sum.splits)
    (metis snd_conv)+

lemma keeps_attempt [keeps_intro]:
  "keeps view m \<Longrightarrow> (\<And>x. keeps view (k x)) \<Longrightarrow> keeps view (attempt m k)"
  unfolding attempt_def by (intro keeps_intro)

lemma keeps_wrapping [keeps_intro]: "keeps view m \<Longrightarrow> keeps view (wrapping msg m)"
  unfolding wrapping_def by (intro keeps_intro)

lemma keeps_ignoring [keeps_intro]: "keeps view m \<Longrightarrow> keeps view k \<Longrightarrow> keeps view (ignoring m k)"
  unfolding ignoring_def by (intro keeps_intro)

lemma keeps_for_each [keeps_intro]: "(\<And>x. keeps view (f x)) \<Longrightarrow> keeps view (for_each xs f)"
  by (induction xs) (auto intro: keeps_intro)

lemma keeps_cases [keeps_intro]:
  "(b \<Longrightarrow> keeps view m) \<Longrightarrow> (\<not> b \<Longrightarrow> keeps view k) \<Longrightarrow> keeps view (if b then m else k)"
  "keeps view m \<Longrightarrow> (\<And>x. keeps view (f x)) \<Longrightarrow> keeps view (case v of None \<Rightarrow> m | Some x \<Rightarrow> f x)"
  "(\<And>x y. keeps view (g x y)) \<Longrightarrow> keeps view (case p of (x, y) \<Rightarrow> g x y)"
  "keeps view (l z) \<Longrightarrow> keeps view (let x = z in l x)"
  by (auto split: option.split prod.split)

lemma keeps_case_sum [keeps_intro]:
  "(\<And>x. v = Inl x \<Longrightarrow> keeps view (h x)) \<Longrightarrow> (\<And>y. v = Inr y \<Longrightarrow> keeps view (k y)) \<Longrightarrow>
    keeps view (case v of Inl x \<Rightarrow> h x | Inr y \<Rightarrow> k y)"
  by (cases v) auto

text \<open>The database is reached without a look at the files.\<close>

lemma files_run_stmt: "run_stmt q w = (r, w') \<Longrightarrow> files w' = files w"
  by (auto simp: run_stmt_def split: if_splits option.splits sum.splits)

lemma keeps_files_query [keeps_intro]:
  "keeps (\<lambda>w. files w path) (query q)" "keeps (\<lambda>w. files w path) (query_row qr)"
  "keeps (\<lambda>w. files w path) clock_now" "keeps (\<lambda>w. files w path) (external f)"
  by (auto simp: keeps_def query_def query_row_def translated_def scan_row_def clock_now_def external_def
      dest!: files_run_stmt split: prod.splits sum.splits option.splits)

lemma GetRecording_Inr:
  "GetRecording rid w = (Inr x, w') \<longleftrightarrow>
     runs w \<and> find_row (\<lambda>y. r_RecordingID y = rid) (t_recordings (db w)) = Some x \<and> w' = advance w"
  by (auto simp: GetRecording_def query_row_Inr select_Inr)

text \<open>Concrete runs.\<close>

lemma run_ok: "is_ok (fst x) \<Longrightarrow> \<exists>r w'. x = (Inr r, w')"
  by (cases x) (auto simp: is_ok_iff)

lemma run_error: "\<not> is_ok (fst x) \<Longrightarrow> \<exists>e w'. x = (Inl e, w')"
  by (cases x; cases "fst x") auto

end
