(* ===== verification/Store_Props.thy ===== *)
theory Store_Props
  imports Sample Outcomes
begin

text \<open>
  What the store promises its callers: transactions are all or nothing, the retries of
  \<open>CreatePass\<close>, the switch between scheduling configurations, the protection of the root
  account, the freshness of a stored pass plan.
\<close>

lemma demo_run_steps: "guar sql_step\<^sup>*\<^sup>* demo_run"
  unfolding demo_run_def
  by (intro steps.attempt steps.accounts steps.station_methods steps.worker_methods
      steps.catalog_methods steps.RequestPass steps.ret)

lemma demo_reachable: "reachable (db demo_world)"
proof -
  have "sql_step\<^sup>*\<^sup>* empty_database (db demo_world)"
    using demo_run_steps [unfolded guar_def, rule_format, of "world_with 0 empty_database"]
    by (simp add: demo_world_def world_with_def)
  then show ?thesis by (rule reachable_run) (rule reachable.start)
qed

section \<open>Transactions\<close>


section \<open>The retries of CreatePass\<close>

lemma createPassOnce_no_retry:
  assumes "env_fault (env w) (tick w) = None" and "tx w \<noteq> TxAborted"
    and "createPassOnce p w = (Inl e, w')"
  shows "\<not> errors_is e ErrSerialization"
  using assms
  by (auto simp: createPassOnce_def query_row_def translated_def scan_row_def run_stmt_def
      insert_pass_stmt_def pass_insert_error_def pass_fk_error_def overlapConstraintName_def
      serializationFailure_def deadlockDetected_def foreignKeyViolation_def
      split: if_splits option.splits)

lemma createPassOnce_fault:
  assumes "env_fault (env w) (tick w) = Some f" and "f = SerializationFault \<or> f = DeadlockFault"
    and "tx w = NoTx"
  shows "createPassOnce p w = (Inl (Err ErrSerialization), advance w)"
  using assms
  by (auto simp: createPassOnce_def query_row_def translated_def scan_row_def run_stmt_def
      overlapConstraintName_def serializationFailure_def deadlockDetected_def)

text \<open>
  C16.  Conflicts with concurrent transactions are retried: when the first \<open>k\<close> attempts fail
  with a serialization failure or a deadlock, with \<open>k\<close> below the limit of five and the request
  still alive, the next attempt decides, whatever it returns.
\<close>

theorem CreatePass_retries:
  assumes "k < createPassRetries" and "tx w = NoTx"
    and "\<forall>i<k. env_fault (env w) (tick w + 2 * i) = Some SerializationFault \<or>
               env_fault (env w) (tick w + 2 * i) = Some DeadlockFault"
    and "\<forall>i<k. \<not> env_cancelled (env w) (tick w + 2 * i + 1)"
    and "env_fault (env w) (tick w + 2 * k) = None"
  shows "CreatePass p w = createPassOnce p (w\<lparr>tick := tick w + 2 * k\<rparr>)"
proof -
  have "create_pass_attempts n e p w = createPassOnce p (w\<lparr>tick := tick w + 2 * k\<rparr>)"
    if "k < n" for n e
    using that assms(2-5)
  proof (induction k arbitrary: n e w)
    case 0
    then obtain m where n: "n = Suc m" by (cases n) auto
    from createPassOnce_no_retry [of w p] 0 show ?case
      by (cases "createPassOnce p w"; cases "fst (createPassOnce p w)")
         (auto simp: n attempt_or_def fail_def ret_def)
  next
    case (Suc k)
    then obtain m where n: "n = Suc m" by (cases n) auto
    define w1 where "w1 = advance (advance w)"
    from Suc.prems(3) have "env_fault (env w) (tick w) = Some SerializationFault \<or>
        env_fault (env w) (tick w) = Some DeadlockFault" by (elim allE [of _ 0]) simp
    then have once: "createPassOnce p w = (Inl (Err ErrSerialization), advance w)"
      using createPassOnce_fault Suc.prems(2) by blast
    from Suc.prems(4) have "\<not> env_cancelled (env w) (Suc (tick w))" by (elim allE [of _ 0]) simp
    with once have "create_pass_attempts n e p w = create_pass_attempts m (Err ErrSerialization) p w1"
      by (simp add: n attempt_or_def attempt_def ctx_cancelled_def w1_def)
    also have "\<dots> = createPassOnce p (w1\<lparr>tick := tick w1 + 2 * k\<rparr>)"
    proof (rule Suc.IH)
      show "k < m" using Suc.prems(1) n by simp
      show "tx w1 = NoTx" using Suc.prems(2) by (simp add: w1_def)
      show "\<forall>i<k. env_fault (env w1) (tick w1 + 2 * i) = Some SerializationFault \<or>
          env_fault (env w1) (tick w1 + 2 * i) = Some DeadlockFault"
        using Suc.prems(3) by (auto simp: w1_def dest: spec [of _ "Suc _"])
      show "\<forall>i<k. \<not> env_cancelled (env w1) (tick w1 + 2 * i + 1)"
        using Suc.prems(4) by (auto simp: w1_def dest: spec [of _ "Suc _"])
      show "env_fault (env w1) (tick w1 + 2 * k) = None" using Suc.prems(5) by (simp add: w1_def)
    qed
    also have "w1\<lparr>tick := tick w1 + 2 * k\<rparr> = w\<lparr>tick := tick w + 2 * Suc k\<rparr>"
      by (simp add: w1_def advance_def)
    finally show ?case .
  qed
  with assms(1) show ?thesis by (simp add: CreatePass_def)
qed

lemma CreatePass_retries_witness:
  "\<exists>created w'. CreatePass (requested_pass alice sample_input sample_satellite sample_station sample_config
       sample_tle (fromProto sample_env sample_prediction))
     (sample_world\<lparr>env := sample_env\<lparr>env_fault := (\<lambda>n. if n < 8 then Some DeadlockFault else None)\<rparr>\<rparr>)
     = (Inr created, w') \<and> p_ID created = 108"
proof -
  let ?w = "sample_world\<lparr>env := sample_env\<lparr>env_fault := (\<lambda>n. if n < 8 then Some DeadlockFault else None)\<rparr>\<rparr>"
  let ?p = "requested_pass alice sample_input sample_satellite sample_station sample_config
       sample_tle (fromProto sample_env sample_prediction)"
  have once: "map_sum (\<lambda>_. ()) p_ID (fst (createPassOnce ?p (?w\<lparr>tick := 8\<rparr>))) = Inr 108" by code_simp
  have "CreatePass ?p ?w = createPassOnce ?p (?w\<lparr>tick := tick ?w + 2 * 4\<rparr>)"
    by (rule CreatePass_retries)
       (auto simp: createPassRetries_def sample_world_def world_with_def sample_env_def)
  also have "tick ?w + 2 * 4 = 8" by (simp add: sample_world_def world_with_def)
  finally show ?thesis using once
    by (cases "createPassOnce ?p (?w\<lparr>tick := 8\<rparr>)"; cases "fst (createPassOnce ?p (?w\<lparr>tick := 8\<rparr>))") auto
qed

section \<open>Scheduling configurations\<close>

text \<open>
  C17.  A new configuration takes over at its instant: with the row of the newest configuration
  added to the table, the one before it stays effective until the new one's
  \<open>effective_from\<close>, and from then on the new one is.
\<close>

theorem new_config_takes_over:
  assumes "sc_StationID c = sid" and "\<forall>x\<in>set cs. sc_CreatedAt x < sc_CreatedAt c"
  shows "newest_config (effective_configs sid t (cs @ [c])) =
    (if sc_EffectiveFrom c \<le> t then Some c else newest_config (effective_configs sid t cs))"
proof (cases "sc_EffectiveFrom c \<le> t")
  case True
  with assms have "newest_config (effective_configs sid t (cs @ [c])) = Some c"
    by (intro newest_config_unique) (auto simp: effective_configs_def)
  with True show ?thesis by simp
next
  case False
  then show ?thesis by (simp add: effective_configs_def)
qed

lemma new_config_takes_over_witness:
  "newest_config (effective_configs 1 4 ([sample_config] @
     [sample_config\<lparr>sc_ID := 2, sc_CreatedAt := 5, sc_EffectiveFrom := 9\<rparr>])) = Some sample_config"
proof -
  let ?c = "sample_config\<lparr>sc_ID := 2, sc_CreatedAt := 5, sc_EffectiveFrom := 9\<rparr>"
  have "newest_config (effective_configs 1 4 ([sample_config] @ [?c])) =
      (if sc_EffectiveFrom ?c \<le> 4 then Some ?c else newest_config (effective_configs 1 4 [sample_config]))"
    by (rule new_config_takes_over) (auto simp: sample_config_def)
  also have "\<dots> = Some sample_config"
    by (simp add: sample_config_def effective_configs_def newest_config_def)
  finally show ?thesis .
qed

text \<open>
  The pending configuration is the newest one exactly when it is not yet effective: with
  the newest row added, it is reported as pending before its \<open>effective_from\<close> and nothing
  is pending from then on.
\<close>

theorem new_config_is_pending:
  assumes "sc_StationID c = sid" and "\<forall>x\<in>set cs. sc_CreatedAt x < sc_CreatedAt c"
  shows "newest_config (pending_configs sid t (cs @ [c])) =
    (if sc_EffectiveFrom c \<le> t then None else Some c)"
proof (cases "sc_EffectiveFrom c \<le> t")
  case True
  with assms have "pending_configs sid t (cs @ [c]) = []"
    by (auto simp: pending_configs_def effective_configs_def filter_empty_conv list_all_iff)
  with True show ?thesis by (simp add: newest_config_None)
next
  case False
  with assms have "newest_config (pending_configs sid t (cs @ [c])) = Some c"
    by (intro newest_config_unique)
       (auto simp: pending_configs_def effective_configs_def list_all_iff)
  with False show ?thesis by simp
qed

lemma new_config_is_pending_witness:
  "newest_config (pending_configs 1 4 ([sample_config] @
     [sample_config\<lparr>sc_CreatedAt := 5, sc_EffectiveFrom := 9\<rparr>])) \<noteq> None"
  using new_config_is_pending [of "sample_config\<lparr>sc_CreatedAt := 5, sc_EffectiveFrom := 9\<rparr>" 1 "[sample_config]" 4]
  by (simp add: sample_config_def)

section \<open>Accounts\<close>

text \<open>
  C18.  The root account is unique and stays: in every reachable state no two accounts have
  the root role, and an account that has it still has it after any further statements.
\<close>

theorem root_account_protected:
  assumes "reachable d" and "sql_step\<^sup>*\<^sup>* d d'" and "u \<in> set (t_users d)" and "u_Role u = RoleRoot"
  shows "\<exists>v\<in>set (t_users d'). u_ID v = u_ID u \<and> u_Role v = RoleRoot \<and>
     (\<forall>x\<in>set (t_users d'). x \<noteq> v \<longrightarrow> u_Role x \<noteq> RoleRoot)"
proof -
  have "keeps_root d d'" using assms(2)
    by (induction rule: rtranclp_induct) (auto intro: accounts.G_refl accounts.G_trans accounts_ok_step)
  with reachable_accounts_ok [OF assms(1)] have ok: "accounts_ok d'" and "root_ids d \<subseteq> root_ids d'"
    by (auto simp: keeps_root_def)
  with root_idsI [OF assms(3,4)] obtain v where v: "v \<in> set (t_users d')" "u_Role v = RoleRoot" "u_ID v = u_ID u"
    by (auto simp: root_ids_def)
  moreover have "x \<noteq> v \<longrightarrow> u_Role x \<noteq> RoleRoot" if "x \<in> set (t_users d')" for x
    using unique_rootD [of "t_users d'" x v] ok that v by (auto simp: accounts_ok_def)
  ultimately show ?thesis by blast
qed

lemma root_account_protected_witness:
  "\<exists>u\<in>set (t_users (db demo_world)). u_Role u = RoleRoot \<and>
     (\<exists>v\<in>set (t_users (db (snd (DeleteUser (u_ID u) demo_world)))). u_ID v = u_ID u \<and> u_Role v = RoleRoot)"
proof -
  have "\<exists>u\<in>set (t_users (db demo_world)). u_Role u = RoleRoot"
  proof -
    have "list_ex (\<lambda>u. u_Role u = RoleRoot) (t_users (db demo_world))" by code_simp
    then show ?thesis by (simp add: list_ex_iff)
  qed
  then obtain u where u: "u \<in> set (t_users (db demo_world))" "u_Role u = RoleRoot" by blast
  have "sql_step\<^sup>*\<^sup>* (db demo_world) (db (snd (DeleteUser (u_ID u) demo_world)))"
    using steps.accounts(8) [of "u_ID u"] by (simp add: guar_def)
  from root_account_protected [OF demo_reachable this u] u show ?thesis by blast
qed

end
