(* ===== verification/Sched_Props.thy ===== *)
theory Sched_Props
  imports Store_Props
begin

text \<open>
  What the store and the scheduling service guarantee: no double booking and the life cycle
  under every interleaving of statements, and the outcome of each operation of the service.
\<close>

section \<open>Bookings, life cycle, audit log\<close>

lemma reserved_nonempty: "pass_checks p \<Longrightarrow> p_ReservedFrom p < p_ReservedTo p"
  by (auto simp: pass_checks_def)

text \<open>
  C1.  No station is booked twice: in every state that the statements of the server can
  reach from empty tables, in any number and any interleaving, two different passes of one
  station that are pending, approved or executing have reserved disjoint periods.
\<close>

theorem no_double_booking:
  assumes "reachable d" and "p \<in> set (t_passes d)" and "q \<in> set (t_passes d)" and "p \<noteq> q"
    and "p_StationID p = p_StationID q"
    and "HoldsStationResource (p_Status p)" and "HoldsStationResource (p_Status q)"
  shows "p_ReservedTo p \<le> p_ReservedFrom q \<or> p_ReservedTo q \<le> p_ReservedFrom p"
proof -
  have ok: "bookings_ok d" using assms(1) by (rule reachable_bookings_ok)
  have "p_ReservedFrom p < p_ReservedTo p" "p_ReservedFrom q < p_ReservedTo q"
    using ok assms(2,3) by (auto simp: bookings_ok_def list_all_iff intro: reserved_nonempty)
  moreover have "live p" "live q"
    using assms(6,7) by (auto simp: live_def HoldsStationResource_def liveStatuses_def)
  ultimately show ?thesis
    using bookings_okD [OF ok assms(2-4)] assms(5) by (auto simp: excludes_def ranges_overlap_def)
qed

lemma no_double_booking_witness:
  "\<exists>p q. p \<in> set (t_passes (db demo_world)) \<and> q \<in> set (t_passes (db demo_world)) \<and> p \<noteq> q \<and>
     p_StationID p = p_StationID q \<and>
     (p_ReservedTo p \<le> p_ReservedFrom q \<or> p_ReservedTo q \<le> p_ReservedFrom p)"
proof -
  let ?ps = "t_passes (db demo_world)"
  have len: "map (\<lambda>p. (p_StationID p, p_Status p)) ?ps =
      [(1 + 100, PassPendingApproval), (1 + 100, PassPendingApproval)]"
    and ids: "map p_ID ?ps = [115, 125]" by code_simp+
  then obtain p q where pq: "?ps = [p, q]" "p_ID p = 115" "p_ID q = 125" by auto
  with len have "p_StationID p = p_StationID q"
    "HoldsStationResource (p_Status p)" "HoldsStationResource (p_Status q)"
    by (auto simp: HoldsStationResource_def liveStatuses_def)
  moreover have "p \<in> set ?ps" "q \<in> set ?ps" "p \<noteq> q" using pq by auto
  ultimately show ?thesis using no_double_booking [OF demo_reachable, of p q] by blast
qed



text \<open>
  The audit log is append-only: no operation of the scheduling service, whatever it
  returns, changes or removes a record.
\<close>

theorem audit_log_append_only:
  "(\<exists>n1. t_audit_records (db (snd (RequestPass sv actor input w))) = t_audit_records (db w) @ n1) \<and>
   (\<exists>n2. t_audit_records (db (snd (RequestPassWithRootOverride sv actor input w))) =
      t_audit_records (db w) @ n2) \<and>
   (\<exists>n3. t_audit_records (db (snd (decide sv actor pid target w))) = t_audit_records (db w) @ n3) \<and>
   (\<exists>n4. t_audit_records (db (snd (Cancel actor pid w))) = t_audit_records (db w) @ n4) \<and>
   (\<exists>n5. t_audit_records (db (snd (UpdateSchedulingConfig actor config w))) =
      t_audit_records (db w) @ n5)"
  using log.RequestPass [of sv actor input] log.RequestPassWithRootOverride [of sv actor input]
    log.decide [of sv actor pid target] log.Cancel [of actor pid]
    log.UpdateSchedulingConfig [of actor config]
  by (simp add: guar_def log_grows_def)

section \<open>What the parts of a request return\<close>

lemma GetSatelliteByID_Inr:
  "GetSatelliteByID sid w = (Inr s, w') \<longleftrightarrow>
     runs w \<and> find_row (\<lambda>x. sat_ID x = sid) (t_satellites (db w)) = Some s \<and> w' = advance w"
  by (auto simp: GetSatelliteByID_def outcome)

lemma GetPassByID_Inr:
  "GetPassByID pid w = (Inr p, w') \<longleftrightarrow>
     runs w \<and> find_row (\<lambda>x. p_ID x = pid) (t_passes (db w)) = Some p \<and> w' = advance w"
  by (auto simp: GetPassByID_def outcome)

lemma stationAndConfig_Inr:
  assumes "stationAndConfig w = (Inr (station, config), w')"
  shows "\<exists>rest. sort_key st_CreatedAt (t_stations (db w)) = station # rest"
    and "\<exists>n. newest_config (effective_configs (st_ID station)
      (env_ts (env w) (env_clock (env w) n)) (t_scheduling_configs (db w))) = Some config"
    and "db w' = db w" and "env w' = env w"
  using assms
  by (auto simp: stationAndConfig_def ListStations_def LatestEffectiveSchedulingConfig_def outcome
      split: list.splits intro: exI)

lemma GetStationWorker_Inr:
  assumes "GetStationWorker sid w = (Inr k, w')"
  shows "k \<in> set (t_workers (db w))" and "w_StationID k = sid" and "w' = advance w"
proof -
  from assms have k: "first_row (sort_key w_CreatedAt (filter (\<lambda>w. w_StationID w = sid) (t_workers (db w)))) = Some k"
    and "w' = advance w" by (simp_all add: GetStationWorker_def outcome)
  from first_row_sort_key [OF k] this show "k \<in> set (t_workers (db w))" "w_StationID k = sid"
    "w' = advance w" by auto
qed

lemma requireWorkerOnline_Inr:
  assumes "requireWorkerOnline sid w = (Inr u, w')"
  shows "\<exists>k\<in>set (t_workers (db w)). w_StationID k = sid \<and> w_ConnectionState k = WorkerOnline"
    and "db w' = db w" and "env w' = env w"
proof -
  from assms obtain k where k: "GetStationWorker sid w = (Inr k, w')" and "w_ConnectionState k = WorkerOnline"
    by (auto simp: requireWorkerOnline_def outcome split: if_splits)
  with GetStationWorker_Inr [OF k]
  show "\<exists>k\<in>set (t_workers (db w)). w_StationID k = sid \<and> w_ConnectionState k = WorkerOnline"
    and "db w' = db w" and "env w' = env w" by auto
qed

lemma matching_candidate_Some:
  "matching_candidate aos ps = Some c \<Longrightarrow> c \<in> set ps \<and> near_to matchTolerance aos c"
  by (induction ps) (auto split: if_splits)

lemma resolvePass_Inr:
  assumes "resolvePass sv station config tle aos w = (Inr c, w')"
  shows "near_to matchTolerance aos c" and "db w' = db w" and "env w' = env w"
proof -
  show "near_to matchTolerance aos c"
    using assms by (auto simp: resolvePass_def outcome split: option.splits dest: matching_candidate_Some)
  show "db w' = db w" by (rule reads_db [OF reading.resolvePass assms])
  have "keeps_env (resolvePass sv station config tle aos)"
    unfolding resolvePass_def PredictPasses_def by (intro env_intro)
  then show "env w' = env w" using assms by (rule keeps_envD)
qed

lemma LatestTLERecord_Inr:
  assumes "LatestTLERecord sid w = (Inr t, w')"
  shows "t \<in> set (t_tle_records (db w))" and "tle_SatelliteID t = sid"
    and "\<forall>x\<in>set (t_tle_records (db w)). tle_SatelliteID x = sid \<longrightarrow> tle_Epoch x \<le> tle_Epoch t"
    and "db w' = db w" and "env w' = env w"
proof -
  from assms have t: "first_row (newest_first (filter (\<lambda>x. tle_SatelliteID x = sid) (t_tle_records (db w)))) = Some t"
    and "w' = advance w" by (simp_all add: LatestTLERecord_def records_of_def outcome)
  with first_newest [OF t] show "t \<in> set (t_tle_records (db w))" and "tle_SatelliteID t = sid"
    and "\<forall>x\<in>set (t_tle_records (db w)). tle_SatelliteID x = sid \<longrightarrow> tle_Epoch x \<le> tle_Epoch t"
    and "db w' = db w" and "env w' = env w" by auto
qed

section \<open>Requesting a pass\<close>

lemma GetSatelliteByID_row:
  assumes "GetSatelliteByID sid w = (Inr s, w')"
  shows "s \<in> set (t_satellites (db w))" and "sat_ID s = sid" and "db w' = db w" and "env w' = env w"
  using assms find_row_SomeD by (fastforce simp: GetSatelliteByID_Inr)+

lemma pass_audit_passes:
  assumes "pass_audit actor action pid details w = (r, w')"
  shows "t_passes (db w') = t_passes (db w)" and "env w' = env w"
  using assms
  by (auto simp: pass_audit_def AppendAudit_def query_row_def translated_def scan_row_def run_stmt_def
      insert_audit_stmt_def Let_def split: prod.splits sum.splits option.splits if_splits)

lemma CheckLeadTime_ok:
  "CheckLeadTime now aos config = Inr u \<longleftrightarrow> now + sc_MinimumLeadTime config \<le> aos"
  by (auto simp: CheckLeadTime_def Let_def before_def time_add_def)

text \<open>
  C5.  A successful request: the satellite is schedulable and its latest elements were used,
  the station's worker is online, the predicted pass starts within two minutes of the
  requested instant and after the lead time of the effective configuration, a processing
  mode has its pipeline, and the only change to the passes is one new row, pending approval,
  that keeps the table's checks and overlaps no live pass of the station.
\<close>

theorem RequestPass_books:
  assumes "RequestPass sv actor input w = (Inr r, w')"
  shows "\<exists>satellite station config tle predicted n m k.
     satellite \<in> set (t_satellites (db w)) \<and> sat_ID satellite = ri_SatelliteID input \<and>
     sat_IsSchedulable satellite \<and> (ri_Band input = BandVHF \<or> ri_Band input = BandUHF) \<and>
     newest_config (effective_configs (st_ID station) (env_ts (env w) (env_clock (env w) n))
       (t_scheduling_configs (db w))) = Some config \<and>
     (\<exists>v\<in>set (t_workers (db w)). w_StationID v = st_ID station \<and> w_ConnectionState v = WorkerOnline) \<and>
     tle \<in> set (t_tle_records (db w)) \<and> tle_SatelliteID tle = sat_ID satellite \<and>
     near_to matchTolerance (ri_RequestedAOS input) predicted \<and>
     env_clock (env w) m + sc_MinimumLeadTime config \<le> pr_AOS predicted \<and>
     \<not> (needsPipeline (default_mode (ri_RecordingMode input)) \<and> ri_PipelineID input = None) \<and>
     rr_Pass r = stored_pass (env w) k (requested_pass actor input satellite station config tle predicted) \<and>
     t_passes (db w') = t_passes (db w) @ [rr_Pass r] \<and>
     pass_checks (rr_Pass r) \<and> p_Status (rr_Pass r) = PassPendingApproval \<and>
     (\<forall>q\<in>set (t_passes (db w)). \<not> excludes (rr_Pass r) q)"
proof -
  have band: "ri_Band input = BandVHF \<or> ri_Band input = BandUHF"
    using assms by (auto simp: RequestPass_def outcome split: if_splits)
  from assms obtain satellite w1 station config w2 u w3 tle w4 predicted w5 created w6 s details
    where sat: "GetSatelliteByID (ri_SatelliteID input) w = (Inr satellite, w1)"
      and sched: "sat_IsSchedulable satellite"
      and 2: "stationAndConfig w1 = (Inr (station, config), w2)"
      and 3: "requireWorkerOnline (st_ID station) w2 = (Inr u, w3)"
      and 4: "LatestTLERecord (sat_ID satellite) w3 = (Inr tle, w4)"
      and 5: "resolvePass sv station config tle (ri_RequestedAOS input) w4 = (Inr predicted, w5)"
      and lead: "CheckLeadTime (env_clock (env w5) (tick w5)) (pr_AOS predicted) config = Inr ()"
      and pipe: "\<not> (needsPipeline (default_mode (ri_RecordingMode input)) \<and> ri_PipelineID input = None)"
      and 6: "CreatePass (requested_pass actor input satellite station config tle predicted) (advance w5)
        = (Inr created, w6)"
      and 7: "pass_audit (Some (u_ID actor)) ''pass.requested'' (p_ID created) details w6 = (s, w')"
      and r: "rr_Pass r = created"
    unfolding RequestPass_def attempt_Inr attempt_or_eq ignoring_eq
    by (clarsimp simp: outcome simp del: de_Morgan_conj split: if_split_asm prod.split_asm)
  note w1 = GetSatelliteByID_row [OF sat]
  note w2 = stationAndConfig_Inr [OF 2] note w3 = requireWorkerOnline_Inr [OF 3]
  note w4 = LatestTLERecord_Inr [OF 4] note w5 = resolvePass_Inr [OF 5]
  from CreatePass_Inr [OF 6] obtain w8 where w8:
    "env w8 = env (advance w5)" "db w8 = db (advance w5)"
    "pass_insert_error (db w8) created = None"
    "created = stored_pass (env (advance w5)) (tick w8)
       (requested_pass actor input satellite station config tle predicted)"
    "w6 = (advance w8)\<lparr>db := (db (advance w5))\<lparr>t_passes := t_passes (db (advance w5)) @ [created]\<rparr>\<rparr>"
    by metis
  have env: "env w5 = env w" "db w5 = db w" using w1(3,4) w2(3,4) w3(2,3) w4(4,5) w5(2,3) by simp_all
  have passes: "t_passes (db w') = t_passes (db w) @ [created]"
    using pass_audit_passes(1) [OF 7] by (simp add: w8(5) env)
  show ?thesis
    using w1 sched band w2 w3 w4 w5 lead [unfolded CheckLeadTime_ok] pipe w8(3,4) passes r env
    by (intro exI [of _ satellite] exI [of _ station] exI [of _ config] exI [of _ tle]
        exI [of _ predicted]) (auto simp: pass_insert_error_None w8(2) stored_pass_def)
qed

text \<open>
  C15.  A request that fails leaves every table as it was, whatever failed: the statement, the
  prediction service, a rule of the scheduler or the exclusion constraint.
\<close>

theorem RequestPass_error_keeps_tables:
  assumes "RequestPass sv actor input w = (Inl e, w')"
  shows "db w' = db w"
proof -
  have audit_then_ret: "\<exists>y w'. ignoring (pass_audit a b c d) (ret y') w = (Inr y, w')"
    for a b c d w and y' :: request_result
    by (cases "pass_audit a b c d w") (auto simp: ignoring_def attempt_or_def ret_def split: sum.splits)
  have "clean_fail (RequestPass sv actor input)"
    unfolding RequestPass_def
    by (intro clean_attempt_read clean_if clean_case_prod clean_fail_fail clean_attempt_or_read
        clean_attempt_or_write clean_CreatePass audit_then_ret reading.reads reading.stationAndConfig
        reading.requireWorkerOnline reading.resolvePass reading.clock_now reading.from_result
        reading.conflictFor)
  then show ?thesis using assms by (rule clean_failD)
qed

lemma RequestPass_books_witness:
  "\<exists>r w'. RequestPass sample_service alice sample_input sample_world = (Inr r, w') \<and>
     t_passes (db w') = [rr_Pass r] \<and> p_Status (rr_Pass r) = PassPendingApproval"
proof -
  have "is_ok (fst (RequestPass sample_service alice sample_input sample_world))" by code_simp
  then obtain r w' where run: "RequestPass sample_service alice sample_input sample_world = (Inr r, w')"
    by (blast dest: run_ok)
  have "t_passes (db sample_world) = []" by code_simp
  with RequestPass_books [OF run] run show ?thesis by auto
qed

lemma RequestPass_error_keeps_tables_witness:
  "\<exists>e w'. RequestPass sample_service bob sample_input booked_world = (Inl e, w') \<and>
     db w' = db booked_world"
proof -
  have "\<not> is_ok (fst (RequestPass sample_service bob sample_input booked_world))" by code_simp
  then obtain e w' where run: "RequestPass sample_service bob sample_input booked_world = (Inl e, w')"
    by (blast dest: run_error)
  with RequestPass_error_keeps_tables [OF run] show ?thesis by blast
qed

section \<open>The override by the root user\<close>

lemma exec_update_passes:
  assumes "exec_one (update_passes_stmt P f user) w = (Inr u, w')"
  shows "t_passes (db w') = update_rows P (touch (env_now (env w) (tick w)) f) (t_passes (db w))"
    and "\<exists>p\<in>set (t_passes (db w)). P p" and "env w' = env w"
proof -
  from assms obtain n d where u: "update_passes_stmt P f user (env w) (tick w) (db w) = Inr (n, d)"
    and n: "n \<noteq> 0" and w': "w' = (advance w)\<lparr>db := d\<rparr>" by (auto simp: exec_one_Inr)
  from update_passes_stmtD(1) [OF u] w'
  show "t_passes (db w') = update_rows P (touch (env_now (env w) (tick w)) f) (t_passes (db w))"
    and "env w' = env w" by simp_all
  show "\<exists>p\<in>set (t_passes (db w)). P p"
    using u n by (auto simp: update_passes_stmt_def Let_def exists_row_iff split: if_splits)
qed

lemma AppendAudit_passes:
  assumes "AppendAudit a w = (r, w')"
  shows "t_passes (db w') = t_passes (db w)" and "env w' = env w"
  using assms
  by (auto simp: AppendAudit_def query_row_def translated_def scan_row_def run_stmt_def
      insert_audit_stmt_def Let_def split: prod.splits sum.splits option.splits if_splits)

definition cancelled_by :: "uuid \<Rightarrow> cancellation_reason \<Rightarrow> pass \<Rightarrow> bool" where
  "cancelled_by actorID reason p \<longleftrightarrow> p_Status p = PassCancelled \<and>
     p_CancellationReason p = Some reason \<and> p_CancelledBy p = Some actorID"

lemma CancelPass_Inr:
  assumes "CancelPass pid actorID reason now w = (Inr u, w')"
  shows "\<exists>q\<in>set (t_passes (db w')). p_ID q = pid \<and> cancelled_by actorID reason q"
    and "q \<in> set (t_passes (db w)) \<Longrightarrow> p_Status q = PassCancelled \<Longrightarrow> q \<in> set (t_passes (db w'))"
    and "\<exists>q\<in>set (t_passes (db w)). p_ID q = pid \<and>
       (p_Status q = PassPendingApproval \<or> p_Status q = PassApproved)"
    and "env w' = env w"
proof -
  let ?P = "\<lambda>p. p_ID p = pid \<and> (p_Status p = PassPendingApproval \<or> p_Status p = PassApproved)"
  let ?f = "\<lambda>p. p\<lparr>p_Status := PassCancelled, p_CancellationReason := Some reason,
      p_CancelledBy := Some actorID, p_CancelledAt := Some (env_ts (env w) now)\<rparr>"
  have "exec_one (update_passes_stmt ?P ?f (Some (''passes_cancelled_by_fkey'', actorID))) w = (Inr u, w')"
    using assms by (auto simp: CancelPass_def exec_one_Inr cancel_pass_stmt_def)
  note * = exec_update_passes [OF this]
  from *(2) obtain p where p: "p \<in> set (t_passes (db w))" "?P p" by blast
  then show "\<exists>q\<in>set (t_passes (db w)). ?P q" by blast
  have "touch (env_now (env w) (tick w)) ?f p \<in> set (t_passes (db w'))"
    unfolding *(1) set_update_rows using p by (intro image_eqI [of _ _ p]) auto
  then show "\<exists>q\<in>set (t_passes (db w')). p_ID q = pid \<and> cancelled_by actorID reason q"
    by (rule bexI [rotated]) (use p in \<open>auto simp: touch_def cancelled_by_def\<close>)
  show "q \<in> set (t_passes (db w'))" if "q \<in> set (t_passes (db w))" "p_Status q = PassCancelled"
    unfolding *(1) set_update_rows using that by (intro image_eqI [of _ _ q]) auto
  show "env w' = env w" by (rule *(3))
qed

lemma cancel_conflicting_Inr:
  assumes "cancel_conflicting actorID now c w = (Inr u, w')"
  shows "\<exists>q\<in>set (t_passes (db w')). p_ID q = p_ID c \<and> cancelled_by actorID CancelledByRootOverride q"
    and "q \<in> set (t_passes (db w)) \<Longrightarrow> p_Status q = PassCancelled \<Longrightarrow> q \<in> set (t_passes (db w'))"
    and "env w' = env w"
proof -
  from assms obtain v w1 a where 1: "CancelPass (p_ID c) actorID CancelledByRootOverride now w = (Inr v, w1)"
    and 2: "AppendAudit (override_audit actorID c) w1 = (Inr a, w')"
    by (auto simp: cancel_conflicting_def outcome)
  note c = CancelPass_Inr [OF 1] and a = AppendAudit_passes [OF 2]
  show "\<exists>q\<in>set (t_passes (db w')). p_ID q = p_ID c \<and> cancelled_by actorID CancelledByRootOverride q"
    and "env w' = env w" using c(1,4) a by simp_all
  show "q \<in> set (t_passes (db w'))" if "q \<in> set (t_passes (db w))" "p_Status q = PassCancelled"
    using c(2) that a by simp
qed

lemma cancel_all_Inr:
  assumes "for_each cs (cancel_conflicting actorID now) w = (Inr u, w')"
  shows "(\<forall>c\<in>set cs. \<exists>q\<in>set (t_passes (db w')). p_ID q = p_ID c \<and>
       cancelled_by actorID CancelledByRootOverride q) \<and>
     (\<forall>q\<in>set (t_passes (db w)). p_Status q = PassCancelled \<longrightarrow> q \<in> set (t_passes (db w'))) \<and>
     env w' = env w"
  using assms
proof (induction cs arbitrary: w)
  case Nil
  then show ?case by (auto simp: ret_eq)
next
  case (Cons c cs)
  then obtain v w1 where 1: "cancel_conflicting actorID now c w = (Inr v, w1)"
    and 2: "for_each cs (cancel_conflicting actorID now) w1 = (Inr u, w')"
    by (auto simp: outcome)
  from cancel_conflicting_Inr(1) [OF 1] obtain q where q: "q \<in> set (t_passes (db w1))" "p_ID q = p_ID c"
    "cancelled_by actorID CancelledByRootOverride q" by blast
  note IH = Cons.IH [OF 2]
  from IH q have "q \<in> set (t_passes (db w'))" by (simp add: cancelled_by_def)
  with q have "\<exists>q\<in>set (t_passes (db w')). p_ID q = p_ID c \<and> cancelled_by actorID CancelledByRootOverride q"
    by blast
  with IH cancel_conflicting_Inr(2,3) [OF 1] show ?case by simp
qed

lemma ApprovePass_Inr:
  assumes "ApprovePass pid actorID now w = (Inr u, w')"
  shows "q \<in> set (t_passes (db w)) \<Longrightarrow> p_Status q \<noteq> PassPendingApproval \<Longrightarrow> q \<in> set (t_passes (db w'))"
    and "q \<in> set (t_passes (db w)) \<Longrightarrow> is_pending pid q \<Longrightarrow>
       \<exists>p\<in>set (t_passes (db w')). status_update (\<lambda>_ t. t = PassApproved) q p \<and> p_ApprovedBy p = Some actorID"
    and "\<exists>q\<in>set (t_passes (db w)). is_pending pid q" and "env w' = env w"
proof -
  let ?f = "\<lambda>p. p\<lparr>p_Status := PassApproved, p_ApprovedBy := Some actorID,
      p_ApprovedAt := Some (env_ts (env w) now)\<rparr>"
  have "exec_one (update_passes_stmt (is_pending pid) ?f (Some (''passes_approved_by_fkey'', actorID))) w = (Inr u, w')"
    using assms by (auto simp: ApprovePass_def exec_one_Inr approve_pass_stmt_def)
  note * = exec_update_passes [OF this]
  show "\<exists>q\<in>set (t_passes (db w)). is_pending pid q" "env w' = env w" by (rule *(2), rule *(3))
  show "q \<in> set (t_passes (db w'))" if "q \<in> set (t_passes (db w))" "p_Status q \<noteq> PassPendingApproval"
    unfolding *(1) set_update_rows using that by (intro image_eqI [of _ _ q]) (auto simp: is_pending_def)
  show "\<exists>p\<in>set (t_passes (db w')). status_update (\<lambda>_ t. t = PassApproved) q p \<and> p_ApprovedBy p = Some actorID"
    if "q \<in> set (t_passes (db w))" "is_pending pid q"
    unfolding *(1) set_update_rows using that
    by (intro bexI [of _ "touch (env_now (env w) (tick w)) ?f q"] image_eqI [of _ _ q])
       (auto simp: touch_def status_update_def)
qed

lemma excludes_conflicting:
  "excludes q p \<Longrightarrow> conflicting (p_StationID p) (p_ReservedFrom p) (p_ReservedTo p) LiveStatuses q"
  by (auto simp: excludes_def conflicting_def live_def LiveStatuses_def liveStatuses_def)

lemma stored_pass_fields [simp]:
  "p_Status (stored_pass e n p) = p_Status p" "p_StationID (stored_pass e n p) = p_StationID p"
  "p_ReservedFrom (stored_pass e n p) = env_ts e (p_ReservedFrom p)"
  "p_ReservedTo (stored_pass e n p) = env_ts e (p_ReservedTo p)"
  "p_ID (stored_pass e n p) = env_uuid e n" "p_RequestedBy (stored_pass e n p) = p_RequestedBy p"
  by (simp_all add: stored_pass_def)

lemma FindConflictingPasses_Inr:
  assumes "FindConflictingPasses sid from to sts w = (Inr cs, w')"
  shows "set cs = {q \<in> set (t_passes (db w)). conflicting sid (env_ts (env w) from) (env_ts (env w) to) sts q}"
    and "db w' = db w" and "env w' = env w"
  using assms
  by (auto simp: FindConflictingPasses_def query_Inr find_conflicting_stmt_def split: if_splits)

lemma override_tx_Inr:
  assumes "override_tx actorID now p w = (Inr (result, overridden), w')"
    and pending: "p_Status p = PassPendingApproval"
  shows "\<exists>x\<in>set (t_passes (db w')). status_update (\<lambda>_ t. t = PassApproved) result x \<and>
       p_ApprovedBy x = Some actorID" (is ?new)
    and "\<forall>i\<in>set overridden. \<exists>q\<in>set (t_passes (db w')). p_ID q = i \<and>
       cancelled_by actorID CancelledByRootOverride q" (is ?cancelled)
    and "\<forall>q\<in>set (t_passes (db w)). excludes q result \<longrightarrow> p_ID q \<in> set overridden" (is ?all)
proof -
  from assms(1) obtain cs w1 u w2 created w3 v w4 a where
    1: "FindConflictingPasses (p_StationID p) (p_ReservedFrom p) (p_ReservedTo p) LiveStatuses w = (Inr cs, w1)"
    and 2: "for_each cs (cancel_conflicting actorID now) w1 = (Inr u, w2)"
    and 3: "CreatePass p w2 = (Inr created, w3)"
    and 4: "ApprovePass (p_ID created) actorID now w3 = (Inr v, w4)"
    and 5: "t_passes (db w') = t_passes (db w4)"
    and r: "result = created\<lparr>p_Status := PassApproved, p_ApprovedBy := Some actorID, p_ApprovedAt := Some now\<rparr>"
      "overridden = map p_ID cs"
    unfolding override_tx_def by (clarsimp simp: outcome Let_def) (blast dest: AppendAudit_passes)
  note c1 = FindConflictingPasses_Inr [OF 1] note c2 = cancel_all_Inr [OF 2]
  note c4 = ApprovePass_Inr [OF 4]
  from CreatePass_Inr [OF 3] obtain n where created: "created = stored_pass (env w2) n p"
    "t_passes (db w3) = t_passes (db w2) @ [created]" 
    by (rule CreatePass_Inr [OF 3]) (simp add: that)
  then have "created \<in> set (t_passes (db w3))" "is_pending (p_ID created) created"
    using pending by (auto simp: is_pending_def)
  from c4(2) [OF this] show ?new by (auto simp: 5 r status_update_def)
  show ?cancelled
  proof
    fix i assume "i \<in> set overridden"
    then obtain q where q: "q \<in> set (t_passes (db w2))" "p_ID q = i"
      "cancelled_by actorID CancelledByRootOverride q" using c2 r(2) by fastforce
    with c4(1) [of q] created(2) show "\<exists>q\<in>set (t_passes (db w')). p_ID q = i \<and>
       cancelled_by actorID CancelledByRootOverride q" by (auto simp: 5 cancelled_by_def)
  qed
  show ?all
    using c1 c2 excludes_conflicting [of _ result] by (fastforce simp: r created(1))
qed

lemma generatePlan_keeps_passes: "generatePlan sv p w = (r, w') \<Longrightarrow> t_passes (db w') = t_passes (db w)"
  using guarD [OF passes_kept.generatePlan_if [OF GenerateAndStore_keeps_passes]]
  by (auto simp: same_passes_def)

text \<open>The last two stages of an override that returns a result, and what ran before them.\<close>

lemma override_stages:
  assumes "RequestPassWithRootOverride sv actor input w = (Inr r, w')"
  obtains now p w1 w2 where "u_Role actor = RoleRoot" "p_Status p = PassPendingApproval"
    "db w1 = db w" "tx w1 = NoTx"
    "InTx (override_tx (u_ID actor) now p) w1 = (Inr (rr_Pass r, rr_OverriddenPassIDs r), w2)"
    "generatePlan sv (rr_Pass r) w2 = (Inr (), w')"
proof -
  from assms obtain satellite w1 station config w2 u w3 tle w4 predicted w5 result overridden w6
    where sat: "GetSatelliteByID (ri_SatelliteID input) w = (Inr satellite, w1)"
      and 2: "stationAndConfig w1 = (Inr (station, config), w2)"
      and 3: "requireWorkerOnline (st_ID station) w2 = (Inr u, w3)"
      and 4: "LatestTLERecord (sat_ID satellite) w3 = (Inr tle, w4)"
      and 5: "resolvePass sv station config tle (ri_RequestedAOS input) w4 = (Inr predicted, w5)"
      and 6: "InTx (override_tx (u_ID actor) (env_clock (env w5) (tick w5))
          (requested_pass actor input satellite station config tle predicted)) (advance w5)
        = (Inr (result, overridden), w6)"
      and 7: "generatePlan sv result w6 = (Inr (), w')"
      and r: "rr_Pass r = result" "rr_OverriddenPassIDs r = overridden"
    unfolding RequestPassWithRootOverride_def attempt_Inr
    by (auto simp: outcome split: if_split_asm prod.split_asm)
  have "db w5 = db w"
    using GetSatelliteByID_row(3) [OF sat] stationAndConfig_Inr(3) [OF 2] requireWorkerOnline_Inr(2) [OF 3]
      LatestTLERecord_Inr(4) [OF 4] resolvePass_Inr(2) [OF 5] by simp
  moreover have "u_Role actor = RoleRoot"
    using assms by (auto simp: RequestPassWithRootOverride_def fail_eq split: if_splits)
  ultimately show ?thesis
    using that [of "requested_pass actor input satellite station config tle predicted" "advance w5"
        "env_clock (env w5) (tick w5)" w6] 6 7 InTx_Inr [OF 6] by (simp add: r)
qed

text \<open>
  C6.  A successful override: the actor is the root user, the new pass is in the table,
  approved by the actor and free of overlaps, every pass that was in its way has been
  cancelled with the reason of the override, and the cancelled passes are reported.
\<close>

theorem root_override_outcome:
  assumes "RequestPassWithRootOverride sv actor input w = (Inr r, w')" and "bookings_ok (db w)"
  shows "u_Role actor = RoleRoot \<and>
     (\<exists>p\<in>set (t_passes (db w')). p_ID p = p_ID (rr_Pass r) \<and> p_Status p = PassApproved \<and>
        p_ApprovedBy p = Some (u_ID actor) \<and> (\<forall>q\<in>set (t_passes (db w')). q \<noteq> p \<longrightarrow> \<not> excludes p q)) \<and>
     (\<forall>i\<in>set (rr_OverriddenPassIDs r). \<exists>q\<in>set (t_passes (db w')). p_ID q = i \<and>
        cancelled_by (u_ID actor) CancelledByRootOverride q) \<and>
     (\<forall>q\<in>set (t_passes (db w)). excludes q (rr_Pass r) \<longrightarrow> p_ID q \<in> set (rr_OverriddenPassIDs r))"
proof -
  from assms(1) obtain now p w1 w2 where root: "u_Role actor = RoleRoot"
    and pending: "p_Status p = PassPendingApproval" and w1: "db w1 = db w"
    and tx: "InTx (override_tx (u_ID actor) now p) w1 = (Inr (rr_Pass r, rr_OverriddenPassIDs r), w2)"
    and plan: "generatePlan sv (rr_Pass r) w2 = (Inr (), w')" by (rule override_stages)
  from InTx_Inr [OF tx] obtain w3 where
    run: "override_tx (u_ID actor) now p ((advance w1)\<lparr>tx := TxOpen\<rparr>) =
      (Inr (rr_Pass r, rr_OverriddenPassIDs r), w3)"
    and w3: "db w2 = db w3" by auto
  note o = override_tx_Inr [OF run pending]
  have passes: "t_passes (db w') = t_passes (db w3)"
    using generatePlan_keeps_passes [OF plan] w3 by simp
  have "bookings_ok (db w')"
    using guarD [OF booking.RequestPassWithRootOverride assms(1)] assms(2) by (simp add: keeps_bookings_def)
  from o(1) obtain x where x: "x \<in> set (t_passes (db w'))" "p_ID x = p_ID (rr_Pass r)"
    "p_Status x = PassApproved" "p_ApprovedBy x = Some (u_ID actor)"
    unfolding passes by (auto simp: status_update_def)
  moreover have "\<forall>q\<in>set (t_passes (db w')). q \<noteq> x \<longrightarrow> \<not> excludes x q"
    using bookings_okD [OF \<open>bookings_ok (db w')\<close> x(1)] by blast
  moreover have "\<forall>q\<in>set (t_passes (db w)). excludes q (rr_Pass r) \<longrightarrow> p_ID q \<in> set (rr_OverriddenPassIDs r)"
    using o(3) by (simp add: w1)
  ultimately show ?thesis using root o(2) unfolding passes by blast
qed

lemma root_override_outcome_witness:
  "\<exists>r w'. RequestPassWithRootOverride sample_service root sample_input booked_world = (Inr r, w') \<and>
     rr_OverriddenPassIDs r = [10] \<and>
     (\<exists>q\<in>set (t_passes (db w')). p_ID q = 10 \<and> cancelled_by 1 CancelledByRootOverride q)"
proof -
  let ?run = "RequestPassWithRootOverride sample_service root sample_input booked_world"
  have "map_sum (\<lambda>_. ()) rr_OverriddenPassIDs (fst ?run) = Inr [10]" by code_simp
  then obtain r w' where run: "?run = (Inr r, w')" and ids: "rr_OverriddenPassIDs r = [10]"
    by (cases ?run; cases "fst ?run") auto
  have "bookings_ok (db booked_world)" by code_simp
  from root_override_outcome [OF run this] run ids show ?thesis
    by (simp add: root_def sample_user_def)
qed

text \<open>
  Without the role nothing happens: an override by a user who is not root, a decision
  by a user below administrator, and a scheduling configuration by a user who is not root are
  refused with \<open>ErrForbidden\<close>, and neither the tables nor anything else changes.
\<close>

theorem unauthorised_is_refused:
  "(u_Role actor \<noteq> RoleRoot \<longrightarrow>
      RequestPassWithRootOverride sv actor input w = (Inl (Err ErrForbidden), w)) \<and>
   (u_Role actor \<noteq> RoleRoot \<longrightarrow> UpdateSchedulingConfig actor config w = (Inl (Err ErrForbidden), w)) \<and>
   (u_Role actor \<noteq> RoleRoot \<and> u_Role actor \<noteq> RoleAdmin \<longrightarrow>
      Approve sv actor pid w = (Inl (Err ErrForbidden), w) \<and>
      Reject sv actor pid w = (Inl (Err ErrForbidden), w))"
  by (simp add: RequestPassWithRootOverride_def UpdateSchedulingConfig_def CanConfigureStation_def
      Approve_def Reject_def decide_def Authority_admin fail_def)

lemma unauthorised_is_refused_witness:
  "Approve sample_service alice 10 booked_world = (Inl (Err ErrForbidden), booked_world)"
  using unauthorised_is_refused [of alice sample_service sample_input booked_world sample_config 10]
  by (simp add: alice_def sample_user_def)

lemma override_tail_clean:
  "clean_unless (\<lambda>e w'. \<exists>p w1. generatePlan sv p w1 = (Inl e, w') \<and> p_Status p = PassApproved)
     (attempt (InTx (override_tx actorID now p)) (\<lambda>(result, overridden).
        attempt (generatePlan sv result) (\<lambda>_. ret (f result overridden))))"
  unfolding clean_unless_def
proof (intro allI impI)
  fix w e w'
  assume "attempt (InTx (override_tx actorID now p)) (\<lambda>(result, overridden).
      attempt (generatePlan sv result) (\<lambda>_. ret (f result overridden))) w = (Inl e, w')"
  then consider "InTx (override_tx actorID now p) w = (Inl e, w')"
    | result overridden w1 where "InTx (override_tx actorID now p) w = (Inr (result, overridden), w1)"
        "generatePlan sv result w1 = (Inl e, w')"
    by (auto simp: attempt_Inl ret_eq split: prod.splits)
  then show "db w' = db w \<or> (\<exists>p w1. generatePlan sv p w1 = (Inl e, w') \<and> p_Status p = PassApproved)"
  proof cases
    case 1
    then show ?thesis using clean_failD [OF clean_InTx] by blast
  next
    case 2
    from InTx_Inr [OF 2(1)] have "p_Status result = PassApproved"
      by (auto simp: override_tx_def outcome Let_def)
    with 2(2) show ?thesis by blast
  qed
qed

text \<open>
  An override that fails either leaves every table unchanged, or it fails after its
  transaction was committed, because no plan could be generated for the pass it has approved.
\<close>

theorem root_override_error:
  assumes "RequestPassWithRootOverride sv actor input w = (Inl e, w')"
  shows "db w' = db w \<or> (\<exists>p w1. generatePlan sv p w1 = (Inl e, w') \<and> p_Status p = PassApproved)"
proof -
  have "clean_unless (\<lambda>e w'. \<exists>p w1. generatePlan sv p w1 = (Inl e, w') \<and> p_Status p = PassApproved)
    (RequestPassWithRootOverride sv actor input)"
    unfolding RequestPassWithRootOverride_def
    by (intro clean_unless_cases clean_unless_clean [OF clean_fail_fail] override_tail_clean
        clean_unless_read reading.reads reading.stationAndConfig reading.requireWorkerOnline
        reading.resolvePass reading.clock_now reading.from_result)
  then show ?thesis using assms by (rule clean_unlessD)
qed

lemma root_override_error_witness:
  "\<exists>e w'. RequestPassWithRootOverride sample_service root (sample_input\<lparr>ri_SatelliteID := 9\<rparr>) booked_world
     = (Inl e, w') \<and> db w' = db booked_world"
proof -
  let ?run = "RequestPassWithRootOverride sample_service root (sample_input\<lparr>ri_SatelliteID := 9\<rparr>) booked_world"
  have "\<not> is_ok (fst ?run)" by code_simp
  then obtain e w' where run: "?run = (Inl e, w')" by (blast dest: run_error)
  have "generatePlan sample_service p w1 \<noteq> (Inl e, w')" for p w1
    by (simp add: generatePlan_def sample_service_def ret_def)
  with root_override_error [OF run] run show ?thesis by blast
qed

text \<open>The decision of an administrator.\<close>

lemma find_row_moved:
  assumes "find_row (\<lambda>p. p_ID p = pid) (update_rows P (touch t f) ps) = Some x"
    and "\<And>p. p_ID (f p) = p_ID p" and "distinct (map p_ID ps)" and "\<exists>p\<in>set ps. p_ID p = pid \<and> P p"
  shows "\<exists>p\<in>set ps. p_ID p = pid \<and> P p \<and> x = touch t f p"
proof -
  have "find_row (\<lambda>p. p_ID p = pid) (update_rows P (touch t f) ps) =
      map_option (\<lambda>p. if P p then touch t f p else p) (find_row (\<lambda>p. p_ID p = pid) ps)"
    by (rule find_row_update) (simp add: touch_def assms(2))
  with assms(1) obtain q where q: "find_row (\<lambda>p. p_ID p = pid) ps = Some q"
    "x = (if P q then touch t f q else q)" by auto
  from assms(4) obtain p where p: "p \<in> set ps" "p_ID p = pid" "P p" by blast
  with find_row_key [OF assms(3) p(1)] q(1) have "q = p" by simp
  with p q(2) show ?thesis by auto
qed

end
