(* ===== verification/Sched_Decide.thy ===== *)
theory Sched_Decide
  imports Sched_Props
begin

text \<open>
  The outcome of a decision, a cancellation and a new scheduling configuration, and the
  properties of the scheduler's pure rules.
\<close>

section \<open>Decisions\<close>

lemma exec_moved:
  assumes "exec_one (update_passes_stmt P f user) w = (Inr u, w1)"
    and "pass_audit actor action pid details w1 = (s, w2)" and "GetPassByID pid w2 = (Inr x, w')"
    and "\<And>p. p_ID (f p) = p_ID p" and "\<And>p. P p \<Longrightarrow> p_ID p = pid"
    and "distinct (map p_ID (t_passes (db w)))"
  shows "\<exists>p\<in>set (t_passes (db w)). P p \<and> x = touch (env_now (env w) (tick w)) f p"
    and "x \<in> set (t_passes (db w'))"
proof -
  note e = exec_update_passes [OF assms(1)]
  from assms(3) pass_audit_passes(1) [OF assms(2)] e(1)
  have found: "find_row (\<lambda>p. p_ID p = pid)
      (update_rows P (touch (env_now (env w) (tick w)) f) (t_passes (db w))) = Some x"
    by (simp add: GetPassByID_Inr)
  from e(2) assms(5) have "\<exists>p\<in>set (t_passes (db w)). p_ID p = pid \<and> P p" by blast
  from find_row_moved [OF found assms(4,6) this]
  show "\<exists>p\<in>set (t_passes (db w)). P p \<and> x = touch (env_now (env w) (tick w)) f p" by blast
  from assms(3) show "x \<in> set (t_passes (db w'))" by (auto simp: GetPassByID_Inr dest: find_row_SomeD)
qed

lemma decide_stages:
  assumes "decide sv actor pid target w = (Inr p, w')"
  obtains old w1 w2 now w3 s w4 action details where "CanApprovePasses actor"
    "GetPassByID pid w = (Inr old, w1)" "CanTransition (p_Status old) target"
    "(if target = PassApproved then generatePlan sv (old\<lparr>p_Status := PassApproved\<rparr>) else ret ()) w1 = (Inr (), w2)"
    "(if target = PassApproved then ApprovePass pid (u_ID actor) now
      else RejectPass pid (u_ID actor) now) (advance w2) = (Inr (), w3)"
    "pass_audit (Some (u_ID actor)) action pid details w3 = (s, w4)" "GetPassByID pid w4 = (Inr p, w')"
proof -
  have admin: "CanApprovePasses actor"
    using assms by (auto simp: decide_def fail_eq split: if_splits)
  with assms show ?thesis
    by (clarsimp simp: decide_def outcome ValidateTransition_ok) (rule that; assumption)
qed

text \<open>Reads and the plan generator before the decision leave the passes as they were.\<close>

lemma plan_or_nothing_passes:
  "(if b then generatePlan sv p else ret ()) w = (Inr u, w') \<Longrightarrow> t_passes (db w') = t_passes (db w)"
  by (auto simp: ret_eq split: if_splits dest: generatePlan_keeps_passes)

text \<open>
  C7.  A decision that succeeds: the actor is an administrator or root, the pass was pending,
  and what comes back is the row of the table, with the new status and the actor as the
  one who decided, and otherwise the same pass.
\<close>

theorem decide_outcome:
  assumes "decide sv actor pid target w = (Inr p, w')" and "bookings_ok (db w)"
    and "target = PassApproved \<or> target = PassRejected"
  shows "(u_Role actor = RoleAdmin \<or> u_Role actor = RoleRoot) \<and> p \<in> set (t_passes (db w')) \<and>
     (\<exists>old\<in>set (t_passes (db w)). p_ID old = pid \<and>
        status_update (\<lambda>s t. s = PassPendingApproval \<and> t = target) old p) \<and>
     p_ApprovedBy p = Some (u_ID actor) \<and> p_ApprovedAt p \<noteq> None"
proof -
  from assms(1) obtain old w1 w2 now w3 s w4 action details where admin: "CanApprovePasses actor"
    and 1: "GetPassByID pid w = (Inr old, w1)"
    and 2: "(if target = PassApproved then generatePlan sv (old\<lparr>p_Status := PassApproved\<rparr>) else ret ()) w1 = (Inr (), w2)"
    and 3: "(if target = PassApproved then ApprovePass pid (u_ID actor) now
      else RejectPass pid (u_ID actor) now) (advance w2) = (Inr (), w3)"
    and 4: "pass_audit (Some (u_ID actor)) action pid details w3 = (s, w4)"
    and 5: "GetPassByID pid w4 = (Inr p, w')" by (rule decide_stages)
  let ?f = "\<lambda>e p. p\<lparr>p_Status := target, p_ApprovedBy := Some (u_ID actor),
      p_ApprovedAt := Some (env_ts e now)\<rparr>"
  have same: "t_passes (db (advance w2)) = t_passes (db w)"
    using plan_or_nothing_passes [OF 2] 1 by (simp add: GetPassByID_Inr)
  have exec: "exec_one (update_passes_stmt (is_pending pid) (?f (env (advance w2)))
      (Some (''passes_approved_by_fkey'', u_ID actor))) (advance w2) = (Inr (), w3)"
    using 3 assms(3) by (auto simp: ApprovePass_def RejectPass_def exec_one_Inr approve_pass_stmt_def
        reject_pass_stmt_def)
  have "distinct (map p_ID (t_passes (db (advance w2))))"
    using assms(2) same by (simp add: bookings_ok_def)
  note moved = exec_moved [OF exec 4 5 _ _ this]
  from moved(1) obtain q where q: "q \<in> set (t_passes (db w))" "is_pending pid q"
    "p = touch (env_now (env (advance w2)) (tick (advance w2))) (?f (env (advance w2))) q"
    unfolding same by (auto simp: is_pending_def)
  moreover have "p \<in> set (t_passes (db w'))" by (rule moved(2)) (auto simp: is_pending_def)
  moreover have "status_update (\<lambda>s t. s = PassPendingApproval \<and> t = target) q p"
    using q(2) by (simp add: q(3) touch_def status_update_def is_pending_def)
  ultimately show ?thesis
    using admin by (auto simp: Authority_admin touch_def is_pending_def)
qed

lemma decide_outcome_witness:
  "\<exists>p w'. decide sample_service admin 10 PassRejected booked_world = (Inr p, w') \<and>
     p_Status p = PassRejected \<and> p_ApprovedBy p = Some 2"
proof -
  let ?run = "decide sample_service admin 10 PassRejected booked_world"
  have "is_ok (fst ?run)" by code_simp
  then obtain p w' where run: "?run = (Inr p, w')" by (blast dest: run_ok)
  have "bookings_ok (db booked_world)" by code_simp
  from decide_outcome [OF run this] run show ?thesis
    by (auto simp: status_update_def admin_def sample_user_def)
qed

text \<open>Storing a plan, and the steps that keep the stored plans.\<close>

definition has_plan :: "uuid \<Rightarrow> database \<Rightarrow> bool" where
  "has_plan pid d \<longleftrightarrow> exists_row (\<lambda>p. pp_PassID p = pid) (t_pass_plans d)"

lemma UpsertPassPlan_has_plan:
  assumes "UpsertPassPlan plan w = (Inr changed, w')"
  shows "has_plan (pp_PassID plan) (db w')"
proof -
  have "run_stmt (upsert_plan_stmt plan) w \<noteq> (Inl NoRows, w')"
    by (auto simp: run_stmt_def upsert_plan_stmt_def Let_def plan_error_def
        split: if_splits option.splits fault.splits elim: fault_error.elims)
  with assms obtain v where "run_stmt (upsert_plan_stmt plan) w = (Inr v, w')"
    by (auto simp: UpsertPassPlan_def scan_row_def
        split: prod.splits sum.splits option.splits dberr.splits)
  then show ?thesis
    by (auto simp: run_stmt_Inr upsert_plan_stmt_def Let_def has_plan_def exists_row_iff
        split: option.splits if_splits intro: exists_row_updated [unfolded exists_row_iff]
        dest: find_row_SomeD)
qed

lemma GenerateAndStore_has_plan:
  assumes "GenerateAndStore backend codec p w = (Inr r, w')"
  shows "has_plan (p_ID p) (db w')"
  using assms by (auto simp: GenerateAndStore_def outcome Let_def dest!: UpsertPassPlan_has_plan)

lemma has_plan_kept:
  "exec_one (update_passes_stmt P f user) w = (Inr u, w') \<Longrightarrow> has_plan pid (db w) \<Longrightarrow> has_plan pid (db w')"
  "pass_audit actor action i details w = (r, w') \<Longrightarrow> has_plan pid (db w) \<Longrightarrow> has_plan pid (db w')"
  by (auto simp: exec_one_Inr has_plan_def dest!: update_passes_stmtD(1))
     (auto simp: pass_audit_def AppendAudit_def query_row_def translated_def scan_row_def run_stmt_def
      insert_audit_stmt_def Let_def has_plan_def
      split: prod.splits sum.splits option.splits if_splits)

text \<open>
  C8.  An approved pass has a plan: when the plan generator is configured, an approval that
  succeeds has stored an executable plan for the pass.
\<close>

theorem approved_pass_has_plan:
  assumes "Approve sv actor pid w = (Inr p, w')" and "sv_plans sv = Some codec"
  shows "\<exists>plan\<in>set (t_pass_plans (db w')). pp_PassID plan = pid"
proof -
  from assms(1) obtain old w1 w2 now w3 s w4 action details where
    1: "GetPassByID pid w = (Inr old, w1)"
    and 2: "generatePlan sv (old\<lparr>p_Status := PassApproved\<rparr>) w1 = (Inr (), w2)"
    and 3: "ApprovePass pid (u_ID actor) now (advance w2) = (Inr (), w3)"
    and 4: "pass_audit (Some (u_ID actor)) action pid details w3 = (s, w4)"
    and 5: "GetPassByID pid w4 = (Inr p, w')" unfolding Approve_def by (rule decide_stages) simp
  have "p_ID old = pid" using 1 by (auto simp: GetPassByID_Inr dest: find_row_SomeD)
  then have "has_plan pid (db w2)"
    using 2 assms(2) by (auto simp: generatePlan_def outcome dest!: GenerateAndStore_has_plan)
  moreover from 3 obtain f where "exec_one (update_passes_stmt (is_pending pid) f
      (Some (''passes_approved_by_fkey'', u_ID actor))) (advance w2) = (Inr (), w3)"
    by (auto simp: ApprovePass_def exec_one_Inr approve_pass_stmt_def)
  ultimately have "has_plan pid (db w4)" using has_plan_kept(1) has_plan_kept(2) [OF 4] by fastforce
  then show ?thesis using 5 by (auto simp: GetPassByID_Inr has_plan_def exists_row_iff)
qed

lemma approved_pass_has_plan_witness:
  "\<exists>p w'. Approve planning_service admin 10 planning_world = (Inr p, w') \<and>
     (\<exists>plan\<in>set (t_pass_plans (db w')). pp_PassID plan = 10)"
proof -
  let ?run = "Approve planning_service admin 10 planning_world"
  have "is_ok (fst ?run)" by code_simp
  then obtain p w' where run: "?run = (Inr p, w')" by (blast dest: run_ok)
  have "sv_plans planning_service = Some sample_codec" by (simp add: planning_service_def)
  from approved_pass_has_plan [OF run this] run show ?thesis by blast
qed

section \<open>Cancellation\<close>

text \<open>
  C9.  A cancellation that succeeds: the actor owns the pass or is an administrator or root,
  the pass was pending or approved, and it comes back cancelled, with the actor and the
  reason that says whether it was the owner.
\<close>

theorem cancel_outcome:
  assumes "Cancel actor pid w = (Inr p, w')" and "bookings_ok (db w)"
  shows "p \<in> set (t_passes (db w')) \<and>
     (\<exists>old\<in>set (t_passes (db w)). p_ID old = pid \<and>
        (p_RequestedBy old = u_ID actor \<or> u_Role actor = RoleAdmin \<or> u_Role actor = RoleRoot) \<and>
        status_update (\<lambda>s t. (s = PassPendingApproval \<or> s = PassApproved) \<and> t = PassCancelled) old p \<and>
        cancelled_by (u_ID actor)
          (if p_RequestedBy old = u_ID actor then CancelledByOwner else CancelledByAdmin) p)"
proof -
  from assms(1) obtain old w1 w2 w3 s details where
    1: "GetPassByID pid w = (Inr old, w1)" and allowed: "CanCancelPass actor old"
    and 2: "CancelPass pid (u_ID actor) (CancellationReasonFor actor old) (env_clock (env w1) (tick w1))
      (advance w1) = (Inr (), w2)"
    and 3: "pass_audit (Some (u_ID actor)) ''pass.cancelled'' pid details w2 = (s, w3)"
    and 4: "GetPassByID pid w3 = (Inr p, w')"
    unfolding Cancel_def by (clarsimp simp: outcome Let_def fail_eq split: if_split_asm)
  let ?P = "\<lambda>p. p_ID p = pid \<and> (p_Status p = PassPendingApproval \<or> p_Status p = PassApproved)"
  let ?f = "\<lambda>p. p\<lparr>p_Status := PassCancelled, p_CancellationReason := Some (CancellationReasonFor actor old),
      p_CancelledBy := Some (u_ID actor),
      p_CancelledAt := Some (env_ts (env (advance w1)) (env_clock (env w1) (tick w1)))\<rparr>"
  have same: "t_passes (db (advance w1)) = t_passes (db w)" using 1 by (simp add: GetPassByID_Inr)
  have exec: "exec_one (update_passes_stmt ?P ?f (Some (''passes_cancelled_by_fkey'', u_ID actor)))
      (advance w1) = (Inr (), w2)"
    using 2 by (auto simp: CancelPass_def exec_one_Inr cancel_pass_stmt_def)
  have ids: "distinct (map p_ID (t_passes (db (advance w1))))"
    using assms(2) same by (simp add: bookings_ok_def)
  note moved = exec_moved [OF exec 3 4 _ _ ids]
  from moved(1) obtain q where q: "q \<in> set (t_passes (db w))" "?P q"
    "p = touch (env_now (env (advance w1)) (tick (advance w1))) ?f q"
    unfolding same by auto
  have "old \<in> set (t_passes (db w))" "p_ID old = pid"
    using 1 by (auto simp: GetPassByID_Inr dest: find_row_SomeD)
  with q ids have "old = q" unfolding same by (auto simp: distinct_map dest: inj_onD)
  moreover have "p \<in> set (t_passes (db w'))" by (rule moved(2)) auto
  ultimately show ?thesis
    using q allowed
    by (intro conjI bexI [of _ q])
       (auto simp: touch_def status_update_def cancelled_by_def CanCancelPass_def
        CancellationReasonFor_def split: if_splits)
qed

lemma cancel_outcome_witness:
  "\<exists>p w'. Cancel alice 10 approved_world = (Inr p, w') \<and> cancelled_by 3 CancelledByOwner p"
proof -
  let ?run = "Cancel alice 10 approved_world"
  have "is_ok (fst ?run)" by code_simp
  then obtain p w' where run: "?run = (Inr p, w')" by (blast dest: run_ok)
  have "bookings_ok (db approved_world)" by code_simp
  from cancel_outcome [OF run this] run show ?thesis
    by (auto simp: alice_def sample_user_def approved_world_def world_with_def sample_pass_def)
qed

section \<open>Rules\<close>

text \<open>
  The transition check accepts exactly the transitions of the table; everything else is
  an invalid-transition error; no status can be left for itself; a terminal status is left
  for none, and every status that is known and not terminal reaches a terminal one in a step.
\<close>

theorem transition_check:
  "(ValidateTransition s t = Inr () \<longleftrightarrow> CanTransition s t) \<and>
   (case ValidateTransition s t of Inl e \<Rightarrow> errors_is e ErrInvalidTransition | Inr _ \<Rightarrow> True) \<and>
   \<not> CanTransition s s \<and> \<not> (IsTerminal s \<and> CanTransition s t) \<and>
   (allowedTransitions s = None \<or> IsTerminal s \<or> (\<exists>u. CanTransition s u \<and> IsTerminal u))"
  using ValidateTransition_ok [of s t] ValidateTransition_cases [of s t] CanTransition_irrefl [of s]
    CanTransition_not_terminal [of s t] terminal_reached [of s]
  by auto

text \<open>
  The overlap rule of the scheduler is the exclusion constraint of the database: for
  reservations that are not empty, \<open>Overlaps\<close> holds exactly when the ranges conflict.
\<close>

theorem overlaps_is_exclusion:
  "ranges_overlap (From r) (To r) (From s) (To s) \<longleftrightarrow>
     From r < To r \<and> From s < To s \<and> Overlaps r s"
  by (auto simp: ranges_overlap_def Overlaps_def before_def)

text \<open>
  No role can raise anybody to its own authority: accounts are created, and roles are
  changed, only with the roles administrator and user and below the actor's own authority,
  and only the root user changes roles or deletes accounts, never another root or itself.
\<close>

theorem no_escalation:
  "(CanCreateUserWithRole actor role \<longleftrightarrow>
      role \<in> {RoleAdmin, RoleUser} \<and> Authority role < Authority (u_Role actor)) \<and>
   (CanChangeRole actor target role \<longleftrightarrow>
      u_Role actor = RoleRoot \<and> role \<in> {RoleAdmin, RoleUser} \<and>
      Authority (u_Role target) < Authority (u_Role actor)) \<and>
   (CanDeleteUser actor target \<longleftrightarrow>
      u_Role actor = RoleRoot \<and> u_ID target \<noteq> u_ID actor \<and>
      Authority (u_Role target) < Authority (u_Role actor))"
  by (cases "u_Role actor"; cases "u_Role target"; cases role)
     (auto simp: CanCreateUserWithRole_def CanChangeRole_def CanDeleteUser_def CanManageUsers_def
      AtLeast_def IsValidRole_def)

text \<open>The window that a conflict reports.\<close>

lemma occupied_hull:
  "fst (occupied cs f t) \<le> f \<and> t \<le> snd (occupied cs f t) \<and>
   (\<forall>c\<in>set cs. fst (occupied cs f t) \<le> p_ReservedFrom c \<and> p_ReservedTo c \<le> snd (occupied cs f t))"
proof (induction cs arbitrary: f t)
  case (Cons c cs)
  from Cons [of "if before (p_ReservedFrom c) f then p_ReservedFrom c else f"
      "if after (p_ReservedTo c) t then p_ReservedTo c else t"]
  show ?case by (auto simp: before_def after_def split: if_splits)
qed simp

text \<open>
  A conflict always comes back as a conflict error, and the window it names covers the
  reservation of every live pass that stands in the way.
\<close>

theorem conflict_window_covers:
  assumes "conflictFor sid r w = (Inr e, w')" and "runs w"
    and "env_ts (env w) (From r) \<le> env_ts (env w) (To r)"
  shows "\<exists>lo hi. e = ConflictError lo hi \<and>
     (\<forall>c\<in>set (t_passes (db w)).
        conflicting sid (env_ts (env w) (From r)) (env_ts (env w) (To r)) LiveStatuses c \<longrightarrow>
        lo \<le> p_ReservedFrom c \<and> p_ReservedTo c \<le> hi)"
proof -
  let ?stmt = "find_conflicting_stmt sid (From r) (To r) LiveStatuses"
  obtain cs where cs: "FindConflictingPasses sid (From r) (To r) LiveStatuses w = (Inr cs, advance w)"
    and set: "set cs = {c \<in> set (t_passes (db w)).
      conflicting sid (env_ts (env w) (From r)) (env_ts (env w) (To r)) LiveStatuses c}"
  proof -
    have "list_all status_in_enum LiveStatuses" by (simp add: LiveStatuses_def liveStatuses_def)
    then show ?thesis using assms(2,3)
      by (intro that) (auto simp: FindConflictingPasses_def query_Inr find_conflicting_stmt_def)
  qed
  show ?thesis
  proof (cases cs)
    case Nil
    with assms(1) cs set show ?thesis
      by (auto simp: conflictFor_def attempt_or_def ret_def)
  next
    case (Cons c rest)
    obtain lo hi where hull: "occupied rest (p_ReservedFrom c) (p_ReservedTo c) = (lo, hi)"
      by fastforce
    with assms(1) cs Cons have "e = ConflictError lo hi"
      by (simp add: conflictFor_def attempt_or_def ret_def)
    with occupied_hull [of rest "p_ReservedFrom c" "p_ReservedTo c"] hull set Cons
    show ?thesis by (intro exI [of _ lo] exI [of _ hi]) auto
  qed
qed

lemma conflict_window_covers_witness:
  "\<exists>e w' lo hi. conflictFor 1 \<lparr>From = 7000000000000, To = 7200000000000\<rparr> booked_world = (Inr e, w') \<and>
     e = ConflictError lo hi \<and> lo \<le> 7140000000000 \<and> 7860000000000 \<le> hi"
proof -
  let ?r = "\<lparr>From = 7000000000000, To = 7200000000000\<rparr>"
  have "is_ok (fst (conflictFor 1 ?r booked_world))" by code_simp
  then obtain e w' where run: "conflictFor 1 ?r booked_world = (Inr e, w')" by (blast dest: run_ok)
  have "runs booked_world" by (simp add: runs_def booked_world_def world_with_def sample_env_def)
  moreover have "env_ts (env booked_world) (From ?r) \<le> env_ts (env booked_world) (To ?r)"
    by (simp add: booked_world_def world_with_def sample_env_def)
  moreover have "t_passes (db booked_world) = [sample_pass PassPendingApproval]"
    by (simp add: booked_world_def world_with_def)
  moreover have "conflicting 1 (env_ts (env booked_world) (From ?r)) (env_ts (env booked_world) (To ?r))
      LiveStatuses (sample_pass PassPendingApproval)" by code_simp
  ultimately show ?thesis
    using conflict_window_covers [OF run] run by (fastforce simp: sample_pass_def)
qed

text \<open>
  The report of a worker takes a pass from approved straight to completed, which the
  transition table does not allow.
\<close>

theorem worker_report_skips_executing:
  "fst (SetPassOutcome 10 PassCompleted approved_world) = Inr True \<and>
   map p_Status (t_passes (db approved_world)) = [PassApproved] \<and>
   map p_Status (t_passes (db (snd (SetPassOutcome 10 PassCompleted approved_world)))) = [PassCompleted] \<and>
   \<not> CanTransition PassApproved PassCompleted"
  by code_simp

end
