(* ===== verification/Go_Text.thy ===== *)
theory Go_Text
  imports Prelude
begin

text \<open>
  What the server uses of Go's packages \<open>strings\<close> and \<open>path/filepath\<close> (on Unix, where
  \<open>ToSlash\<close> is the identity): splitting, joining, prefixes and suffixes, and the lexical
  normal form of a path.  Strings are lists of bytes.
\<close>

section \<open>strings\<close>

fun split_on :: "char \<Rightarrow> string \<Rightarrow> string list" where
  "split_on c [] = [[]]"
| "split_on c (x # xs) =
     (if x = c then [] # split_on c xs
      else case split_on c xs of [] \<Rightarrow> [[x]] | p # ps \<Rightarrow> (x # p) # ps)"

lemma split_on_not_Nil [simp]: "split_on c s \<noteq> []"
  by (induction s) (auto split: list.split)

lemma split_on_append:
  "c \<notin> set p \<Longrightarrow> split_on c (p @ c # s) = p # split_on c s"
  by (induction p) auto

lemma split_on_single: "c \<notin> set p \<Longrightarrow> split_on c p = [p]"
  by (induction p) auto

lemma split_on_join: "split_on c (s @ c # t) = split_on c s @ split_on c t"
  by (induction s) (auto split: list.split)

lemma split_on_free: "p \<in> set (split_on c s) \<Longrightarrow> c \<notin> set p"
  by (induction s arbitrary: p) (auto split: if_splits list.splits)

fun join_on :: "string \<Rightarrow> string list \<Rightarrow> string" where
  "join_on sep [] = ''''"
| "join_on sep [p] = p"
| "join_on sep (p # q # ps) = p @ sep @ join_on sep (q # ps)"

lemma join_on_Cons: "ps \<noteq> [] \<Longrightarrow> join_on sep (p # ps) = p @ sep @ join_on sep ps"
  by (cases ps) auto

lemma join_on_append:
  "ps \<noteq> [] \<Longrightarrow> qs \<noteq> [] \<Longrightarrow> join_on sep (ps @ qs) = join_on sep ps @ sep @ join_on sep qs"
proof (induction ps)
  case (Cons p ps)
  then show ?case by (cases "ps = []") (simp_all add: join_on_Cons)
qed simp

lemma join_split: "join_on [c] (split_on c s) = s"
proof (induction s)
  case (Cons x s)
  then show ?case
    by (cases "split_on c s"; cases "tl (split_on c s)") (auto simp: join_on_Cons)
qed simp

lemma split_join:
  "ps \<noteq> [] \<Longrightarrow> \<forall>p\<in>set ps. c \<notin> set p \<Longrightarrow> split_on c (join_on [c] ps) = ps"
proof (induction ps)
  case (Cons p ps)
  then show ?case
    by (cases "ps = []") (auto simp: split_on_single split_on_append join_on_Cons)
qed simp

definition has_prefix :: "string \<Rightarrow> string \<Rightarrow> bool" where
  "has_prefix s p \<longleftrightarrow> take (length p) s = p"

definition has_suffix :: "string \<Rightarrow> string \<Rightarrow> bool" where
  "has_suffix s p \<longleftrightarrow> length p \<le> length s \<and> drop (length s - length p) s = p"

definition trim_prefix :: "string \<Rightarrow> string \<Rightarrow> string" where
  "trim_prefix s p = (if has_prefix s p then drop (length p) s else s)"

definition trim_suffix :: "string \<Rightarrow> string \<Rightarrow> string" where
  "trim_suffix s p = (if has_suffix s p then take (length s - length p) s else s)"

lemma has_prefix_append [simp]: "has_prefix (p @ s) p"
  by (simp add: has_prefix_def)

lemma trim_prefix_append [simp]: "trim_prefix (p @ s) p = s"
  by (simp add: trim_prefix_def)

lemma has_prefix_iff: "has_prefix s p \<longleftrightarrow> (\<exists>r. s = p @ r)"
  unfolding has_prefix_def by (metis append_eq_conv_conj append_take_drop_id)

lemma trim_prefix_eq:
  "trim_prefix v p = s \<longleftrightarrow> v = s \<and> \<not> has_prefix v p \<or> v = p @ s"
  by (auto simp: trim_prefix_def has_prefix_iff)

lemma trim_suffix_cases: "s = trim_suffix s p \<or> s = trim_suffix s p @ p"
  unfolding trim_suffix_def has_suffix_def by (metis append_take_drop_id)

section \<open>Numbers in decimal\<close>

definition is_digit :: "char \<Rightarrow> bool" where
  "is_digit c \<longleftrightarrow> 48 \<le> (of_char c :: nat) \<and> (of_char c :: nat) \<le> 57"

definition digits_value :: "string \<Rightarrow> int" where
  "digits_value s = foldl (\<lambda>n c. 10 * n + (of_char c - 48)) 0 s"

text \<open>\<open>%d\<close> of a number that is not negative.\<close>

function decimal :: "int \<Rightarrow> string" where
  "decimal n = (if n < 10 then [char_of (48 + n)] else decimal (n div 10) @ [char_of (48 + n mod 10)])"
  by auto
termination by (relation "measure nat") auto

declare decimal.simps [simp del]

lemma digit_char:
  assumes "0 \<le> n" and "n < 10"
  shows "is_digit (char_of (48 + n))" and "(of_char (char_of (48 + n) :: char) :: int) = 48 + n"
proof -
  from assms obtain k where "n = int k" and "k < 10" by (metis nonneg_int_cases of_nat_less_numeral_iff)
  then have "char_of (48 + n) = (char_of (48 + k) :: char)"
    by (metis char_of_nat of_nat_add of_nat_numeral)
  with \<open>k < 10\<close> \<open>n = int k\<close> show "is_digit (char_of (48 + n))"
    by (simp add: is_digit_def)
  show "(of_char (char_of (48 + n) :: char) :: int) = 48 + n" using assms by simp
qed

lemma decimal_digits: "0 \<le> n \<Longrightarrow> list_all is_digit (decimal n)"
proof (induction n rule: decimal.induct)
  case (1 n)
  then show ?case
    using digit_char(1) [of n] digit_char(1) [of "n mod 10"] by (subst decimal.simps) simp
qed

lemma decimal_value: "0 \<le> n \<Longrightarrow> digits_value (decimal n) = n"
proof (induction n rule: decimal.induct)
  case (1 n)
  then show ?case
    using digit_char(2) [of n] digit_char(2) [of "n mod 10"]
    by (subst decimal.simps) (simp add: digits_value_def)
qed

lemma decimal_not_Nil [simp]: "decimal n \<noteq> []"
  by (subst decimal.simps) simp

lemma is_digit_not_slash: "is_digit c \<Longrightarrow> c \<noteq> CHR ''/''"
  by (auto simp: is_digit_def)

section \<open>filepath.Clean, filepath.Join and filepath.Dir\<close>

text \<open>
  One element of the path, from left to right: an empty element and a dot vanish, dot-dot
  removes the element before it, or stays at the front of a relative path.
\<close>

definition clean_element :: "bool \<Rightarrow> string list \<Rightarrow> string \<Rightarrow> string list" where
  "clean_element rooted out p =
     (if p = '''' \<or> p = ''.'' then out
      else if p = ''..''
      then if out \<noteq> [] \<and> last out \<noteq> ''..'' then butlast out
           else if rooted then out else out @ [p]
      else out @ [p])"

definition clean_elements :: "bool \<Rightarrow> string list \<Rightarrow> string list" where
  "clean_elements rooted ps = foldl (clean_element rooted) [] ps"

definition is_rooted :: "string \<Rightarrow> bool" where
  "is_rooted path \<longleftrightarrow> has_prefix path ''/''"

definition clean_path :: "string \<Rightarrow> string" where
  "clean_path path =
     (let out = clean_elements (is_rooted path) (split_on (CHR ''/'') path)
      in if is_rooted path then ''/'' @ join_on ''/'' out
         else if out = [] then ''.'' else join_on ''/'' out)"

text \<open>\<open>filepath.Join\<close> drops empty elements in front; the rest is joined and cleaned.\<close>

definition path_join :: "string list \<Rightarrow> string" where
  "path_join ps =
     (case dropWhile (\<lambda>p. p = '''') ps of
        [] \<Rightarrow> ''''
      | q # qs \<Rightarrow> clean_path (join_on ''/'' (q # qs)))"

text \<open>\<open>filepath.Dir\<close>: everything up to the last slash, cleaned.\<close>

definition path_dir :: "string \<Rightarrow> string" where
  "path_dir path =
     clean_path (rev (dropWhile (\<lambda>c. c \<noteq> CHR ''/'') (rev path)))"

text \<open>A plain element survives the normal form as it is.\<close>

definition plain_element :: "string \<Rightarrow> bool" where
  "plain_element p \<longleftrightarrow> p \<noteq> '''' \<and> p \<noteq> ''.'' \<and> p \<noteq> ''..'' \<and> CHR ''/'' \<notin> set p"

lemma clean_elements_plain:
  "\<forall>p\<in>set qs. plain_element p \<Longrightarrow> clean_elements r (ps @ qs) = clean_elements r ps @ qs"
proof (induction qs rule: rev_induct)
  case (snoc q qs)
  then have "clean_elements r (ps @ qs @ [q]) = clean_element r (clean_elements r ps @ qs) q"
    by (simp add: clean_elements_def)
  with snoc.prems show ?case by (simp add: clean_element_def plain_element_def)
qed simp

lemma clean_path_under:
  assumes "clean_path base = base" and "is_rooted base" and "base \<noteq> ''/''"
    and "qs \<noteq> []" and plain: "\<forall>q\<in>set qs. plain_element q"
  shows "clean_path (base @ ''/'' @ join_on ''/'' qs) = base @ ''/'' @ join_on ''/'' qs"
proof -
  let ?c = "CHR ''/''"
  let ?out = "clean_elements True (split_on ?c base)"
  have base: "''/'' @ join_on ''/'' ?out = base"
    using assms(1,2) by (simp add: clean_path_def Let_def)
  have "?out \<noteq> []"
  proof
    assume "?out = []"
    with base have "base = ''/''" by simp
    with assms(3) show False by contradiction
  qed
  moreover have "split_on ?c (base @ ''/'' @ join_on ''/'' qs) = split_on ?c base @ qs"
    using assms(4) plain by (simp add: split_on_join split_join plain_element_def)
  moreover have "is_rooted (base @ ''/'' @ join_on ''/'' qs)"
    using assms(2) by (cases base) (auto simp: is_rooted_def has_prefix_def)
  ultimately have "clean_path (base @ ''/'' @ join_on ''/'' qs)
      = (''/'' @ join_on ''/'' ?out) @ ''/'' @ join_on ''/'' qs"
    using assms(4) plain by (simp add: clean_path_def Let_def clean_elements_plain join_on_append)
  then show ?thesis unfolding base .
qed

lemma path_join_under:
  assumes "clean_path base = base" and "is_rooted base" and "base \<noteq> ''/''"
    and "qs \<noteq> []" and "\<forall>q\<in>set qs. plain_element q"
  shows "path_join (base # qs) = base @ ''/'' @ join_on ''/'' qs"
proof -
  have "base \<noteq> ''''" using assms(2) by (auto simp: is_rooted_def has_prefix_def)
  then show ?thesis
    using clean_path_under [OF assms] assms(4) by (simp add: path_join_def join_on_Cons)
qed

end
