(* ===== verification/Auth_Password.thy ===== *)
theory Auth_Password
  imports Database Go_Text
begin

text \<open>
  \<open>internal/auth/password.go\<close>: the password policy and the stored form of a password hash,
  with the parts of Go's \<open>strings\<close>, \<open>fmt\<close> and \<open>encoding/base64\<close> it uses.  Argon2 itself is
  third-party code and the parameter \<open>idkey\<close>: password, salt, time, memory, threads and key
  length to the key.
\<close>

section \<open>fmt.Sscanf\<close>

text \<open>
  The verb \<open>%d\<close>: spaces are skipped, then comes an optional sign (for a signed target), then
  digits and underscores; an underscore is an error in base ten, as is a number above \<open>bound\<close>.
  The rest of the input is handed on.
\<close>

definition scan_number :: "bool \<Rightarrow> int \<Rightarrow> string \<Rightarrow> (int \<times> string) option" where
  "scan_number sgnd bound s =
     (let s1 = dropWhile (\<lambda>c. c = CHR '' '' \<or> c = CHR 0x09 \<or> c = CHR 0x0D) s;
          negative = (sgnd \<and> take 1 s1 = ''-'');
          s2 = (if sgnd \<and> (take 1 s1 = ''-'' \<or> take 1 s1 = ''+'') then drop 1 s1 else s1);
          token = takeWhile (\<lambda>c. is_digit c \<or> c = CHR ''_'') s2;
          rest = dropWhile (\<lambda>c. is_digit c \<or> c = CHR ''_'') s2
      in if token = [] \<or> CHR ''_'' \<in> set token \<or>
            bound < digits_value token \<and> \<not> (negative \<and> digits_value token = bound + 1)
         then None
         else Some (if negative then - digits_value token else digits_value token, rest))"

definition expect :: "string \<Rightarrow> string \<Rightarrow> string option" where
  "expect p s = (if take (length p) s = p then Some (drop (length p) s) else None)"

definition scan_version :: "string \<Rightarrow> int option" where
  "scan_version s =
     (case expect ''v='' s of None \<Rightarrow> None
      | Some s1 \<Rightarrow> map_option fst (scan_number True (2 ^ 63 - 1) s1))"

definition scan_cost :: "string \<Rightarrow> (int \<times> int \<times> int) option" where
  "scan_cost s =
     (case expect ''m='' s of None \<Rightarrow> None | Some s1 \<Rightarrow>
      case scan_number False (2 ^ 32 - 1) s1 of None \<Rightarrow> None | Some (m, s2) \<Rightarrow>
      case expect '',t='' s2 of None \<Rightarrow> None | Some s3 \<Rightarrow>
      case scan_number False (2 ^ 32 - 1) s3 of None \<Rightarrow> None | Some (t, s4) \<Rightarrow>
      case expect '',p='' s4 of None \<Rightarrow> None | Some s5 \<Rightarrow>
      case scan_number False (2 ^ 8 - 1) s5 of None \<Rightarrow> None | Some (p, s6) \<Rightarrow> Some (m, t, p))"

section \<open>base64.RawStdEncoding\<close>

definition b64_alphabet :: string where
  "b64_alphabet = ''ABCDEFGHIJKLMNOPQRSTUVWXYZabcdefghijklmnopqrstuvwxyz0123456789+/''"

fun sextets :: "nat list \<Rightarrow> nat list" where
  "sextets (a # b # c # rest) =
     a div 4 # ((a mod 4) * 16 + b div 16) # ((b mod 16) * 4 + c div 64) # c mod 64 # sextets rest"
| "sextets [a, b] = [a div 4, (a mod 4) * 16 + b div 16, (b mod 16) * 4]"
| "sextets [a] = [a div 4, (a mod 4) * 16]"
| "sextets [] = []"

text \<open>The strict decoder rejects a last group whose unused bits are not zero.\<close>

fun octets :: "nat list \<Rightarrow> nat list option" where
  "octets (p # q # r # s # rest) =
     (case octets rest of None \<Rightarrow> None
      | Some bs \<Rightarrow> Some ((p * 4 + q div 16) # ((q mod 16) * 16 + r div 4) # ((r mod 4) * 64 + s) # bs))"
| "octets [p, q, r] =
     (if r mod 4 \<noteq> 0 then None else Some [p * 4 + q div 16, (q mod 16) * 16 + r div 4])"
| "octets [p, q] = (if q mod 16 \<noteq> 0 then None else Some [p * 4 + q div 16])"
| "octets [p] = None"
| "octets [] = Some []"

definition b64_encode :: "bytes \<Rightarrow> string" where
  "b64_encode bs = map (\<lambda>n. b64_alphabet ! n) (sextets (map of_char bs))"

fun index_of :: "char \<Rightarrow> string \<Rightarrow> nat option" where
  "index_of c [] = None"
| "index_of c (x # xs) = (if x = c then Some 0 else map_option Suc (index_of c xs))"

fun b64_values :: "string \<Rightarrow> nat list option" where
  "b64_values [] = Some []"
| "b64_values (c # cs) =
     (if c = CHR 0x0A \<or> c = CHR 0x0D then b64_values cs
      else case index_of c b64_alphabet of None \<Rightarrow> None
      | Some n \<Rightarrow> map_option (Cons n) (b64_values cs))"

definition b64_decode :: "string \<Rightarrow> bytes option" where
  "b64_decode s =
     (case b64_values s of None \<Rightarrow> None
      | Some vs \<Rightarrow> map_option (map char_of) (octets vs))"

section \<open>Policy\<close>

definition MinPasswordLength :: nat where "MinPasswordLength = 12"

definition BootstrapUsername :: string where "BootstrapUsername = ''root''"
definition BootstrapPassword :: string where "BootstrapPassword = ''toor''"

definition ValidatePassword :: "string \<Rightarrow> err + unit" where
  "ValidatePassword password =
     (if length password < MinPasswordLength then Inl (Err ErrPasswordTooShort)
      else if password = BootstrapPassword then Inl (Err ErrPasswordIsBootstrap)
      else Inr ())"

section \<open>Hashes\<close>

type_synonym idkey = "bytes \<Rightarrow> bytes \<Rightarrow> int \<Rightarrow> int \<Rightarrow> int \<Rightarrow> nat \<Rightarrow> bytes"

definition argonTime :: int where "argonTime = 3"
definition argonMemory :: int where "argonMemory = 64 * 1024"
definition argonThreads :: int where "argonThreads = 4"
definition argonKeyLen :: nat where "argonKeyLen = 32"
definition argonSaltLen :: nat where "argonSaltLen = 16"
definition argonVersion :: int where "argonVersion = 19"

record decoded_hash =
  dh_memory :: int
  dh_time :: int
  dh_threads :: int
  dh_salt :: bytes
  dh_key :: bytes

definition decodeHash :: "string \<Rightarrow> err + decoded_hash" where
  "decodeHash encodedHash =
     (case split_on (CHR ''$'') encodedHash of
        [p0, p1, p2, p3, p4, p5] \<Rightarrow>
          (if p0 \<noteq> '''' \<or> p1 \<noteq> ''argon2id'' then Inl (Err ErrInvalidHash)
           else case scan_version p2 of None \<Rightarrow> Inl (Err ErrInvalidHash)
           | Some version \<Rightarrow>
             if version \<noteq> argonVersion then Inl (ErrWrap ''unsupported version'' (Err ErrInvalidHash))
             else case scan_cost p3 of None \<Rightarrow> Inl (Err ErrInvalidHash)
             | Some (memory, t, threads) \<Rightarrow>
               if memory = 0 \<or> t = 0 \<or> threads = 0 then Inl (Err ErrInvalidHash)
               else case b64_decode p4 of None \<Rightarrow> Inl (Err ErrInvalidHash)
               | Some salt \<Rightarrow>
                 if length salt = 0 then Inl (Err ErrInvalidHash)
                 else case b64_decode p5 of None \<Rightarrow> Inl (Err ErrInvalidHash)
                 | Some key \<Rightarrow>
                   if length key = 0 then Inl (Err ErrInvalidHash)
                   else Inr \<lparr>dh_memory = memory, dh_time = t, dh_threads = threads,
                             dh_salt = salt, dh_key = key\<rparr>)
      | _ \<Rightarrow> Inl (Err ErrInvalidHash))"

definition VerifyPassword :: "idkey \<Rightarrow> string \<Rightarrow> string \<Rightarrow> err + unit" where
  "VerifyPassword idkey password encodedHash =
     (case decodeHash encodedHash of Inl e \<Rightarrow> Inl e
      | Inr h \<Rightarrow>
          if idkey password (dh_salt h) (dh_time h) (dh_memory h) (dh_threads h) (length (dh_key h)) \<noteq> dh_key h
          then Inl (Err ErrPasswordMismatch) else Inr ())"

text \<open>\<open>runtime.NumCPU()\<close> is the parameter \<open>cpus\<close>.\<close>

definition threads_for :: "nat \<Rightarrow> int" where
  "threads_for cpus = (if int cpus < argonThreads then int cpus else argonThreads)"

definition encode_hash :: "int \<Rightarrow> bytes \<Rightarrow> bytes \<Rightarrow> string" where
  "encode_hash threads salt key =
     ''$argon2id$v='' @ decimal argonVersion @ ''$m='' @ decimal argonMemory @
     '',t='' @ decimal argonTime @ '',p='' @ decimal threads @ ''$'' @
     b64_encode salt @ ''$'' @ b64_encode key"

definition HashPassword :: "idkey \<Rightarrow> nat \<Rightarrow> string \<Rightarrow> string repo" where
  "HashPassword idkey cpus password w =
     (case env_salt (env w) (tick w) of
        None \<Rightarrow> (Inl (ErrWrap ''generate salt'' (ErrText ''rand'')), advance w)
      | Some salt \<Rightarrow>
          (Inr (encode_hash (threads_for cpus) salt
             (idkey password salt argonTime argonMemory (threads_for cpus) argonKeyLen)), advance w))"

section \<open>Round trip of base64\<close>

lemma join_parts: "(x::nat) < m \<Longrightarrow> (k * m + x) div m = k" "(x::nat) < m \<Longrightarrow> (k * m + x) mod m = x"
  by simp_all

lemma octet_parts:
  "(b::nat) < 256 \<Longrightarrow> b div 16 < 16" "(c::nat) < 256 \<Longrightarrow> c div 64 < 4" "(a::nat) < 256 \<Longrightarrow> a div 4 < 64"
  by simp_all

lemma group_parts:
  "(a::nat) mod 4 < 4" "(b::nat) mod 16 < 16" "(c::nat) mod 64 < 64" by simp_all

lemma octets_sextets:
  "\<forall>n\<in>set ns. n < 256 \<Longrightarrow> octets (sextets ns) = Some ns"
proof (induction ns rule: sextets.induct)
  case (1 a b c rest)
  then have lt: "b div 16 < 16" "c div 64 < 4" and "octets (sextets rest) = Some rest"
    using octet_parts(1,2) by simp_all
  then show ?case
    by (simp only: sextets.simps octets.simps option.case join_parts [OF lt(1)] join_parts [OF lt(2)]
        div_mult_mod_eq)
next
  case (2 a b)
  then have lt: "b div 16 < 16" using octet_parts(1) by simp
  then have "b div 16 mod 16 = b div 16" by simp
  then show ?case by (simp add: join_parts [OF lt])
qed simp_all

lemma sextets_bound: "\<forall>n\<in>set ns. n < 256 \<Longrightarrow> \<forall>v\<in>set (sextets ns). v < 64"
proof (induction ns rule: sextets.induct)
  case (1 a b c rest)
  then have "a div 4 < 64" "b div 16 < 16" "c div 64 < 4" "\<forall>v\<in>set (sextets rest). v < 64"
    using octet_parts by simp_all
  with group_parts(1) [of a] group_parts(2) [of b] group_parts(3) [of c] show ?case
    by (auto simp del: mod_less_divisor)
next
  case (2 a b)
  then have "a div 4 < 64" "b div 16 < 16" using octet_parts by simp_all
  with group_parts(1) [of a] group_parts(2) [of b] show ?case by auto
next
  case (3 a)
  then have "a div 4 < 64" using octet_parts by simp
  with group_parts(1) [of a] show ?case by auto
qed simp

lemma alphabet_ok:
  "list_all (\<lambda>n. index_of (b64_alphabet ! n) b64_alphabet = Some n \<and> b64_alphabet ! n \<noteq> CHR 0x0A \<and>
     b64_alphabet ! n \<noteq> CHR 0x0D \<and> b64_alphabet ! n \<noteq> CHR ''$'') [0..<64]"
  by code_simp

lemma alphabet_nth:
  assumes "n < 64"
  shows "index_of (b64_alphabet ! n) b64_alphabet = Some n" and "b64_alphabet ! n \<noteq> CHR 0x0A"
    and "b64_alphabet ! n \<noteq> CHR 0x0D" and "b64_alphabet ! n \<noteq> CHR ''$''"
  using alphabet_ok assms by (simp_all add: list_all_iff)

lemma b64_values_map: "\<forall>v\<in>set vs. v < 64 \<Longrightarrow> b64_values (map (\<lambda>n. b64_alphabet ! n) vs) = Some vs"
  by (induction vs) (auto simp: alphabet_nth)

lemma octet_bound: "\<forall>n\<in>set (map (of_char :: char \<Rightarrow> nat) bs). n < 256"
  by (auto simp: of_char_def) 

lemma b64_roundtrip: "b64_decode (b64_encode bs) = Some bs"
  using b64_values_map [OF sextets_bound [OF octet_bound, of bs]] octets_sextets [OF octet_bound, of bs]
  by (simp add: b64_decode_def b64_encode_def comp_def)

lemma b64_no_dollar: "CHR ''$'' \<notin> set (b64_encode bs)"
  using sextets_bound [OF octet_bound, of bs] alphabet_nth(4) by (force simp: b64_encode_def)

section \<open>Hashes that the server writes\<close>

lemma threads_cases: "0 < cpus \<Longrightarrow> threads_for cpus \<in> {1, 2, 3, 4}"
  by (auto simp: threads_for_def argonThreads_def)

lemma decimal_constants:
  "decimal 19 = ''19''" "decimal 65536 = ''65536''" "decimal 3 = ''3''"
  "decimal 1 = ''1''" "decimal 2 = ''2''" "decimal 4 = ''4''"
  by code_simp+

lemma split_encoded:
  assumes "threads \<in> {1, 2, 3, 4}"
  shows "split_on (CHR ''$'') (encode_hash threads salt key) =
    ['''', ''argon2id'', ''v=19'', ''m=65536,t=3,p='' @ decimal threads, b64_encode salt, b64_encode key]"
proof -
  have "CHR ''$'' \<notin> set (''m=65536,t=3,p='' @ decimal threads)"
    using assms by (auto simp: decimal_constants)
  note split_on_append [OF this] split_on_append [OF b64_no_dollar] split_on_single [OF b64_no_dollar]
  moreover have "encode_hash threads salt key = '''' @ CHR ''$'' # ''argon2id'' @ CHR ''$'' # ''v=19'' @ CHR ''$'' #
      (''m=65536,t=3,p='' @ decimal threads) @ CHR ''$'' # b64_encode salt @ CHR ''$'' # b64_encode key"
    by (simp add: encode_hash_def argonVersion_def argonMemory_def argonTime_def decimal_constants)
  ultimately show ?thesis by (simp add: split_on_append)
qed

lemma scan_written:
  "threads \<in> {1, 2, 3, 4} \<Longrightarrow> scan_cost (''m=65536,t=3,p='' @ decimal threads) = Some (65536, 3, threads)"
proof -
  have "scan_cost ''m=65536,t=3,p=1'' = Some (65536, 3, 1)" "scan_cost ''m=65536,t=3,p=2'' = Some (65536, 3, 2)"
    "scan_cost ''m=65536,t=3,p=3'' = Some (65536, 3, 3)" "scan_cost ''m=65536,t=3,p=4'' = Some (65536, 3, 4)"
    by code_simp+
  then show "threads \<in> {1, 2, 3, 4} \<Longrightarrow> ?thesis"
    by (auto simp: decimal_constants)
qed

lemma version_written: "scan_version ''v=19'' = Some 19"
  by code_simp

lemma decode_encoded:
  assumes "threads \<in> {1, 2, 3, 4}" and "salt \<noteq> []" and "key \<noteq> []"
  shows "decodeHash (encode_hash threads salt key) =
    Inr \<lparr>dh_memory = argonMemory, dh_time = argonTime, dh_threads = threads, dh_salt = salt, dh_key = key\<rparr>"
  using assms(2,3) scan_written [OF assms(1)] assms(1)
  by (simp add: decodeHash_def split_encoded [OF assms(1)] version_written b64_roundtrip
      argonMemory_def argonTime_def argonVersion_def) auto

end
