(* ===== verification/Auth_Service.thy ===== *)
theory Auth_Service
  imports Auth_Password Store_Props
begin

text \<open>
  Sessions (\<open>internal/store/sessions.go\<close>) and the authentication service
  (\<open>internal/auth/service.go\<close>).  Redis is the field \<open>redis\<close> of the world: an entry with the
  instant at which it expires on the server's clock.  The JSON form of a session loses
  nothing, so the entry holds the session itself.
\<close>

section \<open>internal/store/sessions.go\<close>

definition sessionKeyPrefix :: string where "sessionKeyPrefix = ''aagasa:session:''"

definition session_key :: "env \<Rightarrow> string \<Rightarrow> string" where
  "session_key e token = sessionKeyPrefix @ env_sha256hex e token"

definition NewToken :: "string repo" where
  "NewToken w =
     (case env_token (env w) (tick w) of
        None \<Rightarrow> (Inl (ErrWrap ''generate session token'' (ErrText ''rand'')), advance w)
      | Some t \<Rightarrow> (Inr t, advance w))"

definition create_session :: "string \<Rightarrow> session \<Rightarrow> duration \<Rightarrow> unit repo" where
  "create_session token s ttl w =
     (if ttl \<le> 0 then (Inl (ErrText ''session ttl must be positive''), w)
      else if \<not> env_redis_up (env w) (tick w)
      then (Inl (ErrWrap ''store session'' (ErrText ''redis'')), advance w)
      else (Inr (), (advance w)\<lparr>redis := (redis w)(session_key (env w) token \<mapsto>
              (s, env_clock (env w) (tick w) + ttl))\<rparr>))"

definition get_session :: "string \<Rightarrow> session repo" where
  "get_session token w =
     (if \<not> env_redis_up (env w) (tick w)
      then (Inl (ErrWrap ''read session'' (ErrText ''redis'')), advance w)
      else case redis w (session_key (env w) token) of
             None \<Rightarrow> (Inl (Err ErrSessionNotFound), advance w)
           | Some (s, expires) \<Rightarrow>
               if expires \<le> env_clock (env w) (tick w) then (Inl (Err ErrSessionNotFound), advance w)
               else (Inr s, advance w))"

definition delete_session :: "string \<Rightarrow> unit repo" where
  "delete_session token w =
     (if \<not> env_redis_up (env w) (tick w)
      then (Inl (ErrWrap ''delete session'' (ErrText ''redis'')), advance w)
      else (Inr (), (advance w)\<lparr>redis := (redis w)(session_key (env w) token := None)\<rparr>))"

section \<open>internal/auth/service.go\<close>

record auth_service =
  as_sessionTTL :: duration
  as_idkey :: idkey
  as_cpus :: nat

record login_result =
  lr_Token :: string
  lr_User :: user
  lr_MustChangePassword :: bool
  lr_ExpiresAt :: time

definition auth_audit :: "uuid option \<Rightarrow> string \<Rightarrow> uuid \<Rightarrow> audit_record repo" where
  "auth_audit actor action i = AppendAudit (audit_entry actor action ''user'' (RefID i) [])"

definition EnsureBootstrapRoot :: "auth_service \<Rightarrow> unit repo" where
  "EnsureBootstrapRoot s =
     attempt (wrapping ''count users'' CountUsers) (\<lambda>count.
     if 0 < count then ret ()
     else
     attempt (HashPassword (as_idkey s) (as_cpus s) BootstrapPassword) (\<lambda>hash.
     attempt (wrapping ''create root'' (CreateUser
         \<lparr>u_ID = 0, u_Username = BootstrapUsername, u_PasswordHash = hash, u_Role = RoleRoot,
          u_MustChangePassword = True, u_CreatedAt = 0, u_UpdatedAt = 0\<rparr>)) (\<lambda>root.
     attempt (AppendAudit (audit_entry None ''user.bootstrap_created'' ''user'' (RefID (u_ID root))
         [(''username'', VString (u_Username root)), (''role'', VString (user_role_string (u_Role root)))]))
       (\<lambda>_. ret ()))))"

text \<open>The part of \<open>Login\<close> after the password has been verified.\<close>

definition open_session :: "auth_service \<Rightarrow> user \<Rightarrow> login_result repo" where
  "open_session s user =
     attempt NewToken (\<lambda>token.
     attempt clock_now (\<lambda>now.
     attempt (create_session token
         \<lparr>s_UserID = u_ID user, s_Role = user_role_string (u_Role user), s_CreatedAt = now\<rparr>
         (as_sessionTTL s)) (\<lambda>_.
     ignoring (auth_audit (Some (u_ID user)) ''auth.login'' (u_ID user))
       (ret \<lparr>lr_Token = token, lr_User = user,
             lr_MustChangePassword = u_MustChangePassword user,
             lr_ExpiresAt = time_add now (as_sessionTTL s)\<rparr>))))"

definition Login :: "auth_service \<Rightarrow> string \<Rightarrow> string \<Rightarrow> login_result repo" where
  "Login s username password =
     attempt_or (GetUserByUsername username)
       (\<lambda>e. if errors_is e ErrNotFound then fail (Err ErrInvalidCredentials) else fail e)
     (\<lambda>user.
       case VerifyPassword (as_idkey s) password (u_PasswordHash user) of
         Inl e \<Rightarrow> ignoring (auth_audit None ''auth.login_failed'' (u_ID user)) (fail (Err ErrInvalidCredentials))
       | Inr _ \<Rightarrow> open_session s user)"

definition Logout :: "string \<Rightarrow> unit repo" where
  "Logout token = delete_session token"

definition Resolve :: "string \<Rightarrow> user repo" where
  "Resolve token =
     attempt_or (get_session token)
       (\<lambda>e. if errors_is e ErrSessionNotFound then fail (Err ErrUnauthenticated) else fail e)
     (\<lambda>session.
       attempt_or (GetUserByID (s_UserID session))
         (\<lambda>e. if errors_is e ErrNotFound
              then ignoring (delete_session token) (fail (Err ErrUnauthenticated)) else fail e)
         ret)"

definition ChangePassword :: "auth_service \<Rightarrow> uuid \<Rightarrow> string \<Rightarrow> string \<Rightarrow> unit repo" where
  "ChangePassword s userID currentPassword newPassword =
     attempt (GetUserByID userID) (\<lambda>user.
       case VerifyPassword (as_idkey s) currentPassword (u_PasswordHash user) of
         Inl e \<Rightarrow> ignoring (auth_audit (Some userID) ''auth.password_change_failed'' userID)
                   (fail (Err ErrInvalidCredentials))
       | Inr _ \<Rightarrow>
           attempt (from_result (ValidatePassword newPassword)) (\<lambda>_.
           attempt (HashPassword (as_idkey s) (as_cpus s) newPassword) (\<lambda>hash.
           attempt (SetPassword userID hash) (\<lambda>_.
           ignoring (auth_audit (Some userID) ''auth.password_changed'' userID) (ret ())))))"

section \<open>Effects on the tables\<close>

context guarantee begin

lemma outside [guar_intro]:
  "guar G NewToken" "guar G (create_session token s ttl)" "guar G (get_session token)"
  "guar G (delete_session token)" "guar G (HashPassword idkey cpus password)"
  by (auto simp: guar_def NewToken_def create_session_def get_session_def delete_session_def
      HashPassword_def G_refl split: option.split)

lemma Resolve [guar_intro]: "guar G (Resolve token)"
  by (auto simp: Resolve_def intro!: attempt_or outside if_guar fail reads ignoring ret)

end

context server_guarantee begin

lemma auth_operations [guar_intro]:
  "guar G (EnsureBootstrapRoot s)" "guar G (Login s username password)"
  "guar G (ChangePassword s userID currentPassword newPassword)"
  unfolding EnsureBootstrapRoot_def Login_def open_session_def ChangePassword_def auth_audit_def
  by (intro attempt attempt_or ignoring wrapping if_guar case_sum_guar fail ret reads outside accounts
      clock_now from_result)+

end

section \<open>Passwords\<close>

lemma hash_verifies:
  assumes "HashPassword idkey cpus password w = (Inr hash, w')" and "0 < cpus"
    and "\<And>p s t m th n. length (idkey p s t m th n) = n"
    and "\<And>salt. env_salt (env w) (tick w) = Some salt \<Longrightarrow> length salt = argonSaltLen"
  shows "\<exists>salt. \<forall>other. VerifyPassword idkey other hash =
       (if idkey other salt argonTime argonMemory (threads_for cpus) argonKeyLen =
           idkey password salt argonTime argonMemory (threads_for cpus) argonKeyLen
        then Inr () else Inl (Err ErrPasswordMismatch))"
proof -
  from assms(1) obtain salt where salt: "env_salt (env w) (tick w) = Some salt"
    and hash: "hash = encode_hash (threads_for cpus) salt
       (idkey password salt argonTime argonMemory (threads_for cpus) argonKeyLen)"
    by (auto simp: HashPassword_def split: option.splits)
  have "salt \<noteq> []" using assms(4) [OF salt] by (auto simp: argonSaltLen_def)
  moreover have "idkey password salt argonTime argonMemory (threads_for cpus) argonKeyLen \<noteq> []"
    using assms(3) [of password salt argonTime argonMemory "threads_for cpus" argonKeyLen]
    by (auto simp: argonKeyLen_def)
  ultimately have "VerifyPassword idkey other hash =
       (if idkey other salt argonTime argonMemory (threads_for cpus) argonKeyLen =
           idkey password salt argonTime argonMemory (threads_for cpus) argonKeyLen
        then Inr () else Inl (Err ErrPasswordMismatch))" for other
    using decode_encoded [OF threads_cases [OF assms(2)]] assms(3)
    by (simp add: VerifyPassword_def hash)
  then show ?thesis by auto
qed

text \<open>A stand-in for Argon2 with the length it promises.\<close>

definition sample_idkey :: idkey where
  "sample_idkey password salt t m th n = take n (password @ salt @ replicate n (CHR ''0''))"

lemma sample_idkey_length: "length (sample_idkey p s t m th n) = n"
  by (simp add: sample_idkey_def)

definition salted_world :: world where
  "salted_world = sample_world\<lparr>env := sample_env\<lparr>env_salt := (\<lambda>_. Some (replicate 16 (CHR ''s'')))\<rparr>\<rparr>"

text \<open>
  C23.  A password is accepted against the hash that was stored for it, and any other password is
  refused as a mismatch unless Argon2 gives it the same key.  The hypotheses say that
  Argon2 returns a key of the length asked for and that the random source fills the salt.
\<close>

theorem hash_then_verify:
  assumes "HashPassword idkey cpus password w = (Inr hash, w')" and "0 < cpus"
    and "\<And>p s t m th n. length (idkey p s t m th n) = n"
    and "\<And>salt. env_salt (env w) (tick w) = Some salt \<Longrightarrow> length salt = argonSaltLen"
  shows "VerifyPassword idkey password hash = Inr () \<and>
    (\<exists>salt. \<forall>other. VerifyPassword idkey other hash =
       (if idkey other salt argonTime argonMemory (threads_for cpus) argonKeyLen =
           idkey password salt argonTime argonMemory (threads_for cpus) argonKeyLen
        then Inr () else Inl (Err ErrPasswordMismatch)))"
  using hash_verifies [OF assms] by auto

lemma hash_then_verify_witness:
  "\<exists>hash w'. HashPassword sample_idkey 2 ''correct horse'' salted_world = (Inr hash, w') \<and>
     VerifyPassword sample_idkey ''correct horse'' hash = Inr ()"
proof -
  let ?run = "HashPassword sample_idkey 2 ''correct horse'' salted_world"
  have "is_ok (fst ?run)"
    by (simp add: HashPassword_def salted_world_def sample_world_def world_with_def)
  then obtain hash w' where run: "?run = (Inr hash, w')" by (blast dest: run_ok)
  have "length salt = argonSaltLen" if "env_salt (env salted_world) (tick salted_world) = Some salt" for salt
    using that by (auto simp: salted_world_def argonSaltLen_def)
  from hash_then_verify [OF run _ sample_idkey_length this] run show ?thesis by simp
qed

text \<open>
  The password policy is a minimum length: the second check of \<open>ValidatePassword\<close> can
  never fail, as the bootstrap password is shorter than the minimum.
\<close>

theorem policy_is_length:
  "ValidatePassword password =
     (if length password < 12 then Inl (Err ErrPasswordTooShort) else Inr ())"
  by (auto simp: ValidatePassword_def MinPasswordLength_def BootstrapPassword_def)

section \<open>Login, resolution, logout\<close>

lemma GetUserByID_Inr:
  "GetUserByID uid w = (Inr u, w') \<longleftrightarrow>
     runs w \<and> find_row (\<lambda>x. u_ID x = uid) (t_users (db w)) = Some u \<and> w' = advance w"
  by (auto simp: GetUserByID_def outcome)

lemma GetUserByUsername_Inr:
  "GetUserByUsername nm w = (Inr u, w') \<longleftrightarrow>
     runs w \<and> find_row (\<lambda>x. env_citext (env w) (u_Username x) = env_citext (env w) nm) (t_users (db w)) = Some u \<and>
     w' = advance w"
  by (auto simp: GetUserByUsername_def outcome)

lemma auth_audit_effect:
  assumes "auth_audit actor action i w = (r, w')"
  shows "redis w' = redis w" and "env w' = env w" and "t_users (db w') = t_users (db w)"
    and "tx w = NoTx \<Longrightarrow> tx w' = NoTx" and "tick w' = Suc (tick w)"
  using assms
  by (auto simp: auth_audit_def AppendAudit_def query_row_def translated_def scan_row_def run_stmt_def
      insert_audit_stmt_def Let_def split: prod.splits sum.splits option.splits if_splits)

lemma create_session_Inr:
  "create_session token s ttl w = (Inr u, w') \<longleftrightarrow>
     0 < ttl \<and> env_redis_up (env w) (tick w) \<and>
     w' = (advance w)\<lparr>redis := (redis w)(session_key (env w) token \<mapsto> (s, env_clock (env w) (tick w) + ttl))\<rparr>"
  by (auto simp: create_session_def)

lemma NewToken_Inr: "NewToken w = (Inr t, w') \<longleftrightarrow> env_token (env w) (tick w) = Some t \<and> w' = advance w"
  by (auto simp: NewToken_def split: option.splits)

text \<open>
  C24.  A login that succeeds has checked the password of an account with that name, and the
  token it returns resolves to the account until it expires, on a clock that does not run
  backwards.
\<close>

theorem login_then_resolve:
  assumes "Login s username password w = (Inr r, w')" and "accounts_ok (db w)" and "tx w = NoTx"
    and "mono (env_clock (env w))" and "env_clock (env w) (tick w') < lr_ExpiresAt r"
    and "env_redis_up (env w) (tick w')" and "env_fault (env w) (Suc (tick w')) = None"
  shows "lr_User r \<in> set (t_users (db w)) \<and>
    env_citext (env w) (u_Username (lr_User r)) = env_citext (env w) username \<and>
    VerifyPassword (as_idkey s) password (u_PasswordHash (lr_User r)) = Inr () \<and>
    fst (Resolve (lr_Token r) w') = Inr (lr_User r)"
proof -
  from assms(1) obtain user where user: "runs w"
      "find_row (\<lambda>x. env_citext (env w) (u_Username x) = env_citext (env w) username) (t_users (db w)) = Some user"
    and rest: "(case VerifyPassword (as_idkey s) password (u_PasswordHash user) of
        Inl e \<Rightarrow> ignoring (auth_audit None ''auth.login_failed'' (u_ID user)) (fail (Err ErrInvalidCredentials))
      | Inr _ \<Rightarrow> open_session s user) (advance w) = (Inr r, w')"
    by (auto simp: Login_def outcome GetUserByUsername_Inr split: if_splits)
  from rest have pw: "VerifyPassword (as_idkey s) password (u_PasswordHash user) = Inr ()"
    by (auto simp: outcome split: sum.split_asm)
  with rest obtain a where token: "env_token (env w) (Suc (tick w)) = Some (lr_Token r)"
    and ttl: "0 < as_sessionTTL s"
    and audit: "auth_audit (Some (u_ID user)) ''auth.login'' (u_ID user)
       ((advance (advance (advance (advance w))))\<lparr>redis := (redis w)(session_key (env w) (lr_Token r) \<mapsto>
          (\<lparr>s_UserID = u_ID user, s_Role = user_role_string (u_Role user),
            s_CreatedAt = env_clock (env w) (Suc (Suc (tick w)))\<rparr>,
           env_clock (env w) (Suc (Suc (Suc (tick w)))) + as_sessionTTL s))\<rparr>) = (a, w')"
    and r: "lr_User r = user" "lr_ExpiresAt r = env_clock (env w) (Suc (Suc (tick w))) + as_sessionTTL s"
    by (auto simp: open_session_def outcome NewToken_Inr create_session_Inr time_add_def)
  note e = auth_audit_effect [OF audit]
  have mem: "user \<in> set (t_users (db w))" using find_row_SomeD [OF user(2)] by blast
  have "find_row (\<lambda>x. u_ID x = u_ID user) (t_users (db w)) = Some user"
    using assms(2) mem by (auto simp: accounts_ok_def intro: find_row_key)
  moreover have "env_clock (env w) (Suc (Suc (tick w))) \<le> env_clock (env w) (Suc (Suc (Suc (tick w))))"
    using assms(4) by (rule monoD) simp
  moreover have "tx w' = NoTx" using e(4) assms(3) by simp
  ultimately have "fst (Resolve (lr_Token r) w') = Inr user"
    using assms(5-7) e r
    by (simp add: Resolve_def attempt_or_def get_session_def GetUserByID_def query_row_def
        translated_def scan_row_def run_stmt_def select_def ret_def)
  with mem pw find_row_SomeD [OF user(2)] show ?thesis by (simp add: r)
qed

text \<open>A system whose only account was stored with the hash of its password.\<close>

definition sample_auth :: auth_service where
  "sample_auth = \<lparr>as_sessionTTL = hour, as_idkey = sample_idkey, as_cpus = 2\<rparr>"

definition sample_hash :: string where
  "sample_hash = encode_hash 2 (replicate 16 (CHR ''s''))
     (sample_idkey ''correct horse'' (replicate 16 (CHR ''s'')) argonTime argonMemory 2 argonKeyLen)"

definition login_world :: world where
  "login_world = world_with 0 (empty_database\<lparr>t_users := [alice\<lparr>u_PasswordHash := sample_hash\<rparr>]\<rparr>)"

lemma sample_hash_verifies:
  "VerifyPassword sample_idkey pw sample_hash =
     (if sample_idkey pw (replicate 16 (CHR ''s'')) argonTime argonMemory 2 argonKeyLen =
         sample_idkey ''correct horse'' (replicate 16 (CHR ''s'')) argonTime argonMemory 2 argonKeyLen
      then Inr () else Inl (Err ErrPasswordMismatch))"
proof -
  have "sample_idkey ''correct horse'' (replicate 16 (CHR ''s'')) argonTime argonMemory 2 argonKeyLen \<noteq> []"
    using sample_idkey_length [of "''correct horse''" "replicate 16 (CHR ''s'')" argonTime argonMemory 2 argonKeyLen]
    by (auto simp: argonKeyLen_def)
  then show ?thesis
    by (simp add: VerifyPassword_def sample_hash_def decode_encoded sample_idkey_length)
qed

lemma login_then_resolve_witness:
  "\<exists>r w'. Login sample_auth ''alice'' ''correct horse'' login_world = (Inr r, w') \<and>
     u_ID (lr_User r) = 3 \<and> fst (Resolve (lr_Token r) w') = Inr (lr_User r)"
proof -
  let ?run = "Login sample_auth ''alice'' ''correct horse'' login_world"
  have "map_sum (\<lambda>_. ()) (\<lambda>r. (lr_ExpiresAt r, u_ID (lr_User r))) (fst ?run) = Inr (2 + hour, 3)"
    and t: "tick (snd ?run) = 5" by code_simp+
  then obtain r w' where run: "?run = (Inr r, w')" and t: "tick w' = 5" "lr_ExpiresAt r = 2 + hour"
    "u_ID (lr_User r) = 3" by (cases ?run; cases "fst ?run") auto
  have env: "env login_world = sample_env" by (simp add: login_world_def world_with_def)
  have "accounts_ok (db login_world)" "tx login_world = NoTx"
    by (simp_all add: login_world_def world_with_def accounts_ok_def unique_root_def)
  moreover have "mono (env_clock (env login_world))" by (simp add: env sample_env_def mono_def)
  moreover have "env_clock (env login_world) (tick w') < lr_ExpiresAt r"
    by (simp add: env sample_env_def t hour_def minute_def second_def)
  moreover have "env_redis_up (env login_world) (tick w')" "env_fault (env login_world) (Suc (tick w')) = None"
    by (simp_all add: env sample_env_def)
  ultimately show ?thesis using login_then_resolve [OF run] run t(3) by blast
qed

text \<open>
  A refused login tells nothing and leaves nothing: for an unknown name and for a wrong
  password the error is the same, no session is created and no account changes.
\<close>

theorem login_refused:
  assumes "runs w" and "case find_row (\<lambda>x. env_citext (env w) (u_Username x) = env_citext (env w) username)
      (t_users (db w)) of None \<Rightarrow> True | Some u \<Rightarrow> \<not> is_ok (VerifyPassword (as_idkey s) password (u_PasswordHash u))"
  shows "fst (Login s username password w) = Inl (Err ErrInvalidCredentials) \<and>
    redis (snd (Login s username password w)) = redis w \<and>
    t_users (db (snd (Login s username password w))) = t_users (db w)"
proof (cases "find_row (\<lambda>x. env_citext (env w) (u_Username x) = env_citext (env w) username) (t_users (db w))")
  case None
  then have "GetUserByUsername username w = (Inl (Err ErrNotFound), advance w)"
    using assms(1) by (auto simp: GetUserByUsername_def query_row_def translated_def scan_row_def
        run_stmt_def select_def runs_def)
  then show ?thesis by (simp add: Login_def attempt_or_def fail_def)
next
  case (Some u)
  then have found: "GetUserByUsername username w = (Inr u, advance w)"
    using assms(1) by (simp add: GetUserByUsername_Inr)
  from assms(2) Some obtain e where "VerifyPassword (as_idkey s) password (u_PasswordHash u) = Inl e"
    by (cases "VerifyPassword (as_idkey s) password (u_PasswordHash u)") auto
  moreover obtain a w1 where audit: "auth_audit None ''auth.login_failed'' (u_ID u) (advance w) = (a, w1)"
    by fastforce
  ultimately have "Login s username password w = (Inl (Err ErrInvalidCredentials), w1)"
    by (simp add: Login_def attempt_or_def found ignoring_def fail_def split: sum.split)
  with auth_audit_effect [OF audit] show ?thesis by simp
qed

lemma login_refused_witness:
  "fst (Login sample_auth ''alice'' ''wrong horse'' login_world) = Inl (Err ErrInvalidCredentials)"
proof -
  have "runs login_world" by (simp add: runs_def login_world_def world_with_def sample_env_def)
  moreover have "\<not> is_ok (VerifyPassword sample_idkey ''wrong horse'' sample_hash)"
    by (simp add: sample_hash_verifies sample_idkey_def argonKeyLen_def)
  then have "case find_row (\<lambda>x. env_citext (env login_world) (u_Username x) = env_citext (env login_world) ''alice'')
      (t_users (db login_world)) of None \<Rightarrow> True
      | Some u \<Rightarrow> \<not> is_ok (VerifyPassword (as_idkey sample_auth) ''wrong horse'' (u_PasswordHash u))"
    by (simp add: login_world_def world_with_def sample_env_def alice_def sample_user_def sample_auth_def)
  ultimately show ?thesis using login_refused by blast
qed

text \<open>
  After a logout the token is worthless: whatever the session held, resolving the token
  answers that the caller is not authenticated, or that Redis cannot be read.
\<close>

theorem logout_ends_session:
  assumes "Logout token w = (Inr (), w')"
  shows "fst (Resolve token w') = Inl (Err ErrUnauthenticated) \<or>
    (\<not> env_redis_up (env w) (tick w') \<and>
     fst (Resolve token w') = Inl (ErrWrap ''read session'' (ErrText ''redis'')))"
  using assms
  by (auto simp: Logout_def delete_session_def Resolve_def get_session_def attempt_or_def fail_def
      split: if_splits)

lemma logout_ends_session_witness:
  "\<exists>w'. Logout ''token'' sample_world = (Inr (), w') \<and> fst (Resolve ''token'' w') = Inl (Err ErrUnauthenticated)"
proof -
  have up: "env_redis_up (env sample_world) n" for n
    by (simp add: sample_world_def world_with_def sample_env_def)
  then obtain w' where run: "Logout ''token'' sample_world = (Inr (), w')"
    by (auto simp: Logout_def delete_session_def)
  from logout_ends_session [OF run] run up show ?thesis by auto
qed

end
