(* ===== verification/Filestore.thy ===== *)
theory Filestore
  imports Database Go_Text
begin

text \<open>
  \<open>internal/filestore\<close>: where recordings and uploaded pipelines are kept.  The file system is
  the map \<open>files\<close> from absolute paths to contents; directories are not represented, a missing
  or unusable one shows as a failing operation.  Every operation can fail, and a write that
  fails may have truncated the file and written a part of the data.
\<close>

section \<open>Operations of package os\<close>

definition fs_step :: "((string \<rightharpoonup> bytes) \<Rightarrow> (string \<rightharpoonup> bytes)) \<Rightarrow> unit repo" where
  "fs_step f w =
     (if env_fs_ok (env w) (tick w) then (Inr (), (advance w)\<lparr>files := f (files w)\<rparr>)
      else (Inl (ErrText ''file system''), advance w))"

definition MkdirAll :: "string \<Rightarrow> unit repo" where
  "MkdirAll path = fs_step id"

definition remove_file :: "string \<Rightarrow> unit repo" where
  "remove_file path w =
     (if files w path = None then (Inl (ErrText ''not exist''), advance w)
      else fs_step (\<lambda>m. m(path := None)) w)"

definition rename_file :: "string \<Rightarrow> string \<Rightarrow> unit repo" where
  "rename_file old new w =
     (case files w old of
        None \<Rightarrow> (Inl (ErrText ''not exist''), advance w)
      | Some content \<Rightarrow> fs_step (\<lambda>m. (m(old := None))(new \<mapsto> content)) w)"

text \<open>Writing \<open>data\<close> behind \<open>base\<close>; a failed write leaves a part of it, or nothing happened.\<close>

definition write_behind :: "string \<Rightarrow> bytes \<Rightarrow> bytes \<Rightarrow> unit repo" where
  "write_behind path base data w =
     (if env_fs_ok (env w) (tick w)
      then (Inr (), (advance w)\<lparr>files := (files w)(path \<mapsto> base @ data)\<rparr>)
      else (Inl (ErrText ''file system''),
            case env_partial (env w) (tick w) of
              None \<Rightarrow> advance w
            | Some k \<Rightarrow> (advance w)\<lparr>files := (files w)(path \<mapsto> base @ take k data)\<rparr>))"

definition WriteFile :: "string \<Rightarrow> bytes \<Rightarrow> unit repo" where
  "WriteFile path data = write_behind path [] data"

definition file_content :: "string \<Rightarrow> bytes option repo" where
  "file_content path w = (Inr (files w path), w)"

section \<open>The store\<close>

record file_store =
  fs_recordingsRoot :: string
  fs_pipelinesRoot :: string

definition path_abs :: "string \<Rightarrow> string repo" where
  "path_abs path =
     (if is_rooted path then ret (clean_path path)
      else attempt (asks env_cwd) (\<lambda>cwd.
        case cwd of None \<Rightarrow> fail (ErrText ''getwd'') | Some dir \<Rightarrow> ret (path_join [dir, path])))"

definition New_store :: "string \<Rightarrow> string \<Rightarrow> file_store repo" where
  "New_store recordingsRoot pipelinesRoot =
     attempt (wrapping ''resolve recordings root'' (path_abs recordingsRoot)) (\<lambda>recordings.
     attempt (wrapping ''resolve pipelines root'' (path_abs pipelinesRoot)) (\<lambda>pipelines.
     attempt (for_each [recordings, pipelines] (\<lambda>r. wrapping ''create'' (MkdirAll r))) (\<lambda>_.
       ret \<lparr>fs_recordingsRoot = recordings, fs_pipelinesRoot = pipelines\<rparr>)))"

definition alphanumeric :: "char \<Rightarrow> bool" where
  "alphanumeric c \<longleftrightarrow>
     (let n = (of_char c :: nat)
      in 48 \<le> n \<and> n \<le> 57 \<or> 65 \<le> n \<and> n \<le> 90 \<or> 97 \<le> n \<and> n \<le> 122)"

definition segment_char :: "char \<Rightarrow> bool" where
  "segment_char c \<longleftrightarrow> alphanumeric c \<or> c = CHR ''.'' \<or> c = CHR ''_'' \<or> c = CHR ''-''"

text \<open>The expression \<open>^[A-Za-z0-9][A-Za-z0-9._-]{0,127}$\<close>.\<close>

fun safeSegment :: "string \<Rightarrow> bool" where
  "safeSegment [] = False"
| "safeSegment (c # cs) \<longleftrightarrow> alphanumeric c \<and> list_all segment_char cs \<and> length cs \<le> 127"

definition joinSafe :: "string \<Rightarrow> string list \<Rightarrow> err + string" where
  "joinSafe base segments =
     (if \<not> list_all (\<lambda>s. safeSegment (trim_suffix s ''.json'')) segments
      then Inl (ErrWrap '''' (Err ErrUnsafePath))
      else let path = path_join (base # segments)
           in if path \<noteq> base \<and> \<not> has_prefix path (base @ ''/'')
              then Inl (ErrWrap ''escapes root'' (Err ErrUnsafePath))
              else Inr path)"

definition RecordingPath :: "file_store \<Rightarrow> string \<Rightarrow> string \<Rightarrow> err + string" where
  "RecordingPath fs stationID passID = joinSafe (fs_recordingsRoot fs) [stationID, passID]"

definition PipelinePath :: "file_store \<Rightarrow> string \<Rightarrow> err + string" where
  "PipelinePath fs pipelineID = joinSafe (fs_pipelinesRoot fs) [pipelineID @ ''.json'']"

definition RecordingFilePath :: "file_store \<Rightarrow> string \<Rightarrow> string \<Rightarrow> string \<Rightarrow> err + string" where
  "RecordingFilePath fs stationID passID relativePath =
     (if relativePath = '''' then Inl (ErrWrap ''empty relative path'' (Err ErrUnsafePath))
      else let elements = split_on (CHR ''/'') relativePath
           in if '''' \<in> set elements then Inl (ErrWrap '''' (Err ErrUnsafePath))
              else joinSafe (fs_recordingsRoot fs) ([stationID, passID] @ elements))"

definition EnsureRecordingDir :: "file_store \<Rightarrow> string \<Rightarrow> string \<Rightarrow> string repo" where
  "EnsureRecordingDir fs stationID passID =
     attempt (from_result (RecordingPath fs stationID passID)) (\<lambda>path.
     attempt (wrapping ''create recording directory'' (MkdirAll path)) (\<lambda>_. ret path))"

definition WritePipeline :: "file_store \<Rightarrow> string \<Rightarrow> bytes \<Rightarrow> string repo" where
  "WritePipeline fs pipelineID content =
     attempt (from_result (PipelinePath fs pipelineID)) (\<lambda>path.
     attempt (wrapping ''write pipeline'' (WriteFile path content)) (\<lambda>_. ret path))"

section \<open>Free space\<close>

definition ReserveBytes :: int where "ReserveBytes = 2 ^ 30"

record disk_usage =
  us_TotalBytes :: "64 word"
  us_FreeBytes :: "64 word"
  us_UsedPercentage :: float64

definition usage_of :: "(rat \<Rightarrow> float64) \<Rightarrow> 64 word \<times> 64 word \<times> 64 word \<Rightarrow> disk_usage" where
  "usage_of rnd stat =
     (case stat of (bavail, blocks, bsize) \<Rightarrow>
        let free = bavail * bsize; total = blocks * bsize
        in \<lparr>us_TotalBytes = total, us_FreeBytes = free,
            us_UsedPercentage =
              (if 0 < total
               then rnd (rnd (100 * rnd (of_int (uint (total - free)))) / rnd (of_int (uint total)))
               else 0)\<rparr>)"

definition RecordingsUsage :: "file_store \<Rightarrow> disk_usage repo" where
  "RecordingsUsage fs =
     attempt (external (\<lambda>n. Inr n)) (\<lambda>n.
     attempt (asks (\<lambda>e. env_statfs e n)) (\<lambda>stat.
     attempt (asks env_round) (\<lambda>rnd.
       case stat of None \<Rightarrow> fail (ErrText ''statfs'') | Some s \<Rightarrow> ret (usage_of rnd s))))"

text \<open>The size is an int64; the sum is one of uint64 and wraps.\<close>

definition EnsureSpaceFor :: "file_store \<Rightarrow> int \<Rightarrow> unit repo" where
  "EnsureSpaceFor fs sz =
     attempt_or (RecordingsUsage fs) (\<lambda>_. ret ()) (\<lambda>usage.
       let needed = (if sz < 0 then 0 else sz)
       in if us_FreeBytes usage < word_of_int needed + word_of_int ReserveBytes
          then fail (ErrWrap '''' (Err ErrNoSpace)) else ret ())"

section \<open>None of this touches the tables\<close>

context guarantee begin

lemma fs_steps [guar_intro]:
  "guar G (fs_step f)" "guar G (remove_file path)" "guar G (rename_file path path')"
  "guar G (write_behind path base data)" "guar G (MkdirAll path)" "guar G (WriteFile path data)"
  "guar G (file_content path)"
  by (auto simp: guar_def fs_step_def remove_file_def rename_file_def write_behind_def MkdirAll_def
      WriteFile_def file_content_def G_refl split: option.split)

lemma file_operations [guar_intro]:
  "guar G (EnsureRecordingDir fs sid pid)" "guar G (WritePipeline fs plid content)"
  "guar G (RecordingsUsage fs)" "guar G (EnsureSpaceFor fs sz)"
  unfolding EnsureRecordingDir_def WritePipeline_def RecordingsUsage_def EnsureSpaceFor_def
  by (intro attempt attempt_or from_result wrapping fs_steps ret fail external asks let_guar
      if_guar case_option_guar)+

end

section \<open>Paths stay under the root\<close>

lemma alphanumeric_not: "alphanumeric c \<Longrightarrow> c \<noteq> CHR ''.'' \<and> c \<noteq> CHR ''/''"
  by (auto simp: alphanumeric_def Let_def)

lemma safeSegment_chars: "safeSegment s \<Longrightarrow> CHR ''/'' \<notin> set s \<and> s \<noteq> '''' \<and> hd s \<noteq> CHR ''.''"
  by (cases s) (auto simp: list_all_iff segment_char_def dest: alphanumeric_not)

lemma safe_plain:
  assumes "safeSegment (trim_suffix s ''.json'')"
  shows "plain_element s"
proof -
  obtain t where t: "s = t \<or> s = t @ ''.json''" and safe: "safeSegment t"
    using trim_suffix_cases assms by metis
  from safe obtain c cs where "t = c # cs" by (cases t) auto
  with safeSegment_chars [OF safe] t show ?thesis by (auto simp: plain_element_def)
qed

text \<open>A root as \<open>New\<close> makes it, other than the root of the file system.\<close>

definition root_ok :: "string \<Rightarrow> bool" where
  "root_ok base \<longleftrightarrow> is_rooted base \<and> clean_path base = base \<and> base \<noteq> ''/''"

lemma joinSafe_Inr:
  assumes "root_ok base" and "segments \<noteq> []"
  shows "joinSafe base segments = Inr path \<longleftrightarrow>
    list_all (\<lambda>s. safeSegment (trim_suffix s ''.json'')) segments \<and>
    path = base @ ''/'' @ join_on ''/'' segments"
proof -
  have "path_join (base # segments) = base @ ''/'' @ join_on ''/'' segments"
    if "list_all (\<lambda>s. safeSegment (trim_suffix s ''.json'')) segments"
    using that assms by (intro path_join_under) (auto simp: root_ok_def list_all_iff dest: safe_plain)
  moreover have "has_prefix (base @ ''/'' @ rest) (base @ ''/'')" for rest
    by (simp add: has_prefix_def)
  ultimately show ?thesis by (auto simp: joinSafe_def Let_def)
qed

lemma RecordingFilePath_Inr:
  assumes "root_ok (fs_recordingsRoot fs)"
  shows "RecordingFilePath fs sid pid rel = Inr path \<longleftrightarrow>
    list_all (\<lambda>s. safeSegment (trim_suffix s ''.json''))
      (sid # pid # split_on (CHR ''/'') rel) \<and>
    path = fs_recordingsRoot fs @ ''/'' @ join_on ''/'' (sid # pid # split_on (CHR ''/'') rel)"
proof -
  have "\<not> safeSegment (trim_suffix '''' ''.json'')" by code_simp
  then show ?thesis
    using joinSafe_Inr [OF assms, of "sid # pid # split_on (CHR ''/'') rel" path]
    by (auto simp: RecordingFilePath_def Let_def list_all_iff)
qed

text \<open>Two recordings share a file only if they agree on everything the path is made of.\<close>

lemma RecordingFilePath_inj:
  assumes "root_ok (fs_recordingsRoot fs)"
    and "RecordingFilePath fs sid pid rel = Inr path" and "RecordingFilePath fs sid' pid' rel' = Inr path"
  shows "sid = sid' \<and> pid = pid' \<and> rel = rel'"
proof -
  let ?s = "split_on (CHR ''/'')"
  have free: "\<forall>p\<in>set (sid # pid # ?s rel). CHR ''/'' \<notin> set p"
    "\<forall>p\<in>set (sid' # pid' # ?s rel'). CHR ''/'' \<notin> set p"
    using assms(2,3) unfolding RecordingFilePath_Inr [OF assms(1)]
    by (auto simp: list_all_iff plain_element_def dest!: safe_plain dest: split_on_free)
  have "join_on ''/'' (sid # pid # ?s rel) = join_on ''/'' (sid' # pid' # ?s rel')"
    using assms(2,3) unfolding RecordingFilePath_Inr [OF assms(1)] by simp
  then have "sid # pid # ?s rel = sid' # pid' # ?s rel'"
    by (metis split_join [OF _ free(1)] split_join [OF _ free(2)] list.distinct(1))
  then show ?thesis by (metis join_split list.inject)
qed

end
