(* ===== verification/Worker_Sync.thy ===== *)
theory Worker_Sync
  imports PassPlan Go_Text Filestore
begin

text \<open>
  \<open>internal/workerapi/service.go\<close> and \<open>sync.go\<close>: the calls by which a worker registers,
  reports that it is alive and fetches the pass plans of its station, the check of the shared
  secret, and the monitor that marks silent workers offline.  A call returns a gRPC status as
  \<open>GrpcStatus code message\<close>.
\<close>

section \<open>The service\<close>

record worker_service =
  ws_files :: file_store
  ws_codec :: codec
  ws_serverVersion :: string

definition status_error :: "string \<Rightarrow> string \<Rightarrow> 'a repo" where
  "status_error code msg = fail (GrpcStatus code msg)"

text \<open>A read whose error is reported as \<open>codes.Internal\<close>, whatever it was.\<close>

definition or_internal :: "string \<Rightarrow> 'a repo \<Rightarrow> ('a \<Rightarrow> 'b repo) \<Rightarrow> 'b repo" where
  "or_internal msg m k = attempt_or m (\<lambda>_. status_error ''Internal'' msg) k"

definition parse_uuid_or :: "string \<Rightarrow> string \<Rightarrow> (uuid \<Rightarrow> 'a repo) \<Rightarrow> 'a repo" where
  "parse_uuid_or msg s k =
     attempt (asks (\<lambda>e. env_parse_uuid e s)) (\<lambda>v.
       case v of None \<Rightarrow> status_error ''InvalidArgument'' msg | Some u \<Rightarrow> k u)"

definition unix_milli :: "time \<Rightarrow> int" where
  "unix_milli t = t div 1000000"

definition auditWorker :: "string \<Rightarrow> uuid \<Rightarrow> any_map \<Rightarrow> audit_record repo" where
  "auditWorker action workerID details =
     AppendAudit (audit_entry None action ''worker'' (RefID workerID) details)"

section \<open>The shared secret\<close>

definition authorizationHeader :: string where "authorizationHeader = ''authorization''"
definition bearerPrefix :: string where "bearerPrefix = ''Bearer ''"

type_synonym grpc_metadata = "(string \<Rightarrow> string list) option"

definition validSecret :: "grpc_metadata \<Rightarrow> string \<Rightarrow> bool" where
  "validSecret ctx expected =
     (case ctx of
        None \<Rightarrow> False
      | Some md \<Rightarrow>
          (case md authorizationHeader of
             [v] \<Rightarrow> trim_prefix v bearerPrefix = expected
           | _ \<Rightarrow> False))"

definition SharedSecretInterceptor :: "string \<Rightarrow> grpc_metadata \<Rightarrow> 'a repo \<Rightarrow> 'a repo" where
  "SharedSecretInterceptor sharedSecret ctx handler =
     (if \<not> validSecret ctx sharedSecret
      then status_error ''Unauthenticated'' ''invalid worker credential'' else handler)"

section \<open>Ping and Register\<close>

record ping_response =
  pg_ServerTimeUnixMs :: int
  pg_ServerVersion :: string

definition Ping :: "worker_service \<Rightarrow> ping_response repo" where
  "Ping sv = attempt clock_now (\<lambda>now.
     ret \<lparr>pg_ServerTimeUnixMs = unix_milli now, pg_ServerVersion = ws_serverVersion sv\<rparr>)"

record register_request =
  rg_WorkerName :: string
  rg_WorkerVersion :: string
  rg_AvailablePipelines :: "string list"

record register_response =
  rgr_WorkerId :: uuid
  rgr_StationId :: uuid
  rgr_StationName :: string

definition Register :: "register_request \<Rightarrow> register_response repo" where
  "Register request =
     (let name = rg_WorkerName request in
      if name = '''' then status_error ''InvalidArgument'' ''worker_name is required''
      else
      attempt_or (GetWorkerByName name)
        (\<lambda>e. if errors_is e ErrNotFound
             then status_error ''NotFound'' ''no such worker is configured for this server''
             else status_error ''Internal'' ''could not resolve the worker'')
        (\<lambda>worker.
      or_internal ''could not resolve the station'' (GetStationByID (w_StationID worker)) (\<lambda>station.
      ignoring
        (if rg_AvailablePipelines request \<noteq> []
         then ReplaceStandardPipelines (rg_AvailablePipelines request) else ret 0)
      (ignoring
        (auditWorker ''worker.registered'' (w_ID worker)
          [(''worker'', VString name), (''station'', VString (st_Name station)),
           (''worker_version'', VString (rg_WorkerVersion request))])
      (ret \<lparr>rgr_WorkerId = w_ID worker, rgr_StationId = st_ID station,
            rgr_StationName = st_Name station\<rparr>)))))"

section \<open>The desired state of a station\<close>

fun decode_plans :: "codec \<Rightarrow> stored_pass_plan list \<Rightarrow> err + pass_plan list" where
  "decode_plans codec [] = Inr []"
| "decode_plans codec (record # rest) =
     (case Unmarshal codec (pp_Encoded record) of
        Inl e \<Rightarrow> Inl e
      | Inr plan \<Rightarrow>
          (case decode_plans codec rest of Inl e \<Rightarrow> Inl e | Inr plans \<Rightarrow> Inr (plan # plans)))"

definition load_plans :: "codec \<Rightarrow> string \<Rightarrow> uuid \<Rightarrow> pass_plan list repo" where
  "load_plans codec msg stationID =
     attempt clock_now (\<lambda>now.
     or_internal msg (ListPassPlansForStation stationID now) (\<lambda>stored.
     case decode_plans codec stored of
       Inl e \<Rightarrow> status_error ''Internal'' ''a stored pass plan is unreadable''
     | Inr plans \<Rightarrow> ret plans))"

definition desiredGeneration :: "worker_service \<Rightarrow> uuid \<Rightarrow> string repo" where
  "desiredGeneration sv stationID =
     attempt (load_plans (ws_codec sv) ''could not load the desired state'' stationID) (\<lambda>plans.
       asks (\<lambda>e. SetGeneration e plans))"

record sync_request =
  sy_StationId :: string
  sy_CurrentGeneration :: string

record pass_plan_set =
  ps_Plans :: "pass_plan list"
  ps_Generation :: string
  ps_GeneratedAt :: time

record sync_response =
  sr_Changed :: bool
  sr_Plans :: "pass_plan_set option"

definition SyncPassPlans :: "worker_service \<Rightarrow> sync_request \<Rightarrow> sync_response repo" where
  "SyncPassPlans sv request =
     parse_uuid_or ''invalid station id'' (sy_StationId request) (\<lambda>stationID.
     attempt (load_plans (ws_codec sv) ''could not load pass plans'' stationID) (\<lambda>plans.
     attempt (asks (\<lambda>e. SetGeneration e plans)) (\<lambda>generation.
     if generation = sy_CurrentGeneration request
     then ret \<lparr>sr_Changed = False, sr_Plans = None\<rparr>
     else attempt clock_now (\<lambda>now.
       ret \<lparr>sr_Changed = True,
            sr_Plans = Some \<lparr>ps_Plans = plans, ps_Generation = generation, ps_GeneratedAt = now\<rparr>\<rparr>))))"

section \<open>Heartbeats\<close>

definition HeartbeatInterval :: duration where "HeartbeatInterval = 5 * second"
definition StaleAfter :: duration where "StaleAfter = 15 * second"
definition StaleCheckInterval :: duration where "StaleCheckInterval = 5 * second"

record heartbeat_request =
  hr_WorkerId :: string
  hr_WorkerVersion :: string
  hr_StateGeneration :: string
  hr_PendingUploads :: "32 word"
  hr_PendingReports :: "32 word"

record heartbeat_response =
  hs_ServerTimeUnixMs :: int
  hs_DesiredGeneration :: string
  hs_StateIsCurrent :: bool

fun connection_state_string :: "worker_connection_state \<Rightarrow> string" where
  "connection_state_string WorkerOnline = ''online''"
| "connection_state_string WorkerOffline = ''offline''"

definition audit_online :: "heartbeat_request \<Rightarrow> uuid \<Rightarrow> worker \<Rightarrow> unit repo" where
  "audit_online request workerID worker =
     (if w_ConnectionState worker \<noteq> WorkerOnline
      then ignoring (auditWorker ''worker.online'' workerID
        [(''previous_state'', VString (connection_state_string (w_ConnectionState worker))),
         (''pending_uploads'', VInt (uint (hr_PendingUploads request))),
         (''pending_reports'', VInt (uint (hr_PendingReports request))),
         (''worker_version'', VString (hr_WorkerVersion request))]) (ret ())
      else ret ())"

definition answer_heartbeat ::
  "worker_service \<Rightarrow> heartbeat_request \<Rightarrow> uuid \<Rightarrow> worker \<Rightarrow> time \<Rightarrow> heartbeat_response repo" where
  "answer_heartbeat sv request workerID worker now =
     attempt (desiredGeneration sv (w_StationID worker)) (\<lambda>desired.
       let current = (desired = hr_StateGeneration request)
       in ignoring (if current then RecordWorkerSync workerID now desired else ret ())
          (ret \<lparr>hs_ServerTimeUnixMs = unix_milli now, hs_DesiredGeneration = desired,
                hs_StateIsCurrent = current\<rparr>))"

definition Heartbeat :: "worker_service \<Rightarrow> heartbeat_request \<Rightarrow> heartbeat_response repo" where
  "Heartbeat sv request =
     parse_uuid_or ''invalid worker id'' (hr_WorkerId request) (\<lambda>workerID.
     attempt_or (GetWorkerByID workerID)
       (\<lambda>e. if errors_is e ErrNotFound then status_error ''NotFound'' ''unknown worker''
            else status_error ''Internal'' ''could not load the worker'')
       (\<lambda>worker.
     attempt clock_now (\<lambda>now.
     or_internal ''could not record the heartbeat''
       (RecordHeartbeat
         \<lparr>hb_WorkerID = workerID, hb_SeenAt = now, hb_WorkerVersion = hr_WorkerVersion request,
          hb_PendingUploads = uint (hr_PendingUploads request),
          hb_PendingReports = uint (hr_PendingReports request)\<rparr>)
       (\<lambda>_.
     attempt (audit_online request workerID worker) (\<lambda>_.
     answer_heartbeat sv request workerID worker now)))))"

section \<open>The monitor of silent workers\<close>

definition audit_offline :: "string \<Rightarrow> unit repo" where
  "audit_offline name =
     ignoring (AppendAudit (audit_entry None ''worker.offline'' ''worker'' (RefText name)
       [(''detected_by'', VString ''heartbeat timeout'')])) (ret ())"

definition check_stale :: "unit repo" where
  "check_stale =
     attempt clock_now (\<lambda>now.
     attempt_or (MarkStaleWorkersOffline (time_add now (- StaleAfter))) (\<lambda>_. ret ())
       (\<lambda>names. for_each names audit_offline))"

text \<open>What the \<open>select\<close> of the loop receives, one after the other.\<close>

datatype monitor_event = MonitorTick | ContextDone

fun RunStaleWorkerMonitor :: "monitor_event list \<Rightarrow> unit repo" where
  "RunStaleWorkerMonitor [] = ret ()"
| "RunStaleWorkerMonitor (ContextDone # _) = ret ()"
| "RunStaleWorkerMonitor (MonitorTick # events) =
     attempt check_stale (\<lambda>_. RunStaleWorkerMonitor events)"

section \<open>Effects\<close>

context guarantee begin

lemma status_error [guar_intro]: "guar G (status_error code msg)"
  by (simp add: status_error_def fail)

lemma or_internal [guar_intro]: "guar G m \<Longrightarrow> (\<And>x. guar G (k x)) \<Longrightarrow> guar G (or_internal msg m k)"
  by (simp add: or_internal_def attempt_or status_error)

lemma parse_uuid_or [guar_intro]: "(\<And>u. guar G (k u)) \<Longrightarrow> guar G (parse_uuid_or msg s k)"
  by (simp add: parse_uuid_or_def attempt asks case_option_guar status_error)

lemma load_plans [guar_intro]: "guar G (load_plans codec msg sid)"
  by (auto simp: load_plans_def intro!: attempt clock_now or_internal reads case_sum_guar status_error ret)

lemma SyncPassPlans [guar_intro]: "guar G (SyncPassPlans sv request)"
  by (auto simp: SyncPassPlans_def intro!: parse_uuid_or attempt load_plans asks clock_now ret)

lemma desiredGeneration [guar_intro]: "guar G (desiredGeneration sv sid)"
  by (auto simp: desiredGeneration_def intro!: attempt load_plans asks)

end

context server_guarantee begin

lemma auditWorker [guar_intro]: "guar G (auditWorker action wid details)"
  by (simp add: auditWorker_def accounts)

lemma Register [guar_intro]: "guar G (Register request)"
  unfolding Register_def Let_def
  by (intro if_guar attempt_or ignoring or_internal status_error worker_methods station_methods
      catalog_methods auditWorker ret)

lemma Heartbeat [guar_intro]: "guar G (Heartbeat sv request)"
  unfolding Heartbeat_def audit_online_def answer_heartbeat_def Let_def
  by (intro parse_uuid_or if_guar attempt_or attempt ignoring or_internal status_error clock_now
      worker_methods auditWorker desiredGeneration ret)

lemma check_stale [guar_intro]: "guar G check_stale"
  unfolding check_stale_def audit_offline_def
  by (intro attempt attempt_or clock_now worker_methods for_each ignoring accounts ret)

lemma RunStaleWorkerMonitor [guar_intro]: "guar G (RunStaleWorkerMonitor events)"
  by (induction events rule: RunStaleWorkerMonitor.induct) (simp_all add: ret attempt check_stale)

end

end
