(* ===== verification/Worker_Upload.thy ===== *)
theory Worker_Upload
  imports Worker_Sync
begin

text \<open>
  \<open>internal/workerapi/upload.go\<close>: the stream by which a worker uploads a recording, the report
  of execution outcomes, and the registration of the service with the gRPC server in
  \<open>cmd/aagasa-server/main.go\<close>.  A client stream is the list of its messages with the way it ends.
\<close>

section \<open>Messages\<close>

record recording_metadata =
  md_RecordingId :: string
  md_PassId :: string
  md_WorkerId :: string
  md_StationId :: string
  md_RelativePath :: string
  md_SizeBytes :: "64 word"
  md_ChecksumSha256 :: string
  md_StartedAt :: "time option"
  md_FinishedAt :: "time option"

datatype upload_message = Metadata recording_metadata | Chunk bytes | NoPayload

fun GetChunk :: "upload_message \<Rightarrow> bytes" where
  "GetChunk (Chunk c) = c"
| "GetChunk _ = []"

datatype stream_end = EndOfStream | StreamBroken

record upload_response =
  ur_RecordingId :: string
  ur_Stored :: bool
  ur_SizeBytes :: "64 word"

definition SendAndClose :: "'a \<Rightarrow> 'a repo" where
  "SendAndClose response w =
     (if env_send_ok (env w) (tick w) then Inr response else Inl (ErrText ''send''), advance w)"

section \<open>Validation\<close>

definition is_hex_char :: "char \<Rightarrow> bool" where
  "is_hex_char c \<longleftrightarrow> c \<in> set ''0123456789abcdefABCDEF''"

definition isHex64 :: "string \<Rightarrow> bool" where
  "isHex64 v \<longleftrightarrow> length v = 64 \<and> list_all is_hex_char v"

definition validateUpload :: "recording_metadata \<Rightarrow> (uuid \<times> uuid) repo" where
  "validateUpload metadata =
     (if \<not> isHex64 (md_RecordingId metadata)
      then status_error ''InvalidArgument'' ''recording_id must be a sha-256 hex digest''
      else if \<not> isHex64 (md_ChecksumSha256 metadata)
      then status_error ''InvalidArgument'' ''checksum_sha256 must be a sha-256 hex digest''
      else
      parse_uuid_or ''invalid pass id'' (md_PassId metadata) (\<lambda>passID.
      parse_uuid_or ''invalid station id'' (md_StationId metadata) (\<lambda>stationID.
      if md_RelativePath metadata = ''''
      then status_error ''InvalidArgument'' ''relative_path is required''
      else ret (passID, stationID))))"

section \<open>Receiving the content\<close>

definition maxRecordingBytes :: int where "maxRecordingBytes = 8 * 2 ^ 30"

definition CreateTemp :: "string \<Rightarrow> string \<Rightarrow> string repo" where
  "CreateTemp dir prefix w =
     (let path = dir @ ''/'' @ prefix @ decimal (uint (env_temp (env w) (tick w)))
      in if files w path \<noteq> None \<or> \<not> env_fs_ok (env w) (tick w)
         then (Inl (ErrText ''file system''), advance w)
         else (Inr path, (advance w)\<lparr>files := (files w)(path \<mapsto> [])\<rparr>))"

text \<open>\<open>defer\<close>: the cleanup runs whatever the result is.\<close>

definition deferred :: "unit repo \<Rightarrow> 'a repo \<Rightarrow> 'a repo" where
  "deferred cleanup m w = (case m w of (r, w') \<Rightarrow> (r, snd (cleanup w')))"

fun receive_chunks ::
  "string \<Rightarrow> upload_message list \<Rightarrow> stream_end \<Rightarrow> int \<Rightarrow> bytes \<Rightarrow> (int \<times> bytes) repo" where
  "receive_chunks temporary [] fin written got =
     (if fin = EndOfStream then ret (written, got)
      else status_error ''Aborted'' ''the upload was interrupted'')"
| "receive_chunks temporary (message # rest) fin written got =
     (case message of
        Metadata _ \<Rightarrow> status_error ''InvalidArgument'' ''metadata may only be sent once''
      | _ \<Rightarrow>
        let chunk = GetChunk message; total = written + int (length chunk)
        in if maxRecordingBytes < total
           then status_error ''ResourceExhausted'' ''the recording is too large''
           else or_internal ''could not write the recording'' (write_behind temporary got chunk)
             (\<lambda>_. receive_chunks temporary rest fin total (got @ chunk)))"

definition receiveContent ::
  "upload_message list \<Rightarrow> stream_end \<Rightarrow> string \<Rightarrow> (int \<times> string) repo" where
  "receiveContent messages fin destination =
     or_internal ''could not prepare storage'' (MkdirAll (path_dir destination)) (\<lambda>_.
     or_internal ''could not prepare storage'' (CreateTemp (path_dir destination) ''.upload-'')
       (\<lambda>temporary.
     deferred (remove_file temporary)
      (or_internal ''could not prepare storage'' (fs_step id) (\<lambda>_.
       attempt (receive_chunks temporary messages fin 0 []) (\<lambda>(written, got).
       or_internal ''could not flush the recording'' (fs_step id) (\<lambda>_.
       or_internal ''could not close the recording'' (fs_step id) (\<lambda>_.
       or_internal ''could not store the recording'' (rename_file temporary destination) (\<lambda>_.
       attempt (asks (\<lambda>e. env_sha256hex e got)) (\<lambda>checksum. ret (written, checksum))))))))))"

section \<open>UploadRecording\<close>

definition uploaded_recording ::
  "recording_metadata \<Rightarrow> uuid \<Rightarrow> uuid \<Rightarrow> uuid option \<Rightarrow> string \<Rightarrow> int \<Rightarrow> string \<Rightarrow> recording" where
  "uploaded_recording metadata passID stationID workerID destination written checksum =
     \<lparr>r_RecordingID = md_RecordingId metadata, r_PassID = passID, r_WorkerID = workerID,
      r_StationID = stationID, r_RelativePath = md_RelativePath metadata,
      r_StoredPath = destination, r_SizeBytes = written, r_ChecksumSHA256 = checksum,
      r_Status = ''stored'', r_StartedAt = md_StartedAt metadata,
      r_FinishedAt = md_FinishedAt metadata, r_ReceivedAt = 0\<rparr>"

text \<open>From the reception of the content on.\<close>

definition finish_upload ::
  "recording_metadata \<Rightarrow> uuid \<Rightarrow> uuid \<Rightarrow> upload_message list \<Rightarrow> stream_end \<Rightarrow> string \<Rightarrow>
   upload_response repo" where
  "finish_upload metadata passID stationID rest fin destination =
     attempt (receiveContent rest fin destination) (\<lambda>(written, checksum).
     if checksum \<noteq> md_ChecksumSha256 metadata
     then ignoring (remove_file destination)
       (status_error ''DataLoss'' ''checksum mismatch; the transfer was corrupted'')
     else if word_of_int written \<noteq> md_SizeBytes metadata
     then ignoring (remove_file destination) (status_error ''DataLoss'' ''size mismatch'')
     else
     attempt (asks (\<lambda>e. env_parse_uuid e (md_WorkerId metadata))) (\<lambda>workerID.
     or_internal ''could not store the recording''
       (InsertRecordingIfAbsent
         (uploaded_recording metadata passID stationID workerID destination written checksum))
       (\<lambda>inserted.
     SendAndClose \<lparr>ur_RecordingId = md_RecordingId metadata, ur_Stored = inserted,
                   ur_SizeBytes = word_of_int written\<rparr>)))"

text \<open>From the look at the free space on: the recording is not held yet.\<close>

definition store_upload ::
  "worker_service \<Rightarrow> recording_metadata \<Rightarrow> uuid \<Rightarrow> uuid \<Rightarrow> upload_message list \<Rightarrow> stream_end \<Rightarrow>
   upload_response repo" where
  "store_upload sv metadata passID stationID rest fin =
     attempt_or (EnsureSpaceFor (ws_files sv) (sint (md_SizeBytes metadata)))
       (\<lambda>_. status_error ''ResourceExhausted'' ''the server has no room for this recording'') (\<lambda>_.
     attempt (asks env_uuid_text) (\<lambda>text_of.
     case RecordingFilePath (ws_files sv) (text_of stationID) (text_of passID) (md_RelativePath metadata) of
       Inl _ \<Rightarrow> status_error ''InvalidArgument'' ''invalid recording path''
     | Inr destination \<Rightarrow> finish_upload metadata passID stationID rest fin destination))"

definition UploadRecording ::
  "worker_service \<Rightarrow> upload_message list \<Rightarrow> stream_end \<Rightarrow> upload_response repo" where
  "UploadRecording sv messages fin =
     (case messages of
        [] \<Rightarrow> status_error ''InvalidArgument'' ''no upload metadata received''
      | first # rest \<Rightarrow>
     (case first of
        Metadata metadata \<Rightarrow>
          attempt (validateUpload metadata) (\<lambda>(passID, stationID).
          attempt_or (GetRecording (md_RecordingId metadata))
            (\<lambda>e. if \<not> errors_is e ErrNotFound
                 then status_error ''Internal'' ''could not check for an existing recording''
                 else store_upload sv metadata passID stationID rest fin)
            (\<lambda>existing. SendAndClose
              \<lparr>ur_RecordingId = r_RecordingID existing, ur_Stored = False,
               ur_SizeBytes = word_of_int (r_SizeBytes existing)\<rparr>))
      | _ \<Rightarrow> status_error ''InvalidArgument'' ''the first message must be metadata''))"

section \<open>ReportExecutions\<close>

record execution_record =
  xr_PassId :: string
  xr_State :: string
  xr_Detail :: string
  xr_RecordedAt :: "time option"

record report_request =
  xq_WorkerId :: string
  xq_Records :: "execution_record list"

definition passStatusFor :: "string \<Rightarrow> pass_status option" where
  "passStatusFor workerState =
     (if workerState = ''completed'' then Some PassCompleted
      else if workerState = ''failed'' then Some PassFailed
      else if workerState = ''missed'' then Some PassMissed
      else None)"

definition recordedAt :: "(time \<Rightarrow> string) \<Rightarrow> execution_record \<Rightarrow> string" where
  "recordedAt text_of record =
     (case xr_RecordedAt record of None \<Rightarrow> '''' | Some t \<Rightarrow> text_of t)"

definition audit_outcome :: "string \<Rightarrow> execution_record \<Rightarrow> uuid \<Rightarrow> pass_status \<Rightarrow> unit repo" where
  "audit_outcome workerID record passID status =
     attempt (asks env_time_text) (\<lambda>text_of.
     ignoring (AppendAudit (audit_entry None (''pass.'' @ pass_status_string status) ''pass'' (RefID passID)
         [(''reported_by_worker'', VString workerID), (''detail'', VString (xr_Detail record)),
          (''recorded_at'', VString (recordedAt text_of record))]))
       (ret ()))"

fun report_records :: "string \<Rightarrow> execution_record list \<Rightarrow> int \<Rightarrow> int repo" where
  "report_records workerID [] accepted = ret accepted"
| "report_records workerID (record # rest) accepted =
     attempt (asks (\<lambda>e. env_parse_uuid e (xr_PassId record))) (\<lambda>parsed.
     case parsed of
       None \<Rightarrow> report_records workerID rest accepted
     | Some passID \<Rightarrow>
     (case passStatusFor (xr_State record) of
        None \<Rightarrow> report_records workerID rest accepted
      | Some status \<Rightarrow>
     or_internal ''could not record the outcome'' (SetPassOutcome passID status) (\<lambda>changed.
     attempt (if changed then audit_outcome workerID record passID status else ret ())
       (\<lambda>_. report_records workerID rest (accepted + 1)))))"

definition ReportExecutions :: "report_request \<Rightarrow> 32 word repo" where
  "ReportExecutions request =
     attempt (report_records (xq_WorkerId request) (xq_Records request) 0)
       (\<lambda>accepted. ret (word_of_int accepted))"

section \<open>The gRPC server\<close>

datatype worker_call =
    CallPing
  | CallRegister register_request
  | CallHeartbeat heartbeat_request
  | CallSync sync_request
  | CallReport report_request
  | CallUpload "upload_message list" stream_end

datatype worker_reply =
    ReplyPing ping_response
  | ReplyRegister register_response
  | ReplyHeartbeat heartbeat_response
  | ReplySync sync_response
  | ReplyReport "32 word"
  | ReplyUpload upload_response

definition reply_with :: "('a \<Rightarrow> worker_reply) \<Rightarrow> 'a repo \<Rightarrow> worker_reply repo" where
  "reply_with c m = attempt m (\<lambda>r. ret (c r))"

fun unary_handler :: "worker_service \<Rightarrow> worker_call \<Rightarrow> worker_reply repo" where
  "unary_handler sv CallPing = reply_with ReplyPing (Ping sv)"
| "unary_handler sv (CallRegister q) = reply_with ReplyRegister (Register q)"
| "unary_handler sv (CallHeartbeat q) = reply_with ReplyHeartbeat (Heartbeat sv q)"
| "unary_handler sv (CallSync q) = reply_with ReplySync (SyncPassPlans sv q)"
| "unary_handler sv (CallReport q) = reply_with ReplyReport (ReportExecutions q)"
| "unary_handler sv (CallUpload messages fin) = fail (GrpcStatus ''Unimplemented'' '''')"

text \<open>
  The server is built with a unary interceptor only, which gRPC does not apply to calls with
  a stream: an upload goes to its handler as it comes.
\<close>

definition grpc_serve :: "worker_service \<Rightarrow> string \<Rightarrow> grpc_metadata \<Rightarrow> worker_call \<Rightarrow> worker_reply repo" where
  "grpc_serve sv secret ctx call =
     (case call of
        CallUpload messages fin \<Rightarrow> reply_with ReplyUpload (UploadRecording sv messages fin)
      | _ \<Rightarrow> SharedSecretInterceptor secret ctx (unary_handler sv call))"

section \<open>Effects\<close>

context guarantee begin

lemma SendAndClose [guar_intro]: "guar G (SendAndClose response)"
  by (simp add: guar_def SendAndClose_def G_refl)

lemma deferred [guar_intro]: "guar G cleanup \<Longrightarrow> guar G m \<Longrightarrow> guar G (deferred cleanup m)"
  unfolding guar_def deferred_def by (auto split: prod.split) (metis G_trans snd_conv)

lemma CreateTemp [guar_intro]: "guar G (CreateTemp dir prefix)"
  by (simp add: guar_def CreateTemp_def Let_def G_refl)

lemma receive_chunks [guar_intro]: "guar G (receive_chunks temporary messages fin written got)"
  by (induction temporary messages fin written got rule: receive_chunks.induct)
     (auto simp: Let_def split: upload_message.split intro!: ret status_error or_internal fs_steps)

lemma receiveContent [guar_intro]: "guar G (receiveContent messages fin destination)"
  unfolding receiveContent_def
  by (intro or_internal fs_steps CreateTemp deferred attempt case_prod_guar receive_chunks asks ret)

lemma validateUpload [guar_intro]: "guar G (validateUpload metadata)"
  unfolding validateUpload_def by (intro if_guar status_error parse_uuid_or ret)

end

context server_guarantee begin

lemma finish_upload [guar_intro]: "guar G (finish_upload metadata passID stationID rest fin destination)"
  unfolding finish_upload_def
  by (intro attempt file_operations status_error asks case_prod_guar if_guar
      receiveContent ignoring fs_steps or_internal pass_methods SendAndClose)

lemma store_upload [guar_intro]: "guar G (store_upload sv metadata passID stationID rest fin)"
  unfolding store_upload_def
  by (intro attempt_or attempt file_operations status_error asks case_sum_guar finish_upload)

lemma UploadRecording [guar_intro]: "guar G (UploadRecording sv messages fin)"
  unfolding UploadRecording_def
  by (auto split: list.split upload_message.split
      intro!: status_error attempt attempt_or validateUpload pass_methods SendAndClose store_upload)

lemma passStatusFor_reported: "passStatusFor s = Some status \<Longrightarrow> status \<in> {PassCompleted, PassFailed, PassMissed}"
  by (auto simp: passStatusFor_def split: if_splits)

lemma audit_outcome [guar_intro]: "guar G (audit_outcome workerID record passID status)"
  unfolding audit_outcome_def by (intro attempt asks ignoring accounts ret)

lemma report_records [guar_intro]: "guar G (report_records workerID records accepted)"
  by (induction workerID records accepted rule: report_records.induct)
     (auto split: option.split intro!: ret attempt asks or_internal if_guar audit_outcome pass_methods
      dest: passStatusFor_reported)

lemma ReportExecutions [guar_intro]: "guar G (ReportExecutions request)"
  unfolding ReportExecutions_def by (intro attempt report_records ret)

lemma grpc_serve [guar_intro]: "guar G (grpc_serve sv secret ctx call)"
proof (cases call)
  case (CallUpload messages fin)
  then show ?thesis by (auto simp: grpc_serve_def reply_with_def intro!: attempt UploadRecording ret)
qed (auto simp: grpc_serve_def SharedSecretInterceptor_def reply_with_def Ping_def
    intro!: if_guar status_error attempt Register Heartbeat SyncPassPlans ReportExecutions clock_now ret)

end

end
