(* ===== verification/Worker_Props.thy ===== *)
theory Worker_Props
  imports Worker_Upload Outcomes Sample
begin

text \<open>
  What the calls of the workers do: an acknowledged upload is on the disk with the announced
  content and in the table of recordings, an upload touches no file but its own, a retry
  changes nothing; heartbeats, synchronisation and the monitor.
\<close>

section \<open>Outcomes of the building blocks\<close>

lemma status_error_eq [outcome]:
  "status_error code msg w = (r, w') \<longleftrightarrow> r = Inl (GrpcStatus code msg) \<and> w' = w"
  by (auto simp: status_error_def fail_def)

lemma or_internal_Inr [outcome]:
  "or_internal msg m k w = (Inr y, w') \<longleftrightarrow> (\<exists>x w1. m w = (Inr x, w1) \<and> k x w1 = (Inr y, w'))"
  by (auto simp: or_internal_def attempt_or_eq status_error_eq)

lemma parse_uuid_or_Inr [outcome]:
  "parse_uuid_or msg s k w = (Inr y, w') \<longleftrightarrow>
     (\<exists>u. env_parse_uuid (env w) s = Some u \<and> k u w = (Inr y, w'))"
  by (auto simp: parse_uuid_or_def attempt_Inr asks_eq status_error_eq split: option.splits)

lemma fs_step_Inr [outcome]:
  "fs_step f w = (Inr u, w') \<longleftrightarrow> env_fs_ok (env w) (tick w) \<and> w' = (advance w)\<lparr>files := f (files w)\<rparr>"
  by (auto simp: fs_step_def)

lemma write_behind_Inr [outcome]:
  "write_behind path base data w = (Inr u, w') \<longleftrightarrow>
     env_fs_ok (env w) (tick w) \<and> w' = (advance w)\<lparr>files := (files w)(path \<mapsto> base @ data)\<rparr>"
  by (auto simp: write_behind_def)

lemma rename_file_Inr [outcome]:
  "rename_file old new w = (Inr u, w') \<longleftrightarrow>
     (\<exists>c. files w old = Some c \<and> env_fs_ok (env w) (tick w) \<and>
        w' = (advance w)\<lparr>files := (files w)(old := None, new \<mapsto> c)\<rparr>)"
  by (auto simp: rename_file_def fs_step_def split: option.splits)

definition temp_name :: "env \<Rightarrow> nat \<Rightarrow> string" where
  "temp_name e n = ''.upload-'' @ decimal (uint (env_temp e n))"

lemma CreateTemp_Inr [outcome]:
  "CreateTemp dir ''.upload-'' w = (Inr path, w') \<longleftrightarrow>
     path = dir @ ''/'' @ temp_name (env w) (tick w) \<and> files w path = None \<and>
     env_fs_ok (env w) (tick w) \<and> w' = (advance w)\<lparr>files := (files w)(path \<mapsto> [])\<rparr>"
  by (auto simp: CreateTemp_def temp_name_def Let_def)

lemma deferred_Inr [outcome]:
  "deferred cleanup m w = (Inr x, w') \<longleftrightarrow> (\<exists>w1. m w = (Inr x, w1) \<and> w' = snd (cleanup w1))"
  by (auto simp: deferred_def split: prod.splits)

lemma SendAndClose_Inr [outcome]:
  "SendAndClose x w = (Inr y, w') \<longleftrightarrow> env_send_ok (env w) (tick w) \<and> y = x \<and> w' = advance w"
  by (auto simp: SendAndClose_def)

section \<open>Receiving\<close>

lemma receive_chunks_Inr:
  assumes "receive_chunks temporary messages fin written got w = (Inr (amount, content), w')"
    and "files w temporary = Some got" and "written = int (length got)" and "written \<le> maxRecordingBytes"
  shows "content = got @ concat (map GetChunk messages) \<and> amount = int (length content) \<and>
    amount \<le> maxRecordingBytes \<and> fin = EndOfStream \<and> files w' = (files w)(temporary \<mapsto> content) \<and>
    db w' = db w \<and> env w' = env w \<and> tx w' = tx w"
  using assms
proof (induction messages arbitrary: written got w)
  case Nil
  then show ?case by (auto simp: outcome split: if_splits)
next
  case (Cons message messages)
  from Cons.prems(1) have no: "\<And>m. message \<noteq> Metadata m"
    by (auto simp: status_error_eq)
  let ?c = "GetChunk message"
  let ?w = "(advance w)\<lparr>files := (files w)(temporary \<mapsto> got @ ?c)\<rparr>"
  have le: "written + int (length ?c) \<le> maxRecordingBytes"
    and rest: "receive_chunks temporary messages fin (written + int (length ?c)) (got @ ?c) ?w
      = (Inr (amount, content), w')"
    using Cons.prems(1) no
    by (auto simp: Let_def outcome split: upload_message.splits if_splits)
  from Cons.IH [OF rest] le Cons.prems(3) show ?case by (auto simp: fun_eq_iff)
qed

lemma path_join_last:
  "CHR ''/'' \<notin> set n \<Longrightarrow> last (split_on (CHR ''/'') (d @ ''/'' @ n)) = n"
  by (simp add: split_on_join split_on_single)

lemma temp_name_plain: "CHR ''/'' \<notin> set (temp_name e n)" "hd (temp_name e n) = CHR ''.''"
proof -
  have "list_all is_digit (decimal (uint (env_temp e n)))" by (rule decimal_digits) simp
  then show "CHR ''/'' \<notin> set (temp_name e n)"
    by (auto simp: temp_name_def list_all_iff dest: is_digit_not_slash)
qed (simp add: temp_name_def)

lemma recording_path_last:
  assumes "root_ok (fs_recordingsRoot fs)" and "RecordingFilePath fs sid pid rel = Inr path"
  shows "hd (last (split_on (CHR ''/'') path)) \<noteq> CHR ''.''"
proof -
  let ?s = "split_on (CHR ''/'') rel" and ?base = "fs_recordingsRoot fs"
  note p = assms(2) [unfolded RecordingFilePath_Inr [OF assms(1)]]
  have safe: "\<forall>q\<in>set (sid # pid # ?s). plain_element q"
    using p by (auto simp: list_all_iff intro: safe_plain)
  then have "split_on (CHR ''/'') path = split_on (CHR ''/'') ?base @ sid # pid # ?s"
    using p split_join [of "sid # pid # ?s" "CHR ''/''"]
    by (auto simp: split_on_join plain_element_def simp del: join_on.simps)
  then have "last (split_on (CHR ''/'') path) = last ?s" by simp
  moreover have "safeSegment (trim_suffix (last ?s) ''.json'')" using p by (auto simp: list_all_iff)
  then have "hd (last ?s) \<noteq> CHR ''.''"
  proof -
    obtain t where t: "last ?s = t \<or> last ?s = t @ ''.json''" and "safeSegment t"
      using trim_suffix_cases \<open>safeSegment (trim_suffix (last ?s) ''.json'')\<close> by metis
    then show ?thesis using safeSegment_chars [of t] by auto
  qed
  ultimately show ?thesis by simp
qed

text \<open>No recording is ever kept under the name of a temporary file.\<close>

lemma temp_not_recording:
  assumes "root_ok (fs_recordingsRoot fs)" and "RecordingFilePath fs sid pid rel = Inr path"
  shows "d @ ''/'' @ temp_name e n \<noteq> path"
  using recording_path_last [OF assms] temp_name_plain path_join_last by metis

lemma receiveContent_Inr:
  assumes "receiveContent messages fin destination w = (Inr (written, checksum), w')"
    and "\<And>d e n. d @ ''/'' @ temp_name e n \<noteq> destination"
  defines "content \<equiv> concat (map GetChunk messages)"
  shows "written = int (length content) \<and> written \<le> maxRecordingBytes \<and> fin = EndOfStream \<and>
    checksum = env_sha256hex (env w) content \<and> files w' destination = Some content \<and>
    db w' = db w \<and> env w' = env w"
proof -
  let ?t = "path_dir destination @ CHR ''/'' # temp_name (env w) (Suc (tick w))"
  let ?w = "advance ((advance w)\<lparr>files := (files w)(?t \<mapsto> [])\<rparr>)"
  have t: "?t \<noteq> destination" using assms(2) by simp
  from assms(1) t obtain got w1 w2 where
    rec: "receive_chunks ?t messages fin 0 [] w1 = (Inr (written, got), w2)"
    and w1: "files w1 = (files w)(?t \<mapsto> [])" "db w1 = db w" "env w1 = env w"
    and ck: "checksum = env_sha256hex (env w2) got"
    and w': "files w' destination = files w2 ?t" "db w' = db w2" "env w' = env w2"
    unfolding receiveContent_def MkdirAll_def
    apply (clarsimp simp: outcome)
    apply (rule that, assumption)
    apply (simp_all add: remove_file_def)
    done
  have "content = got \<and> written = int (length got) \<and> written \<le> maxRecordingBytes \<and> fin = EndOfStream \<and>
      files w2 = (files w1)(?t \<mapsto> got) \<and> db w2 = db w1 \<and> env w2 = env w1"
    using receive_chunks_Inr [OF rec] w1 by (auto simp: maxRecordingBytes_def content_def)
  with w' w1 ck show ?thesis by simp
qed

section \<open>Uploads\<close>

declare GetRecording_Inr [outcome]

lemma InsertRecordingIfAbsent_Inr:
  assumes "InsertRecordingIfAbsent r w = (Inr b, w')"
  shows "files w' = files w \<and> env w' = env w \<and>
    (\<exists>x\<in>set (t_recordings (db w')). r_RecordingID x = r_RecordingID r) \<and>
    (b \<longrightarrow> (\<exists>x\<in>set (t_recordings (db w')). r_RecordingID x = r_RecordingID r \<and>
       r_StoredPath x = r_StoredPath r \<and> r_ChecksumSHA256 x = r_ChecksumSHA256 r \<and>
       r_SizeBytes x = r_SizeBytes r))"
  using assms
  by (auto simp: InsertRecordingIfAbsent_def outcome insert_recording_stmt_def exists_row_iff
      split: option.splits if_splits)

lemma validateUpload_Inr:
  "validateUpload metadata w = (Inr (passID, stationID), w') \<Longrightarrow>
     w' = w \<and> env_parse_uuid (env w) (md_PassId metadata) = Some passID \<and>
     env_parse_uuid (env w) (md_StationId metadata) = Some stationID"
  by (auto simp: validateUpload_def outcome split: if_splits)

text \<open>The part after the check for a recording that is held already.\<close>

lemma store_upload_Inr:
  assumes "store_upload sv metadata passID stationID rest fin w = (Inr resp, w')"
    and "root_ok (fs_recordingsRoot (ws_files sv))"
  defines "content \<equiv> concat (map GetChunk rest)"
  shows "ur_RecordingId resp = md_RecordingId metadata \<and>
    (\<exists>r\<in>set (t_recordings (db w')). r_RecordingID r = md_RecordingId metadata) \<and>
    (ur_Stored resp \<longrightarrow> (\<exists>r\<in>set (t_recordings (db w')). r_RecordingID r = md_RecordingId metadata \<and>
       files w' (r_StoredPath r) = Some content \<and> r_ChecksumSHA256 r = md_ChecksumSha256 metadata \<and>
       r_SizeBytes r = int (length content))) \<and>
    env_sha256hex (env w) content = md_ChecksumSha256 metadata \<and>
    int (length content) = uint (md_SizeBytes metadata) \<and> fin = EndOfStream"
proof -
  have reads: "env w1 = env w" if "EnsureSpaceFor (ws_files sv) n w = (r, w1)" for n r w1
    using that by (auto simp: EnsureSpaceFor_def RecordingsUsage_def outcome Let_def external_def fail_eq
        attempt_Inl split: option.splits if_splits)
  from assms(1) obtain w1 destination w2 written checksum w3 workerID inserted w4 where
    space: "EnsureSpaceFor (ws_files sv) (sint (md_SizeBytes metadata)) w = (Inr (), w1)"
    and dest: "RecordingFilePath (ws_files sv) (env_uuid_text (env w1) stationID)
      (env_uuid_text (env w1) passID) (md_RelativePath metadata) = Inr destination"
    and rec: "receiveContent rest fin destination w1 = (Inr (written, checksum), w3)"
    and ck: "checksum = md_ChecksumSha256 metadata" "word_of_int written = md_SizeBytes metadata"
    and ins: "InsertRecordingIfAbsent (uploaded_recording metadata passID stationID workerID
        destination written checksum) w3 = (Inr inserted, w4)"
    and resp: "resp = \<lparr>ur_RecordingId = md_RecordingId metadata, ur_Stored = inserted,
        ur_SizeBytes = word_of_int written\<rparr>" "w' = advance w4"
    by (clarsimp simp: store_upload_def finish_upload_def outcome branches)
  note got = receiveContent_Inr [OF rec temp_not_recording [OF assms(2) dest], folded content_def]
  have "0 \<le> written" "written < 2 ^ 64" using got by (auto simp: maxRecordingBytes_def)
  then have "uint (md_SizeBytes metadata) = written"
    unfolding ck(2) [symmetric] by (simp add: uint_word_of_int)
  with InsertRecordingIfAbsent_Inr [OF ins] got resp ck reads [OF space] show ?thesis
    by (auto simp: uploaded_recording_def)
qed

lemma UploadRecording_Inr:
  assumes "UploadRecording sv messages fin w = (Inr resp, w')"
  obtains (held) metadata rest x where "messages = Metadata metadata # rest"
      "find_row (\<lambda>r. r_RecordingID r = md_RecordingId metadata) (t_recordings (db w)) = Some x"
      "resp = \<lparr>ur_RecordingId = r_RecordingID x, ur_Stored = False,
          ur_SizeBytes = word_of_int (r_SizeBytes x)\<rparr>" "w' = advance (advance w)"
  | (fresh) metadata rest passID stationID e w1 where "messages = Metadata metadata # rest"
      "validateUpload metadata w = (Inr (passID, stationID), w)"
      "GetRecording (md_RecordingId metadata) w = (Inl e, w1)" "errors_is e ErrNotFound"
      "store_upload sv metadata passID stationID rest fin w1 = (Inr resp, w')"
proof (cases messages)
  case Nil
  with assms show ?thesis by (simp add: UploadRecording_def outcome)
next
  case (Cons m rest)
  with assms obtain metadata where m: "m = Metadata metadata"
    by (cases m) (auto simp: UploadRecording_def outcome)
  with assms Cons obtain passID stationID where v: "validateUpload metadata w = (Inr (passID, stationID), w)"
    by (auto simp: UploadRecording_def attempt_Inr dest: validateUpload_Inr)
  show ?thesis
    using assms Cons m v held fresh
    by (auto simp: UploadRecording_def attempt_Inr attempt_or_eq branches GetRecording_Inr
        SendAndClose_Inr status_error_eq dest: validateUpload_Inr)
qed

text \<open>
  C25.  An acknowledged upload is safe: the recording is in the table; and when it was stored
  now, the file that its row names holds exactly the bytes of the stream, with the announced
  size and checksum.
\<close>

theorem upload_stored:
  assumes "UploadRecording sv messages fin w = (Inr resp, w')"
    and "root_ok (fs_recordingsRoot (ws_files sv))"
  shows "\<exists>metadata rest. messages = Metadata metadata # rest \<and>
    ur_RecordingId resp = md_RecordingId metadata \<and>
    (\<exists>r\<in>set (t_recordings (db w')). r_RecordingID r = md_RecordingId metadata) \<and>
    (ur_Stored resp \<longrightarrow> fin = EndOfStream \<and>
       env_sha256hex (env w) (concat (map GetChunk rest)) = md_ChecksumSha256 metadata \<and>
       int (length (concat (map GetChunk rest))) = uint (md_SizeBytes metadata) \<and>
       (\<exists>r\<in>set (t_recordings (db w')). r_RecordingID r = md_RecordingId metadata \<and>
          files w' (r_StoredPath r) = Some (concat (map GetChunk rest)) \<and>
          r_ChecksumSHA256 r = md_ChecksumSha256 metadata \<and>
          r_SizeBytes r = int (length (concat (map GetChunk rest)))))"
  using assms(1)
proof (cases rule: UploadRecording_Inr)
  case (held metadata rest x)
  then show ?thesis by (auto dest: find_row_SomeD)
next
  case (fresh metadata rest passID stationID e w1)
  then have "env w1 = env w"
    by (auto simp: GetRecording_def intro: keeps_envD [OF keeps_env_query_row])
  with store_upload_Inr [OF fresh(5) assms(2)] fresh(1) show ?thesis by auto
qed

section \<open>No other file is touched\<close>

lemma keeps_worker [keeps_intro]:
  "keeps view (status_error code msg)"
  "keeps view m \<Longrightarrow> (\<And>x. keeps view (k x)) \<Longrightarrow> keeps view (or_internal msg m k)"
  "(\<And>u. keeps view (f u)) \<Longrightarrow> keeps view (parse_uuid_or msg s f)"
  unfolding status_error_def or_internal_def parse_uuid_or_def
  by (intro keeps_intro; assumption)+

lemma keeps_deferred [keeps_intro]:
  "keeps view cleanup \<Longrightarrow> keeps view m \<Longrightarrow> keeps view (deferred cleanup m)"
  unfolding keeps_def deferred_def by (auto split: prod.split) (metis snd_conv)

lemma keeps_file_operations [keeps_intro]:
  "keeps (\<lambda>w. files w path) (fs_step id)" "keeps (\<lambda>w. files w path) (MkdirAll dir)"
  "path \<noteq> p \<Longrightarrow> keeps (\<lambda>w. files w path) (remove_file p)"
  "path \<noteq> p \<Longrightarrow> keeps (\<lambda>w. files w path) (write_behind p got chunk)"
  "path \<noteq> p \<Longrightarrow> path \<noteq> q \<Longrightarrow> keeps (\<lambda>w. files w path) (rename_file p q)"
  "(\<And>e n. dir @ ''/'' @ temp_name e n \<noteq> path) \<Longrightarrow> keeps (\<lambda>w. files w path) (CreateTemp dir ''.upload-'')"
  "keeps (\<lambda>w. files w path) (SendAndClose response)"
  by (auto simp: keeps_def MkdirAll_def fs_step_def remove_file_def write_behind_def rename_file_def
      CreateTemp_def temp_name_def Let_def SendAndClose_def split: option.split)

lemma keeps_receive_chunks [keeps_intro]:
  "path \<noteq> temporary \<Longrightarrow> keeps (\<lambda>w. files w path) (receive_chunks temporary messages fin written got)"
  by (induction temporary messages fin written got rule: receive_chunks.induct)
     (auto simp: Let_def split: upload_message.split intro!: keeps_intro)

lemma CreateTemp_path:
  "CreateTemp dir ''.upload-'' w = (Inr t, w') \<Longrightarrow> \<exists>e n. t = dir @ ''/'' @ temp_name e n"
  by (auto simp: CreateTemp_Inr)

text \<open>Here the continuation may use that the temporary file has a temporary name.\<close>

lemma keeps_with_temp:
  assumes "keeps view (CreateTemp dir ''.upload-'')"
    and "\<And>e n. keeps view (k (dir @ ''/'' @ temp_name e n))"
  shows "keeps view (or_internal msg (CreateTemp dir ''.upload-'') k)"
  unfolding keeps_def
proof
  fix w
  obtain r w1 where c: "CreateTemp dir ''.upload-'' w = (r, w1)" by fastforce
  have "view w1 = view w" using keepsD [OF assms(1) c] .
  moreover have "view (snd (k t w1)) = view w1" if "r = Inr t" for t
    using assms(2) c that CreateTemp_path by (fastforce simp: keeps_def)
  ultimately show "view (snd (or_internal msg (CreateTemp dir ''.upload-'') k w)) = view w"
    using c by (cases r) (auto simp: or_internal_def attempt_or_def status_error_def fail_def)
qed

lemma keeps_receiveContent [keeps_intro]:
  assumes "path \<noteq> destination" and "\<And>d e n. d @ ''/'' @ temp_name e n \<noteq> path"
  shows "keeps (\<lambda>w. files w path) (receiveContent messages fin destination)"
  unfolding receiveContent_def
  by (intro keeps_worker(2) keeps_with_temp keeps_intro) (use assms in \<open>auto simp: assms(2) [symmetric]\<close>)

lemma keeps_upload_reads [keeps_intro]:
  "keeps (\<lambda>w. files w path) (EnsureSpaceFor fs sz)" "keeps (\<lambda>w. files w path) (GetRecording rid)"
  "keeps (\<lambda>w. files w path) (InsertRecordingIfAbsent r)" "keeps view (validateUpload metadata)"
  unfolding EnsureSpaceFor_def RecordingsUsage_def GetRecording_def InsertRecordingIfAbsent_def
    validateUpload_def
  by (intro keeps_intro)+

lemma keeps_finish_upload:
  assumes "path \<noteq> destination" and "\<And>d e n. d @ ''/'' @ temp_name e n \<noteq> path"
  shows "keeps (\<lambda>w. files w path) (finish_upload metadata passID stationID rest fin destination)"
  unfolding finish_upload_def by (intro keeps_intro assms)

lemma env_EnsureSpaceFor: "keeps env (EnsureSpaceFor fs sz)"
  unfolding EnsureSpaceFor_def RecordingsUsage_def
  by (intro keeps_intro) (simp add: keeps_def external_def)

lemma store_upload_keeps_path:
  assumes "store_upload sv metadata passID stationID rest fin w = (r, w')"
    and "\<And>destination. RecordingFilePath (ws_files sv) (env_uuid_text (env w) stationID)
      (env_uuid_text (env w) passID) (md_RelativePath metadata) = Inr destination \<Longrightarrow> path \<noteq> destination"
    and "\<And>d e n. d @ ''/'' @ temp_name e n \<noteq> path"
  shows "files w' path = files w path"
proof -
  obtain r1 w1 where space: "EnsureSpaceFor (ws_files sv) (sint (md_SizeBytes metadata)) w = (r1, w1)"
    by fastforce
  have same: "env w1 = env w" "files w1 path = files w path"
    using keepsD [OF env_EnsureSpaceFor space] keepsD [OF keeps_upload_reads(1) space] by auto
  show ?thesis
  proof (cases r1)
    case (Inl e)
    with assms(1) space same show ?thesis
      by (simp add: store_upload_def attempt_or_def status_error_def fail_def)
  next
    case (Inr u)
    with assms(1) space same have run: "(case RecordingFilePath (ws_files sv)
          (env_uuid_text (env w) stationID) (env_uuid_text (env w) passID) (md_RelativePath metadata) of
        Inl _ \<Rightarrow> status_error ''InvalidArgument'' ''invalid recording path''
      | Inr destination \<Rightarrow> finish_upload metadata passID stationID rest fin destination) w1 = (r, w')"
      by (simp add: store_upload_def attempt_def attempt_or_def asks_def)
    have "keeps (\<lambda>w. files w path) (case RecordingFilePath (ws_files sv)
          (env_uuid_text (env w) stationID) (env_uuid_text (env w) passID) (md_RelativePath metadata) of
        Inl _ \<Rightarrow> status_error ''InvalidArgument'' ''invalid recording path''
      | Inr destination \<Rightarrow> finish_upload metadata passID stationID rest fin destination)"
      by (intro keeps_case_sum keeps_worker keeps_finish_upload assms(2,3))
    from keepsD [OF this run] same show ?thesis by simp
  qed
qed

text \<open>
  C26.  Uploads do not get in each other's way: whatever becomes of an upload, the file of
  every recording of another pass, another station or another relative path stays as it is.
\<close>

theorem upload_isolation:
  assumes "UploadRecording sv (Metadata metadata # rest) fin w = (r, w')"
    and "root_ok (fs_recordingsRoot (ws_files sv))"
    and "RecordingFilePath (ws_files sv) sid pid rel = Inr path"
    and "\<And>stationID passID. env_parse_uuid (env w) (md_StationId metadata) = Some stationID \<Longrightarrow>
      env_parse_uuid (env w) (md_PassId metadata) = Some passID \<Longrightarrow>
      (env_uuid_text (env w) stationID, env_uuid_text (env w) passID, md_RelativePath metadata)
        \<noteq> (sid, pid, rel)"
  shows "files w' path = files w path"
proof -
  note temp = temp_not_recording [OF assms(2,3)]
  obtain v w1 where valid: "validateUpload metadata w = (v, w1)" by fastforce
  show ?thesis
  proof (cases v)
    case (Inl e)
    with assms(1) valid keepsD [OF keeps_upload_reads(4) valid, of "\<lambda>w. w"] show ?thesis
      by (simp add: UploadRecording_def attempt_def attempt_or_def fail_def)
  next
    case (Inr ids)
    obtain passID stationID where "v = Inr (passID, stationID)" using Inr by (cases ids) simp
    with validateUpload_Inr valid have w1: "w1 = w" "v = Inr (passID, stationID)"
      and ids: "env_parse_uuid (env w) (md_PassId metadata) = Some passID"
        "env_parse_uuid (env w) (md_StationId metadata) = Some stationID" by blast+
    obtain g w2 where get: "GetRecording (md_RecordingId metadata) w = (g, w2)" by fastforce
    have same: "files w2 path = files w path" "env w2 = env w"
      using keepsD [OF keeps_upload_reads(2) get] get
      by (auto simp: GetRecording_def intro: keeps_envD [OF keeps_env_query_row])
    have "files w' path = files w2 path"
      if "store_upload sv metadata passID stationID rest fin w2 = (r, w')"
    proof (rule store_upload_keeps_path [OF that _ temp])
      fix destination
      assume "RecordingFilePath (ws_files sv) (env_uuid_text (env w2) stationID)
        (env_uuid_text (env w2) passID) (md_RelativePath metadata) = Inr destination"
      with RecordingFilePath_inj [OF assms(2,3)] assms(4) [OF ids(2,1)] same(2)
      show "path \<noteq> destination" by auto
    qed
    moreover have "(\<exists>resp. SendAndClose resp w2 = (r, w')) \<or> w' = w2 \<or>
        store_upload sv metadata passID stationID rest fin w2 = (r, w')"
      using assms(1) valid w1 get
      by (auto simp: UploadRecording_def attempt_def attempt_or_def status_error_def fail_def
          split: sum.splits if_splits)
    ultimately show ?thesis using same by (auto simp: SendAndClose_def)
  qed
qed

section \<open>Refused uploads and retries\<close>

lemma clean_InsertRecording: "clean_fail (InsertRecordingIfAbsent r)"
  unfolding InsertRecordingIfAbsent_def attempt_def
  by (rule clean_attempt_or_write [OF clean_query clean_fail_fail]) (simp add: ret_def)

lemma send_error:
  "clean_unless (\<lambda>e w. e = ErrText ''send'') (or_internal msg (InsertRecordingIfAbsent r) (\<lambda>i. SendAndClose (f i)))"
  using clean_failD [OF clean_InsertRecording]
  by (auto simp: clean_unless_def or_internal_def attempt_or_eq status_error_eq SendAndClose_def)

lemma store_upload_error:
  "clean_unless (\<lambda>e w. e = ErrText ''send'') (store_upload sv metadata passID stationID rest fin)"
proof -
  have finish: "clean_unless (\<lambda>e w. e = ErrText ''send'') (finish_upload metadata passID stationID rest fin destination)"
    for destination
    unfolding finish_upload_def
    by (intro clean_unless_read reading.receiveContent clean_unless_cases reading.asks send_error
        clean_unless_clean clean_read reading.ignoring reading.fs_steps reading.status_error)
  have branch: "clean_unless (\<lambda>e w. e = ErrText ''send'') (case v of
      Inl _ \<Rightarrow> status_error ''InvalidArgument'' ''invalid recording path''
    | Inr destination \<Rightarrow> finish_upload metadata passID stationID rest fin destination)" for v :: "err + string"
    using finish by (cases v) (auto intro: clean_unless_clean clean_read reading.status_error)
  have "clean_unless (\<lambda>e w. e = ErrText ''send'') (attempt (asks env_uuid_text) (\<lambda>text_of.
      case RecordingFilePath (ws_files sv) (text_of stationID) (text_of passID) (md_RelativePath metadata) of
        Inl _ \<Rightarrow> status_error ''InvalidArgument'' ''invalid recording path''
      | Inr destination \<Rightarrow> finish_upload metadata passID stationID rest fin destination))"
    by (intro clean_unless_read reading.asks branch)
  then show ?thesis
    unfolding store_upload_def clean_unless_def attempt_or_eq
    using reads_db [OF reading.file_operations(4)] by (fastforce simp: status_error_eq)
qed

text \<open>
  A refused upload records nothing: if the call ends with an error, the tables are as
  before, unless the error is that the final response could not be sent.
\<close>

theorem upload_error_keeps_tables:
  assumes "UploadRecording sv messages fin w = (Inl e, w')"
  shows "db w' = db w \<or> e = ErrText ''send''"
proof (cases messages)
  case (Cons m rest)
  have held: "clean_unless (\<lambda>e w. e = ErrText ''send'') (attempt_or (GetRecording rid)
      (\<lambda>e. if \<not> errors_is e ErrNotFound
           then status_error ''Internal'' ''could not check for an existing recording''
           else store_upload sv metadata passID stationID rest fin)
      (\<lambda>x. SendAndClose (f x)))" for rid metadata passID stationID f
    using store_upload_error reads_db [OF reading.reads(24)]
    by (fastforce simp: clean_unless_def attempt_or_eq SendAndClose_def status_error_eq split: if_splits)
  have "clean_unless (\<lambda>e w. e = ErrText ''send'') (UploadRecording sv messages fin)"
    unfolding Cons UploadRecording_def
    by (cases m) (auto intro!: clean_unless_read reading.validateUpload clean_unless_cases held
        intro: clean_unless_clean clean_read reading.status_error)
  from clean_unlessD [OF this assms] show ?thesis .
qed (use assms in \<open>simp add: UploadRecording_def status_error_eq\<close>)

lemma fault_not_missing [simp]: "\<not> errors_is (translate (fault_error f)) ErrNotFound"
  by (cases f) (simp_all add: overlapConstraintName_def serializationFailure_def deadlockDetected_def)

text \<open>
  Retries are harmless: an upload of a recording that is held already changes neither
  the tables nor any file, whatever its stream carries, and is never answered as stored.
\<close>

theorem upload_retry_harmless:
  assumes "UploadRecording sv (Metadata metadata # rest) fin w = (r, w')"
    and "r_RecordingID x = md_RecordingId metadata" and "x \<in> set (t_recordings (db w))"
  shows "db w' = db w \<and> files w' = files w \<and> (\<forall>resp. r = Inr resp \<longrightarrow> \<not> ur_Stored resp)"
proof -
  obtain v w1 where valid: "validateUpload metadata w = (v, w1)" by fastforce
  have w1: "w1 = w" using keepsD [OF keeps_upload_reads(4) valid, of "\<lambda>w. w"] by simp
  obtain y where y: "find_row (\<lambda>r. r_RecordingID r = md_RecordingId metadata) (t_recordings (db w)) = Some y"
    using assms(2,3) by (cases "find_row (\<lambda>r. r_RecordingID r = md_RecordingId metadata) (t_recordings (db w))")
      (auto simp: find_row_None)
  have get: "(\<exists>e. GetRecording (md_RecordingId metadata) w = (Inl e, w2) \<and> \<not> errors_is e ErrNotFound \<and>
        db w2 = db w \<and> files w2 = files w) \<or>
      (\<exists>x. GetRecording (md_RecordingId metadata) w = (Inr x, w2) \<and> db w2 = db w \<and> files w2 = files w)"
    if "GetRecording (md_RecordingId metadata) w = (g, w2)" for g w2
    using that y
    by (auto simp: GetRecording_def query_row_def translated_def scan_row_def run_stmt_def select_def
        split: if_splits option.splits)
  obtain g w2 where g: "GetRecording (md_RecordingId metadata) w = (g, w2)" by fastforce
  from assms(1) valid w1 g get [OF g] show ?thesis
    by (auto simp: UploadRecording_def attempt_def attempt_or_def fail_def status_error_def SendAndClose_def
        split: sum.splits prod.splits if_splits)
qed

section \<open>Concrete uploads\<close>

definition digest :: string where "digest = replicate 64 (CHR ''0'')"

definition upload_service :: worker_service where
  "upload_service =
     \<lparr>ws_files = \<lparr>fs_recordingsRoot = ''/rec'', fs_pipelinesRoot = ''/pipe''\<rparr>,
      ws_codec = sample_codec, ws_serverVersion = ''1''\<rparr>"

definition upload_world :: world where
  "upload_world = approved_world
     \<lparr>env := sample_env\<lparr>env_parse_uuid := (\<lambda>s. if s = ''one'' then Some 1 else if s = ''ten'' then Some 10 else None)\<rparr>\<rparr>"

definition sample_metadata :: recording_metadata where
  "sample_metadata =
     \<lparr>md_RecordingId = digest, md_PassId = ''ten'', md_WorkerId = ''one'', md_StationId = ''one'',
      md_RelativePath = ''raw/a.iq'', md_SizeBytes = 5, md_ChecksumSha256 = digest,
      md_StartedAt = None, md_FinishedAt = None\<rparr>"

definition sample_upload :: "upload_message list" where
  "sample_upload = [Metadata sample_metadata, Chunk ''abc'', Chunk ''de'']"

lemma upload_root_ok: "root_ok (fs_recordingsRoot (ws_files upload_service))"
  by code_simp

lemma upload_stored_witness:
  "\<exists>resp w'. UploadRecording upload_service sample_upload EndOfStream upload_world = (Inr resp, w') \<and>
     ur_Stored resp \<and> (\<exists>r\<in>set (t_recordings (db w')). files w' (r_StoredPath r) = Some ''abcde'')"
proof -
  let ?run = "UploadRecording upload_service sample_upload EndOfStream upload_world"
  have "is_ok (fst ?run)" by code_simp
  then obtain resp w' where run: "?run = (Inr resp, w')" by (blast dest: run_ok)
  have "map_sum (\<lambda>_. ()) ur_Stored (fst ?run) = Inr True" by code_simp
  with run have "ur_Stored resp" by simp
  with upload_stored [OF run upload_root_ok] run show ?thesis
    by (auto simp: sample_upload_def)
qed

lemma upload_isolation_witness:
  "\<exists>r w'. UploadRecording upload_service sample_upload EndOfStream
       (upload_world\<lparr>files := [''/rec/one/other/raw/b.iq'' \<mapsto> ''old'']\<rparr>) = (r, w') \<and>
     files w' ''/rec/one/other/raw/b.iq'' = Some ''old''"
proof -
  let ?w = "upload_world\<lparr>files := [''/rec/one/other/raw/b.iq'' \<mapsto> ''old'']\<rparr>"
  obtain r w' where run: "UploadRecording upload_service (Metadata sample_metadata # [Chunk ''abc'', Chunk ''de''])
      EndOfStream ?w = (r, w')" by fastforce
  have path: "RecordingFilePath (ws_files upload_service) ''one'' ''other'' ''raw/b.iq'' = Inr ''/rec/one/other/raw/b.iq''"
    by code_simp
  have "files w' ''/rec/one/other/raw/b.iq'' = files ?w ''/rec/one/other/raw/b.iq''"
    by (rule upload_isolation [OF run upload_root_ok path]) (simp add: sample_metadata_def)
  with run show ?thesis by (auto simp: sample_upload_def)
qed

lemma upload_error_keeps_tables_witness:
  "\<exists>e w'. UploadRecording upload_service sample_upload StreamBroken upload_world = (Inl e, w') \<and>
     e = GrpcStatus ''Aborted'' ''the upload was interrupted'' \<and> t_recordings (db w') = []"
proof -
  let ?run = "UploadRecording upload_service sample_upload StreamBroken upload_world"
  have fst: "fst ?run = Inl (GrpcStatus ''Aborted'' ''the upload was interrupted'')" by code_simp
  then obtain w' where run: "?run = (Inl (GrpcStatus ''Aborted'' ''the upload was interrupted''), w')"
    by (metis prod.collapse)
  have "t_recordings (db upload_world) = []"
    by (simp add: upload_world_def approved_world_def world_with_def sample_database_def empty_database_def)
  with upload_error_keeps_tables [OF run] run show ?thesis by auto
qed

text \<open>The world after the sample upload, and the same upload once more.\<close>

definition held_world :: world where
  "held_world = snd (UploadRecording upload_service sample_upload EndOfStream upload_world)"

lemma upload_retry_harmless_witness:
  "\<exists>r w'. UploadRecording upload_service (Metadata sample_metadata # []) EndOfStream held_world = (r, w') \<and>
     db w' = db held_world \<and> files w' = files held_world"
proof -
  obtain r w' where run: "UploadRecording upload_service (Metadata sample_metadata # []) EndOfStream held_world = (r, w')"
    by fastforce
  have "map r_RecordingID (t_recordings (db held_world)) = [digest]" by code_simp
  then obtain x where "x \<in> set (t_recordings (db held_world))" "r_RecordingID x = digest"
    by (auto simp: map_eq_Cons_conv)
  then have "r_RecordingID x = md_RecordingId sample_metadata" by (simp add: sample_metadata_def)
  from upload_retry_harmless [OF run this \<open>x \<in> set (t_recordings (db held_world))\<close>] run
  show ?thesis by blast
qed

text \<open>
  Two things that a client of the service might not expect.  A caller without any credential
  can upload, as the interceptor sees unary calls only.  And a transfer that turns out to be
  corrupted has replaced the file by then, and removes it: a second recording of the same
  pass under the same relative path destroys the one that is stored.
\<close>

lemma upload_needs_no_secret:
  "is_ok (fst (grpc_serve upload_service ''secret'' None (CallUpload sample_upload EndOfStream) upload_world)) \<and>
   fst (grpc_serve upload_service ''secret'' None CallPing upload_world)
     = Inl (GrpcStatus ''Unauthenticated'' ''invalid worker credential'')"
  by code_simp

lemma corrupt_upload_destroys:
  "map r_StoredPath (t_recordings (db held_world)) = [''/rec/one/other/raw/a.iq''] \<and>
   files held_world ''/rec/one/other/raw/a.iq'' = Some ''abcde'' \<and>
   (case UploadRecording upload_service
       [Metadata (sample_metadata\<lparr>md_RecordingId := replicate 64 (CHR ''1''),
          md_ChecksumSha256 := replicate 64 (CHR ''1'')\<rparr>), Chunk ''zzzzz''] EndOfStream held_world of
      (r, w') \<Rightarrow> \<not> is_ok r \<and> files w' ''/rec/one/other/raw/a.iq'' = None \<and>
        length (t_recordings (db w')) = 1)"
  by code_simp

end
