(* ===== verification/Worker_Sync_Props.thy ===== *)
theory Worker_Sync_Props
  imports Worker_Props Sched_Props
begin

text \<open>
  The worker's credential, the synchronisation of pass plans, heartbeats, and the monitor
  that takes a silent station out of the schedule.
\<close>

section \<open>The credential\<close>

text \<open>
  C27.  Without the shared secret no unary call reaches its handler: the answer is
  \<open>Unauthenticated\<close> and nothing at all changes; with it the call is the handler's.
\<close>

theorem unary_call_needs_secret:
  assumes "\<And>messages fin. call \<noteq> CallUpload messages fin"
  shows "grpc_serve sv secret ctx call w =
    (if \<exists>md v. ctx = Some md \<and> md ''authorization'' = [v] \<and> (v = secret \<and> \<not> has_prefix v ''Bearer '' \<or> v = ''Bearer '' @ secret)
     then unary_handler sv call w
     else (Inl (GrpcStatus ''Unauthenticated'' ''invalid worker credential''), w))"
proof -
  have "validSecret ctx secret \<longleftrightarrow> (\<exists>md v. ctx = Some md \<and> md ''authorization'' = [v] \<and>
      (v = secret \<and> \<not> has_prefix v ''Bearer '' \<or> v = ''Bearer '' @ secret))"
    by (auto simp: validSecret_def authorizationHeader_def bearerPrefix_def trim_prefix_eq
        split: option.splits list.splits)
  with assms show ?thesis
    by (cases call) (auto simp: grpc_serve_def SharedSecretInterceptor_def status_error_def fail_def)
qed

lemma unary_call_needs_secret_witness:
  "grpc_serve upload_service ''secret'' (Some (\<lambda>_. [''Bearer secret''])) CallPing upload_world =
     unary_handler upload_service CallPing upload_world \<and>
   grpc_serve upload_service ''secret'' (Some (\<lambda>_. [''Bearer other''])) CallPing upload_world =
     (Inl (GrpcStatus ''Unauthenticated'' ''invalid worker credential''), upload_world)"
  using unary_call_needs_secret [of CallPing upload_service "''secret''" "Some (\<lambda>_. [''Bearer secret''])" upload_world]
    unary_call_needs_secret [of CallPing upload_service "''secret''" "Some (\<lambda>_. [''Bearer other''])" upload_world]
  by simp

section \<open>Synchronisation\<close>

lemma ListPassPlansForStation_Inr [outcome]:
  "ListPassPlansForStation sid t w = (Inr plans, w') \<longleftrightarrow>
     runs w \<and> plans = plans_for_station sid (env_ts (env w) t) (db w) \<and> w' = advance w"
  by (auto simp: ListPassPlansForStation_def query_Inr select_def)

definition due_plans :: "worker_service \<Rightarrow> uuid \<Rightarrow> time \<Rightarrow> database \<Rightarrow> err + pass_plan list" where
  "due_plans sv sid t d = decode_plans (ws_codec sv) (plans_for_station sid t d)"

lemma load_plans_Inr:
  "load_plans (ws_codec sv) msg sid w = (Inr plans, w') \<longleftrightarrow>
     runs (advance w) \<and> due_plans sv sid (env_ts (env w) (env_clock (env w) (tick w))) (db w) = Inr plans \<and>
     w' = advance (advance w)"
  by (auto simp: load_plans_def due_plans_def attempt_Inr clock_now_eq or_internal_Inr
      ListPassPlansForStation_Inr branches status_error_eq ret_eq)

text \<open>The plans that are due are those of the approved passes that are not over, in their order.\<close>

lemma set_plans_for_station:
  "set (plans_for_station sid t d) =
     {plan \<in> set (t_pass_plans d). \<exists>p\<in>set (t_passes d). p_ID p = pp_PassID plan \<and> plan_due sid t p}"
  by (auto simp: plans_for_station_def)


definition echo_codec :: codec where
  "echo_codec = \<lparr>co_marshal = (\<lambda>plan. Some (''plan '' @ pn_SatelliteName plan)),
     co_unmarshal = (\<lambda>b. Some (build_plan (sample_pass PassApproved) sample_satellite sample_tle sample_worker
       default_radio empty_pipeline []))\<rparr>"

definition sync_service :: worker_service where
  "sync_service = upload_service\<lparr>ws_codec := echo_codec\<rparr>"

definition planned_world :: world where
  "planned_world = upload_world\<lparr>db := (db upload_world)\<lparr>t_pass_plans :=
     [\<lparr>pp_PassID = 10, pp_Generation = digest, pp_PlanVersion = 1, pp_Encoded = ''plan'', pp_GeneratedAt = 0\<rparr>]\<rparr>\<rparr>"


section \<open>Heartbeats\<close>

lemma GetWorkerByID_Inr:
  "GetWorkerByID wid w = (Inr k, w') \<longleftrightarrow>
     runs w \<and> find_row (\<lambda>k. w_ID k = wid) (t_workers (db w)) = Some k \<and> w' = advance w"
  by (auto simp: GetWorkerByID_def query_row_Inr select_def)

definition seen_at :: "uuid \<Rightarrow> time \<Rightarrow> database \<Rightarrow> bool" where
  "seen_at wid t d \<longleftrightarrow> wid \<in> set (map w_ID (t_workers d)) \<and>
     (\<forall>k\<in>set (t_workers d). w_ID k = wid \<longrightarrow> w_ConnectionState k = WorkerOnline \<and> w_LastSeenAt k = Some t)"

lemma update_worker_ids:
  "(\<And>k. w_ID (f k) = w_ID k) \<Longrightarrow>
    set (map w_ID (update_rows P f (t_workers d))) = set (map w_ID (t_workers d))"
  by (simp only: map_update_rows)

lemma RecordHeartbeat_seen:
  assumes "RecordHeartbeat u w = (Inr x, w')"
  shows "seen_at (hb_WorkerID u) (env_ts (env w) (hb_SeenAt u)) (db w')" and "env w' = env w"
proof -
  let ?f = "\<lambda>k. (heartbeat_row u (env w) k)\<lparr>w_UpdatedAt := env_now (env w) (tick w)\<rparr>"
  from assms have w': "t_workers (db w') = update_rows (\<lambda>k. w_ID k = hb_WorkerID u) ?f (t_workers (db w))"
    and "env w' = env w" and "\<exists>k\<in>set (t_workers (db w)). w_ID k = hb_WorkerID u"
    by (auto simp: RecordHeartbeat_def exec_one_Inr heartbeat_stmt_def update_worker_stmt_def
        rows_affected_pos split: if_splits)
  moreover have "set (map w_ID (t_workers (db w'))) = set (map w_ID (t_workers (db w)))"
    unfolding w' by (rule update_worker_ids) simp
  ultimately have "hb_WorkerID u \<in> set (map w_ID (t_workers (db w')))"
    by (auto intro: rev_image_eqI)
  then show "seen_at (hb_WorkerID u) (env_ts (env w) (hb_SeenAt u)) (db w')"
    unfolding seen_at_def by (auto simp: w' set_update_rows heartbeat_row_def simp del: set_map)
  show "env w' = env w" by fact
qed

lemma RecordHeartbeat_others:
  "RecordHeartbeat u w = (Inr x, w') \<Longrightarrow>
    t_passes (db w') = t_passes (db w) \<and> t_pass_plans (db w') = t_pass_plans (db w)"
  by (auto simp: RecordHeartbeat_def exec_one_Inr heartbeat_stmt_def update_worker_stmt_def split: if_splits)

lemma auditWorker_others:
  "auditWorker action wid details w = (r, w') \<Longrightarrow>
    t_passes (db w') = t_passes (db w) \<and> t_pass_plans (db w') = t_pass_plans (db w)"
  by (auto simp: auditWorker_def AppendAudit_def query_row_def translated_def scan_row_def run_stmt_def
      insert_audit_stmt_def Let_def split: prod.splits sum.splits option.splits if_splits)

lemma due_plans_cong:
  "t_passes d = t_passes d' \<Longrightarrow> t_pass_plans d = t_pass_plans d' \<Longrightarrow> due_plans sv sid t d = due_plans sv sid t d'"
  by (simp add: due_plans_def plans_for_station_def)

lemma auditWorker_workers: "auditWorker action wid details w = (r, w') \<Longrightarrow> t_workers (db w') = t_workers (db w) \<and> env w' = env w"
  by (auto simp: auditWorker_def AppendAudit_def query_row_def translated_def scan_row_def run_stmt_def
      insert_audit_stmt_def Let_def split: prod.splits sum.splits option.splits if_splits)

lemma RecordWorkerSync_seen:
  assumes "RecordWorkerSync wid' moment gen w = (r, w')" and "seen_at wid t (db w)"
  shows "seen_at wid t (db w')"
proof -
  let ?P = "\<lambda>k. w_ID k = wid'"
  have "t_workers (db w') = t_workers (db w) \<or> t_workers (db w') = update_rows (\<lambda>k. w_ID k = wid')
      (\<lambda>k. k\<lparr>w_LastSyncAt := Some (env_ts (env w) moment), w_SyncedGeneration := gen,
         w_UpdatedAt := env_now (env w) (tick w)\<rparr>) (t_workers (db w))"
    using assms(1)
    by (auto simp: RecordWorkerSync_def attempt_def attempt_or_def query_def translated_def run_stmt_def
        update_worker_stmt_def ret_def fail_def split: option.splits if_splits)
  then show ?thesis
  proof
    assume w': "t_workers (db w') = update_rows ?P
      (\<lambda>k. k\<lparr>w_LastSyncAt := Some (env_ts (env w) moment), w_SyncedGeneration := gen,
         w_UpdatedAt := env_now (env w) (tick w)\<rparr>) (t_workers (db w))"
    have "set (map w_ID (t_workers (db w'))) = set (map w_ID (t_workers (db w)))"
      unfolding w' by (rule update_worker_ids) simp
    with assms(2) show ?thesis unfolding seen_at_def by (auto simp: w' set_update_rows)
  qed (use assms(2) in \<open>simp add: seen_at_def\<close>)
qed

lemma audit_online_others:
  assumes "audit_online request wid worker w = (r, w')"
  shows "t_passes (db w') = t_passes (db w)" and "t_pass_plans (db w') = t_pass_plans (db w)"
    and "t_workers (db w') = t_workers (db w)" and "env w' = env w"
  using assms auditWorker_others auditWorker_workers
  by (fastforce simp: audit_online_def ignoring_eq ret_eq branches(1))+

lemma answer_heartbeat_Inr:
  assumes "answer_heartbeat sv request wid worker now w = (Inr resp, w')"
  shows "\<exists>plans n. due_plans sv (w_StationID worker) (env_ts (env w) (env_clock (env w) n)) (db w) = Inr plans \<and>
      hs_DesiredGeneration resp = SetGeneration (env w) plans"
    and "hs_StateIsCurrent resp \<longleftrightarrow> hs_DesiredGeneration resp = hr_StateGeneration request"
    and "hs_ServerTimeUnixMs resp = now div 1000000"
    and "seen_at wid t (db w) \<Longrightarrow> seen_at wid t (db w')"
proof -
  from assms obtain plans s where
    due: "due_plans sv (w_StationID worker) (env_ts (env w) (env_clock (env w) (tick w))) (db w) = Inr plans"
    and sync: "(if SetGeneration (env w) plans = hr_StateGeneration request
        then RecordWorkerSync wid now (SetGeneration (env w) plans) else ret ()) (advance (advance w)) = (s, w')"
    and resp: "resp = \<lparr>hs_ServerTimeUnixMs = unix_milli now,
        hs_DesiredGeneration = SetGeneration (env w) plans,
        hs_StateIsCurrent = (SetGeneration (env w) plans = hr_StateGeneration request)\<rparr>"
    unfolding answer_heartbeat_def desiredGeneration_def Let_def
    by (auto simp: attempt_Inr asks_eq ignoring_eq ret_eq load_plans_Inr)
  from due resp show "\<exists>plans n. due_plans sv (w_StationID worker) (env_ts (env w) (env_clock (env w) n)) (db w) = Inr plans \<and>
      hs_DesiredGeneration resp = SetGeneration (env w) plans" by auto
  from resp show "hs_StateIsCurrent resp \<longleftrightarrow> hs_DesiredGeneration resp = hr_StateGeneration request"
    and "hs_ServerTimeUnixMs resp = now div 1000000" by (auto simp: unix_milli_def)
  from sync show "seen_at wid t (db w) \<Longrightarrow> seen_at wid t (db w')"
    using RecordWorkerSync_seen by (fastforce simp: branches(1) ret_eq)
qed

text \<open>
  A heartbeat that is answered marks its worker online and seen at that moment, and
  names the generation of the state that is due at the worker's station: the state is called
  current exactly when the worker reported this generation.
\<close>

theorem heartbeat_outcome:
  assumes "Heartbeat sv request w = (Inr resp, w')"
  shows "\<exists>worker\<in>set (t_workers (db w)). \<exists>now plans n.
    env_parse_uuid (env w) (hr_WorkerId request) = Some (w_ID worker) \<and>
    seen_at (w_ID worker) (env_ts (env w) now) (db w') \<and> hs_ServerTimeUnixMs resp = now div 1000000 \<and>
    due_plans sv (w_StationID worker) (env_ts (env w) (env_clock (env w) n)) (db w) = Inr plans \<and>
    hs_DesiredGeneration resp = SetGeneration (env w) plans \<and>
    (hs_StateIsCurrent resp \<longleftrightarrow> hs_DesiredGeneration resp = hr_StateGeneration request)"
proof -
  from assms obtain wid worker now w2 s w3 where
    parse: "env_parse_uuid (env w) (hr_WorkerId request) = Some wid"
    and worker: "find_row (\<lambda>k. w_ID k = wid) (t_workers (db w)) = Some worker"
    and beat: "RecordHeartbeat
         \<lparr>hb_WorkerID = wid, hb_SeenAt = now, hb_WorkerVersion = hr_WorkerVersion request,
          hb_PendingUploads = uint (hr_PendingUploads request),
          hb_PendingReports = uint (hr_PendingReports request)\<rparr> (advance (advance w)) = (Inr (), w2)"
    and audit: "audit_online request wid worker w2 = (Inr s, w3)"
    and answer: "answer_heartbeat sv request wid worker now w3 = (Inr resp, w')"
    by (auto simp: Heartbeat_def parse_uuid_or_Inr attempt_or_eq or_internal_Inr attempt_Inr
        clock_now_eq GetWorkerByID_Inr status_error_eq split: if_splits)
  note same = audit_online_others [OF audit] RecordHeartbeat_others [OF beat]
  have "seen_at wid (env_ts (env w) now) (db w3)"
    using RecordHeartbeat_seen(1) [OF beat] same(3) by (simp add: seen_at_def)
  moreover have "env w3 = env w" using RecordHeartbeat_seen(2) [OF beat] same(4) by simp
  moreover have "due_plans sv sid t (db w3) = due_plans sv sid t (db w)" for sid t
    by (rule due_plans_cong) (use same in simp_all)
  moreover from answer_heartbeat_Inr(1) [OF answer] obtain plans n where
    "due_plans sv (w_StationID worker) (env_ts (env w3) (env_clock (env w3) n)) (db w3) = Inr plans"
    "hs_DesiredGeneration resp = SetGeneration (env w3) plans" by blast
  ultimately show ?thesis
    using answer_heartbeat_Inr(2-4) [OF answer] find_row_SomeD [OF worker] parse
    by (intro bexI [of _ worker] exI [of _ now] exI [of _ plans] exI [of _ n]) simp_all
qed

lemma heartbeat_outcome_witness:
  "\<exists>resp w'. Heartbeat sync_service \<lparr>hr_WorkerId = ''one'', hr_WorkerVersion = ''2'', hr_StateGeneration = digest,
       hr_PendingUploads = 0, hr_PendingReports = 0\<rparr> planned_world = (Inr resp, w') \<and>
     hs_StateIsCurrent resp"
proof -
  let ?q = "\<lparr>hr_WorkerId = ''one'', hr_WorkerVersion = ''2'', hr_StateGeneration = digest,
       hr_PendingUploads = 0, hr_PendingReports = 0\<rparr>"
  let ?run = "Heartbeat sync_service ?q planned_world"
  have "is_ok (fst ?run)" by code_simp
  then obtain resp w' where run: "?run = (Inr resp, w')" by (blast dest: run_ok)
  have "map_sum (\<lambda>_. ()) hs_DesiredGeneration (fst ?run) = Inr digest" by code_simp
  with heartbeat_outcome [OF run] run show ?thesis by auto
qed

section \<open>Silent workers\<close>

lemma not_online: "w_ConnectionState k \<noteq> WorkerOnline \<longleftrightarrow> w_ConnectionState k = WorkerOffline"
  by (cases "w_ConnectionState k") simp_all

definition same_workers :: "database \<Rightarrow> database \<Rightarrow> bool" where
  "same_workers d d' \<longleftrightarrow> t_workers d' = t_workers d"

interpretation workers_kept: guarantee same_workers
  by unfold_locales (auto simp: same_workers_def)

lemma audit_offline_workers: "guar same_workers (for_each names audit_offline)"
  unfolding audit_offline_def AppendAudit_def
  by (intro workers_kept.for_each workers_kept.ignoring workers_kept.query_row workers_kept.ret)
     (auto simp: stmt_guar_def same_workers_def insert_audit_stmt_def Let_def split: if_splits)

lemma check_stale_workers:
  assumes "check_stale w = (r, w')" and "runs (advance w)"
    and silent: "\<forall>k\<in>set (t_workers (db w)). w_ConnectionState k = WorkerOnline \<longrightarrow>
      is_stale (env_ts (env w) (env_clock (env w) (tick w) - StaleAfter)) k"
  shows "\<forall>k\<in>set (t_workers (db w')). w_ConnectionState k = WorkerOffline"
proof -
  let ?P = "is_stale (env_ts (env w) (env_clock (env w) (tick w) - StaleAfter))"
  let ?f = "\<lambda>k. k\<lparr>w_ConnectionState := WorkerOffline, w_UpdatedAt := env_now (env w) (Suc (tick w))\<rparr>"
  let ?d = "(db w)\<lparr>t_workers := update_rows ?P ?f (t_workers (db w))\<rparr>"
  have "MarkStaleWorkersOffline (time_add (env_clock (env w) (tick w)) (- StaleAfter)) (advance w)
      = (Inr (map w_Name (filter ?P (t_workers (db w)))), (advance (advance w))\<lparr>db := ?d\<rparr>)"
    using assms(2) by (simp add: MarkStaleWorkersOffline_def query_Inr mark_stale_stmt_def time_add_def)
  then have run: "for_each (map w_Name (filter ?P (t_workers (db w)))) audit_offline
      ((advance (advance w))\<lparr>db := ?d\<rparr>) = (r, w')"
    using assms(1) by (simp add: check_stale_def attempt_def attempt_or_def clock_now_def)
  have "\<forall>k\<in>set (update_rows ?P ?f (t_workers (db w))). w_ConnectionState k = WorkerOffline"
    using silent by (auto simp: set_update_rows simp flip: not_online)
  with guarD [OF audit_offline_workers run] show ?thesis by (simp add: same_workers_def)
qed

lemma RequestPass_needs_worker:
  assumes "RequestPass sv actor input w = (Inr x, w')"
  shows "\<exists>k\<in>set (t_workers (db w)). w_ConnectionState k = WorkerOnline"
proof -
  from assms obtain satellite w1 station config w2 u w3 where
    "GetSatelliteByID (ri_SatelliteID input) w = (Inr satellite, w1)"
    "stationAndConfig w1 = (Inr (station, config), w2)"
    "requireWorkerOnline (st_ID station) w2 = (Inr u, w3)"
    by (clarsimp simp: RequestPass_def outcome branches)
  with requireWorkerOnline_Inr(1) stationAndConfig_Inr(3) GetSatelliteByID_row(3)
  show ?thesis by metis
qed

text \<open>
  C30.  A silent station takes no bookings: once the monitor has looked at workers none of
  which was heard of in the last fifteen seconds, every request for a pass is refused until
  a worker reports again.
\<close>

theorem silent_station_takes_no_bookings:
  assumes "check_stale w = (r, w')" and "runs (advance w)"
    and "\<forall>k\<in>set (t_workers (db w)). \<forall>t. w_LastSeenAt k = Some t \<longrightarrow>
      t < env_ts (env w) (env_clock (env w) (tick w) - 15 * second)"
    and "t_workers (db v) = t_workers (db w')"
  shows "\<not> is_ok (fst (RequestPass sv actor input v))"
proof
  assume "is_ok (fst (RequestPass sv actor input v))"
  then obtain x v' where "RequestPass sv actor input v = (Inr x, v')" by (blast dest: run_ok)
  from RequestPass_needs_worker [OF this] obtain k where
    "k \<in> set (t_workers (db w'))" "w_ConnectionState k = WorkerOnline" by (auto simp: assms(4))
  moreover have "\<forall>k\<in>set (t_workers (db w')). w_ConnectionState k = WorkerOffline"
    using assms(3) by (intro check_stale_workers [OF assms(1,2)])
      (auto simp: is_stale_def StaleAfter_def split: option.split)
  ultimately show False by simp
qed

definition silent_world :: world where
  "silent_world = sample_world\<lparr>env := sample_env\<lparr>env_clock := (\<lambda>n. 20 * second + int n)\<rparr>,
     db := (db sample_world)\<lparr>t_workers := [sample_worker\<lparr>w_LastSeenAt := Some (second)\<rparr>]\<rparr>\<rparr>"

lemma silent_station_takes_no_bookings_witness:
  "\<exists>r w'. check_stale silent_world = (r, w') \<and>
     is_ok (fst (RequestPass sample_service alice sample_input silent_world)) \<and>
     \<not> is_ok (fst (RequestPass sample_service alice sample_input w'))"
proof -
  obtain r w' where run: "check_stale silent_world = (r, w')" by fastforce
  have "runs (advance silent_world)"
    by (simp add: runs_def silent_world_def sample_world_def world_with_def sample_env_def)
  moreover have "\<forall>k\<in>set (t_workers (db silent_world)). \<forall>t. w_LastSeenAt k = Some t \<longrightarrow>
      t < env_ts (env silent_world) (env_clock (env silent_world) (tick silent_world) - 15 * second)"
    by (simp add: silent_world_def sample_world_def world_with_def sample_env_def second_def)
  ultimately have "\<not> is_ok (fst (RequestPass sample_service alice sample_input w'))"
    by (rule silent_station_takes_no_bookings [OF run _ _ refl])
  moreover have "is_ok (fst (RequestPass sample_service alice sample_input silent_world))" by code_simp
  ultimately show ?thesis using run by blast
qed

end
