(* ===== verification/Filestore_Props.thy ===== *)
theory Filestore_Props
  imports Filestore Outcomes Sample
begin

text \<open>
  The paths of recordings and pipelines stay under their roots and are unambiguous; the check
  of the free space keeps its reserve and does not wrap.
\<close>

text \<open>
  C31.  A recording's path is its station, its pass and its relative path below the root: it
  is in normal form, has no element that leads upwards, and no two recordings that differ in
  any of the three share a path.
\<close>

theorem recording_path_safe:
  assumes "RecordingFilePath fs sid pid rel = Inr path" and "root_ok (fs_recordingsRoot fs)"
  shows "path = fs_recordingsRoot fs @ ''/'' @ sid @ ''/'' @ pid @ ''/'' @ rel \<and>
    clean_path path = path \<and>
    (\<forall>q\<in>set (sid # pid # split_on (CHR ''/'') rel). plain_element q) \<and>
    (\<forall>sid' pid' rel'. RecordingFilePath fs sid' pid' rel' = Inr path \<longrightarrow>
       sid' = sid \<and> pid' = pid \<and> rel' = rel)"
proof -
  let ?qs = "sid # pid # split_on (CHR ''/'') rel"
  note p = assms(1) [unfolded RecordingFilePath_Inr [OF assms(2)]]
  have plain: "\<forall>q\<in>set ?qs. plain_element q"
    using p by (auto simp: list_all_iff intro: safe_plain)
  have "clean_path path = path"
    using p assms(2) clean_path_under [of "fs_recordingsRoot fs" ?qs] plain by (simp add: root_ok_def)
  moreover have "join_on ''/'' ?qs = sid @ ''/'' @ pid @ ''/'' @ rel"
    by (simp add: join_on_Cons join_split del: join_on.simps(3))
  ultimately show ?thesis
    using p plain RecordingFilePath_inj [OF assms(2)] assms(1) by blast
qed

lemma recording_path_safe_witness:
  "RecordingFilePath \<lparr>fs_recordingsRoot = ''/rec'', fs_pipelinesRoot = ''/pipe''\<rparr> ''s1'' ''p1'' ''raw/a.iq''
     = Inr ''/rec/s1/p1/raw/a.iq'' \<and> clean_path ''/rec/s1/p1/raw/a.iq'' = ''/rec/s1/p1/raw/a.iq'' \<and>
   \<not> is_ok (RecordingFilePath \<lparr>fs_recordingsRoot = ''/rec'', fs_pipelinesRoot = ''/pipe''\<rparr> ''s1'' ''..'' ''x'')"
proof -
  let ?fs = "\<lparr>fs_recordingsRoot = ''/rec'', fs_pipelinesRoot = ''/pipe''\<rparr>"
  have path: "RecordingFilePath ?fs ''s1'' ''p1'' ''raw/a.iq'' = Inr ''/rec/s1/p1/raw/a.iq''" by code_simp
  have "root_ok (fs_recordingsRoot ?fs)" by code_simp
  from recording_path_safe [OF path this] have "clean_path ''/rec/s1/p1/raw/a.iq'' = ''/rec/s1/p1/raw/a.iq''"
    by blast
  moreover have "\<not> is_ok (RecordingFilePath ?fs ''s1'' ''..'' ''x'')" by code_simp
  ultimately show ?thesis using path by blast
qed

lemma RecordingsUsage_eq:
  "RecordingsUsage fs w = (case env_statfs (env w) (tick w) of
     None \<Rightarrow> Inl (ErrText ''statfs'') | Some s \<Rightarrow> Inr (usage_of (env_round (env w)) s), advance w)"
  by (simp add: RecordingsUsage_def attempt_def attempt_or_def external_def asks_def fail_def ret_def
      split: option.split)

lemma no_wrap:
  assumes "0 \<le> n" and "n < 2 ^ 63"
  shows "uint (word_of_int n + word_of_int ReserveBytes :: 64 word) = n + 2 ^ 30"
proof -
  have "uint (word_of_int n + word_of_int ReserveBytes :: 64 word) = (n + ReserveBytes) mod 2 ^ 64"
    by (simp only: uint_word_arith_bintrs(1) uint_word_of_int take_bit_eq_mod mod_add_eq
        wi_hom_add [symmetric]) simp
  also have "\<dots> = n + 2 ^ 30" using assms by (simp add: ReserveBytes_def)
  finally show ?thesis .
qed

text \<open>
  The check of the free space: for every size an int64 can hold the sum does not wrap,
  so a recording is let in exactly when it fits with a reserve of one gibibyte (a negative
  size counts as nothing), or when the file system cannot be measured.
\<close>

theorem space_check:
  assumes "sz < 2 ^ 63"
  shows "is_ok (fst (EnsureSpaceFor fs sz w)) \<longleftrightarrow>
    (case env_statfs (env w) (tick w) of
       None \<Rightarrow> True
     | Some (bavail, blocks, bsize) \<Rightarrow> max 0 sz + 2 ^ 30 \<le> uint (bavail * bsize))"
    (is "?ok \<longleftrightarrow> ?fits")
proof (cases "env_statfs (env w) (tick w)")
  case None
  then show ?thesis
    by (simp add: EnsureSpaceFor_def attempt_or_def RecordingsUsage_eq ret_def)
next
  case (Some stat)
  obtain bavail blocks bsize where stat: "stat = (bavail, blocks, bsize)" by (cases stat)
  have "max 0 sz = (if sz < 0 then 0 else sz)" by simp
  then have "uint (word_of_int (if sz < 0 then 0 else sz) + word_of_int ReserveBytes :: 64 word) = max 0 sz + 2 ^ 30"
    using no_wrap [of "max 0 sz"] assms by simp
  then have "bavail * bsize < word_of_int (if sz < 0 then 0 else sz) + word_of_int ReserveBytes
      \<longleftrightarrow> uint (bavail * bsize) < max 0 sz + 2 ^ 30"
    by (simp only: word_less_def)
  with Some stat show ?thesis
    by (auto simp: EnsureSpaceFor_def attempt_or_def RecordingsUsage_eq usage_of_def Let_def ret_def fail_def
        simp del: max.absorb1 max.absorb2 max.absorb3 max.absorb4)
qed

lemma space_check_witness:
  "is_ok (fst (EnsureSpaceFor \<lparr>fs_recordingsRoot = ''/rec'', fs_pipelinesRoot = ''/pipe''\<rparr> (2 ^ 31) sample_world)) \<and>
   \<not> is_ok (fst (EnsureSpaceFor \<lparr>fs_recordingsRoot = ''/rec'', fs_pipelinesRoot = ''/pipe''\<rparr> (2 ^ 40) sample_world))"
  using space_check [of "2 ^ 31" _ sample_world] space_check [of "2 ^ 40" _ sample_world]
  by (simp add: sample_world_def world_with_def sample_env_def)

end
