(* ===== verification/Tle.thy ===== *)
theory Tle
  imports Database Go_Text
begin

text \<open>
  \<open>internal/tle\<close>: two-line element sets, how they are parsed and checked, the two providers and
  the chain that asks one after the other.  An HTTP exchange and the decoding of JSON are
  parameters.  A function that can panic returns an option, with None for the panic.
\<close>

section \<open>Spaces and integers\<close>

text \<open>The white space of \<open>strings.TrimSpace\<close>, as UTF-8 sequences of the Unicode property.\<close>

definition space_sequences :: "string list" where
  "space_sequences =
     [[CHR 0x20], [CHR 0x09], [CHR 0x0A], [CHR 0x0B], [CHR 0x0C], [CHR 0x0D],
      [CHR 0xC2, CHR 0x85], [CHR 0xC2, CHR 0xA0], [CHR 0xE1, CHR 0x9A, CHR 0x80],
      [CHR 0xE2, CHR 0x80, CHR 0x80], [CHR 0xE2, CHR 0x80, CHR 0x81],
      [CHR 0xE2, CHR 0x80, CHR 0x82], [CHR 0xE2, CHR 0x80, CHR 0x83],
      [CHR 0xE2, CHR 0x80, CHR 0x84], [CHR 0xE2, CHR 0x80, CHR 0x85],
      [CHR 0xE2, CHR 0x80, CHR 0x86], [CHR 0xE2, CHR 0x80, CHR 0x87],
      [CHR 0xE2, CHR 0x80, CHR 0x88], [CHR 0xE2, CHR 0x80, CHR 0x89],
      [CHR 0xE2, CHR 0x80, CHR 0x8A], [CHR 0xE2, CHR 0x80, CHR 0xA8],
      [CHR 0xE2, CHR 0x80, CHR 0xA9], [CHR 0xE2, CHR 0x80, CHR 0xAF],
      [CHR 0xE2, CHR 0x81, CHR 0x9F], [CHR 0xE3, CHR 0x80, CHR 0x80]]"

fun trim_left_n :: "nat \<Rightarrow> string \<Rightarrow> string" where
  "trim_left_n 0 s = s"
| "trim_left_n (Suc n) s =
     (case find (has_prefix s) space_sequences of
        None \<Rightarrow> s | Some p \<Rightarrow> trim_left_n n (drop (length p) s))"

fun trim_right_n :: "nat \<Rightarrow> string \<Rightarrow> string" where
  "trim_right_n 0 s = s"
| "trim_right_n (Suc n) s =
     (case find (has_suffix s) space_sequences of
        None \<Rightarrow> s | Some p \<Rightarrow> trim_right_n n (take (length s - length p) s))"

text \<open>No more than one sequence per byte can be removed.\<close>

definition TrimSpace :: "string \<Rightarrow> string" where
  "TrimSpace s = trim_right_n (length s) (trim_left_n (length s) s)"

definition TrimRight :: "string \<Rightarrow> string \<Rightarrow> string" where
  "TrimRight s cutset = rev (dropWhile (\<lambda>c. c \<in> set cutset) (rev s))"

text \<open>\<open>strconv.Atoi\<close>: an optional sign and decimal digits, within 64 bits.\<close>

definition Atoi :: "string \<Rightarrow> int option" where
  "Atoi s =
     (let ds = (if take 1 s = ''-'' \<or> take 1 s = ''+'' then drop 1 s else s);
          v = (if take 1 s = ''-'' then - digits_value ds else digits_value ds)
      in if ds = '''' \<or> \<not> list_all is_digit ds \<or> v < - (2 ^ 63) \<or> 2 ^ 63 \<le> v then None else Some v)"

section \<open>strconv.ParseFloat\<close>

datatype parsed_float = FNum rat | FInf bool | FNaN

definition to_lower :: "string \<Rightarrow> string" where
  "to_lower = map (\<lambda>c. let n = (of_char c :: nat) in if 65 \<le> n \<and> n \<le> 90 then char_of (n + 32) else c)"

text \<open>
  The exponent and the value of a decimal number; numbers that round to an infinity are out
  of range.
\<close>

definition scale_decimal :: "int \<Rightarrow> int \<Rightarrow> rat" where
  "scale_decimal m k = (if 0 \<le> k then of_int m * 10 ^ nat k else of_int m / 10 ^ nat (- k))"

definition parse_decimal :: "(rat \<Rightarrow> float64) \<Rightarrow> bool \<Rightarrow> string \<Rightarrow> parsed_float option" where
  "parse_decimal rnd neg s =
     (let whole = takeWhile is_digit s; r1 = dropWhile is_digit s;
          frac = (if take 1 r1 = ''.'' then takeWhile is_digit (drop 1 r1) else '''');
          r2 = (if take 1 r1 = ''.'' then dropWhile is_digit (drop 1 r1) else r1);
          expo = (if r2 = '''' then Some 0 else if take 1 r2 = ''e'' then Atoi (drop 1 r2) else None)
      in if whole @ frac = '''' then None
         else case expo of
           None \<Rightarrow> None
         | Some k \<Rightarrow>
             let x = scale_decimal (digits_value (whole @ frac)) (k - int (length frac))
             in if 2 ^ 1024 - 2 ^ 970 \<le> x then None
                else Some (FNum (rnd (if neg then - x else x))))"

text \<open>Underscores may stand between two digits; \<open>prev\<close> is the class of the character before.\<close>

fun underscore_ok :: "char \<Rightarrow> string \<Rightarrow> bool" where
  "underscore_ok prev [] \<longleftrightarrow> prev \<noteq> CHR ''_''"
| "underscore_ok prev (c # cs) \<longleftrightarrow>
     (if is_digit c then underscore_ok (CHR ''0'') cs
      else if c = CHR ''_'' then prev = CHR ''0'' \<and> underscore_ok (CHR ''_'') cs
      else prev \<noteq> CHR ''_'' \<and> underscore_ok (CHR ''!'') cs)"

text \<open>The hexadecimal form \<open>0x..p..\<close> is left to the parameter \<open>hex\<close>.\<close>

definition ParseFloat ::
  "(string \<Rightarrow> parsed_float option) \<Rightarrow> (rat \<Rightarrow> float64) \<Rightarrow> string \<Rightarrow> parsed_float option" where
  "ParseFloat hex rnd s =
     (let neg = (take 1 s = ''-''); t = to_lower (if neg \<or> take 1 s = ''+'' then drop 1 s else s)
      in if t = ''inf'' \<or> t = ''infinity'' then Some (FInf neg)
         else if to_lower s = ''nan'' then Some FNaN
         else if take 2 t = ''0x'' then hex s
         else if CHR ''_'' \<in> set t
         then if underscore_ok (CHR ''^'') t then parse_decimal rnd neg (filter (\<lambda>c. c \<noteq> CHR ''_'') t) else None
         else parse_decimal rnd neg t)"

section \<open>Lines\<close>

definition lineLength :: nat where "lineLength = 69"
definition minLineLength :: nat where "minLineLength = 68"

definition malformed :: "string \<Rightarrow> err" where
  "malformed msg = ErrWrap msg (Err ErrMalformed)"

fun checksum_sum :: "string \<Rightarrow> int" where
  "checksum_sum [] = 0"
| "checksum_sum (c # cs) =
     (if is_digit c then (of_char c - 48) + checksum_sum cs
      else if c = CHR ''-'' then 1 + checksum_sum cs
      else checksum_sum cs)"

definition Checksum :: "string \<Rightarrow> int" where
  "Checksum body = checksum_sum body mod 10"

definition ValidateLine :: "string \<Rightarrow> char \<Rightarrow> err + unit" where
  "ValidateLine line want =
     (if length line < minLineLength \<or> lineLength < length line then Inl (malformed ''length'')
      else if line ! 0 \<noteq> want then Inl (malformed ''starts with'')
      else if line ! 1 \<noteq> CHR '' '' then Inl (malformed ''missing separator after line number'')
      else
        (case Atoi [line ! (length line - 1)] of
           None \<Rightarrow> Inl (malformed ''checksum is not a digit'')
         | Some expected \<Rightarrow>
             if Checksum (take (length line - 1) line) \<noteq> expected
             then Inl (ErrWrap '''' (Err ErrChecksum)) else Inr ()))"

definition catalogNumber :: "string \<Rightarrow> err + int" where
  "catalogNumber line =
     (case Atoi (TrimSpace (take 5 (drop 2 line))) of
        None \<Rightarrow> Inl (malformed ''bad catalog number'')
      | Some v \<Rightarrow> if v \<le> 0 then Inl (malformed ''bad catalog number'') else Inr v)"

section \<open>The epoch\<close>

text \<open>\<open>time.Date(year, January, 1, 0, 0, 0, 0, UTC)\<close> in the proleptic Gregorian calendar.\<close>

definition new_year :: "int \<Rightarrow> time" where
  "new_year y =
     (365 * (y - 1970) + (y - 1969) div 4 - (y - 1901) div 100 + (y - 1601) div 400) * (24 * hour)"

text \<open>
  The conversion of a float64 product to a Duration; for a NaN the processor's answer is
  that of the environment at 0, for an infinity at 1 or -1, where it is not asked otherwise.
\<close>

fun day_offset :: "env \<Rightarrow> parsed_float \<Rightarrow> duration" where
  "day_offset e (FNum day) =
     float_to_int64 e (env_round e (env_round e (day - 1) * of_int (24 * hour)))"
| "day_offset e (FInf neg) = sint (word_of_int (env_overflow e 64 (if neg then - 1 else 1)) :: 64 word)"
| "day_offset e FNaN = sint (word_of_int (env_overflow e 64 0) :: 64 word)"

fun less_than_one :: "parsed_float \<Rightarrow> bool" where
  "less_than_one (FNum x) \<longleftrightarrow> x < 1"
| "less_than_one (FInf neg) \<longleftrightarrow> neg"
| "less_than_one FNaN \<longleftrightarrow> False"

type_synonym hex_parser = "string \<Rightarrow> parsed_float option"

definition ParseEpoch :: "hex_parser \<Rightarrow> env \<Rightarrow> string \<Rightarrow> (err + time) option" where
  "ParseEpoch hex e line1 =
     (if length line1 < 32 then Some (Inl (malformed ''line 1 too short for an epoch''))
      else
        let field = TrimSpace (take 14 (drop 18 line1))
        in if length field < 2 then None
           else case Atoi (take 2 field) of
             None \<Rightarrow> Some (Inl (malformed ''bad epoch year''))
           | Some yy \<Rightarrow>
               let year = (if yy < 57 then yy + 2000 else yy + 1900)
               in case ParseFloat hex (env_round e) (drop 2 field) of
                    None \<Rightarrow> Some (Inl (malformed ''bad epoch day''))
                  | Some day \<Rightarrow>
                      if less_than_one day then Some (Inl (malformed ''bad epoch day''))
                      else Some (Inr (time_add (new_year year) (day_offset e day))))"

section \<open>Element sets\<close>

record tle_set =
  ts_Name :: string
  ts_NoradID :: int
  ts_Line1 :: string
  ts_Line2 :: string
  ts_Epoch :: time

definition newSet :: "hex_parser \<Rightarrow> env \<Rightarrow> string \<Rightarrow> string \<Rightarrow> string \<Rightarrow> (err + tle_set) option" where
  "newSet hex e name line1 line2 =
     (case ValidateLine line1 (CHR ''1'') of
        Inl err \<Rightarrow> Some (Inl (ErrWrap ''line 1'' err))
      | Inr _ \<Rightarrow>
     (case ValidateLine line2 (CHR ''2'') of
        Inl err \<Rightarrow> Some (Inl (ErrWrap ''line 2'' err))
      | Inr _ \<Rightarrow>
     (case catalogNumber line1 of
        Inl err \<Rightarrow> Some (Inl err)
      | Inr noradID \<Rightarrow>
     (case catalogNumber line2 of
        Inl err \<Rightarrow> Some (Inl err)
      | Inr secondID \<Rightarrow>
      if noradID \<noteq> secondID then Some (Inl (malformed ''catalog numbers differ''))
      else
     (case ParseEpoch hex e line1 of
        None \<Rightarrow> None
      | Some (Inl err) \<Rightarrow> Some (Inl err)
      | Some (Inr epoch) \<Rightarrow>
          Some (Inr \<lparr>ts_Name = TrimSpace name, ts_NoradID = noradID, ts_Line1 = line1,
                     ts_Line2 = line2, ts_Epoch = epoch\<rparr>))))))"

definition text_lines :: "string \<Rightarrow> string list" where
  "text_lines text =
     filter (\<lambda>l. l \<noteq> '''') (map (\<lambda>raw. TrimRight raw [CHR '' '', CHR 0x09, CHR 0x0D])
       (split_on (CHR 0x0A) text))"

definition Parse :: "hex_parser \<Rightarrow> env \<Rightarrow> string \<Rightarrow> (err + tle_set) option" where
  "Parse hex e text =
     (case text_lines text of
        [l1, l2] \<Rightarrow> newSet hex e '''' l1 l2
      | [l0, l1, l2] \<Rightarrow> newSet hex e (trim_prefix l0 ''0 '') l1 l2
      | _ \<Rightarrow> Some (Inl (malformed ''expected 2 or 3 lines'')))"

definition Age :: "tle_set \<Rightarrow> time \<Rightarrow> duration" where
  "Age s now = time_sub now (ts_Epoch s)"

definition SameElements :: "tle_set \<Rightarrow> tle_set \<Rightarrow> bool" where
  "SameElements s t \<longleftrightarrow> ts_Line1 s = ts_Line1 t \<and> ts_Line2 s = ts_Line2 t"

section \<open>Providers\<close>

text \<open>
  The answer to a request: no response, or a status with the body, which may break off while
  it is read.  The body is read up to a limit.
\<close>

datatype http_reply = NoResponse | HttpReply int "bytes option"

definition maxResponseBytes :: nat where "maxResponseBytes = 2 ^ 20"

definition read_limited :: "bytes option \<Rightarrow> bytes option" where
  "read_limited body = map_option (take maxResponseBytes) body"

fun contains :: "string \<Rightarrow> string \<Rightarrow> bool" where
  "contains [] p \<longleftrightarrow> p = ''''"
| "contains (c # cs) p \<longleftrightarrow> has_prefix (c # cs) p \<or> contains cs p"

definition check_number :: "string \<Rightarrow> int \<Rightarrow> (err + tle_set) option \<Rightarrow> (err + tle_set) option" where
  "check_number msg noradID parsed =
     (case parsed of
        Some (Inl e) \<Rightarrow> Some (Inl (ErrWrap msg e))
      | Some (Inr t) \<Rightarrow>
          if ts_NoradID t \<noteq> noradID then Some (Inl (ErrText ''returned another catalog number'')) else parsed
      | None \<Rightarrow> None)"

definition Celestrak_Fetch ::
  "hex_parser \<Rightarrow> env \<Rightarrow> http_reply \<Rightarrow> int \<Rightarrow> (err + tle_set) option" where
  "Celestrak_Fetch hex e reply noradID =
     (case reply of
        NoResponse \<Rightarrow> Some (Inl (ErrText ''celestrak fetch''))
      | HttpReply status body \<Rightarrow>
     (case read_limited body of
        None \<Rightarrow> Some (Inl (ErrText ''celestrak read''))
      | Some text \<Rightarrow>
          if status = 404 then Some (Inl (ErrWrap ''celestrak has no entry'' (Err ErrTLENotFound)))
          else if status \<noteq> 200 then Some (Inl (ErrText ''celestrak returned status''))
          else if contains text ''No GP data found''
          then Some (Inl (ErrWrap ''celestrak has no entry'' (Err ErrTLENotFound)))
          else check_number ''celestrak response'' noradID (Parse hex e text)))"

record satnogs_tle =
  sn_Title :: string
  sn_Line1 :: string
  sn_Line2 :: string

definition SatNOGS_Fetch ::
  "hex_parser \<Rightarrow> env \<Rightarrow> (bytes \<Rightarrow> satnogs_tle list option) \<Rightarrow> http_reply \<Rightarrow> int \<Rightarrow>
   (err + tle_set) option" where
  "SatNOGS_Fetch hex e unmarshal reply noradID =
     (case reply of
        NoResponse \<Rightarrow> Some (Inl (ErrText ''satnogs fetch''))
      | HttpReply status body \<Rightarrow>
          if status \<noteq> 200 then Some (Inl (ErrText ''satnogs returned status''))
          else
     (case read_limited body of
        None \<Rightarrow> Some (Inl (ErrText ''satnogs read''))
      | Some text \<Rightarrow>
     (case unmarshal text of
        None \<Rightarrow> Some (Inl (ErrText ''satnogs response''))
      | Some [] \<Rightarrow> Some (Inl (ErrWrap ''satnogs has no entry'' (Err ErrTLENotFound)))
      | Some (entry # _) \<Rightarrow>
          check_number ''satnogs response'' noradID
            (Parse hex e (sn_Title entry @ [CHR 0x0A] @ sn_Line1 entry @ [CHR 0x0A] @ sn_Line2 entry)))))"

record tle_metadata =
  me_Name :: string
  me_AltNames :: string
  me_Status :: string
  me_Website :: string
  me_Operator :: string
  me_Countries :: string
  me_LaunchedAt :: string
  me_ImagePath :: string
  me_SatNOGSID :: string

definition FetchMetadata ::
  "(bytes \<Rightarrow> tle_metadata list option) \<Rightarrow> http_reply \<Rightarrow> err + tle_metadata" where
  "FetchMetadata unmarshal reply =
     (case reply of
        NoResponse \<Rightarrow> Inl (ErrText ''satnogs metadata fetch'')
      | HttpReply status body \<Rightarrow>
          if status \<noteq> 200 then Inl (ErrText ''satnogs metadata returned status'')
          else
     (case read_limited body of
        None \<Rightarrow> Inl (ErrText ''satnogs metadata read'')
      | Some text \<Rightarrow>
     (case unmarshal text of
        None \<Rightarrow> Inl (ErrText ''satnogs metadata response'')
      | Some [] \<Rightarrow> Inl (ErrWrap ''satnogs has no metadata'' (Err ErrTLENotFound))
      | Some (m # _) \<Rightarrow> Inr m)))"

definition AsMap :: "tle_metadata \<Rightarrow> any_map" where
  "AsMap m =
     (''source'', VString ''satnogs'') #
     map (\<lambda>(k, v). (k, VString v)) (filter (\<lambda>(k, v). v \<noteq> '''')
       [(''name'', me_Name m), (''alt_names'', me_AltNames m), (''status'', me_Status m),
        (''website'', me_Website m), (''operator'', me_Operator m), (''countries'', me_Countries m),
        (''launched'', me_LaunchedAt m), (''image'', me_ImagePath m), (''satnogs_id'', me_SatNOGSID m)])"

section \<open>The chain\<close>

text \<open>
  The interface \<open>Provider\<close>.  A provider answers with an element set or an error; one that
  panics takes the process down and has no outcome here.
\<close>

record tle_provider =
  pv_Name :: tle_source
  pv_Fetch :: "nat \<Rightarrow> int \<Rightarrow> err + tle_set"

fun chain_from :: "tle_provider list \<Rightarrow> err \<Rightarrow> int \<Rightarrow> (tle_set \<times> tle_source) repo" where
  "chain_from [] lastErr noradID = fail lastErr"
| "chain_from (p # ps) lastErr noradID =
     attempt ctx_cancelled (\<lambda>cancelled.
     if cancelled then fail ErrContext
     else attempt_or (external (\<lambda>n. pv_Fetch p n noradID)) (\<lambda>e. chain_from ps e noradID)
            (\<lambda>t. ret (t, pv_Name p)))"

definition chain_Fetch :: "tle_provider list \<Rightarrow> int \<Rightarrow> (tle_set \<times> tle_source) repo" where
  "chain_Fetch providers noradID =
     (if providers = [] then fail (ErrText ''no TLE providers configured'')
      else chain_from providers ErrContext noradID)"

context guarantee begin

lemma chain_from [guar_intro]: "guar G (chain_from ps e noradID)"
  by (induction ps arbitrary: e) (auto intro!: fail attempt ctx_cancelled if_guar attempt_or external ret)

lemma chain_Fetch [guar_intro]: "guar G (chain_Fetch ps noradID)"
  by (simp add: chain_Fetch_def fail chain_from)

end

end
