(* ===== verification/Catalog.thy ===== *)
theory Catalog
  imports Tle Store_Invariants
begin

text \<open>
  \<open>internal/catalog\<close>: adding a satellite with its metadata and first elements, refreshing the
  elements from the providers, and the loop that does so every hour.
\<close>

section \<open>The service\<close>

record catalog_service =
  cs_chain :: "tle_provider list"
  cs_metadata :: "(nat \<Rightarrow> int \<Rightarrow> err + tle_metadata) option"

definition RefreshInterval :: duration where "RefreshInterval = 24 * hour"
definition checkInterval :: duration where "checkInterval = hour"

record refresh_outcome =
  ro_NoradID :: int
  ro_Updated :: bool
  ro_Source :: tle_source
  ro_UsedLastKnownGood :: bool
  ro_Epoch :: time
  ro_Err :: "err option"

definition zero_outcome :: "int \<Rightarrow> refresh_outcome" where
  "zero_outcome noradID =
     \<lparr>ro_NoradID = noradID, ro_Updated = False, ro_Source = SourceOther '''',
      ro_UsedLastKnownGood = False, ro_Epoch = zero_time, ro_Err = None\<rparr>"

definition storeTLE :: "uuid \<Rightarrow> tle_set \<Rightarrow> tle_source \<Rightarrow> bool repo" where
  "storeTLE satelliteID tset source =
     attempt_or
       (CreateTLERecord \<lparr>tle_ID = 0, tle_SatelliteID = satelliteID, tle_Line1 = ts_Line1 tset,
          tle_Line2 = ts_Line2 tset, tle_Epoch = ts_Epoch tset, tle_Source = source,
          tle_FetchedAt = 0\<rparr>)
       (\<lambda>e. if errors_is e ErrDuplicate then ret False else fail e)
       (\<lambda>_. ret True)"

section \<open>Adding a satellite\<close>

definition fetch_metadata :: "catalog_service \<Rightarrow> int \<Rightarrow> string \<Rightarrow> (any_map \<times> string) repo" where
  "fetch_metadata cs noradID name =
     (case cs_metadata cs of
        None \<Rightarrow> ret ([], name)
      | Some fetch \<Rightarrow>
          attempt_or (external (\<lambda>n. fetch n noradID)) (\<lambda>_. ret ([], name))
            (\<lambda>fetched. ret (AsMap fetched, if name = '''' then me_Name fetched else name)))"

definition satellite_name :: "int \<Rightarrow> string \<Rightarrow> tle_set \<Rightarrow> string" where
  "satellite_name noradID name tset =
     (let name2 = (if name = '''' then ts_Name tset else name)
      in if name2 = '''' then ''NORAD '' @ decimal noradID else name2)"

definition AddSatellite :: "catalog_service \<Rightarrow> int \<Rightarrow> string \<Rightarrow> satellite repo" where
  "AddSatellite cs noradID name =
     (if noradID \<le> 0 then fail (ErrText ''norad id must be positive'')
      else
      attempt_or (GetSatelliteByNoradID noradID)
        (\<lambda>e. if \<not> errors_is e ErrNotFound then fail e
             else
      attempt (fetch_metadata cs noradID name) (\<lambda>(metadata, name').
      attempt_or (chain_Fetch (cs_chain cs) noradID)
        (\<lambda>_. fail (ErrWrap '''' (Err ErrNoOrbitalData)))
        (\<lambda>(tset, source).
      attempt (CreateSatellite
          \<lparr>sat_ID = 0, sat_NoradID = noradID, sat_Name = satellite_name noradID name' tset,
           sat_Description = '''', sat_Metadata = metadata, sat_IsSchedulable = True,
           sat_CreatedAt = 0, sat_UpdatedAt = 0\<rparr>) (\<lambda>satellite.
      attempt (storeTLE (sat_ID satellite) tset source) (\<lambda>_. ret satellite)))))
        (\<lambda>_. fail (Err ErrAlreadyExists)))"

section \<open>Refreshing\<close>

definition Refresh :: "catalog_service \<Rightarrow> satellite \<Rightarrow> refresh_outcome repo" where
  "Refresh cs satellite =
     (let outcome = zero_outcome (sat_NoradID satellite) in
      attempt_or (chain_Fetch (cs_chain cs) (sat_NoradID satellite))
        (\<lambda>_. attempt_or (LatestTLERecord (sat_ID satellite))
             (\<lambda>_. ret (outcome\<lparr>ro_Err := Some (ErrWrap '''' (Err ErrNoOrbitalData))\<rparr>))
             (\<lambda>existing. ret (outcome\<lparr>ro_UsedLastKnownGood := True, ro_Epoch := tle_Epoch existing\<rparr>)))
        (\<lambda>(tset, source).
           attempt_or (storeTLE (sat_ID satellite) tset source)
             (\<lambda>e. ret (outcome\<lparr>ro_Err := Some e\<rparr>))
             (\<lambda>stored. ret (outcome\<lparr>ro_Updated := stored, ro_Source := source, ro_Epoch := ts_Epoch tset\<rparr>))))"

definition needsRefresh :: "satellite \<Rightarrow> bool repo" where
  "needsRefresh satellite =
     attempt_or (LatestTLERecord (sat_ID satellite)) (\<lambda>_. ret True) (\<lambda>record.
     attempt clock_now (\<lambda>now. ret (RefreshInterval \<le> time_sub now (tle_FetchedAt record))))"

text \<open>The loop stops where the context is cancelled.\<close>

fun refresh_each :: "catalog_service \<Rightarrow> bool \<Rightarrow> satellite list \<Rightarrow> refresh_outcome list repo" where
  "refresh_each cs force [] = ret []"
| "refresh_each cs force (satellite # rest) =
     attempt ctx_cancelled (\<lambda>cancelled.
     if cancelled then ret []
     else attempt (if force then ret True else needsRefresh satellite) (\<lambda>due.
       if \<not> due then refresh_each cs force rest
       else attempt (Refresh cs satellite) (\<lambda>outcome.
            attempt (refresh_each cs force rest) (\<lambda>outcomes. ret (outcome # outcomes)))))"

definition RefreshAll :: "catalog_service \<Rightarrow> bool \<Rightarrow> refresh_outcome list repo" where
  "RefreshAll cs force = attempt_or ListSatellites (\<lambda>_. ret []) (refresh_each cs force)"

definition CurrentTLE :: "uuid \<Rightarrow> tle_record repo" where
  "CurrentTLE satelliteID = LatestTLERecord satelliteID"

definition RefreshMetadata :: "catalog_service \<Rightarrow> satellite \<Rightarrow> any_map repo" where
  "RefreshMetadata cs satellite =
     (case cs_metadata cs of
        None \<Rightarrow> fail (ErrText ''no metadata provider configured'')
      | Some fetch \<Rightarrow>
          attempt (wrapping ''metadata unavailable'' (external (\<lambda>n. fetch n (sat_NoradID satellite))))
            (\<lambda>fetched.
          attempt (SetSatelliteMetadata (sat_ID satellite) (AsMap fetched)) (\<lambda>_. ret (AsMap fetched))))"

section \<open>The refresh loop\<close>

text \<open>The counts that a sweep logs: updated, kept, failed.\<close>

fun sweep_counts :: "refresh_outcome list \<Rightarrow> nat \<times> nat \<times> nat" where
  "sweep_counts [] = (0, 0, 0)"
| "sweep_counts (outcome # rest) =
     (case sweep_counts rest of (updated, kept, failed) \<Rightarrow>
        if ro_Err outcome \<noteq> None then (updated, kept, failed + 1)
        else if ro_UsedLastKnownGood outcome then (updated, kept + 1, failed)
        else if ro_Updated outcome then (updated + 1, kept, failed)
        else (updated, kept, failed))"

definition sweep :: "catalog_service \<Rightarrow> (nat \<times> nat \<times> nat) repo" where
  "sweep cs = attempt (RefreshAll cs False) (\<lambda>outcomes. ret (sweep_counts outcomes))"

datatype refresh_event = RefreshTick | RefreshDone

fun refresh_ticks :: "catalog_service \<Rightarrow> refresh_event list \<Rightarrow> unit repo" where
  "refresh_ticks cs [] = ret ()"
| "refresh_ticks cs (RefreshDone # _) = ret ()"
| "refresh_ticks cs (RefreshTick # events) = attempt (sweep cs) (\<lambda>_. refresh_ticks cs events)"

definition RunRefreshLoop :: "catalog_service \<Rightarrow> refresh_event list \<Rightarrow> unit repo" where
  "RunRefreshLoop cs events = attempt (sweep cs) (\<lambda>_. refresh_ticks cs events)"

section \<open>Effects\<close>

text \<open>A refresh only ever stores elements; the rules ask for no more than that.\<close>

context guarantee begin

lemma storeTLE_if: "(\<And>t. guar G (CreateTLERecord t)) \<Longrightarrow> guar G (storeTLE sid tset source)"
  unfolding storeTLE_def by (intro attempt_or if_guar ret fail)

lemma Refresh_if: "(\<And>t. guar G (CreateTLERecord t)) \<Longrightarrow> guar G (Refresh cs satellite)"
  unfolding Refresh_def Let_def
  by (intro attempt_or chain_Fetch reads ret case_prod_guar storeTLE_if)

lemma needsRefresh [guar_intro]: "guar G (needsRefresh satellite)"
  unfolding needsRefresh_def by (intro attempt_or attempt reads ret clock_now)

lemma refresh_each_if:
  "(\<And>t. guar G (CreateTLERecord t)) \<Longrightarrow> guar G (refresh_each cs force sats)"
  by (induction sats) (auto intro!: ret attempt ctx_cancelled if_guar needsRefresh Refresh_if)

lemma RunRefreshLoop_if:
  assumes "\<And>t. guar G (CreateTLERecord t)" and "guar G ListSatellites"
  shows "guar G (RefreshAll cs force)" and "guar G (RunRefreshLoop cs events)"
proof -
  show *: "guar G (RefreshAll cs force)" for cs force
    unfolding RefreshAll_def by (intro attempt_or assms ret refresh_each_if)
  have s: "guar G (sweep cs)" for cs unfolding sweep_def by (intro attempt * ret)
  have "guar G (refresh_ticks cs events)" for events
    by (induction cs events rule: refresh_ticks.induct) (simp_all add: ret attempt s)
  then show "guar G (RunRefreshLoop cs events)" unfolding RunRefreshLoop_def by (intro attempt s)
qed

end

context server_guarantee begin

lemma Refresh [guar_intro]: "guar G (Refresh cs satellite)"
  by (rule Refresh_if) (rule catalog_methods)

lemma refresh_loop [guar_intro]: "guar G (RefreshAll cs force)" "guar G (RunRefreshLoop cs events)"
  by (rule RunRefreshLoop_if; rule catalog_methods)+

lemma AddSatellite [guar_intro]: "guar G (AddSatellite cs noradID name)"
  unfolding AddSatellite_def fetch_metadata_def
  by (intro if_guar fail attempt_or attempt catalog_methods case_option_guar ret external
      case_prod_guar chain_Fetch storeTLE_if)

lemma RefreshMetadata [guar_intro]: "guar G (RefreshMetadata cs satellite)"
  unfolding RefreshMetadata_def
  by (intro case_option_guar fail attempt wrapping external catalog_methods ret)

end

end
