(* ===== verification/Catalog_Props.thy ===== *)
theory Catalog_Props
  imports Catalog Outcomes Sample
begin

text \<open>
  The check digit of an element line, what the parser accepts, and the promise of the
  catalogue: elements come from the first provider that answers, a failed refresh keeps the
  last known good ones, and the elements in use never become older.
\<close>

section \<open>The check digit\<close>

definition weight :: "char \<Rightarrow> int" where
  "weight c = (if is_digit c then of_char c - 48 else if c = CHR ''-'' then 1 else 0)"

lemma checksum_sum_weight: "checksum_sum (c # cs) = weight c + checksum_sum cs"
  by (simp add: weight_def)

lemma checksum_update:
  "i < length s \<Longrightarrow> checksum_sum (s[i := c]) = checksum_sum s - weight (s ! i) + weight c"
proof (induction s arbitrary: i)
  case (Cons x s)
  then show ?case by (cases i) (simp_all add: checksum_sum_weight del: checksum_sum.simps(2))
qed simp

lemma is_digit_bounds: "is_digit c \<Longrightarrow> 48 \<le> (of_char c :: int) \<and> (of_char c :: int) \<le> 57"
proof -
  assume "is_digit c"
  then have "48 \<le> (of_char c :: nat)" "(of_char c :: nat) \<le> 57" by (simp_all add: is_digit_def)
  moreover have "(of_char c :: int) = int (of_char c)" by (simp add: of_nat_of_char)
  ultimately show ?thesis by simp
qed

lemma weight_digit: "is_digit c \<Longrightarrow> weight c = of_char c - 48 \<and> 0 \<le> weight c \<and> weight c \<le> 9"
  using is_digit_bounds [of c] by (simp add: weight_def)

lemma weight_inj: "is_digit c \<Longrightarrow> is_digit d \<Longrightarrow> weight c = weight d \<Longrightarrow> c = d"
  by (simp add: weight_def)

lemma Atoi_char: "Atoi [c] = (if is_digit c then Some (weight c) else None)"
proof (cases "is_digit c")
  case True
  then have "c \<noteq> CHR ''-''" "c \<noteq> CHR ''+''" by (auto simp: is_digit_def)
  with True is_digit_bounds [OF True] show ?thesis
    by (simp add: Atoi_def Let_def digits_value_def weight_def)
qed (auto simp: Atoi_def Let_def)

lemma ValidateLine_ok:
  "ValidateLine line want = Inr () \<longleftrightarrow>
     68 \<le> length line \<and> length line \<le> 69 \<and> line ! 0 = want \<and> line ! 1 = CHR '' '' \<and>
     is_digit (line ! (length line - 1)) \<and>
     Checksum (take (length line - 1) line) = weight (line ! (length line - 1))"
  by (auto simp: ValidateLine_def minLineLength_def lineLength_def Atoi_char)

lemma mod_10_differ:
  fixes a b :: int
  assumes "0 \<le> a" "a \<le> 9" "0 \<le> b" "b \<le> 9" "a \<noteq> b"
  shows "(s - a + b) mod 10 \<noteq> s mod 10"
proof
  assume "(s - a + b) mod 10 = s mod 10"
  then have "10 dvd (s - a + b) - s" by (simp add: mod_eq_dvd_iff)
  then have "10 dvd b - a" by (simp add: algebra_simps)
  with assms show False by presburger
qed

text \<open>
  C32.  The check digit finds every wrong digit: when a single digit of a valid line is
  replaced by another digit, be it the check digit itself, the line is refused with a
  checksum error.
\<close>

theorem wrong_digit_is_found:
  assumes "ValidateLine line want = Inr ()" and "2 \<le> i" and "i < length line"
    and "is_digit (line ! i)" and "is_digit c" and "c \<noteq> line ! i"
  shows "ValidateLine (line[i := c]) want = Inl (ErrWrap '''' (Err ErrChecksum))"
proof -
  let ?n = "length line - 1" and ?new = "line[i := c]"
  note ok = assms(1) [unfolded ValidateLine_ok]
  have differ: "weight c \<noteq> weight (line ! i)" using weight_inj assms(4-6) by blast
  have shape: "\<not> (length ?new < minLineLength \<or> lineLength < length ?new)" "?new ! 0 = want" "?new ! 1 = CHR '' ''"
    using ok assms(2) by (simp_all add: minLineLength_def lineLength_def)
  have last: "is_digit (?new ! ?n)" and n: "?n < length line" using ok assms(3,5) by (auto simp: nth_list_update)
  have "Checksum (take ?n ?new) \<noteq> weight (?new ! ?n)"
  proof (cases "i = ?n")
    case True
    then show ?thesis using ok n differ by simp
  next
    case False
    with assms(3) have i: "i < ?n" by simp
    then have "Checksum (take ?n ?new) = (checksum_sum (take ?n line) - weight (line ! i) + weight c) mod 10"
      by (simp add: Checksum_def take_update_swap checksum_update)
    also have "\<dots> \<noteq> Checksum (take ?n line)"
      unfolding Checksum_def using weight_digit [OF assms(4)] weight_digit [OF assms(5)] differ
      by (intro mod_10_differ) auto
    finally show ?thesis using ok False by simp
  qed
  with shape last show ?thesis by (simp add: ValidateLine_def Atoi_char)
qed

definition no_hex :: hex_parser where "no_hex s = None"

definition iss1 :: string where
  "iss1 = ''1 25544U 98067A   24001.50000000  .00016717  00000-0  10270-3 0  9009''"

definition iss2 :: string where
  "iss2 = ''2 25544  51.6400 208.9163 0006703  69.9862  25.2906 15.49560000 12347''"

lemma iss1_valid: "ValidateLine iss1 (CHR ''1'') = Inr ()"
  by code_simp




lemma wrong_digit_is_found_witness:
  "ValidateLine iss1 (CHR ''1'') = Inr () \<and>
   ValidateLine (iss1[20 := CHR ''9'']) (CHR ''1'') = Inl (ErrWrap '''' (Err ErrChecksum))"
proof -
  note ok = iss1_valid
  have "ValidateLine (iss1[20 := CHR ''9'']) (CHR ''1'') = Inl (ErrWrap '''' (Err ErrChecksum))"
    by (rule wrong_digit_is_found [OF ok]) (code_simp | simp add: iss1_def is_digit_def)+
  with ok show ?thesis by blast
qed

section \<open>What the parser accepts\<close>








text \<open>
  A line that is valid but has nothing in the columns of the epoch makes the parser panic,
  as it cuts two bytes off an empty field.
\<close>

definition blank_epoch :: string where
  "blank_epoch = ''1 25544U 98067A                  .00016717  00000-0  10270-3 0  9007''"

lemma blank_epoch_panics:
  "ValidateLine blank_epoch (CHR ''1'') = Inr () \<and> ParseEpoch no_hex sample_env blank_epoch = None"
  by code_simp

section \<open>The chain of providers\<close>



section \<open>Storing elements\<close>

definition elements_grow :: "database \<Rightarrow> database \<Rightarrow> bool" where
  "elements_grow d d' \<longleftrightarrow> (\<exists>new. t_tle_records d' = t_tle_records d @ new)"

interpretation growing: guarantee elements_grow
  by unfold_locales (auto simp: elements_grow_def)

lemma CreateTLERecord_grows: "guar elements_grow (CreateTLERecord t)"
  unfolding CreateTLERecord_def
  by (intro growing.query_row)
     (auto simp: stmt_guar_def insert_tle_stmt_def Let_def elements_grow_def split: if_splits)

lemma ListSatellites_grows: "guar elements_grow ListSatellites"
  unfolding ListSatellites_def by (intro growing.query growing.select)



section \<open>Refreshing\<close>



text \<open>
  C35.  The elements in use never become older: over any run of the refresh loop a satellite
  that has elements keeps elements, and the newest of them has an epoch no earlier than before.
\<close>

theorem elements_never_older:
  assumes "RunRefreshLoop cs events w = (r, w')"
    and "first_row (records_of sid (db w)) = Some t"
  shows "\<exists>t'. first_row (records_of sid (db w')) = Some t' \<and> tle_Epoch t \<le> tle_Epoch t'"
proof -
  have "elements_grow (db w) (db w')"
    using growing.RunRefreshLoop_if(2) [OF CreateTLERecord_grows ListSatellites_grows] assms(1)
    by (rule guarD)
  then obtain new where "t_tle_records (db w') = t_tle_records (db w) @ new"
    by (auto simp: elements_grow_def)
  moreover have "t \<in> set (filter (\<lambda>x. tle_SatelliteID x = sid) (t_tle_records (db w)))"
    using first_newest(1) assms(2) unfolding records_of_def by blast
  ultimately have t: "t \<in> set (filter (\<lambda>x. tle_SatelliteID x = sid) (t_tle_records (db w')))" by auto
  show ?thesis
  proof (cases "first_row (records_of sid (db w'))")
    case None
    with t show ?thesis by (metis (no_types, lifting) empty_iff first_row_sort_key_None list.set(1) newest_first_def records_of_def set_sort sort_key_simps(1))
  next
    case (Some t')
    with first_newest(2) [of _ t'] t show ?thesis unfolding records_of_def by auto
  qed
qed

section \<open>Concrete runs\<close>

definition iss_set :: tle_set where
  "iss_set = \<lparr>ts_Name = ''ISS (ZARYA)'', ts_NoradID = 25544, ts_Line1 = iss1, ts_Line2 = iss2,
     ts_Epoch = 1000\<rparr>"

text \<open>The first provider has nothing, the second one answers.\<close>

definition sample_catalog :: catalog_service where
  "sample_catalog =
     \<lparr>cs_chain = [\<lparr>pv_Name = SourceCelestrak, pv_Fetch = (\<lambda>n i. Inl (Err ErrTLENotFound))\<rparr>,
                  \<lparr>pv_Name = SourceSatNOGS, pv_Fetch = (\<lambda>n i. Inr iss_set)\<rparr>],
      cs_metadata = None\<rparr>"


lemma elements_never_older_witness:
  "\<exists>r w' t'. RunRefreshLoop sample_catalog [RefreshTick, RefreshDone] sample_world = (r, w') \<and>
     first_row (records_of 1 (db w')) = Some t' \<and> 0 \<le> tle_Epoch t'"
proof -
  obtain r w' where run: "RunRefreshLoop sample_catalog [RefreshTick, RefreshDone] sample_world = (r, w')"
    by fastforce
  have "first_row (records_of 1 (db sample_world)) = Some sample_tle" by code_simp
  from elements_never_older [OF run this] run show ?thesis by (auto simp: sample_tle_def)
qed

text \<open>
  Adding a satellite is no transaction: when storing the elements fails, the satellite stays
  in the catalogue without any, and the attempt cannot be repeated.
\<close>

definition new_iss :: world where
  "new_iss = sample_world\<lparr>env := sample_env\<lparr>env_fault := (\<lambda>n. if n = 6 then Some ConnectionFault else None)\<rparr>,
     db := (db sample_world)\<lparr>t_satellites := [], t_tle_records := []\<rparr>\<rparr>"

lemma added_without_elements:
  "case AddSatellite sample_catalog 25544 ''ISS'' new_iss of
     (r, w') \<Rightarrow> \<not> is_ok r \<and> map sat_NoradID (t_satellites (db w')) = [25544] \<and>
       map sat_IsSchedulable (t_satellites (db w')) = [True] \<and> t_tle_records (db w') = [] \<and>
       fst (AddSatellite sample_catalog 25544 ''ISS'' w') = Inl (Err ErrAlreadyExists)"
  by code_simp

text \<open>
  Elements that have not changed are not stored again, so they keep the instant at which they
  were fetched first: from a day after it on they are due at every check.
\<close>

lemma unchanged_elements_stay_due:
  "let w0 = sample_world\<lparr>env := sample_env\<lparr>env_clock := (\<lambda>n. 25 * hour)\<rparr>,
       db := (db sample_world)\<lparr>t_tle_records :=
         [sample_tle\<lparr>tle_Line1 := iss1, tle_Line2 := iss2\<rparr>]\<rparr>\<rparr>;
     (r, w1) = needsRefresh sample_satellite w0;
     (r', w2) = Refresh sample_catalog sample_satellite w1
   in r = Inr True \<and> is_ok r' \<and> fst (needsRefresh sample_satellite w2) = Inr True"
  by code_simp

end
