(* ===== verification/Json.thy ===== *)
theory Json
  imports Tle "HOL-Library.AList" "HOL-Library.Monad_Syntax"
begin

text \<open>
  Request bodies.  The values that \<open>encoding/json\<close> reads from a body are given; this theory
  says how \<open>decodeJSON\<close> of \<open>internal/httpapi/response.go\<close> turns them into a struct: one value
  only, of at most a mebibyte, an object without unknown fields, each field of the right type and
  in the range of its Go type.  A number is kept in two forms, as an integer is read from a
  literal without fraction and exponent only.  Field names match exactly or, failing that, up to
  case; a field that occurs twice is assigned twice, and \<open>null\<close> leaves a plain field as it is.
\<close>

datatype json =
    JNull
  | JBool bool
  | JInt int
  | JDec rat
  | JString string
  | JArray "json list"
  | JObject "(string \<times> json) list"

section \<open>Scalars\<close>

definition fits_float :: "rat \<Rightarrow> bool" where
  "fits_float x \<longleftrightarrow> \<bar>x\<bar> < 2 ^ 1024 - 2 ^ 970"

fun json_float :: "env \<Rightarrow> json \<Rightarrow> float64 option" where
  "json_float e (JInt i) = (if fits_float (of_int i) then Some (env_round e (of_int i)) else None)"
| "json_float e (JDec x) = (if fits_float x then Some (env_round e x) else None)"
| "json_float e _ = None"

fun json_int :: "nat \<Rightarrow> json \<Rightarrow> int option" where
  "json_int bits (JInt i) = (if - (2 ^ (bits - 1)) \<le> i \<and> i < 2 ^ (bits - 1) then Some i else None)"
| "json_int bits _ = None"

fun json_string :: "json \<Rightarrow> string option" where
  "json_string (JString s) = Some s"
| "json_string _ = None"

fun json_bool :: "json \<Rightarrow> bool option" where
  "json_bool (JBool b) = Some b"
| "json_bool _ = None"

fun json_time :: "env \<Rightarrow> json \<Rightarrow> time option" where
  "json_time e (JString s) = env_parse_time e s"
| "json_time e _ = None"

text \<open>A value decoded into \<open>any\<close>; in an object the last of two equal keys counts.\<close>

definition last_wins :: "(string \<times> 'v) list \<Rightarrow> (string \<times> 'v) list" where
  "last_wins m = fold (\<lambda>(k, v). AList.update k v) m []"

fun json_any :: "env \<Rightarrow> json \<Rightarrow> any_val option"
  and json_any_list :: "env \<Rightarrow> json list \<Rightarrow> any_val list option"
  and json_any_map :: "env \<Rightarrow> (string \<times> json) list \<Rightarrow> any_map option" where
  "json_any e JNull = Some VNull"
| "json_any e (JBool b) = Some (VBool b)"
| "json_any e (JInt i) = map_option VFloat (json_float e (JInt i))"
| "json_any e (JDec x) = map_option VFloat (json_float e (JDec x))"
| "json_any e (JString s) = Some (VString s)"
| "json_any e (JArray vs) = map_option VList (json_any_list e vs)"
| "json_any e (JObject m) = map_option (VObject \<circ> last_wins) (json_any_map e m)"
| "json_any_list e [] = Some []"
| "json_any_list e (v # vs) = do {x \<leftarrow> json_any e v; xs \<leftarrow> json_any_list e vs; Some (x # xs)}"
| "json_any_map e [] = Some []"
| "json_any_map e ((k, v) # m) = do {x \<leftarrow> json_any e v; xs \<leftarrow> json_any_map e m; Some ((k, x) # xs)}"

section \<open>Structs\<close>

text \<open>The field that a key of the object stands for.\<close>

definition field_for :: "env \<Rightarrow> string list \<Rightarrow> string \<Rightarrow> string option" where
  "field_for e names key =
     (if key \<in> set names then Some key else find (\<lambda>n. env_fold e n = env_fold e key) names)"

fun known_fields :: "env \<Rightarrow> string list \<Rightarrow> (string \<times> json) list \<Rightarrow> (string \<times> json) list option" where
  "known_fields e names [] = Some []"
| "known_fields e names ((k, v) # m) =
     do {n \<leftarrow> field_for e names k; rest \<leftarrow> known_fields e names m; Some ((n, v) # rest)}"

fun object_fields :: "env \<Rightarrow> string list \<Rightarrow> json \<Rightarrow> (string \<times> json) list option" where
  "object_fields e names JNull = Some []"
| "object_fields e names (JObject m) = known_fields e names m"
| "object_fields e names _ = None"

fun read_field :: "('a \<Rightarrow> json \<Rightarrow> 'a option) \<Rightarrow> string \<Rightarrow> 'a \<Rightarrow> (string \<times> json) list \<Rightarrow> 'a option" where
  "read_field set_value name x [] = Some x"
| "read_field set_value name x ((k, v) # m) =
     (if k = name then do {y \<leftarrow> set_value x v; read_field set_value name y m}
      else read_field set_value name x m)"

text \<open>A field of a plain type, of a pointer type, and a map.\<close>

definition plain :: "(json \<Rightarrow> 'a option) \<Rightarrow> string \<Rightarrow> 'a \<Rightarrow> (string \<times> json) list \<Rightarrow> 'a option" where
  "plain f = read_field (\<lambda>x v. if v = JNull then Some x else f v)"

definition pointer :: "(json \<Rightarrow> 'a option) \<Rightarrow> string \<Rightarrow> (string \<times> json) list \<Rightarrow> 'a option option" where
  "pointer f name = read_field (\<lambda>x v. if v = JNull then Some None else map_option Some (f v)) name None"

fun merge_map :: "env \<Rightarrow> any_map \<Rightarrow> json \<Rightarrow> any_map option" where
  "merge_map e x JNull = Some []"
| "merge_map e x (JObject m) = map_option (\<lambda>new. last_wins (x @ new)) (json_any_map e m)"
| "merge_map e x _ = None"

definition map_field :: "env \<Rightarrow> string \<Rightarrow> (string \<times> json) list \<Rightarrow> any_map option" where
  "map_field e name = read_field (merge_map e) name []"

definition list_field :: "(json \<Rightarrow> 'a option) \<Rightarrow> string \<Rightarrow> (string \<times> json) list \<Rightarrow> 'a list option" where
  "list_field f name =
     read_field (\<lambda>_ v. case v of JNull \<Rightarrow> Some [] | JArray vs \<Rightarrow> those (map f vs) | _ \<Rightarrow> None) name []"

section \<open>Bodies\<close>

text \<open>
  The values the decoder finds in the body, one after the other; \<open>rb_Clean\<close> says that nothing
  but white space follows the last one.
\<close>

record request_body =
  rb_Size :: int
  rb_Values :: "json list"
  rb_Clean :: bool

definition maxRequestBody :: int where "maxRequestBody = 2 ^ 20"

definition decodeJSON :: "(json \<Rightarrow> 'a option) \<Rightarrow> request_body \<Rightarrow> 'a option" where
  "decodeJSON target body =
     (if maxRequestBody < rb_Size body \<or> \<not> rb_Clean body then None
      else case rb_Values body of [v] \<Rightarrow> target v | _ \<Rightarrow> None)"

section \<open>Facts\<close>

lemma last_wins_map_of: "map_of (last_wins m) k = map_of (rev m) k"
proof -
  have "map_of (fold (\<lambda>(k, v). AList.update k v) m acc) k = (map_of acc ++ map_of (rev m)) k" for acc
  proof (induction m arbitrary: acc)
    case Nil
    show ?case by simp
  next
    case (Cons kv m)
    obtain k' v where kv: "kv = (k', v)" by fastforce
    show ?case by (simp add: kv Cons.IH update_conv map_add_def split: option.split)
  qed
  from this [of "[]"] show ?thesis by (simp add: last_wins_def)
qed

lemma last_wins_distinct: "distinct (map fst (last_wins m))"
proof -
  have "distinct (map fst acc) \<Longrightarrow> distinct (map fst (fold (\<lambda>(k, v). AList.update k v) m acc))" for acc :: "(string \<times> 'a) list"
    by (induction m arbitrary: acc) (auto simp: distinct_update)
  from this [of "[]"] show ?thesis by (simp add: last_wins_def)
qed

lemma json_int_range: "json_int bits v = Some i \<Longrightarrow> - (2 ^ (bits - 1)) \<le> i \<and> i < 2 ^ (bits - 1)"
  by (cases v) (auto split: if_splits)

text \<open>An unknown field, however it is written, makes the whole body malformed.\<close>

lemma known_fields_known:
  "known_fields e names m = Some fs \<Longrightarrow> (k, v) \<in> set m \<Longrightarrow>
     k \<in> set names \<or> (\<exists>n\<in>set names. env_fold e n = env_fold e k)"
  by (induction m arbitrary: fs)
     (auto simp: field_for_def find_Some_iff split: if_splits bind_splits)

end
