(* ===== verification/Http_Core.thy ===== *)
theory Http_Core
  imports Json Auth_Service Catalog Filestore Worker_Sync
begin

text \<open>
  The frame of \<open>internal/httpapi\<close>: requests and responses (\<open>response.go\<close>), the middleware that
  finds the caller's account and checks the authority (\<open>middleware.go\<close>), and the audit helpers of
  \<open>server.go\<close>.  A handler is a function of the request that returns the one response it writes;
  a JSON document in a response is a value of \<open>any_val\<close>.
\<close>

section \<open>Requests and responses\<close>

text \<open>
  A request as the multiplexer hands it over: the Authorization header, the value of the path's
  wildcard, \<open>URL.Query().Get\<close>, the body, and the two values the middleware puts in the context.
\<close>

record http_request =
  hr_Authorization :: string
  hr_PathValue :: string
  hr_Query :: "string \<Rightarrow> string"
  hr_Body :: request_body
  hr_User :: "user option"
  hr_Token :: "string option"

datatype content = NoContent | Document any_val | FileContent bytes

record http_response =
  rp_Code :: int
  rp_Header :: "(string \<times> string) list"
  rp_Content :: content

type_synonym handler = "http_request \<Rightarrow> http_response repo"

text \<open>
  The server's dependencies.  \<open>hs_Json\<close> parses a JSON document, \<open>hs_ErrorText\<close> is the text of
  \<open>err.Error()\<close>, \<open>hs_Collate\<close> the order of the database's collation, \<open>hs_Probe\<close> the answers to the
  health probes.
\<close>

record http_server =
  hs_Version :: string
  hs_Files :: "file_store option"
  hs_Auth :: auth_service
  hs_Catalog :: catalog_service
  hs_Scheduling :: service
  hs_Prediction :: backend
  hs_Codec :: codec
  hs_Json :: "string \<Rightarrow> json option"
  hs_ErrorText :: "err \<Rightarrow> string"
  hs_Collate :: "string \<Rightarrow> nat"
  hs_Probe :: "string \<Rightarrow> nat \<Rightarrow> bool"

section \<open>internal/httpapi/response.go\<close>

definition writeJSON :: "int \<Rightarrow> any_map \<Rightarrow> http_response" where
  "writeJSON code payload =
     \<lparr>rp_Code = code, rp_Header = [(''Content-Type'', ''application/json'')],
      rp_Content = Document (VObject payload)\<rparr>"

definition write_header :: "int \<Rightarrow> http_response" where
  "write_header code = \<lparr>rp_Code = code, rp_Header = [], rp_Content = NoContent\<rparr>"

definition writeError :: "int \<Rightarrow> string \<Rightarrow> string \<Rightarrow> http_response" where
  "writeError code kind msg = writeJSON code [(''error'', VString kind), (''message'', VString msg)]"

definition internalError :: http_response where
  "internalError = writeError 500 ''internal_error'' ''internal server error''"

definition writeDomainError :: "http_server \<Rightarrow> err \<Rightarrow> http_response" where
  "writeDomainError s e =
     (if errors_is e ErrInvalidCredentials
      then writeError 401 ''invalid_credentials'' ''invalid username or password''
      else if errors_is e ErrPasswordChangeRequired
      then writeError 403 ''password_change_required'' ''change your password before using the system''
      else if errors_is e ErrAuthForbidden then writeError 403 ''forbidden'' ''not permitted''
      else if errors_is e ErrPasswordTooShort \<or> errors_is e ErrPasswordIsBootstrap
      then writeError 400 ''invalid_password'' (hs_ErrorText s e)
      else if errors_is e ErrRootProtected
      then writeError 403 ''root_protected'' ''the root account cannot be deleted or demoted''
      else if errors_is e ErrNotFound then writeError 404 ''not_found'' ''not found''
      else if errors_is e ErrDuplicate then writeError 409 ''conflict'' ''already exists''
      else if errors_is e ErrReferenced
      then writeError 409 ''in_use'' ''other records still reference this, so it cannot be removed''
      else internalError)"

section \<open>Steps of a handler\<close>

text \<open>
  \<open>if err != nil\<close> with the internal error, with the error's own response, and the two checks that
  open most handlers: the body (\<open>decodeJSON\<close>) and the identifier in the path (\<open>pathUUID\<close>).
\<close>

definition or_500 :: "'a repo \<Rightarrow> ('a \<Rightarrow> http_response repo) \<Rightarrow> http_response repo" where
  "or_500 m k = attempt_or m (\<lambda>_. ret internalError) k"

definition or_domain ::
  "http_server \<Rightarrow> 'a repo \<Rightarrow> ('a \<Rightarrow> http_response repo) \<Rightarrow> http_response repo" where
  "or_domain s m k = attempt_or m (\<lambda>e. ret (writeDomainError s e)) k"

definition bad_request :: "string \<Rightarrow> http_response repo" where
  "bad_request msg = ret (writeError 400 ''invalid_request'' msg)"

definition with_body ::
  "(env \<Rightarrow> json \<Rightarrow> 'a option) \<Rightarrow> http_request \<Rightarrow> ('a \<Rightarrow> http_response repo) \<Rightarrow> http_response repo" where
  "with_body target r k =
     attempt (asks (\<lambda>e. decodeJSON (target e) (hr_Body r))) (\<lambda>v.
       case v of None \<Rightarrow> bad_request ''malformed request body'' | Some x \<Rightarrow> k x)"

definition pathUUID :: "http_request \<Rightarrow> (uuid \<Rightarrow> http_response repo) \<Rightarrow> http_response repo" where
  "pathUUID r k =
     attempt (asks (\<lambda>e. env_parse_uuid e (hr_PathValue r))) (\<lambda>v.
       case v of None \<Rightarrow> bad_request ''invalid id'' | Some i \<Rightarrow> k i)"

text \<open>A response that shows identifiers, which needs \<open>UUID.String\<close>.\<close>

definition respond :: "(env \<Rightarrow> http_response) \<Rightarrow> http_response repo" where
  "respond f = attempt (asks f) ret"

text \<open>Fields with \<open>omitempty\<close>.\<close>

definition opt_field :: "string \<Rightarrow> ('a \<Rightarrow> any_val) \<Rightarrow> 'a option \<Rightarrow> any_map" where
  "opt_field name f v = (case v of None \<Rightarrow> [] | Some x \<Rightarrow> [(name, f x)])"

definition text_field :: "string \<Rightarrow> string \<Rightarrow> any_map" where
  "text_field name s = (if s = '''' then [] else [(name, VString s)])"

text \<open>
  \<open>d.Seconds()\<close> and \<open>d.Hours()\<close>: the whole units and the rest are added as floating-point numbers.
\<close>

definition float_units :: "env \<Rightarrow> int \<Rightarrow> duration \<Rightarrow> float64" where
  "float_units e unit d =
     (let whole = Database.truncate (of_int d / of_int unit)
      in env_round e (of_int whole + env_round e (of_int (d - whole * unit) / of_int unit)))"

text \<open>\<open>int64(d.Seconds())\<close>.\<close>

definition whole_seconds :: "env \<Rightarrow> duration \<Rightarrow> any_val" where
  "whole_seconds e d = VInt64 (Database.truncate (float_units e second d))"

section \<open>internal/httpapi/middleware.go\<close>

definition zero_user :: user where
  "zero_user =
     \<lparr>u_ID = 0, u_Username = '''', u_PasswordHash = '''', u_Role = RoleOther '''',
      u_MustChangePassword = False, u_CreatedAt = zero_time, u_UpdatedAt = zero_time\<rparr>"

definition currentUser :: "http_request \<Rightarrow> user" where
  "currentUser r = (case hr_User r of None \<Rightarrow> zero_user | Some u \<Rightarrow> u)"

definition currentToken :: "http_request \<Rightarrow> string" where
  "currentToken r = (case hr_Token r of None \<Rightarrow> '''' | Some t \<Rightarrow> t)"

definition bearer_prefix :: string where "bearer_prefix = ''Bearer ''"

definition bearerToken :: "http_request \<Rightarrow> string" where
  "bearerToken r =
     (let header = hr_Authorization r
      in if \<not> has_prefix header bearer_prefix then ''''
         else TrimSpace (trim_prefix header bearer_prefix))"

definition unauthenticated :: http_response where
  "unauthenticated = writeError 401 ''unauthenticated'' ''authentication required''"

definition requireAuth :: "handler \<Rightarrow> handler" where
  "requireAuth next_handler r =
     (let token = bearerToken r
      in if token = '''' then ret unauthenticated
         else attempt_or (Resolve token)
           (\<lambda>e. if errors_is e ErrUnauthenticated then ret unauthenticated else ret internalError)
           (\<lambda>user. next_handler (r\<lparr>hr_User := Some user, hr_Token := Some token\<rparr>)))"

definition requirePasswordChanged :: "handler \<Rightarrow> handler" where
  "requirePasswordChanged next_handler r =
     (if u_MustChangePassword (currentUser r)
      then ret (writeError 403 ''password_change_required'' ''change your password before using the system'')
      else next_handler r)"

definition requireRole :: "user_role \<Rightarrow> handler \<Rightarrow> handler" where
  "requireRole required next_handler r =
     (if \<not> AtLeast (currentUser r) required then ret (writeError 403 ''forbidden'' ''not permitted'')
      else next_handler r)"

definition authenticated :: "handler \<Rightarrow> handler" where
  "authenticated next_handler = requireAuth (requirePasswordChanged next_handler)"

definition roleGated :: "user_role \<Rightarrow> handler \<Rightarrow> handler" where
  "roleGated required next_handler = requireAuth (requirePasswordChanged (requireRole required next_handler))"

section \<open>The audit helpers of server.go\<close>

text \<open>A failure to write the record is logged only.\<close>

definition http_audit ::
  "http_request \<Rightarrow> string \<Rightarrow> string \<Rightarrow> entity_ref \<Rightarrow> any_map \<Rightarrow> http_response repo \<Rightarrow> http_response repo" where
  "http_audit r action entityType entityID details k =
     ignoring (AppendAudit (audit_entry (Some (u_ID (currentUser r))) action entityType entityID details)) k"

definition auditChange ::
  "http_request \<Rightarrow> string \<Rightarrow> string \<Rightarrow> entity_ref \<Rightarrow> any_map \<Rightarrow> any_map \<Rightarrow> http_response repo \<Rightarrow>
   http_response repo" where
  "auditChange r action entityType entityID previous nxt k =
     ignoring (AppendAudit ((audit_entry (Some (u_ID (currentUser r))) action entityType entityID nxt)
       \<lparr>a_PreviousState := previous\<rparr>)) k"

section \<open>The primary station (admin_handlers.go) and whole numbers in the query\<close>

definition not_initialized :: "string \<Rightarrow> http_response" where
  "not_initialized msg = writeError 409 ''not_initialized'' msg"

definition primaryStation :: "(station \<Rightarrow> http_response repo) \<Rightarrow> http_response repo" where
  "primaryStation k =
     or_500 ListStations (\<lambda>stations.
       case stations of
         [] \<Rightarrow> ret (not_initialized ''complete first-run setup first'')
       | station # _ \<Rightarrow> k station)"

definition intQuery ::
  "http_request \<Rightarrow> string \<Rightarrow> int \<Rightarrow> int \<Rightarrow> int \<Rightarrow> (int \<Rightarrow> http_response repo) \<Rightarrow> http_response repo" where
  "intQuery r name fallback low high k =
     (let raw = hr_Query r name;
          bad = bad_request (name @ '' must be a whole number between '' @ decimal low @ '' and '' @ decimal high)
      in if raw = '''' then k fallback
         else case Atoi raw of
                None \<Rightarrow> bad
              | Some v \<Rightarrow> if v < low \<or> high < v then bad else k v)"

section \<open>Effects\<close>

text \<open>
  \<open>answers m\<close>: whatever the state, the handler writes a response.
\<close>

named_theorems answer_intro \<open>rules for handlers that always answer\<close>

definition answers :: "'a repo \<Rightarrow> bool" where
  "answers m \<longleftrightarrow> (\<forall>w. is_ok (fst (m w)))"

lemma answers_ret [answer_intro]: "answers (ret x)"
  by (simp add: answers_def ret_def)

lemma answers_asks [answer_intro]: "answers (asks f)"
  by (simp add: answers_def asks_def)

lemma answers_clock [answer_intro]: "answers clock_now"
  by (simp add: answers_def clock_now_def)

lemma answers_attempt_or [answer_intro]:
  "(\<And>e. answers (h e)) \<Longrightarrow> (\<And>x. answers (k x)) \<Longrightarrow> answers (attempt_or m h k)"
  by (simp add: answers_def attempt_or_def split: prod.split sum.split)

lemma answers_attempt [answer_intro]:
  assumes "answers m" and "\<And>x. answers (k x)"
  shows "answers (attempt m k)"
  unfolding answers_def
proof
  fix w
  from assms(1) have "is_ok (fst (m w))" by (simp add: answers_def)
  then obtain x w' where "m w = (Inr x, w')" by (metis is_ok_iff prod.collapse)
  with assms(2) show "is_ok (fst (attempt m k w))" by (simp add: attempt_def attempt_or_def answers_def)
qed

lemma answers_ignoring [answer_intro]: "answers k \<Longrightarrow> answers (ignoring m k)"
  by (simp add: ignoring_def answers_attempt_or)

lemma answers_cases [answer_intro]:
  "(b \<Longrightarrow> answers m) \<Longrightarrow> (\<not> b \<Longrightarrow> answers k) \<Longrightarrow> answers (if b then m else k)"
  "answers n \<Longrightarrow> (\<And>x. answers (f x)) \<Longrightarrow> answers (case v of None \<Rightarrow> n | Some x \<Rightarrow> f x)"
  "(\<And>x y. answers (g x y)) \<Longrightarrow> answers (case p of (x, y) \<Rightarrow> g x y)"
  "answers (l z) \<Longrightarrow> answers (let x = z in l x)"
  by (auto split: option.split prod.split)

lemma answers_case_sum [answer_intro]:
  "(\<And>x. answers (h x)) \<Longrightarrow> (\<And>y. answers (k y)) \<Longrightarrow> answers (case v of Inl x \<Rightarrow> h x | Inr y \<Rightarrow> k y)"
  by (cases v) auto

lemma answers_case_list [answer_intro]:
  "answers n \<Longrightarrow> (\<And>x xs. answers (k x xs)) \<Longrightarrow> answers (case v of [] \<Rightarrow> n | x # xs \<Rightarrow> k x xs)"
  by (cases v) auto

lemma answers_steps [answer_intro]:
  "(\<And>x. answers (k1 x)) \<Longrightarrow> answers (or_500 m1 k1)"
  "(\<And>x. answers (k2 x)) \<Longrightarrow> answers (or_domain s m2 k2)"
  "answers (bad_request msg)"
  "(\<And>x. answers (k3 x)) \<Longrightarrow> answers (with_body target r k3)"
  "(\<And>x. answers (k4 x)) \<Longrightarrow> answers (pathUUID r k4)"
  "answers (respond f)"
  "answers k \<Longrightarrow> answers (http_audit r action ty ref details k)"
  "answers k \<Longrightarrow> answers (auditChange r action ty ref details nxt k)"
  "(\<And>x. answers (k5 x)) \<Longrightarrow> answers (primaryStation k5)"
  "(\<And>x. answers (k6 x)) \<Longrightarrow> answers (intQuery r name fallback low high k6)"
  unfolding or_500_def or_domain_def bad_request_def with_body_def pathUUID_def respond_def
    http_audit_def auditChange_def primaryStation_def intQuery_def Let_def
  by (intro answer_intro; simp)+

lemma answers_gates [answer_intro]:
  "(\<And>r. answers (h r)) \<Longrightarrow> answers (requireAuth h r)"
  "(\<And>r. answers (h r)) \<Longrightarrow> answers (requirePasswordChanged h r)"
  "(\<And>r. answers (h r)) \<Longrightarrow> answers (requireRole role h r)"
  "(\<And>r. answers (h r)) \<Longrightarrow> answers (authenticated h r)"
  "(\<And>r. answers (h r)) \<Longrightarrow> answers (roleGated role h r)"
  unfolding roleGated_def authenticated_def requireAuth_def requirePasswordChanged_def requireRole_def Let_def
  by (intro answer_intro; simp)+

context guarantee begin

lemma case_list_guar [guar_intro]:
  "guar G n \<Longrightarrow> (\<And>x xs. guar G (k x xs)) \<Longrightarrow> guar G (case v of [] \<Rightarrow> n | x # xs \<Rightarrow> k x xs)"
  by (cases v) auto

lemma http_steps [guar_intro]:
  "guar G m1 \<Longrightarrow> (\<And>x. guar G (k1 x)) \<Longrightarrow> guar G (or_500 m1 k1)"
  "guar G m2 \<Longrightarrow> (\<And>x. guar G (k2 x)) \<Longrightarrow> guar G (or_domain s m2 k2)"
  "guar G (bad_request msg)"
  "(\<And>x. guar G (k3 x)) \<Longrightarrow> guar G (with_body target r k3)"
  "(\<And>x. guar G (k4 x)) \<Longrightarrow> guar G (pathUUID r k4)"
  "guar G (respond f)"
  "(\<And>x. guar G (k5 x)) \<Longrightarrow> guar G (primaryStation k5)"
  "(\<And>x. guar G (k6 x)) \<Longrightarrow> guar G (intQuery r name fallback low high k6)"
  unfolding or_500_def or_domain_def bad_request_def with_body_def pathUUID_def respond_def
    primaryStation_def intQuery_def Let_def
  by (intro attempt_or attempt if_guar case_option_guar case_list_guar ret asks reads; assumption)+

lemma http_gates [guar_intro]:
  "(\<And>r. guar G (h r)) \<Longrightarrow> guar G (requireAuth h r)"
  "(\<And>r. guar G (h r)) \<Longrightarrow> guar G (requirePasswordChanged h r)"
  "(\<And>r. guar G (h r)) \<Longrightarrow> guar G (requireRole role h r)"
  "(\<And>r. guar G (h r)) \<Longrightarrow> guar G (authenticated h r)"
  "(\<And>r. guar G (h r)) \<Longrightarrow> guar G (roleGated role h r)"
  unfolding roleGated_def authenticated_def requireAuth_def requirePasswordChanged_def requireRole_def Let_def
  by (intro attempt_or if_guar ret Resolve; simp)+

end

context server_guarantee begin

lemma http_audits [guar_intro]:
  "guar G k \<Longrightarrow> guar G (http_audit r action ty ref details k)"
  "guar G k \<Longrightarrow> guar G (auditChange r action ty ref details nxt k)"
  unfolding http_audit_def auditChange_def by (intro ignoring accounts; simp)+

end

end
