(* ===== verification/Http_Accounts.thy ===== *)
theory Http_Accounts
  imports Http_Core
begin

text \<open>
  The handlers of \<open>auth_handlers.go\<close>, \<open>user_handlers.go\<close> and \<open>worker_handlers.go\<close>.
\<close>

section \<open>internal/httpapi/auth_handlers.go\<close>

definition toUserView :: "env \<Rightarrow> user \<Rightarrow> any_map" where
  "toUserView e user =
     [(''id'', VString (env_uuid_text e (u_ID user))), (''username'', VString (u_Username user)),
      (''role'', VString (user_role_string (u_Role user))),
      (''must_change_password'', VBool (u_MustChangePassword user)),
      (''created_at'', VTime (u_CreatedAt user))]"

record login_request =
  lq_Username :: string
  lq_Password :: string

definition decode_login :: "env \<Rightarrow> json \<Rightarrow> login_request option" where
  "decode_login e v = do {
     fs \<leftarrow> object_fields e [''username'', ''password''] v;
     u \<leftarrow> plain json_string ''username'' '''' fs;
     p \<leftarrow> plain json_string ''password'' '''' fs;
     Some \<lparr>lq_Username = u, lq_Password = p\<rparr>}"

definition login_response :: "env \<Rightarrow> login_result \<Rightarrow> any_map" where
  "login_response e result =
     [(''token'', VString (lr_Token result)), (''expires_at'', VTime (lr_ExpiresAt result)),
      (''must_change_password'', VBool (lr_MustChangePassword result)),
      (''user'', VObject (toUserView e (lr_User result)))]"

definition handleLogin :: "http_server \<Rightarrow> handler" where
  "handleLogin s r =
     with_body decode_login r (\<lambda>rq.
     if TrimSpace (lq_Username rq) = '''' \<or> lq_Password rq = ''''
     then bad_request ''username and password are required''
     else or_domain s (Login (hs_Auth s) (lq_Username rq) (lq_Password rq)) (\<lambda>result.
       respond (\<lambda>e. writeJSON 200 (login_response e result))))"

definition handleLogout :: handler where
  "handleLogout r = or_500 (Logout (currentToken r)) (\<lambda>_. ret (write_header 204))"

definition handleMe :: handler where
  "handleMe r = respond (\<lambda>e. writeJSON 200 (toUserView e (currentUser r)))"

record change_password_request =
  cp_CurrentPassword :: string
  cp_NewPassword :: string

definition decode_change_password :: "env \<Rightarrow> json \<Rightarrow> change_password_request option" where
  "decode_change_password e v = do {
     fs \<leftarrow> object_fields e [''current_password'', ''new_password''] v;
     c \<leftarrow> plain json_string ''current_password'' '''' fs;
     n \<leftarrow> plain json_string ''new_password'' '''' fs;
     Some \<lparr>cp_CurrentPassword = c, cp_NewPassword = n\<rparr>}"

definition handleChangePassword :: "http_server \<Rightarrow> handler" where
  "handleChangePassword s r =
     with_body decode_change_password r (\<lambda>rq.
     or_domain s (ChangePassword (hs_Auth s) (u_ID (currentUser r)) (cp_CurrentPassword rq) (cp_NewPassword rq))
       (\<lambda>_.
     or_500 (Logout (currentToken r)) (\<lambda>_. ret (write_header 204))))"

section \<open>internal/httpapi/user_handlers.go\<close>

definition handleListUsers :: handler where
  "handleListUsers r =
     or_500 ListUsers (\<lambda>users.
       respond (\<lambda>e. writeJSON 200 [(''users'', VList (map (\<lambda>u. VObject (toUserView e u)) users))]))"

record create_user_request =
  cu_Username :: string
  cu_Password :: string
  cu_Role :: string

definition decode_create_user :: "env \<Rightarrow> json \<Rightarrow> create_user_request option" where
  "decode_create_user e v = do {
     fs \<leftarrow> object_fields e [''username'', ''password'', ''role''] v;
     u \<leftarrow> plain json_string ''username'' '''' fs;
     p \<leftarrow> plain json_string ''password'' '''' fs;
     ro \<leftarrow> plain json_string ''role'' '''' fs;
     Some \<lparr>cu_Username = u, cu_Password = p, cu_Role = ro\<rparr>}"

definition requested_role :: "create_user_request \<Rightarrow> user_role" where
  "requested_role rq = (if cu_Role rq = '''' then RoleUser else user_role_of (cu_Role rq))"

definition new_user :: "string \<Rightarrow> string \<Rightarrow> user_role \<Rightarrow> user" where
  "new_user username hash role =
     \<lparr>u_ID = 0, u_Username = username, u_PasswordHash = hash, u_Role = role,
      u_MustChangePassword = True, u_CreatedAt = zero_time, u_UpdatedAt = zero_time\<rparr>"

text \<open>The handler from the hashing of the password on.\<close>

definition create_account :: "http_server \<Rightarrow> http_request \<Rightarrow> string \<Rightarrow> string \<Rightarrow> user_role \<Rightarrow> http_response repo" where
  "create_account s r username password role =
     or_500 (HashPassword (as_idkey (hs_Auth s)) (as_cpus (hs_Auth s)) password) (\<lambda>hash.
     or_domain s (CreateUser (new_user username hash role)) (\<lambda>created.
     http_audit r ''user.created'' ''user'' (RefID (u_ID created))
         [(''username'', VString (u_Username created)), (''role'', VString (user_role_string (u_Role created)))]
       (respond (\<lambda>e. writeJSON 201 (toUserView e created)))))"

definition handleCreateUser :: "http_server \<Rightarrow> handler" where
  "handleCreateUser s r =
     with_body decode_create_user r (\<lambda>rq.
       let username = TrimSpace (cu_Username rq); role = requested_role rq
       in if username = '''' then bad_request ''username is required''
          else if \<not> CanCreateUserWithRole (currentUser r) role
          then ret (writeError 403 ''forbidden'' ''not permitted to create a user with that role'')
          else case ValidatePassword (cu_Password rq) of
                 Inl e \<Rightarrow> ret (writeError 400 ''invalid_password'' (hs_ErrorText s e))
               | Inr _ \<Rightarrow> create_account s r username (cu_Password rq) role)"

definition decode_update_user :: "env \<Rightarrow> json \<Rightarrow> string option option" where
  "decode_update_user e v = do {
     fs \<leftarrow> object_fields e [''role''] v;
     pointer json_string ''role'' fs}"

definition change_role :: "http_server \<Rightarrow> http_request \<Rightarrow> uuid \<Rightarrow> user \<Rightarrow> user_role \<Rightarrow> http_response repo" where
  "change_role s r targetID target newRole =
     (if \<not> CanChangeRole (currentUser r) target newRole
      then ret (writeError 403 ''forbidden'' ''not permitted to change that role'')
      else
      or_domain s (SetUserRole targetID newRole) (\<lambda>_.
      http_audit r ''user.role_changed'' ''user'' (RefID targetID)
          [(''previous_role'', VString (user_role_string (u_Role target))),
           (''new_role'', VString (user_role_string newRole))]
        (or_500 (GetUserByID targetID) (\<lambda>updated.
          respond (\<lambda>e. writeJSON 200 (toUserView e updated))))))"

definition handleUpdateUser :: "http_server \<Rightarrow> handler" where
  "handleUpdateUser s r =
     pathUUID r (\<lambda>targetID.
     with_body decode_update_user r (\<lambda>role.
       case role of
         None \<Rightarrow> bad_request ''role is required''
       | Some text \<Rightarrow>
           or_domain s (GetUserByID targetID) (\<lambda>target.
             change_role s r targetID target (user_role_of text))))"

definition handleDeleteUser :: "http_server \<Rightarrow> handler" where
  "handleDeleteUser s r =
     pathUUID r (\<lambda>targetID.
     or_domain s (GetUserByID targetID) (\<lambda>target.
     if \<not> CanDeleteUser (currentUser r) target
     then ret (writeError 403 ''forbidden'' ''not permitted to delete that user'')
     else
     or_domain s (DeleteUser targetID) (\<lambda>_.
     http_audit r ''user.deleted'' ''user'' (RefID targetID)
         [(''username'', VString (u_Username target)), (''role'', VString (user_role_string (u_Role target)))]
       (ret (write_header 204)))))"

section \<open>internal/httpapi/worker_handlers.go\<close>

text \<open>\<open>now.Sub(t).Seconds()\<close> as a float64.\<close>

definition worker_view :: "env \<Rightarrow> time \<Rightarrow> worker \<Rightarrow> any_map" where
  "worker_view e now k =
     [(''id'', VString (env_uuid_text e (w_ID k))), (''name'', VString (w_Name k)),
      (''station_id'', VString (env_uuid_text e (w_StationID k))),
      (''connection_state'', VString (connection_state_string (w_ConnectionState k)))] @
     text_field ''worker_version'' (w_WorkerVersion k) @
     opt_field ''last_seen_at'' VTime (w_LastSeenAt k) @
     opt_field ''last_sync_at'' VTime (w_LastSyncAt k) @
     [(''in_sync'', VBool (w_SyncedGeneration k \<noteq> '''' \<and> w_ConnectionState k = WorkerOnline)),
      (''pending_uploads'', VInt (w_PendingUploads k)), (''pending_reports'', VInt (w_PendingReports k))] @
     opt_field ''seconds_since_seen''
       (\<lambda>t. VFloat (float_units e second (time_sub now t))) (w_LastSeenAt k)"

definition handleListWorkers :: "http_server \<Rightarrow> handler" where
  "handleListWorkers s r =
     or_500 (ListWorkers (hs_Collate s)) (\<lambda>workers.
     attempt clock_now (\<lambda>now.
     respond (\<lambda>e. writeJSON 200
       [(''workers'', VList (map (\<lambda>k. VObject (worker_view e now k)) workers)),
        (''heartbeat_interval_seconds'', VInt (HeartbeatInterval div second)),
        (''offline_after_seconds'', VInt (StaleAfter div second))])))"

section \<open>Every request is answered, and by steps of the server\<close>

lemma account_answers [answer_intro]:
  "answers (handleLogin s r)" "answers (handleLogout r)" "answers (handleMe r)"
  "answers (handleChangePassword s r)" "answers (handleListUsers r)" "answers (handleCreateUser s r)"
  "answers (handleUpdateUser s r)" "answers (handleDeleteUser s r)" "answers (handleListWorkers s r)"
  unfolding handleLogin_def handleLogout_def handleMe_def handleChangePassword_def handleListUsers_def
    handleCreateUser_def create_account_def handleUpdateUser_def change_role_def handleDeleteUser_def
    handleListWorkers_def Let_def
  by (intro answer_intro)+

context server_guarantee begin

lemma account_handlers [guar_intro]:
  "guar G (handleLogin s r)" "guar G (handleLogout r)" "guar G (handleMe r)"
  "guar G (handleChangePassword s r)" "guar G (handleListUsers r)" "guar G (handleCreateUser s r)"
  "guar G (handleUpdateUser s r)" "guar G (handleDeleteUser s r)" "guar G (handleListWorkers s r)"
  unfolding handleLogin_def handleLogout_def handleMe_def handleChangePassword_def handleListUsers_def
    handleCreateUser_def create_account_def handleUpdateUser_def change_role_def handleDeleteUser_def
    handleListWorkers_def Let_def Logout_def
  by (intro http_steps http_audits auth_operations outside accounts worker_methods attempt clock_now
      if_guar case_option_guar case_sum_guar ret)+

end

end
