(* ===== verification/Http_Passes.thy ===== *)
theory Http_Passes
  imports Http_Core Sched_Decide
begin

text \<open>
  The handlers of \<open>pass_handlers.go\<close>: requesting, listing, deciding and cancelling passes, and the
  plan of an approved pass.
\<close>

section \<open>Views\<close>

definition passListLimit :: int where "passListLimit = 200"

definition toPassView :: "env \<Rightarrow> pass \<Rightarrow> user \<Rightarrow> any_map" where
  "toPassView e pass actor =
     [(''id'', VString (env_uuid_text e (p_ID pass))),
      (''satellite_id'', VString (env_uuid_text e (p_SatelliteID pass))),
      (''status'', VString (pass_status_string (p_Status pass))),
      (''visibility'', VString (pass_visibility_string (p_Visibility pass))),
      (''band'', VString (rf_band_string (p_Band pass))), (''aos'', VTime (p_AOSAt pass))] @
     opt_field ''tca'' VTime (p_TCAAt pass) @
     [(''los'', VTime (p_LOSAt pass)), (''max_elevation_degrees'', VFloat (p_MaxElevationDegrees pass)),
      (''reserved_from'', VTime (p_ReservedFrom pass)), (''reserved_to'', VTime (p_ReservedTo pass)),
      (''recording_mode'', VString (recording_mode_string (p_RecordingMode pass))),
      (''recording_pre_roll_seconds'', whole_seconds e (p_RecordingPreRoll pass)),
      (''recording_post_roll_seconds'', whole_seconds e (p_RecordingPostRoll pass))] @
     (if p_RequestedBy pass = u_ID actor \<or> AtLeast actor RoleAdmin
      then text_field ''requested_by'' (env_uuid_text e (p_RequestedBy pass)) else []) @
     opt_field ''approved_at'' VTime (p_ApprovedAt pass) @
     text_field ''cancellation_reason''
       (case p_CancellationReason pass of None \<Rightarrow> '''' | Some c \<Rightarrow> cancellation_reason_string c) @
     opt_field ''cancelled_at'' VTime (p_CancelledAt pass) @
     [(''created_at'', VTime (p_CreatedAt pass))]"

definition pass_response :: "int \<Rightarrow> user \<Rightarrow> pass \<Rightarrow> http_response repo" where
  "pass_response code actor pass =
     respond (\<lambda>e. writeJSON code [(''pass'', VObject (toPassView e pass actor))])"

section \<open>Errors of the scheduler\<close>

fun as_conflict :: "err \<Rightarrow> (time \<times> time) option" where
  "as_conflict (ConflictError from to) = Some (from, to)"
| "as_conflict (ErrWrap _ e) = as_conflict e"
| "as_conflict _ = None"

definition writeSchedulingError :: "http_server \<Rightarrow> err \<Rightarrow> http_response" where
  "writeSchedulingError s e =
     (case as_conflict e of
        Some (from, to) \<Rightarrow> writeJSON 409
          [(''error'', VString ''station_conflict''),
           (''message'', VString ''This time is already occupied.''),
           (''occupied_from'', VTime from), (''occupied_to'', VTime to)]
      | None \<Rightarrow>
          if errors_is e ErrLeadTime then writeError 409 ''lead_time'' (hs_ErrorText s e)
          else if errors_is e ErrWorkerOffline
          then writeError 409 ''worker_offline''
            ''the station worker is offline, so new passes cannot be scheduled''
          else if errors_is e ErrPipelineRequired
          then writeError 400 ''pipeline_required'' (hs_ErrorText s e)
          else if errors_is e ErrNotSchedulable
          then writeError 409 ''not_schedulable'' (hs_ErrorText s e)
          else if errors_is e ErrPassNotFound
          then writeError 404 ''pass_not_found'' ''no predicted pass matches that time''
          else if errors_is e ErrStationNotConfigured
          then writeError 409 ''station_not_configured'' (hs_ErrorText s e)
          else if errors_is e ErrInvalidTransition
          then writeError 409 ''invalid_state'' (hs_ErrorText s e)
          else if errors_is e ErrForbidden then writeError 403 ''forbidden'' ''not permitted''
          else if errors_is e ErrNotFound then writeError 404 ''not_found'' ''not found''
          else internalError)"

definition or_scheduling ::
  "http_server \<Rightarrow> 'a repo \<Rightarrow> ('a \<Rightarrow> http_response repo) \<Rightarrow> http_response repo" where
  "or_scheduling s m k = attempt_or m (\<lambda>e. ret (writeSchedulingError s e)) k"

section \<open>Requesting a pass\<close>

record request_pass_request =
  rpq_SatelliteID :: string
  rpq_AOS :: time
  rpq_Band :: string
  rpq_RecordingMode :: string
  rpq_Visibility :: string
  rpq_PipelineID :: string
  rpq_RadioSettings :: any_map
  rpq_Override :: bool

definition decode_request_pass :: "env \<Rightarrow> json \<Rightarrow> request_pass_request option" where
  "decode_request_pass e v = do {
     fs \<leftarrow> object_fields e [''satellite_id'', ''aos'', ''band'', ''recording_mode'', ''visibility'',
       ''pipeline_id'', ''radio_settings'', ''override''] v;
     i \<leftarrow> plain json_string ''satellite_id'' '''' fs;
     a \<leftarrow> plain (json_time e) ''aos'' zero_time fs;
     b \<leftarrow> plain json_string ''band'' '''' fs;
     m \<leftarrow> plain json_string ''recording_mode'' '''' fs;
     vi \<leftarrow> plain json_string ''visibility'' '''' fs;
     p \<leftarrow> plain json_string ''pipeline_id'' '''' fs;
     ra \<leftarrow> map_field e ''radio_settings'' fs;
     ov \<leftarrow> plain json_bool ''override'' False fs;
     Some \<lparr>rpq_SatelliteID = i, rpq_AOS = a, rpq_Band = b, rpq_RecordingMode = m, rpq_Visibility = vi,
           rpq_PipelineID = p, rpq_RadioSettings = ra, rpq_Override = ov\<rparr>}"

text \<open>The checks before the scheduler is called.\<close>

definition request_pass_input :: "env \<Rightarrow> request_pass_request \<Rightarrow> string + request_input" where
  "request_pass_input e rq =
     (case env_parse_uuid e (rpq_SatelliteID rq) of
        None \<Rightarrow> Inl ''invalid satellite_id''
      | Some satelliteID \<Rightarrow>
          if rpq_AOS rq = zero_time then Inl ''aos is required''
          else let input = \<lparr>ri_SatelliteID = satelliteID, ri_RequestedAOS = rpq_AOS rq,
                 ri_Band = rf_band_of (rpq_Band rq),
                 ri_RecordingMode = recording_mode_of (rpq_RecordingMode rq),
                 ri_Visibility = pass_visibility_of (rpq_Visibility rq),
                 ri_PipelineID = None, ri_RadioSettings = rpq_RadioSettings rq\<rparr>
               in if rpq_PipelineID rq = '''' then Inr input
                  else case env_parse_uuid e (rpq_PipelineID rq) of
                         None \<Rightarrow> Inl ''invalid pipeline_id''
                       | Some pipelineID \<Rightarrow> Inr (input\<lparr>ri_PipelineID := Some pipelineID\<rparr>))"

definition warning_view :: "warning \<Rightarrow> any_val" where
  "warning_view wn = VObject [(''code'', VString (Code wn)), (''message'', VString (Message wn))]"

text \<open>A nil slice is written as \<open>null\<close>.\<close>

definition request_pass_response :: "user \<Rightarrow> request_result \<Rightarrow> env \<Rightarrow> http_response" where
  "request_pass_response actor result e =
     writeJSON 201
       ([(''pass'', VObject (toPassView e (rr_Pass result) actor)),
         (''warnings'', if rr_Warnings result = [] then VNull
            else VList (map warning_view (rr_Warnings result)))] @
        (if rr_OverriddenPassIDs result \<noteq> []
         then [(''overridden_pass_ids'',
                VList (map (\<lambda>i. VString (env_uuid_text e i)) (rr_OverriddenPassIDs result)))] else []))"

definition handleRequestPass :: "http_server \<Rightarrow> handler" where
  "handleRequestPass s r =
     with_body decode_request_pass r (\<lambda>rq.
     attempt (asks (\<lambda>e. request_pass_input e rq)) (\<lambda>checked.
       case checked of
         Inl msg \<Rightarrow> bad_request msg
       | Inr input \<Rightarrow>
           or_scheduling s
             (if rpq_Override rq
              then RequestPassWithRootOverride (hs_Scheduling s) (currentUser r) input
              else RequestPass (hs_Scheduling s) (currentUser r) input)
             (\<lambda>result. respond (request_pass_response (currentUser r) result))))"

section \<open>Listing and reading passes\<close>

datatype scope_choice = ScopeMine | ScopePublic | ScopeAll | ScopeForbidden | ScopeUnknown

definition scope_of :: "http_request \<Rightarrow> scope_choice" where
  "scope_of r =
     (let scope = hr_Query r ''scope''
      in if scope = '''' \<or> scope = ''mine'' then ScopeMine
         else if scope = ''public'' then ScopePublic
         else if scope = ''all'' then (if AtLeast (currentUser r) RoleAdmin then ScopeAll else ScopeForbidden)
         else ScopeUnknown)"

definition pass_list_filter :: "http_request \<Rightarrow> pass_filter" where
  "pass_list_filter r =
     (let status = hr_Query r ''status''
      in \<lparr>pf_RequestedBy = (if scope_of r = ScopeMine then Some (u_ID (currentUser r)) else None),
          pf_Statuses = (if status \<noteq> '''' then [pass_status_of status] else []),
          pf_From = None, pf_To = None, pf_OnlyPublic = (scope_of r = ScopePublic),
          pf_Limit = passListLimit\<rparr>)"

definition pass_list_response :: "user \<Rightarrow> pass list \<Rightarrow> env \<Rightarrow> http_response" where
  "pass_list_response actor passes e =
     writeJSON 200 [(''passes'',
       VList (map (\<lambda>p. VObject (toPassView e p actor)) (filter (CanViewPass actor) passes)))]"

definition handleListPasses :: handler where
  "handleListPasses r =
     (if scope_of r = ScopeForbidden then ret (writeError 403 ''forbidden'' ''not permitted'')
      else if scope_of r = ScopeUnknown then bad_request ''scope must be mine, public or all''
      else or_500 (ListPasses (pass_list_filter r)) (\<lambda>passes.
        respond (pass_list_response (currentUser r) passes)))"

definition handleGetPass :: "http_server \<Rightarrow> handler" where
  "handleGetPass s r =
     pathUUID r (\<lambda>i.
     or_domain s (GetPassByID i) (\<lambda>pass.
     if \<not> CanViewPass (currentUser r) pass then ret (writeError 404 ''not_found'' ''not found'')
     else pass_response 200 (currentUser r) pass))"

section \<open>Deciding and cancelling\<close>

definition decidePass :: "http_server \<Rightarrow> bool \<Rightarrow> handler" where
  "decidePass s approve r =
     pathUUID r (\<lambda>i.
     or_scheduling s
       (if approve then Approve (hs_Scheduling s) (currentUser r) i
        else Reject (hs_Scheduling s) (currentUser r) i)
       (pass_response 200 (currentUser r)))"

definition handleApprovePass :: "http_server \<Rightarrow> handler" where
  "handleApprovePass s = decidePass s True"

definition handleRejectPass :: "http_server \<Rightarrow> handler" where
  "handleRejectPass s = decidePass s False"

definition handleCancelPass :: "http_server \<Rightarrow> handler" where
  "handleCancelPass s r =
     pathUUID r (\<lambda>i.
     or_scheduling s (Cancel (currentUser r) i) (pass_response 200 (currentUser r)))"

section \<open>A new scheduling configuration\<close>

record scheduling_config_request =
  scq_MinimumLeadTimeSeconds :: int
  scq_PrePassBufferSeconds :: int
  scq_PostPassBufferSeconds :: int
  scq_RecordingPreRollSeconds :: int
  scq_RecordingPostRollSeconds :: int
  scq_MinimumElevationDegrees :: float64

definition decode_scheduling_config :: "env \<Rightarrow> json \<Rightarrow> scheduling_config_request option" where
  "decode_scheduling_config e v = do {
     fs \<leftarrow> object_fields e [''minimum_lead_time_seconds'', ''pre_pass_buffer_seconds'',
       ''post_pass_buffer_seconds'', ''recording_pre_roll_seconds'', ''recording_post_roll_seconds'',
       ''minimum_elevation_degrees''] v;
     l \<leftarrow> plain (json_int 64) ''minimum_lead_time_seconds'' 0 fs;
     b \<leftarrow> plain (json_int 64) ''pre_pass_buffer_seconds'' 0 fs;
     a \<leftarrow> plain (json_int 64) ''post_pass_buffer_seconds'' 0 fs;
     p \<leftarrow> plain (json_int 64) ''recording_pre_roll_seconds'' 0 fs;
     q \<leftarrow> plain (json_int 64) ''recording_post_roll_seconds'' 0 fs;
     m \<leftarrow> plain (json_float e) ''minimum_elevation_degrees'' 0 fs;
     Some \<lparr>scq_MinimumLeadTimeSeconds = l, scq_PrePassBufferSeconds = b, scq_PostPassBufferSeconds = a,
           scq_RecordingPreRollSeconds = p, scq_RecordingPostRollSeconds = q,
           scq_MinimumElevationDegrees = m\<rparr>}"

text \<open>
  \<open>range\<close> visits a map in an order that is not specified, so which of several negative values is
  reported depends on the environment.
\<close>

definition map_range :: "env \<Rightarrow> nat \<Rightarrow> (string \<times> 'v) list \<Rightarrow> (string \<times> 'v) list" where
  "map_range e n m = sort_key (\<lambda>(k, _). env_map_rank e n k) m"

definition seconds_fields :: "int \<Rightarrow> int \<Rightarrow> int \<Rightarrow> int \<Rightarrow> int \<Rightarrow> (string \<times> int) list" where
  "seconds_fields lead before_pass after_pass pre post =
     [(''minimum_lead_time_seconds'', lead), (''pre_pass_buffer_seconds'', before_pass),
      (''post_pass_buffer_seconds'', after_pass), (''recording_pre_roll_seconds'', pre),
      (''recording_post_roll_seconds'', post)]"

definition negative_field :: "env \<Rightarrow> nat \<Rightarrow> (string \<times> int) list \<Rightarrow> string option" where
  "negative_field e n entries = map_option fst (find (\<lambda>(_, v). v < 0) (map_range e n entries))"

text \<open>\<open>time.Duration(s) * time.Second\<close>, a product of 64 bits.\<close>

definition duration_of_seconds :: "int \<Rightarrow> duration" where
  "duration_of_seconds v = sint (word_of_int (v * second) :: 64 word)"

lemma seconds_exact: "duration_of_seconds v = v * second \<longleftrightarrow> \<bar>v\<bar> \<le> 9223372036"
proof -
  have "duration_of_seconds v = signed_take_bit 63 (v * second)"
    unfolding duration_of_seconds_def sint_sbintrunc' by simp
  then show ?thesis by (auto simp: signed_take_bit_int_eq_self_iff second_def)
qed

definition requested_config :: "scheduling_config_request \<Rightarrow> scheduling_config" where
  "requested_config rq =
     \<lparr>sc_ID = 0, sc_StationID = 0,
      sc_MinimumLeadTime = duration_of_seconds (scq_MinimumLeadTimeSeconds rq),
      sc_PrePassBuffer = duration_of_seconds (scq_PrePassBufferSeconds rq),
      sc_PostPassBuffer = duration_of_seconds (scq_PostPassBufferSeconds rq),
      sc_RecordingPreRoll = duration_of_seconds (scq_RecordingPreRollSeconds rq),
      sc_RecordingPostRoll = duration_of_seconds (scq_RecordingPostRollSeconds rq),
      sc_MinimumElevationDegrees = scq_MinimumElevationDegrees rq, sc_CreatedBy = None,
      sc_CreatedAt = zero_time, sc_EffectiveFrom = zero_time\<rparr>"

definition config_request_seconds :: "scheduling_config_request \<Rightarrow> (string \<times> int) list" where
  "config_request_seconds rq =
     seconds_fields (scq_MinimumLeadTimeSeconds rq) (scq_PrePassBufferSeconds rq)
       (scq_PostPassBufferSeconds rq) (scq_RecordingPreRollSeconds rq) (scq_RecordingPostRollSeconds rq)"

text \<open>The order of iteration is drawn anew at each loop: the current tick, which the loop uses up.\<close>

definition draw :: "(env \<Rightarrow> nat \<Rightarrow> 'a) \<Rightarrow> 'a repo" where
  "draw f w = (Inr (f (env w) (tick w)), advance w)"

definition handleUpdateSchedulingConfig :: "http_server \<Rightarrow> handler" where
  "handleUpdateSchedulingConfig s r =
     with_body decode_scheduling_config r (\<lambda>rq.
     attempt (draw (\<lambda>e n. negative_field e n (config_request_seconds rq))) (\<lambda>negative.
       case negative of
         Some name \<Rightarrow> bad_request (name @ '' cannot be negative'')
       | None \<Rightarrow>
           if scq_MinimumElevationDegrees rq < 0 \<or> 90 \<le> scq_MinimumElevationDegrees rq
           then bad_request ''minimum_elevation_degrees must be at least 0 and below 90''
           else or_scheduling s (UpdateSchedulingConfig (currentUser r) (requested_config rq)) (\<lambda>saved.
             respond (\<lambda>e. writeJSON 201
               [(''minimum_lead_time_seconds'', whole_seconds e (sc_MinimumLeadTime saved)),
                (''effective_from'', VTime (sc_EffectiveFrom saved))]))))"

section \<open>The plan of a pass\<close>

fun proto_band_string :: "proto_band \<Rightarrow> string" where
  "proto_band_string RF_BAND_UNSPECIFIED = ''RF_BAND_UNSPECIFIED''"
| "proto_band_string RF_BAND_VHF = ''RF_BAND_VHF''"
| "proto_band_string RF_BAND_UHF = ''RF_BAND_UHF''"

fun proto_mode_string :: "proto_mode \<Rightarrow> string" where
  "proto_mode_string RECORDING_MODE_UNSPECIFIED = ''RECORDING_MODE_UNSPECIFIED''"
| "proto_mode_string RECORDING_MODE_RAW = ''RECORDING_MODE_RAW''"
| "proto_mode_string RECORDING_MODE_PROCESS = ''RECORDING_MODE_PROCESS''"
| "proto_mode_string RECORDING_MODE_RAW_AND_PROCESS = ''RECORDING_MODE_RAW_AND_PROCESS''"

definition track_point_view :: "track_point \<Rightarrow> any_val" where
  "track_point_view point = VObject
     [(''at'', VTime (tp_At point)), (''azimuth_degrees'', VFloat (tp_AzimuthDegrees point)),
      (''elevation_degrees'', VFloat (tp_ElevationDegrees point)), (''range_km'', VFloat (tp_RangeKm point))]"

definition pass_plan_view :: "env \<Rightarrow> bytes \<Rightarrow> pass_plan \<Rightarrow> any_map" where
  "pass_plan_view e encoded plan =
     [(''plan_version'', VInt (pn_PlanVersion plan)), (''generation'', VString (pn_Generation plan)),
      (''generated_at'', VTime (as_time (pn_GeneratedAt plan))),
      (''encoded_bytes'', VInt (int (length encoded))),
      (''pass_id'', VString (env_uuid_text e (pn_PassId plan))),
      (''station_id'', VString (env_uuid_text e (pn_StationId plan))),
      (''worker_id'', VString (env_uuid_text e (pn_WorkerId plan))),
      (''norad_id'', VInt (uint (pn_NoradId plan))), (''satellite_name'', VString (pn_SatelliteName plan)),
      (''tle_record_id'', VString (env_uuid_text e (el_TleRecordId (pn_Elements plan)))),
      (''tle_epoch'', VTime (el_Epoch (pn_Elements plan))),
      (''aos'', VTime (pn_Aos plan)), (''tca'', VTime (as_time (pn_Tca plan))), (''los'', VTime (pn_Los plan)),
      (''recording_start'', VTime (pn_RecordingStart plan)), (''recording_end'', VTime (pn_RecordingEnd plan)),
      (''band'', VString (proto_band_string (pn_Band plan))),
      (''recording_mode'', VString (proto_mode_string (pn_RecordingMode plan))),
      (''radio'', VObject
         [(''source'', VString (ra_Source (pn_Radio plan))),
          (''frequency_hz'', VInt64 (ra_FrequencyHz (pn_Radio plan))),
          (''sample_rate_hz'', VInt64 (ra_SampleRateHz (pn_Radio plan))),
          (''gain_db'', VFloat (ra_GainDb (pn_Radio plan)))]),
      (''pipeline'', VString (sd_Identifier (pn_Pipeline plan))),
      (''track_point_count'', VInt (int (length (pn_Track plan)))),
      (''track'', VList (map track_point_view (pn_Track plan)))]"

definition handleGetPassPlan :: "http_server \<Rightarrow> handler" where
  "handleGetPassPlan s r =
     pathUUID r (\<lambda>i.
     attempt_or (GetPassPlan i)
       (\<lambda>e. if errors_is e ErrNotFound
            then ret (writeError 404 ''no_plan'' ''this pass has no executable plan; only an approved pass does'')
            else ret internalError)
       (\<lambda>stored.
          case Unmarshal (hs_Codec s) (pp_Encoded stored) of
            Inl e \<Rightarrow> ret internalError
          | Inr plan \<Rightarrow> respond (\<lambda>e. writeJSON 200 (pass_plan_view e (pp_Encoded stored) plan))))"

section \<open>Every request is answered, and by steps of the server\<close>

lemma answers_scheduling [answer_intro]:
  "(\<And>x. answers (k x)) \<Longrightarrow> answers (or_scheduling s m k)" "answers (draw f)"
  "answers (pass_response code actor pass)"
  unfolding or_scheduling_def pass_response_def
  by (intro answer_intro; simp) (simp_all add: answers_def draw_def answers_steps [unfolded answers_def])

lemma pass_answers [answer_intro]:
  "answers (handleRequestPass s r)" "answers (handleListPasses r)" "answers (handleGetPass s r)"
  "answers (handleApprovePass s r)" "answers (handleRejectPass s r)" "answers (handleCancelPass s r)"
  "answers (handleUpdateSchedulingConfig s r)" "answers (handleGetPassPlan s r)"
  unfolding handleRequestPass_def handleListPasses_def handleGetPass_def handleApprovePass_def
    handleRejectPass_def decidePass_def handleCancelPass_def handleUpdateSchedulingConfig_def
    handleGetPassPlan_def
  by (intro answer_intro)+

context guarantee begin

lemma or_scheduling [guar_intro]:
  "guar G m \<Longrightarrow> (\<And>x. guar G (k x)) \<Longrightarrow> guar G (or_scheduling s m k)"
  unfolding or_scheduling_def by (intro attempt_or ret; assumption)

lemma pass_response [guar_intro]: "guar G (pass_response code actor pass)"
  unfolding pass_response_def by (rule http_steps)

lemma draw [guar_intro]: "guar G (draw f)"
  by (simp add: draw_def guar_def G_refl)

lemmas scheduling_steps = or_scheduling pass_response draw

end

context server_guarantee begin

lemma pass_handlers [guar_intro]:
  "guar G (handleRequestPass s r)" "guar G (handleListPasses r)" "guar G (handleGetPass s r)"
  "guar G (handleApprovePass s r)" "guar G (handleRejectPass s r)" "guar G (handleCancelPass s r)"
  "guar G (handleUpdateSchedulingConfig s r)" "guar G (handleGetPassPlan s r)"
  unfolding handleRequestPass_def handleListPasses_def handleGetPass_def handleApprovePass_def
    handleRejectPass_def decidePass_def handleCancelPass_def handleUpdateSchedulingConfig_def
    handleGetPassPlan_def Approve_def Reject_def
  by (intro http_steps scheduling_steps attempt attempt_or asks if_guar case_option_guar case_sum_guar ret
      reads pass_methods RequestPass RequestPassWithRootOverride decide Cancel UpdateSchedulingConfig)+

end

end
