(* ===== verification/Http_Setup.thy ===== *)
theory Http_Setup
  imports Http_Passes
begin

text \<open>
  First-run setup (\<open>setup_handlers.go\<close>): the request, its validation, and the transaction that
  creates the station with everything that belongs to it and sets the first-run marker.
\<close>

section \<open>The request\<close>

record band_config_request =
  bq_Band :: string
  bq_AntennaDescription :: string
  bq_CenterFrequencyHz :: "int option"
  bq_SampleRateHz :: "int option"
  bq_GainDB :: "float64 option"
  bq_PPMCorrection :: int
  bq_BiasTeeEnabled :: bool

record setup_request =
  su_StationName :: string
  su_Latitude :: float64
  su_Longitude :: float64
  su_AltitudeM :: float64
  su_Timezone :: string
  su_ActiveRFBand :: string
  su_Bands :: "band_config_request list"
  su_RotatorSerialPort :: string
  su_RotatorBaudRate :: int
  su_RotatorParkAzimuthDegrees :: int
  su_RotatorParkElevationDegrees :: int
  su_SDRDeviceIdentifier :: string
  su_MinimumLeadTimeSeconds :: int
  su_PrePassBufferSeconds :: int
  su_PostPassBufferSeconds :: int
  su_RecordingPreRollSeconds :: int
  su_RecordingPostRollSeconds :: int
  su_MinimumElevationDegrees :: float64
  su_WorkerName :: string

definition decode_band_config :: "env \<Rightarrow> json \<Rightarrow> band_config_request option" where
  "decode_band_config e v = do {
     fs \<leftarrow> object_fields e [''band'', ''antenna_description'', ''center_frequency_hz'', ''sample_rate_hz'',
       ''gain_db'', ''ppm_correction'', ''bias_tee_enabled''] v;
     b \<leftarrow> plain json_string ''band'' '''' fs;
     a \<leftarrow> plain json_string ''antenna_description'' '''' fs;
     c \<leftarrow> pointer (json_int 64) ''center_frequency_hz'' fs;
     h \<leftarrow> pointer (json_int 32) ''sample_rate_hz'' fs;
     g \<leftarrow> pointer (json_float e) ''gain_db'' fs;
     p \<leftarrow> plain (json_int 32) ''ppm_correction'' 0 fs;
     t \<leftarrow> plain json_bool ''bias_tee_enabled'' False fs;
     Some \<lparr>bq_Band = b, bq_AntennaDescription = a, bq_CenterFrequencyHz = c, bq_SampleRateHz = h,
           bq_GainDB = g, bq_PPMCorrection = p, bq_BiasTeeEnabled = t\<rparr>}"

definition setup_fields :: "string list" where
  "setup_fields =
     [''station_name'', ''latitude'', ''longitude'', ''altitude_m'', ''timezone'', ''active_rf_band'', ''bands'',
      ''rotator_serial_port'', ''rotator_baud_rate'', ''rotator_park_azimuth_degrees'',
      ''rotator_park_elevation_degrees'', ''sdr_device_identifier'', ''minimum_lead_time_seconds'',
      ''pre_pass_buffer_seconds'', ''post_pass_buffer_seconds'', ''recording_pre_roll_seconds'',
      ''recording_post_roll_seconds'', ''minimum_elevation_degrees'', ''worker_name'']"

definition decode_setup :: "env \<Rightarrow> json \<Rightarrow> setup_request option" where
  "decode_setup e v = do {
     fs \<leftarrow> object_fields e setup_fields v;
     nm \<leftarrow> plain json_string ''station_name'' '''' fs;
     lat \<leftarrow> plain (json_float e) ''latitude'' 0 fs;
     lon \<leftarrow> plain (json_float e) ''longitude'' 0 fs;
     alt \<leftarrow> plain (json_float e) ''altitude_m'' 0 fs;
     tz \<leftarrow> plain json_string ''timezone'' '''' fs;
     act \<leftarrow> plain json_string ''active_rf_band'' '''' fs;
     bands \<leftarrow> list_field (decode_band_config e) ''bands'' fs;
     port \<leftarrow> plain json_string ''rotator_serial_port'' '''' fs;
     baud \<leftarrow> plain (json_int 32) ''rotator_baud_rate'' 0 fs;
     az \<leftarrow> plain (json_int 32) ''rotator_park_azimuth_degrees'' 0 fs;
     el \<leftarrow> plain (json_int 32) ''rotator_park_elevation_degrees'' 0 fs;
     sdr \<leftarrow> plain json_string ''sdr_device_identifier'' '''' fs;
     lead \<leftarrow> plain (json_int 64) ''minimum_lead_time_seconds'' 0 fs;
     pre \<leftarrow> plain (json_int 64) ''pre_pass_buffer_seconds'' 0 fs;
     post \<leftarrow> plain (json_int 64) ''post_pass_buffer_seconds'' 0 fs;
     rpre \<leftarrow> plain (json_int 64) ''recording_pre_roll_seconds'' 0 fs;
     rpost \<leftarrow> plain (json_int 64) ''recording_post_roll_seconds'' 0 fs;
     mel \<leftarrow> plain (json_float e) ''minimum_elevation_degrees'' 0 fs;
     wn \<leftarrow> plain json_string ''worker_name'' '''' fs;
     Some \<lparr>su_StationName = nm, su_Latitude = lat, su_Longitude = lon, su_AltitudeM = alt, su_Timezone = tz,
           su_ActiveRFBand = act, su_Bands = bands, su_RotatorSerialPort = port, su_RotatorBaudRate = baud,
           su_RotatorParkAzimuthDegrees = az, su_RotatorParkElevationDegrees = el,
           su_SDRDeviceIdentifier = sdr, su_MinimumLeadTimeSeconds = lead, su_PrePassBufferSeconds = pre,
           su_PostPassBufferSeconds = post, su_RecordingPreRollSeconds = rpre,
           su_RecordingPostRollSeconds = rpost, su_MinimumElevationDegrees = mel, su_WorkerName = wn\<rparr>}"

section \<open>validateSetup\<close>

definition isBand :: "string \<Rightarrow> bool" where
  "isBand v \<longleftrightarrow> v = rf_band_string BandVHF \<or> v = rf_band_string BandUHF"

definition setup_seconds :: "setup_request \<Rightarrow> (string \<times> int) list" where
  "setup_seconds rq =
     seconds_fields (su_MinimumLeadTimeSeconds rq) (su_PrePassBufferSeconds rq) (su_PostPassBufferSeconds rq)
       (su_RecordingPreRollSeconds rq) (su_RecordingPostRollSeconds rq)"

text \<open>The message, or the request with the default of the time zone filled in.\<close>

definition validateSetup :: "env \<Rightarrow> nat \<Rightarrow> setup_request \<Rightarrow> string + setup_request" where
  "validateSetup e n rq =
     (if TrimSpace (su_StationName rq) = '''' then Inl ''station_name is required''
      else if su_Latitude rq < -90 \<or> 90 < su_Latitude rq then Inl ''latitude must be between -90 and 90''
      else if su_Longitude rq < -180 \<or> 180 < su_Longitude rq
      then Inl ''longitude must be between -180 and 180''
      else
      let rq2 = (if su_Timezone rq = '''' then rq\<lparr>su_Timezone := ''UTC''\<rparr> else rq) in
      if \<not> isBand (su_ActiveRFBand rq2) then Inl ''active_rf_band must be vhf or uhf''
      else if \<not> list_all (\<lambda>b. isBand (bq_Band b)) (su_Bands rq2) then Inl ''band must be vhf or uhf''
      else if TrimSpace (su_RotatorSerialPort rq2) = '''' then Inl ''rotator_serial_port is required''
      else if su_RotatorBaudRate rq2 \<le> 0 then Inl ''rotator_baud_rate must be positive''
      else if su_RotatorParkAzimuthDegrees rq2 < 0 \<or> 359 < su_RotatorParkAzimuthDegrees rq2
      then Inl ''rotator_park_azimuth_degrees must be between 0 and 359''
      else if su_RotatorParkElevationDegrees rq2 < 0 \<or> 90 < su_RotatorParkElevationDegrees rq2
      then Inl ''rotator_park_elevation_degrees must be between 0 and 90''
      else case negative_field e n (setup_seconds rq2) of
             Some name \<Rightarrow> Inl (name @ '' cannot be negative'')
           | None \<Rightarrow>
               if su_MinimumElevationDegrees rq2 < 0 \<or> 90 < su_MinimumElevationDegrees rq2
               then Inl ''minimum_elevation_degrees must be between 0 and 90''
               else if TrimSpace (su_WorkerName rq2) = '''' then Inl ''worker_name is required''
               else Inr rq2)"

section \<open>The transaction\<close>

definition setup_station :: "setup_request \<Rightarrow> station" where
  "setup_station rq =
     \<lparr>st_ID = 0, st_Name = su_StationName rq, st_Latitude = su_Latitude rq, st_Longitude = su_Longitude rq,
      st_AltitudeM = su_AltitudeM rq, st_Timezone = su_Timezone rq,
      st_ActiveRFBand = rf_band_of (su_ActiveRFBand rq), st_CreatedAt = zero_time, st_UpdatedAt = zero_time\<rparr>"

definition setup_band :: "uuid \<Rightarrow> band_config_request \<Rightarrow> station_band_config" where
  "setup_band sid b =
     \<lparr>bc_StationID = sid, bc_Band = rf_band_of (bq_Band b), bc_AntennaDescription = bq_AntennaDescription b,
      bc_CenterFrequencyHz = bq_CenterFrequencyHz b, bc_SampleRateHz = bq_SampleRateHz b,
      bc_GainDB = bq_GainDB b, bc_PPMCorrection = bq_PPMCorrection b, bc_BiasTeeEnabled = bq_BiasTeeEnabled b\<rparr>"

definition setup_hardware :: "uuid \<Rightarrow> setup_request \<Rightarrow> station_hardware_config" where
  "setup_hardware sid rq =
     \<lparr>hw_StationID = sid, hw_RotatorSerialPort = su_RotatorSerialPort rq,
      hw_RotatorBaudRate = su_RotatorBaudRate rq,
      hw_RotatorParkAzimuthDegrees = su_RotatorParkAzimuthDegrees rq,
      hw_RotatorParkElevationDegrees = su_RotatorParkElevationDegrees rq,
      hw_SDRDeviceIdentifier = su_SDRDeviceIdentifier rq\<rparr>"

definition setup_config :: "uuid \<Rightarrow> uuid \<Rightarrow> time \<Rightarrow> setup_request \<Rightarrow> scheduling_config" where
  "setup_config sid actorID now rq =
     \<lparr>sc_ID = 0, sc_StationID = sid,
      sc_MinimumLeadTime = duration_of_seconds (su_MinimumLeadTimeSeconds rq),
      sc_PrePassBuffer = duration_of_seconds (su_PrePassBufferSeconds rq),
      sc_PostPassBuffer = duration_of_seconds (su_PostPassBufferSeconds rq),
      sc_RecordingPreRoll = duration_of_seconds (su_RecordingPreRollSeconds rq),
      sc_RecordingPostRoll = duration_of_seconds (su_RecordingPostRollSeconds rq),
      sc_MinimumElevationDegrees = su_MinimumElevationDegrees rq, sc_CreatedBy = Some actorID,
      sc_CreatedAt = zero_time, sc_EffectiveFrom = now\<rparr>"

definition setup_worker :: "uuid \<Rightarrow> setup_request \<Rightarrow> worker" where
  "setup_worker sid rq =
     \<lparr>w_ID = 0, w_StationID = sid, w_Name = su_WorkerName rq, w_WorkerVersion = '''',
      w_ConnectionState = WorkerOffline, w_LastSeenAt = None, w_LastSyncAt = None,
      w_DesiredStateGeneration = 0, w_PendingUploads = 0, w_PendingReports = 0,
      w_SyncedGeneration = '''', w_CreatedAt = zero_time, w_UpdatedAt = zero_time\<rparr>"

definition setup_tx :: "uuid \<Rightarrow> time \<Rightarrow> setup_request \<Rightarrow> uuid repo" where
  "setup_tx actorID now rq =
     attempt (CreateStation (setup_station rq)) (\<lambda>station.
     attempt (for_each (su_Bands rq) (\<lambda>b. UpsertStationBandConfig (setup_band (st_ID station) b))) (\<lambda>_.
     attempt (UpsertStationHardwareConfig (setup_hardware (st_ID station) rq)) (\<lambda>_.
     attempt (CreateSchedulingConfig (setup_config (st_ID station) actorID now rq)) (\<lambda>_.
     attempt (CreateWorker (setup_worker (st_ID station) rq)) (\<lambda>_.
     attempt (MarkSystemInitialized now) (\<lambda>_. ret (st_ID station)))))))"

section \<open>The handlers\<close>

definition handleSetupStatus :: handler where
  "handleSetupStatus r =
     or_500 SystemInitializedAt (\<lambda>moment.
       ret (writeJSON 200 ([(''initialized'', VBool (moment \<noteq> None))] @ opt_field ''initialized_at'' VTime moment)))"

text \<open>From the look at the first-run marker on.\<close>

definition run_setup :: "http_server \<Rightarrow> http_request \<Rightarrow> setup_request \<Rightarrow> http_response repo" where
  "run_setup s r rq =
     or_500 SystemInitializedAt (\<lambda>already.
     if already \<noteq> None
     then ret (writeError 409 ''already_initialized'' ''the system has already completed first-run setup'')
     else
     attempt clock_now (\<lambda>now.
     or_domain s (InTx (setup_tx (u_ID (currentUser r)) now rq)) (\<lambda>stationID.
     http_audit r ''system.initialized'' ''station'' (RefID stationID)
         [(''station_name'', VString (su_StationName rq)), (''active_rf_band'', VString (su_ActiveRFBand rq))]
       (respond (\<lambda>e. writeJSON 201
          [(''station_id'', VString (env_uuid_text e stationID)), (''initialized_at'', VTime now)])))))"

definition handleSetup :: "http_server \<Rightarrow> handler" where
  "handleSetup s r =
     (if \<not> CanRunFirstRunSetup (currentUser r)
      then ret (writeError 403 ''forbidden'' ''first-run setup is root only'')
      else
      with_body decode_setup r (\<lambda>rq.
      attempt (draw (\<lambda>e n. validateSetup e n rq)) (\<lambda>checked.
        case checked of Inl msg \<Rightarrow> bad_request msg | Inr valid \<Rightarrow> run_setup s r valid)))"

section \<open>Every request is answered, and by steps of the server\<close>

lemma setup_answers [answer_intro]: "answers (handleSetupStatus r)" "answers (handleSetup s r)"
  unfolding handleSetupStatus_def handleSetup_def run_setup_def by (intro answer_intro)+

context server_guarantee begin

lemma setup_tx [guar_intro]: "guar G (setup_tx actorID now rq)"
  unfolding setup_tx_def by (intro attempt for_each station_methods worker_methods accounts ret)

lemma setup_handlers [guar_intro]: "guar G (handleSetupStatus r)" "guar G (handleSetup s r)"
  unfolding handleSetupStatus_def handleSetup_def run_setup_def
  by (intro http_steps http_audits draw attempt clock_now InTx setup_tx if_guar case_sum_guar reads ret)+

end

end
