(* ===== verification/Http_Station.thy ===== *)
theory Http_Station
  imports Http_Setup
begin

text \<open>
  What root and the administrators see and change of the station: \<open>root_handlers.go\<close> (station,
  bands, hardware, audit log) and \<open>admin_handlers.go\<close> (station status, scheduling configuration,
  state of the orbital elements).
\<close>

section \<open>internal/httpapi/root_handlers.go\<close>

definition upcomingPassWarning :: "int repo" where
  "upcomingPassWarning =
     attempt clock_now (\<lambda>now.
     attempt (ListPasses \<lparr>pf_RequestedBy = None, pf_Statuses = [PassPendingApproval, PassApproved],
        pf_From = (if now = zero_time then None else Some now), pf_To = None, pf_OnlyPublic = False,
        pf_Limit = 0\<rparr>) (\<lambda>passes.
     ret (int (length passes))))"

definition band_config_view :: "station_band_config \<Rightarrow> any_map" where
  "band_config_view b =
     [(''band'', VString (rf_band_string (bc_Band b))),
      (''antenna_description'', VString (bc_AntennaDescription b))] @
     opt_field ''center_frequency_hz'' VInt64 (bc_CenterFrequencyHz b) @
     opt_field ''sample_rate_hz'' VInt (bc_SampleRateHz b) @
     opt_field ''gain_db'' VFloat (bc_GainDB b) @
     [(''ppm_correction'', VInt (bc_PPMCorrection b)), (''bias_tee_enabled'', VBool (bc_BiasTeeEnabled b))]"

definition hardware_config_view :: "station_hardware_config \<Rightarrow> any_map" where
  "hardware_config_view h =
     [(''rotator_serial_port'', VString (hw_RotatorSerialPort h)),
      (''rotator_baud_rate'', VInt (hw_RotatorBaudRate h)),
      (''rotator_park_azimuth_degrees'', VInt (hw_RotatorParkAzimuthDegrees h)),
      (''rotator_park_elevation_degrees'', VInt (hw_RotatorParkElevationDegrees h)),
      (''sdr_device_identifier'', VString (hw_SDRDeviceIdentifier h))]"

definition station_config_response ::
  "station \<Rightarrow> station_band_config list \<Rightarrow> station_hardware_config \<Rightarrow> int \<Rightarrow> env \<Rightarrow> any_map" where
  "station_config_response station bands hardware upcoming e =
     [(''station_id'', VString (env_uuid_text e (st_ID station))), (''name'', VString (st_Name station)),
      (''latitude_degrees'', VFloat (st_Latitude station)),
      (''longitude_degrees'', VFloat (st_Longitude station)), (''altitude_m'', VFloat (st_AltitudeM station)),
      (''timezone'', VString (st_Timezone station)),
      (''active_rf_band'', VString (rf_band_string (st_ActiveRFBand station))),
      (''bands'', VList (map (\<lambda>b. VObject (band_config_view b)) bands)),
      (''hardware'', VObject (hardware_config_view hardware)), (''upcoming_passes'', VInt upcoming)]"

definition handleGetStationConfig :: handler where
  "handleGetStationConfig r =
     primaryStation (\<lambda>station.
     or_500 (GetStationBandConfigs (st_ID station)) (\<lambda>bands.
     or_500 (GetStationHardwareConfig (st_ID station)) (\<lambda>hardware.
     or_500 upcomingPassWarning (\<lambda>upcoming.
       respond (\<lambda>e. writeJSON 200 (station_config_response station bands hardware upcoming e))))))"

subsection \<open>The station\<close>

record update_station_request =
  us_Name :: "string option"
  us_LatitudeDegrees :: "float64 option"
  us_LongitudeDegrees :: "float64 option"
  us_AltitudeM :: "float64 option"
  us_Timezone :: "string option"
  us_ActiveRFBand :: "string option"

definition decode_update_station :: "env \<Rightarrow> json \<Rightarrow> update_station_request option" where
  "decode_update_station e v = do {
     fs \<leftarrow> object_fields e [''name'', ''latitude_degrees'', ''longitude_degrees'', ''altitude_m'', ''timezone'',
       ''active_rf_band''] v;
     n \<leftarrow> pointer json_string ''name'' fs;
     lat \<leftarrow> pointer (json_float e) ''latitude_degrees'' fs;
     lon \<leftarrow> pointer (json_float e) ''longitude_degrees'' fs;
     alt \<leftarrow> pointer (json_float e) ''altitude_m'' fs;
     tz \<leftarrow> pointer json_string ''timezone'' fs;
     b \<leftarrow> pointer json_string ''active_rf_band'' fs;
     Some \<lparr>us_Name = n, us_LatitudeDegrees = lat, us_LongitudeDegrees = lon, us_AltitudeM = alt,
           us_Timezone = tz, us_ActiveRFBand = b\<rparr>}"

text \<open>
  The guards of a partial update, in the order of the code: each looks at one optional field and
  either refuses the request or sets the field.
\<close>

definition set_field ::
  "'a option \<Rightarrow> ('a \<Rightarrow> bool) \<Rightarrow> string \<Rightarrow> ('a \<Rightarrow> 's \<Rightarrow> 's) \<Rightarrow> string + 's \<Rightarrow> string + 's" where
  "set_field v valid msg put st =
     (case st of
        Inl m \<Rightarrow> Inl m
      | Inr x \<Rightarrow> (case v of None \<Rightarrow> Inr x | Some y \<Rightarrow> if valid y then Inr (put y x) else Inl msg))"

definition not_blank :: "string \<Rightarrow> bool" where
  "not_blank v \<longleftrightarrow> TrimSpace v \<noteq> ''''"

definition put_timezone :: "string \<Rightarrow> station \<Rightarrow> station" where
  "put_timezone v st = (if TrimSpace v \<noteq> '''' then st\<lparr>st_Timezone := TrimSpace v\<rparr> else st)"

definition updated_station :: "update_station_request \<Rightarrow> station \<Rightarrow> string + station" where
  "updated_station rq station =
     set_field (us_ActiveRFBand rq) isBand ''active_rf_band must be vhf or uhf'' (\<lambda>_ st. st)
     (set_field (us_Timezone rq) (\<lambda>_. True) '''' put_timezone
     (set_field (us_AltitudeM rq) (\<lambda>_. True) '''' (\<lambda>x st. st\<lparr>st_AltitudeM := x\<rparr>)
     (set_field (us_LongitudeDegrees rq) (\<lambda>x. \<not> (x < -180 \<or> 180 < x))
        ''longitude_degrees must be between -180 and 180'' (\<lambda>x st. st\<lparr>st_Longitude := x\<rparr>)
     (set_field (us_LatitudeDegrees rq) (\<lambda>x. \<not> (x < -90 \<or> 90 < x))
        ''latitude_degrees must be between -90 and 90'' (\<lambda>x st. st\<lparr>st_Latitude := x\<rparr>)
     (set_field (us_Name rq) not_blank ''name cannot be empty'' (\<lambda>v st. st\<lparr>st_Name := TrimSpace v\<rparr>)
       (Inr station))))))"

definition station_audit :: "station \<Rightarrow> any_map" where
  "station_audit st =
     [(''name'', VString (st_Name st)), (''latitude'', VFloat (st_Latitude st)),
      (''longitude'', VFloat (st_Longitude st)), (''altitude_m'', VFloat (st_AltitudeM st)),
      (''timezone'', VString (st_Timezone st)),
      (''active_rf_band'', VString (rf_band_string (st_ActiveRFBand st)))]"

definition update_station_response :: "station \<Rightarrow> int \<Rightarrow> env \<Rightarrow> http_response" where
  "update_station_response saved upcoming e =
     writeJSON 200
       [(''station_id'', VString (env_uuid_text e (st_ID saved))), (''name'', VString (st_Name saved)),
        (''latitude_degrees'', VFloat (st_Latitude saved)), (''longitude_degrees'', VFloat (st_Longitude saved)),
        (''altitude_m'', VFloat (st_AltitudeM saved)), (''timezone'', VString (st_Timezone saved)),
        (''active_rf_band'', VString (rf_band_string (st_ActiveRFBand saved))),
        (''upcoming_passes_unchanged'', VInt upcoming)]"

text \<open>The band is changed by a second statement, if it is asked for and differs.\<close>

definition switch_band ::
  "http_server \<Rightarrow> station \<Rightarrow> string option \<Rightarrow> station \<Rightarrow> (station \<Rightarrow> http_response repo) \<Rightarrow> http_response repo" where
  "switch_band s previous band saved k =
     (case band of
        None \<Rightarrow> k saved
      | Some b \<Rightarrow>
          if b \<noteq> rf_band_string (st_ActiveRFBand previous)
          then or_domain s (SetStationActiveBand (st_ID previous) (rf_band_of b))
                 (\<lambda>_. k (saved\<lparr>st_ActiveRFBand := rf_band_of b\<rparr>))
          else k saved)"

definition save_station ::
  "http_server \<Rightarrow> http_request \<Rightarrow> station \<Rightarrow> string option \<Rightarrow> station \<Rightarrow> http_response repo" where
  "save_station s r previous band updated =
     or_domain s (UpdateStation updated) (\<lambda>saved.
     switch_band s previous band saved (\<lambda>saved2.
     or_500 upcomingPassWarning (\<lambda>upcoming.
     auditChange r ''station.updated'' ''station'' (RefID (st_ID previous))
         (station_audit previous) (station_audit saved2)
       (respond (update_station_response saved2 upcoming)))))"

definition handleUpdateStation :: "http_server \<Rightarrow> handler" where
  "handleUpdateStation s r =
     with_body decode_update_station r (\<lambda>rq.
     primaryStation (\<lambda>station.
       case updated_station rq station of
         Inl msg \<Rightarrow> bad_request msg
       | Inr updated \<Rightarrow> save_station s r station (us_ActiveRFBand rq) updated))"

subsection \<open>Bands\<close>

record update_band_request =
  ub_AntennaDescription :: "string option"
  ub_CenterFrequencyHz :: "int option"
  ub_SampleRateHz :: "int option"
  ub_GainDB :: "float64 option"
  ub_PPMCorrection :: "int option"
  ub_BiasTeeEnabled :: "bool option"

definition decode_update_band :: "env \<Rightarrow> json \<Rightarrow> update_band_request option" where
  "decode_update_band e v = do {
     fs \<leftarrow> object_fields e [''antenna_description'', ''center_frequency_hz'', ''sample_rate_hz'', ''gain_db'',
       ''ppm_correction'', ''bias_tee_enabled''] v;
     a \<leftarrow> pointer json_string ''antenna_description'' fs;
     c \<leftarrow> pointer (json_int 64) ''center_frequency_hz'' fs;
     h \<leftarrow> pointer (json_int 32) ''sample_rate_hz'' fs;
     g \<leftarrow> pointer (json_float e) ''gain_db'' fs;
     p \<leftarrow> pointer (json_int 32) ''ppm_correction'' fs;
     t \<leftarrow> pointer json_bool ''bias_tee_enabled'' fs;
     Some \<lparr>ub_AntennaDescription = a, ub_CenterFrequencyHz = c, ub_SampleRateHz = h, ub_GainDB = g,
           ub_PPMCorrection = p, ub_BiasTeeEnabled = t\<rparr>}"

definition empty_band :: "uuid \<Rightarrow> string \<Rightarrow> station_band_config" where
  "empty_band sid band =
     \<lparr>bc_StationID = sid, bc_Band = rf_band_of band, bc_AntennaDescription = '''',
      bc_CenterFrequencyHz = None, bc_SampleRateHz = None, bc_GainDB = None, bc_PPMCorrection = 0,
      bc_BiasTeeEnabled = False\<rparr>"

text \<open>The loop keeps the last entry of the band.\<close>

fun current_band :: "string \<Rightarrow> station_band_config list \<Rightarrow> station_band_config \<Rightarrow> station_band_config" where
  "current_band band [] current = current"
| "current_band band (entry # rest) current =
     current_band band rest (if rf_band_string (bc_Band entry) = band then entry else current)"

definition updated_band :: "update_band_request \<Rightarrow> station_band_config \<Rightarrow> string + station_band_config" where
  "updated_band rq current =
     set_field (ub_BiasTeeEnabled rq) (\<lambda>_. True) '''' (\<lambda>x c. c\<lparr>bc_BiasTeeEnabled := x\<rparr>)
     (set_field (ub_PPMCorrection rq) (\<lambda>_. True) '''' (\<lambda>x c. c\<lparr>bc_PPMCorrection := x\<rparr>)
     (set_field (ub_GainDB rq) (\<lambda>_. True) '''' (\<lambda>x c. c\<lparr>bc_GainDB := Some x\<rparr>)
     (set_field (ub_SampleRateHz rq) (\<lambda>x. \<not> x \<le> 0) ''sample_rate_hz must be positive''
        (\<lambda>x c. c\<lparr>bc_SampleRateHz := Some x\<rparr>)
     (set_field (ub_CenterFrequencyHz rq) (\<lambda>x. \<not> x \<le> 0) ''center_frequency_hz must be positive''
        (\<lambda>x c. c\<lparr>bc_CenterFrequencyHz := Some x\<rparr>)
     (set_field (ub_AntennaDescription rq) (\<lambda>_. True) ''''
        (\<lambda>v c. c\<lparr>bc_AntennaDescription := TrimSpace v\<rparr>)
       (Inr current))))))"

definition band_audit :: "string \<Rightarrow> station_band_config \<Rightarrow> any_map" where
  "band_audit band c = [(''band'', VString band), (''antenna'', VString (bc_AntennaDescription c))]"

definition handleUpdateBandConfig :: "http_server \<Rightarrow> handler" where
  "handleUpdateBandConfig s r =
     (let band = hr_PathValue r in
      if \<not> isBand band then bad_request ''band must be vhf or uhf''
      else
      with_body decode_update_band r (\<lambda>rq.
      primaryStation (\<lambda>station.
      or_500 (GetStationBandConfigs (st_ID station)) (\<lambda>existing.
        let previous = current_band band existing (empty_band (st_ID station) band)
        in case updated_band rq previous of
             Inl msg \<Rightarrow> bad_request msg
           | Inr current \<Rightarrow>
               or_domain s (UpsertStationBandConfig current) (\<lambda>_.
               auditChange r ''station.band_updated'' ''station'' (RefID (st_ID station))
                   (band_audit band previous) (band_audit band current)
                 (ret (writeJSON 200 [(''band'', VObject (band_config_view (current\<lparr>bc_Band := rf_band_of band\<rparr>)))])))))))"

subsection \<open>Hardware\<close>

record update_hardware_request =
  uh_RotatorSerialPort :: "string option"
  uh_RotatorBaudRate :: "int option"
  uh_RotatorParkAzimuthDegrees :: "int option"
  uh_RotatorParkElevationDegrees :: "int option"
  uh_SDRDeviceIdentifier :: "string option"

definition decode_update_hardware :: "env \<Rightarrow> json \<Rightarrow> update_hardware_request option" where
  "decode_update_hardware e v = do {
     fs \<leftarrow> object_fields e [''rotator_serial_port'', ''rotator_baud_rate'', ''rotator_park_azimuth_degrees'',
       ''rotator_park_elevation_degrees'', ''sdr_device_identifier''] v;
     p \<leftarrow> pointer json_string ''rotator_serial_port'' fs;
     b \<leftarrow> pointer (json_int 32) ''rotator_baud_rate'' fs;
     a \<leftarrow> pointer (json_int 32) ''rotator_park_azimuth_degrees'' fs;
     el \<leftarrow> pointer (json_int 32) ''rotator_park_elevation_degrees'' fs;
     d \<leftarrow> pointer json_string ''sdr_device_identifier'' fs;
     Some \<lparr>uh_RotatorSerialPort = p, uh_RotatorBaudRate = b, uh_RotatorParkAzimuthDegrees = a,
           uh_RotatorParkElevationDegrees = el, uh_SDRDeviceIdentifier = d\<rparr>}"

definition updated_hardware ::
  "update_hardware_request \<Rightarrow> station_hardware_config \<Rightarrow> string + station_hardware_config" where
  "updated_hardware rq current =
     set_field (uh_SDRDeviceIdentifier rq) not_blank ''sdr_device_identifier cannot be empty''
       (\<lambda>v c. c\<lparr>hw_SDRDeviceIdentifier := TrimSpace v\<rparr>)
     (set_field (uh_RotatorParkElevationDegrees rq) (\<lambda>x. \<not> (x < 0 \<or> 90 < x))
       ''rotator_park_elevation_degrees must be between 0 and 90''
       (\<lambda>x c. c\<lparr>hw_RotatorParkElevationDegrees := x\<rparr>)
     (set_field (uh_RotatorParkAzimuthDegrees rq) (\<lambda>x. \<not> (x < 0 \<or> 359 < x))
       ''rotator_park_azimuth_degrees must be between 0 and 359''
       (\<lambda>x c. c\<lparr>hw_RotatorParkAzimuthDegrees := x\<rparr>)
     (set_field (uh_RotatorBaudRate rq) (\<lambda>x. \<not> x \<le> 0) ''rotator_baud_rate must be positive''
       (\<lambda>x c. c\<lparr>hw_RotatorBaudRate := x\<rparr>)
     (set_field (uh_RotatorSerialPort rq) not_blank ''rotator_serial_port cannot be empty''
       (\<lambda>v c. c\<lparr>hw_RotatorSerialPort := TrimSpace v\<rparr>)
       (Inr current)))))"

definition hardware_audit :: "station_hardware_config \<Rightarrow> any_map" where
  "hardware_audit c =
     [(''rotator_serial_port'', VString (hw_RotatorSerialPort c)),
      (''rotator_baud_rate'', VInt (hw_RotatorBaudRate c)),
      (''park_azimuth'', VInt (hw_RotatorParkAzimuthDegrees c)),
      (''park_elevation'', VInt (hw_RotatorParkElevationDegrees c)),
      (''sdr_device'', VString (hw_SDRDeviceIdentifier c))]"

definition save_hardware ::
  "http_server \<Rightarrow> http_request \<Rightarrow> uuid \<Rightarrow> station_hardware_config \<Rightarrow> station_hardware_config \<Rightarrow> http_response repo" where
  "save_hardware s r sid previous current =
     or_domain s (UpsertStationHardwareConfig current) (\<lambda>_.
     or_500 upcomingPassWarning (\<lambda>upcoming.
     auditChange r ''station.hardware_updated'' ''station'' (RefID sid) (hardware_audit previous)
         (hardware_audit current)
       (ret (writeJSON 200 [(''hardware'', VObject (hardware_config_view current)),
          (''upcoming_passes_unchanged'', VInt upcoming)]))))"

definition handleUpdateHardwareConfig :: "http_server \<Rightarrow> handler" where
  "handleUpdateHardwareConfig s r =
     with_body decode_update_hardware r (\<lambda>rq.
     primaryStation (\<lambda>station.
     or_500 (GetStationHardwareConfig (st_ID station)) (\<lambda>previous.
       case updated_hardware rq previous of
         Inl msg \<Rightarrow> bad_request msg
       | Inr current \<Rightarrow> save_hardware s r (st_ID station) previous current)))"

subsection \<open>The audit log\<close>

definition auditListLimit :: int where "auditListLimit = 200"

definition audit_view :: "env \<Rightarrow> audit_record \<Rightarrow> any_map" where
  "audit_view e a =
     [(''id'', VInt64 (a_ID a)), (''action'', VString (a_Action a)), (''entity_type'', VString (a_EntityType a)),
      (''entity_id'', VString (entity_text e (a_EntityID a)))] @
     text_field ''actor_user_id'' (case a_ActorUserID a of None \<Rightarrow> '''' | Some i \<Rightarrow> env_uuid_text e i) @
     text_field ''reason'' (a_Reason a) @
     [(''created_at'', VTime (a_CreatedAt a))]"

definition list_audit :: "http_request \<Rightarrow> int \<Rightarrow> http_response repo" where
  "list_audit r limit =
     or_500 (ListAuditRecords \<lparr>af_Action = hr_Query r ''action'', af_EntityType = hr_Query r ''entity_type'',
        af_EntityID = hr_Query r ''entity_id'', af_Limit = limit\<rparr>) (\<lambda>records.
       respond (\<lambda>e. writeJSON 200
         [(''records'', VList (map (\<lambda>a. VObject (audit_view e a)) records)), (''limit'', VInt limit)]))"

definition handleListAudit :: handler where
  "handleListAudit r =
     (let raw = hr_Query r ''limit'';
          bad = bad_request (''limit must be between 1 and '' @ decimal auditListLimit)
      in if raw = '''' then list_audit r auditListLimit
         else case Atoi raw of
                None \<Rightarrow> bad
              | Some parsed \<Rightarrow> if parsed < 1 \<or> auditListLimit < parsed then bad else list_audit r parsed)"

section \<open>internal/httpapi/admin_handlers.go\<close>

definition station_status_response :: "station \<Rightarrow> station_band_config list \<Rightarrow> env \<Rightarrow> any_map" where
  "station_status_response station bands e =
     [(''station_id'', VString (env_uuid_text e (st_ID station))), (''name'', VString (st_Name station)),
      (''latitude_degrees'', VFloat (st_Latitude station)),
      (''longitude_degrees'', VFloat (st_Longitude station)), (''altitude_m'', VFloat (st_AltitudeM station)),
      (''timezone'', VString (st_Timezone station)),
      (''active_rf_band'', VString (rf_band_string (st_ActiveRFBand station))),
      (''initialized_at'', VTime (st_CreatedAt station)),
      (''configured_bands'', VList (map (\<lambda>b. VString (rf_band_string (bc_Band b))) bands)),
      (''antenna_descriptions'', VList (map (\<lambda>b. VString (bc_AntennaDescription b)) bands))]"

definition handleStationStatus :: handler where
  "handleStationStatus r =
     primaryStation (\<lambda>station.
     or_500 (GetStationBandConfigs (st_ID station)) (\<lambda>bands.
       respond (\<lambda>e. writeJSON 200 (station_status_response station bands e))))"

definition config_fields :: "env \<Rightarrow> scheduling_config \<Rightarrow> any_map" where
  "config_fields e c =
     [(''minimum_lead_time_seconds'', whole_seconds e (sc_MinimumLeadTime c)),
      (''pre_pass_buffer_seconds'', whole_seconds e (sc_PrePassBuffer c)),
      (''post_pass_buffer_seconds'', whole_seconds e (sc_PostPassBuffer c)),
      (''recording_pre_roll_seconds'', whole_seconds e (sc_RecordingPreRoll c)),
      (''recording_post_roll_seconds'', whole_seconds e (sc_RecordingPostRoll c)),
      (''minimum_elevation_degrees'', VFloat (sc_MinimumElevationDegrees c)),
      (''effective_from'', VTime (sc_EffectiveFrom c))]"

definition scheduling_config_response :: "env \<Rightarrow> scheduling_config \<Rightarrow> any_map \<Rightarrow> http_response" where
  "scheduling_config_response e config pending =
     writeJSON 200 (config_fields e config @ [(''created_at'', VTime (sc_CreatedAt config))] @ pending)"

definition handleGetSchedulingConfig :: handler where
  "handleGetSchedulingConfig r =
     primaryStation (\<lambda>station.
     attempt clock_now (\<lambda>now.
     attempt_or (LatestEffectiveSchedulingConfig (st_ID station) now)
       (\<lambda>e. if errors_is e ErrNotFound then ret (not_initialized ''complete first-run setup first'')
            else ret internalError)
     (\<lambda>config.
     attempt clock_now (\<lambda>later.
     attempt_or (PendingSchedulingConfig (st_ID station) later)
       (\<lambda>err. if errors_is err ErrNotFound then respond (\<lambda>e. scheduling_config_response e config [])
            else ret internalError)
     (\<lambda>pending. respond (\<lambda>e. scheduling_config_response e config
        [(''pending'', VObject (config_fields e pending))]))))))"

definition staleTLEHours :: int where "staleTLEHours = 72"

text \<open>\<open>math.Round\<close> rounds half away from zero.\<close>

definition math_round :: "rat \<Rightarrow> rat" where
  "math_round x = (if 0 \<le> x then of_int \<lfloor>x + 1 / 2\<rfloor> else of_int \<lceil>x - 1 / 2\<rceil>)"

definition age_in_hours :: "env \<Rightarrow> time \<Rightarrow> time \<Rightarrow> float64" where
  "age_in_hours e now epoch =
     env_round e (math_round (env_round e (float_units e hour (time_sub now epoch) * 10)) / 10)"

record tle_status =
  tls_Satellites :: "any_val list"
  tls_MissingCount :: int
  tls_StaleCount :: int

definition tle_status_entry :: "env \<Rightarrow> satellite \<Rightarrow> any_map \<Rightarrow> bool \<Rightarrow> any_val" where
  "tle_status_entry e sat orbit stale =
     VObject ([(''satellite_id'', VString (env_uuid_text e (sat_ID sat))), (''norad_id'', VInt (sat_NoradID sat)),
       (''name'', VString (sat_Name sat)), (''has_orbital_data'', VBool (orbit \<noteq> []))] @ orbit @
       [(''stale'', VBool stale)])"

definition tle_status_fields :: "tle_record \<Rightarrow> float64 \<Rightarrow> any_map" where
  "tle_status_fields record age =
     [(''epoch'', VTime (tle_Epoch record))] @ text_field ''source'' (tle_source_string (tle_Source record)) @
     [(''fetched_at'', VTime (tle_FetchedAt record)), (''age_hours'', VFloat age)]"

fun tle_status_of ::
  "env \<Rightarrow> time \<Rightarrow> (uuid \<rightharpoonup> tle_record) \<Rightarrow> satellite list \<Rightarrow> tle_status" where
  "tle_status_of e now latest [] = \<lparr>tls_Satellites = [], tls_MissingCount = 0, tls_StaleCount = 0\<rparr>"
| "tle_status_of e now latest (sat # rest) =
     (let st = tle_status_of e now latest rest in
      case latest (sat_ID sat) of
        None \<Rightarrow> st\<lparr>tls_Satellites := tle_status_entry e sat [] False # tls_Satellites st,
                   tls_MissingCount := tls_MissingCount st + 1\<rparr>
      | Some record \<Rightarrow>
          let age = age_in_hours e now (tle_Epoch record); stale = of_int staleTLEHours < age
          in st\<lparr>tls_Satellites := tle_status_entry e sat (tle_status_fields record age) stale #
                  tls_Satellites st,
                tls_StaleCount := (if stale then tls_StaleCount st + 1 else tls_StaleCount st)\<rparr>)"

definition tle_status_response :: "tle_status \<Rightarrow> http_response" where
  "tle_status_response st =
     writeJSON 200 [(''satellites'', VList (tls_Satellites st)), (''stale_after_hours'', VInt staleTLEHours),
       (''missing_count'', VInt (tls_MissingCount st)), (''stale_count'', VInt (tls_StaleCount st))]"

definition handleTLEStatus :: handler where
  "handleTLEStatus r =
     or_500 ListSatellites (\<lambda>satellites.
     or_500 LatestTLERecordForEach (\<lambda>latest.
     attempt clock_now (\<lambda>now.
     respond (\<lambda>e. tle_status_response (tle_status_of e now latest satellites)))))"

section \<open>Every request is answered, and by steps of the server\<close>

lemma answers_switch [answer_intro]:
  "(\<And>x. answers (k x)) \<Longrightarrow> answers (switch_band s previous band saved k)"
  unfolding switch_band_def by (intro answer_intro; simp)

lemma station_answers [answer_intro]:
  "answers (handleGetStationConfig r)" "answers (handleUpdateStation s r)"
  "answers (handleUpdateBandConfig s r)" "answers (handleUpdateHardwareConfig s r)"
  "answers (handleListAudit r)" "answers (handleStationStatus r)" "answers (handleGetSchedulingConfig r)"
  "answers (handleTLEStatus r)"
  unfolding handleGetStationConfig_def handleUpdateStation_def save_station_def handleUpdateBandConfig_def
    handleUpdateHardwareConfig_def save_hardware_def handleListAudit_def list_audit_def
    handleStationStatus_def handleGetSchedulingConfig_def handleTLEStatus_def Let_def
  by (intro answer_intro)+

context guarantee begin

lemma upcomingPassWarning [guar_intro]: "guar G upcomingPassWarning"
  unfolding upcomingPassWarning_def by (intro attempt clock_now reads ret)

end

context server_guarantee begin

lemma switch_band [guar_intro]:
  "(\<And>x. guar G (k x)) \<Longrightarrow> guar G (switch_band s previous band saved k)"
  unfolding switch_band_def by (intro case_option_guar if_guar http_steps station_methods; simp)

lemma station_handlers [guar_intro]:
  "guar G (handleGetStationConfig r)" "guar G (handleUpdateStation s r)"
  "guar G (handleUpdateBandConfig s r)" "guar G (handleUpdateHardwareConfig s r)"
  "guar G (handleListAudit r)" "guar G (handleStationStatus r)" "guar G (handleGetSchedulingConfig r)"
  "guar G (handleTLEStatus r)"
  unfolding handleGetStationConfig_def handleUpdateStation_def save_station_def handleUpdateBandConfig_def
    handleUpdateHardwareConfig_def save_hardware_def handleListAudit_def list_audit_def
    handleStationStatus_def handleGetSchedulingConfig_def handleTLEStatus_def Let_def
  by (intro http_steps http_audits switch_band upcomingPassWarning station_methods accounts catalog_methods
      attempt attempt_or clock_now if_guar case_option_guar case_sum_guar ret)+

end

end
