(* ===== verification/Http_Catalog.thy ===== *)
theory Http_Catalog
  imports Http_Station
begin

text \<open>
  The catalogue and what is made from it: \<open>satellite_handlers.go\<close>, \<open>pass_prediction_handlers.go\<close>
  and \<open>pipeline_handlers.go\<close>.
\<close>

section \<open>internal/httpapi/satellite_handlers.go\<close>

definition tleHistoryLimit :: nat where "tleHistoryLimit = 20"

definition toSatelliteView :: "env \<Rightarrow> satellite \<Rightarrow> any_map" where
  "toSatelliteView e sat =
     [(''id'', VString (env_uuid_text e (sat_ID sat))), (''norad_id'', VInt (sat_NoradID sat)),
      (''name'', VString (sat_Name sat)), (''description'', VString (sat_Description sat)),
      (''metadata'', VObject (sat_Metadata sat)), (''is_schedulable'', VBool (sat_IsSchedulable sat)),
      (''created_at'', VTime (sat_CreatedAt sat))]"

definition toTLEView :: "env \<Rightarrow> time \<Rightarrow> tle_record \<Rightarrow> any_map" where
  "toTLEView e now record =
     [(''line1'', VString (tle_Line1 record)), (''line2'', VString (tle_Line2 record)),
      (''epoch'', VTime (tle_Epoch record)), (''source'', VString (tle_source_string (tle_Source record))),
      (''fetched_at'', VTime (tle_FetchedAt record)),
      (''age_hours'', VFloat (float_units e hour (time_sub now (tle_Epoch record))))]"

definition handleListSatellites :: handler where
  "handleListSatellites r =
     or_500 ListSatellites (\<lambda>satellites.
       respond (\<lambda>e. writeJSON 200
         [(''satellites'', VList (map (\<lambda>x. VObject (toSatelliteView e x)) satellites))]))"

definition handleGetSatellite :: "http_server \<Rightarrow> handler" where
  "handleGetSatellite s r =
     pathUUID r (\<lambda>i.
     or_domain s (GetSatelliteByID i) (\<lambda>satellite.
     attempt_or (CurrentTLE (sat_ID satellite))
       (\<lambda>e. if errors_is e ErrNotFound
            then respond (\<lambda>e. writeJSON 200 [(''satellite'', VObject (toSatelliteView e satellite))])
            else ret internalError)
     (\<lambda>record.
     attempt clock_now (\<lambda>now.
       respond (\<lambda>e. writeJSON 200
         [(''satellite'', VObject (toSatelliteView e satellite)),
          (''current_tle'', VObject (toTLEView e now record))])))))"

definition handleGetSatelliteTLEs :: "http_server \<Rightarrow> handler" where
  "handleGetSatelliteTLEs s r =
     pathUUID r (\<lambda>i.
     or_domain s (ListTLERecords i tleHistoryLimit) (\<lambda>records.
     attempt clock_now (\<lambda>now.
       respond (\<lambda>e. writeJSON 200 [(''tles'', VList (map (\<lambda>t. VObject (toTLEView e now t)) records))]))))"

definition catalogue_forbidden :: "http_response repo" where
  "catalogue_forbidden = ret (writeError 403 ''forbidden'' ''catalogue administration is root only'')"

record add_satellite_request =
  asq_NoradID :: int
  asq_Name :: string

definition decode_add_satellite :: "env \<Rightarrow> json \<Rightarrow> add_satellite_request option" where
  "decode_add_satellite e v = do {
     fs \<leftarrow> object_fields e [''norad_id'', ''name''] v;
     i \<leftarrow> plain (json_int 64) ''norad_id'' 0 fs;
     n \<leftarrow> plain json_string ''name'' '''' fs;
     Some \<lparr>asq_NoradID = i, asq_Name = n\<rparr>}"

definition add_satellite_error :: "http_server \<Rightarrow> err \<Rightarrow> http_response" where
  "add_satellite_error s e =
     (if errors_is e ErrAlreadyExists
      then writeError 409 ''conflict'' ''satellite is already in the catalogue''
      else if errors_is e ErrNoOrbitalData
      then writeError 502 ''no_orbital_data'' ''no orbital data is available for that catalog number''
      else writeDomainError s e)"

definition handleAddSatellite :: "http_server \<Rightarrow> handler" where
  "handleAddSatellite s r =
     (if \<not> CanConfigureStation (currentUser r) then catalogue_forbidden
      else
      with_body decode_add_satellite r (\<lambda>rq.
      if asq_NoradID rq \<le> 0 then bad_request ''norad_id must be positive''
      else
      attempt_or (AddSatellite (hs_Catalog s) (asq_NoradID rq) (TrimSpace (asq_Name rq)))
        (\<lambda>e. ret (add_satellite_error s e))
      (\<lambda>satellite.
      http_audit r ''satellite.added'' ''satellite'' (RefID (sat_ID satellite))
          [(''norad_id'', VInt (sat_NoradID satellite)), (''name'', VString (sat_Name satellite))]
        (respond (\<lambda>e. writeJSON 201 (toSatelliteView e satellite))))))"

record update_satellite_request =
  usq_Name :: "string option"
  usq_Description :: "string option"
  usq_IsSchedulable :: "bool option"

definition decode_update_satellite :: "env \<Rightarrow> json \<Rightarrow> update_satellite_request option" where
  "decode_update_satellite e v = do {
     fs \<leftarrow> object_fields e [''name'', ''description'', ''is_schedulable''] v;
     n \<leftarrow> pointer json_string ''name'' fs;
     d \<leftarrow> pointer json_string ''description'' fs;
     b \<leftarrow> pointer json_bool ''is_schedulable'' fs;
     Some \<lparr>usq_Name = n, usq_Description = d, usq_IsSchedulable = b\<rparr>}"

definition updated_satellite :: "update_satellite_request \<Rightarrow> satellite \<Rightarrow> string + satellite" where
  "updated_satellite rq existing =
     set_field (usq_IsSchedulable rq) (\<lambda>_. True) '''' (\<lambda>b x. x\<lparr>sat_IsSchedulable := b\<rparr>)
     (set_field (usq_Description rq) (\<lambda>_. True) '''' (\<lambda>v x. x\<lparr>sat_Description := v\<rparr>)
     (set_field (usq_Name rq) not_blank ''name cannot be empty'' (\<lambda>v x. x\<lparr>sat_Name := TrimSpace v\<rparr>)
       (Inr existing)))"

definition save_satellite :: "http_server \<Rightarrow> http_request \<Rightarrow> uuid \<Rightarrow> satellite \<Rightarrow> http_response repo" where
  "save_satellite s r i wanted =
     or_domain s (UpdateSatellite i (sat_Name wanted) (sat_Description wanted) (sat_IsSchedulable wanted))
       (\<lambda>updated.
     http_audit r ''satellite.updated'' ''satellite'' (RefID i)
         [(''name'', VString (sat_Name updated)), (''is_schedulable'', VBool (sat_IsSchedulable updated))]
       (respond (\<lambda>e. writeJSON 200 (toSatelliteView e updated))))"

definition handleUpdateSatellite :: "http_server \<Rightarrow> handler" where
  "handleUpdateSatellite s r =
     (if \<not> CanConfigureStation (currentUser r) then catalogue_forbidden
      else
      pathUUID r (\<lambda>i.
      with_body decode_update_satellite r (\<lambda>rq.
      or_domain s (GetSatelliteByID i) (\<lambda>existing.
        case updated_satellite rq existing of
          Inl msg \<Rightarrow> bad_request msg
        | Inr wanted \<Rightarrow> save_satellite s r i wanted))))"

text \<open>Every error of the deletion is reported as a conflict.\<close>

definition handleDeleteSatellite :: "http_server \<Rightarrow> handler" where
  "handleDeleteSatellite s r =
     (if \<not> CanConfigureStation (currentUser r) then catalogue_forbidden
      else
      pathUUID r (\<lambda>i.
      or_domain s (GetSatelliteByID i) (\<lambda>satellite.
      attempt_or (DeleteSatellite i)
        (\<lambda>_. ret (writeError 409 ''conflict'' ''this satellite has passes and cannot be deleted''))
      (\<lambda>_.
      http_audit r ''satellite.deleted'' ''satellite'' (RefID i)
          [(''norad_id'', VInt (sat_NoradID satellite)), (''name'', VString (sat_Name satellite))]
        (ret (write_header 204))))))"

text \<open>The entry of an outcome, and the counts, which are those that the refresh loop logs.\<close>

definition outcome_entry :: "refresh_outcome \<Rightarrow> any_val" where
  "outcome_entry outcome = VObject
     ([(''norad_id'', VInt (ro_NoradID outcome)), (''updated'', VBool (ro_Updated outcome)),
       (''used_last_known_good'', VBool (ro_UsedLastKnownGood outcome))] @
      text_field ''source'' (tle_source_string (ro_Source outcome)) @
      (if ro_Err outcome \<noteq> None then [(''error'', VString ''no orbital data available'')] else []))"

definition refresh_totals :: "nat \<times> nat \<times> nat \<Rightarrow> any_map" where
  "refresh_totals t =
     (case t of (updated, kept, failed) \<Rightarrow>
        [(''updated'', VInt (int updated)), (''kept_last_known_good'', VInt (int kept)),
         (''failed'', VInt (int failed))])"

definition handleRefreshTLEs :: "http_server \<Rightarrow> handler" where
  "handleRefreshTLEs s r =
     (if \<not> CanManageUsers (currentUser r) then ret (writeError 403 ''forbidden'' ''not permitted'')
      else
      attempt (RefreshAll (hs_Catalog s) True) (\<lambda>outcomes.
      http_audit r ''tle.refreshed'' ''catalogue'' (RefText '''') (refresh_totals (sweep_counts outcomes))
        (ret (writeJSON 200 (refresh_totals (sweep_counts outcomes) @
           [(''results'', VList (map outcome_entry outcomes))])))))"

definition handleRefreshSatelliteMetadata :: "http_server \<Rightarrow> handler" where
  "handleRefreshSatelliteMetadata s r =
     (if \<not> CanConfigureStation (currentUser r) then catalogue_forbidden
      else
      pathUUID r (\<lambda>i.
      or_domain s (GetSatelliteByID i) (\<lambda>satellite.
      attempt_or (RefreshMetadata (hs_Catalog s) satellite)
        (\<lambda>_. ret (writeError 502 ''metadata_unavailable'' ''the metadata provider did not answer''))
      (\<lambda>metadata.
      http_audit r ''satellite.metadata_refreshed'' ''satellite'' (RefID i) []
        (ret (writeJSON 200 [(''metadata'', VObject metadata)]))))))"

section \<open>internal/httpapi/pass_prediction_handlers.go\<close>

definition defaultPredictionHours :: int where "defaultPredictionHours = 48"
definition maxPredictionHours :: int where "maxPredictionHours = 24 * 14"
definition maxTrackStepSeconds :: int where "maxTrackStepSeconds = 600"

definition predicted_pass_view :: "env \<Rightarrow> predicted_pass \<Rightarrow> any_val" where
  "predicted_pass_view e pass = VObject
     ([(''aos'', VTime (pr_AOS pass)), (''tca'', VTime (pr_TCA pass)), (''los'', VTime (pr_LOS pass)),
       (''aos_azimuth_degrees'', VFloat (pr_AOSAzimuthDegrees pass)),
       (''tca_azimuth_degrees'', VFloat (pr_TCAAzimuthDegrees pass)),
       (''los_azimuth_degrees'', VFloat (pr_LOSAzimuthDegrees pass)),
       (''max_elevation_degrees'', VFloat (pr_MaxElevationDegrees pass)),
       (''duration_seconds'', VFloat (float_units e second (pr_Duration pass)))] @
      (if pr_Track pass = [] then [] else [(''track'', VList (map track_point_view (pr_Track pass)))]))"

definition handler_prediction_request ::
  "tle_record \<Rightarrow> station \<Rightarrow> scheduling_config \<Rightarrow> time \<Rightarrow> int \<Rightarrow> int \<Rightarrow> prediction_request" where
  "handler_prediction_request record station config now hours step =
     \<lparr>rq_Line1 = tle_Line1 record, rq_Line2 = tle_Line2 record,
      rq_LatitudeDegrees = st_Latitude station, rq_LongitudeDegrees = st_Longitude station,
      rq_AltitudeM = st_AltitudeM station,
      rq_MinimumElevationDegrees = sc_MinimumElevationDegrees config,
      rq_SearchStart = now, rq_SearchEnd = time_add now (hours * hour),
      rq_TrackStep = step * second, rq_MaxPasses = 0\<rparr>"

definition prediction_response ::
  "prediction_result \<Rightarrow> scheduling_config \<Rightarrow> station \<Rightarrow> tle_record \<Rightarrow> env \<Rightarrow> http_response" where
  "prediction_response result config station record e =
     writeJSON 200
       [(''norad_id'', VInt (rs_NoradID result)),
        (''minimum_elevation_degrees'', VFloat (sc_MinimumElevationDegrees config)),
        (''station_active_band'', VString (rf_band_string (st_ActiveRFBand station))),
        (''tle_epoch'', VTime (tle_Epoch record)),
        (''passes'', VList (map (predicted_pass_view e) (rs_Passes result)))]"

text \<open>From the configuration of the station on.\<close>

definition predict_for_station ::
  "http_server \<Rightarrow> tle_record \<Rightarrow> int \<Rightarrow> int \<Rightarrow> station \<Rightarrow> http_response repo" where
  "predict_for_station s record hours step station =
     attempt clock_now (\<lambda>now.
     or_500 (LatestEffectiveSchedulingConfig (st_ID station) now) (\<lambda>config.
     attempt_or (PredictPasses (hs_Prediction s)
         (handler_prediction_request record station config now hours step))
       (\<lambda>e. if errors_is e ErrInvalidRequest
            then bad_request ''prediction rejected the request''
            else ret (writeError 502 ''prediction_unavailable'' ''the prediction service is unavailable''))
     (\<lambda>result. respond (prediction_response result config station record))))"

definition handlePredictSatellitePasses :: "http_server \<Rightarrow> handler" where
  "handlePredictSatellitePasses s r =
     pathUUID r (\<lambda>i.
     intQuery r ''hours'' defaultPredictionHours 1 maxPredictionHours (\<lambda>hours.
     intQuery r ''track_step_seconds'' 0 0 maxTrackStepSeconds (\<lambda>step.
     or_domain s (GetSatelliteByID i) (\<lambda>satellite.
     attempt_or (CurrentTLE (sat_ID satellite))
       (\<lambda>e. if errors_is e ErrNotFound
            then ret (writeError 409 ''no_orbital_data'' ''this satellite has no orbital data yet'')
            else ret internalError)
     (\<lambda>record.
     or_500 ListStations (\<lambda>stations.
       case stations of
         [] \<Rightarrow> ret (not_initialized ''complete first-run setup before predicting passes'')
       | station # _ \<Rightarrow> predict_for_station s record hours step station))))))"

section \<open>internal/httpapi/pipeline_handlers.go\<close>

definition maxPipelineBytes :: int where "maxPipelineBytes = 256 * 2 ^ 10"

definition pipeline_view :: "env \<Rightarrow> Pipeline \<Rightarrow> any_map" where
  "pipeline_view e p =
     [(''id'', VString (env_uuid_text e (pi_ID p))), (''name'', VString (pi_Name p)),
      (''is_custom'', VBool (pi_IsCustom p))] @ text_field ''checksum_sha256'' (pi_ChecksumSHA256 p)"

definition handleListPipelines :: "http_server \<Rightarrow> handler" where
  "handleListPipelines s r =
     or_500 (ListPipelines (hs_Collate s)) (\<lambda>pipelines.
       respond (\<lambda>e. writeJSON 200
         [(''pipelines'', VList (map (\<lambda>p. VObject (pipeline_view e p)) pipelines)),
          (''reported_by_station'', VBool (0 < length pipelines))]))"

record create_pipeline_request =
  cpq_Name :: string
  cpq_Definition :: string

definition decode_create_pipeline :: "env \<Rightarrow> json \<Rightarrow> create_pipeline_request option" where
  "decode_create_pipeline e v = do {
     fs \<leftarrow> object_fields e [''name'', ''definition''] v;
     n \<leftarrow> plain json_string ''name'' '''' fs;
     d \<leftarrow> plain json_string ''definition'' '''' fs;
     Some \<lparr>cpq_Name = n, cpq_Definition = d\<rparr>}"

text \<open>
  Decoding into a map takes an object and, without an error, \<open>null\<close>; the map holds the last value
  of a repeated key.
\<close>

fun json_raw_map :: "json \<Rightarrow> (string \<times> json) list option" where
  "json_raw_map (JObject m) = Some (last_wins m)"
| "json_raw_map JNull = Some []"
| "json_raw_map _ = None"

definition pipeline_problem :: "string \<times> json \<Rightarrow> string option" where
  "pipeline_problem entry =
     (case entry of (identifier, body) \<Rightarrow>
        if TrimSpace identifier = '''' then Some ''a pipeline identifier is empty''
        else if json_raw_map body = None then Some (''pipeline '' @ identifier @ '' is not an object'')
        else None)"

text \<open>The first problem in the order of the iteration over the map; None if there is none.\<close>

definition validatePipelineJSON :: "(string \<Rightarrow> json option) \<Rightarrow> env \<Rightarrow> nat \<Rightarrow> string \<Rightarrow> string option" where
  "validatePipelineJSON parse e n text_of_definition =
     (case parse text_of_definition of
        None \<Rightarrow> Some ''the definition is not valid JSON''
      | Some v \<Rightarrow>
          (case json_raw_map v of
             None \<Rightarrow> Some ''the definition is not valid JSON''
           | Some [] \<Rightarrow> Some ''the definition names no pipeline''
           | Some m \<Rightarrow>
               (case find (\<lambda>entry. pipeline_problem entry \<noteq> None) (map_range e n m) of
                  None \<Rightarrow> None
                | Some entry \<Rightarrow> pipeline_problem entry)))"

definition pending_pipeline :: "string \<Rightarrow> string \<Rightarrow> Pipeline" where
  "pending_pipeline name checksum =
     \<lparr>pi_ID = 0, pi_Name = name, pi_IsCustom = True, pi_DefinitionPath = ''pending'',
      pi_ChecksumSHA256 = checksum, pi_Definition = ''''\<rparr>"

definition store_pipeline ::
  "http_server \<Rightarrow> http_request \<Rightarrow> file_store \<Rightarrow> string \<Rightarrow> string \<Rightarrow> http_response repo" where
  "store_pipeline s r fs name definition_text =
     attempt (asks (\<lambda>e. env_sha256hex e definition_text)) (\<lambda>checksum.
     or_domain s (CreatePipeline (pending_pipeline name checksum) (Some (u_ID (currentUser r)))) (\<lambda>created.
     attempt (asks (\<lambda>e. env_uuid_text e (pi_ID created))) (\<lambda>identifier.
     or_500 (WritePipeline fs identifier definition_text) (\<lambda>path.
     or_500 (SetPipelineDefinitionPath (pi_ID created) path) (\<lambda>_.
     http_audit r ''pipeline.uploaded'' ''pipeline'' (RefID (pi_ID created))
         [(''name'', VString name), (''checksum_sha256'', VString checksum),
          (''size_bytes'', VInt (int (length definition_text)))]
       (respond (\<lambda>e. writeJSON 201 (pipeline_view e created))))))))"

definition handleCreatePipeline :: "http_server \<Rightarrow> handler" where
  "handleCreatePipeline s r =
     with_body decode_create_pipeline r (\<lambda>rq.
       let name = TrimSpace (cpq_Name rq); text_of = cpq_Definition rq
       in if name = '''' then bad_request ''name is required''
          else if length text_of = 0 then bad_request ''definition is required''
          else if maxPipelineBytes < int (length text_of) then bad_request ''the pipeline definition is too large''
          else attempt (draw (\<lambda>e n. validatePipelineJSON (hs_Json s) e n text_of)) (\<lambda>problem.
            case problem of
              Some msg \<Rightarrow> ret (writeError 400 ''invalid_pipeline'' msg)
            | None \<Rightarrow>
                (case hs_Files s of
                   None \<Rightarrow> ret (writeError 503 ''storage_unavailable''
                             ''this server cannot store pipeline definitions'')
                 | Some fs \<Rightarrow> store_pipeline s r fs name text_of)))"

section \<open>Every request is answered, and by steps of the server\<close>

lemma answers_draws [answer_intro]: "answers ctx_cancelled"
  by (simp add: answers_def ctx_cancelled_def)

lemma answers_refresh_each: "answers (refresh_each cs force sats)"
proof (induction sats)
  case (Cons sat rest)
  have "answers (needsRefresh sat)" "answers (Refresh cs sat)"
    unfolding needsRefresh_def Refresh_def Let_def by (intro answer_intro)+
  with Cons.IH show ?case by (auto intro!: answer_intro)
qed (simp add: answers_ret)

lemma answers_RefreshAll [answer_intro]: "answers (RefreshAll cs force)"
  unfolding RefreshAll_def by (intro answer_intro answers_refresh_each)

lemma catalog_answers [answer_intro]:
  "answers (handleListSatellites r)" "answers (handleGetSatellite s r)" "answers (handleGetSatelliteTLEs s r)"
  "answers (handleAddSatellite s r)" "answers (handleUpdateSatellite s r)" "answers (handleDeleteSatellite s r)"
  "answers (handleRefreshTLEs s r)" "answers (handleRefreshSatelliteMetadata s r)"
  "answers (handlePredictSatellitePasses s r)" "answers (handleListPipelines s r)"
  "answers (handleCreatePipeline s r)"
  unfolding handleListSatellites_def handleGetSatellite_def handleGetSatelliteTLEs_def handleAddSatellite_def
    handleUpdateSatellite_def save_satellite_def handleDeleteSatellite_def handleRefreshTLEs_def
    handleRefreshSatelliteMetadata_def handlePredictSatellitePasses_def predict_for_station_def
    handleListPipelines_def handleCreatePipeline_def store_pipeline_def catalogue_forbidden_def Let_def
  by (intro answer_intro)+

context server_guarantee begin

lemma WritePipeline [guar_intro]: "guar G (WritePipeline fs i content)"
  unfolding WritePipeline_def by (intro attempt from_result wrapping fs_steps ret)

lemma catalog_handlers [guar_intro]:
  "guar G (handleListSatellites r)" "guar G (handleGetSatellite s r)" "guar G (handleGetSatelliteTLEs s r)"
  "guar G (handleAddSatellite s r)" "guar G (handleUpdateSatellite s r)" "guar G (handleDeleteSatellite s r)"
  "guar G (handleRefreshTLEs s r)" "guar G (handleRefreshSatelliteMetadata s r)"
  "guar G (handlePredictSatellitePasses s r)" "guar G (handleListPipelines s r)"
  "guar G (handleCreatePipeline s r)"
  unfolding handleListSatellites_def handleGetSatellite_def handleGetSatelliteTLEs_def handleAddSatellite_def
    handleUpdateSatellite_def save_satellite_def handleDeleteSatellite_def handleRefreshTLEs_def
    handleRefreshSatelliteMetadata_def handlePredictSatellitePasses_def predict_for_station_def
    handleListPipelines_def handleCreatePipeline_def store_pipeline_def catalogue_forbidden_def
    CurrentTLE_def Let_def
  by (intro http_steps http_audits draw catalog_methods station_methods AddSatellite refresh_loop
      RefreshMetadata PredictPasses WritePipeline attempt attempt_or clock_now asks if_guar case_option_guar
      case_sum_guar case_list_guar ret)+

end

end
