(* ===== verification/Http_Recordings.thy ===== *)
theory Http_Recordings
  imports Http_Passes
begin

text \<open>
  The handlers of \<open>recording_handlers.go\<close>: which recordings a caller sees, and the download.
\<close>

definition toRecordingView :: "env \<Rightarrow> recording \<Rightarrow> any_map" where
  "toRecordingView e recording =
     [(''recording_id'', VString (r_RecordingID recording)),
      (''pass_id'', VString (env_uuid_text e (r_PassID recording))),
      (''relative_path'', VString (r_RelativePath recording)), (''size_bytes'', VInt64 (r_SizeBytes recording)),
      (''checksum_sha256'', VString (r_ChecksumSHA256 recording)), (''status'', VString (r_Status recording)),
      (''received_at'', VTime (r_ReceivedAt recording)),
      (''download_url'', VString (''/api/recordings/'' @ r_RecordingID recording @ ''/download''))]"

definition recordingsListLimit :: nat where "recordingsListLimit = 200"

definition recording_list_view :: "env \<Rightarrow> recording_with_pass \<Rightarrow> any_val" where
  "recording_list_view e entry = VObject (toRecordingView e (rp_Recording entry) @
     [(''satellite_id'', VString (env_uuid_text e (rp_SatelliteID entry))),
      (''pass_aos'', VTime (rp_PassAOS entry)),
      (''visibility'', VString (pass_visibility_string (rp_Visibility entry)))])"

definition recordings_in_scope :: "http_request \<Rightarrow> recording_with_pass list repo" where
  "recordings_in_scope r =
     ListRecordingsVisibleTo (if scope_of r = ScopeMine then Some (u_ID (currentUser r)) else None)
       (scope_of r = ScopePublic) (scope_of r = ScopeAll) recordingsListLimit"

definition handleListRecordings :: handler where
  "handleListRecordings r =
     (if scope_of r = ScopeForbidden then ret (writeError 403 ''forbidden'' ''not permitted'')
      else if scope_of r = ScopeUnknown then bad_request ''scope must be mine, public or all''
      else or_500 (recordings_in_scope r) (\<lambda>recordings.
        respond (\<lambda>e. writeJSON 200 [(''recordings'', VList (map (recording_list_view e) recordings))])))"

definition handleListPassRecordings :: "http_server \<Rightarrow> handler" where
  "handleListPassRecordings s r =
     pathUUID r (\<lambda>i.
     or_domain s (GetPassByID i) (\<lambda>pass.
     if \<not> CanViewPass (currentUser r) pass then ret (writeError 404 ''not_found'' ''not found'')
     else
     or_500 (ListRecordingsForPass (hs_Collate s) i) (\<lambda>recordings.
       respond (\<lambda>e. writeJSON 200
         [(''recordings'', VList (map (\<lambda>x. VObject (toRecordingView e x)) recordings))]))))"

section \<open>The download\<close>

definition is_lower_hex :: "char \<Rightarrow> bool" where
  "is_lower_hex c \<longleftrightarrow>
     (let n = (of_char c :: nat) in 48 \<le> n \<and> n \<le> 57 \<or> 97 \<le> n \<and> n \<le> 102)"

definition isSHA256Hex :: "string \<Rightarrow> bool" where
  "isSHA256Hex v \<longleftrightarrow> length v = 64 \<and> list_all is_lower_hex v"

text \<open>\<open>os.Open\<close>, with the content that is read from the file.\<close>

definition open_file :: "string \<Rightarrow> bytes repo" where
  "open_file path w =
     (case files w path of
        None \<Rightarrow> (Inl (ErrText ''not exist''), advance w)
      | Some content_of_file \<Rightarrow>
          if env_fs_ok (env w) (tick w) then (Inr content_of_file, advance w)
          else (Inl (ErrText ''file system''), advance w))"

text \<open>\<open>filepath.Base\<close>: the last element; trailing slashes are removed first.\<close>

definition path_base :: "string \<Rightarrow> string" where
  "path_base p =
     (let q = rev (dropWhile (\<lambda>c. c = CHR ''/'') (rev p))
      in if p = '''' then ''.''
         else if q = '''' then ''/''
         else last (split_on (CHR ''/'') q))"

definition download_response :: "recording \<Rightarrow> bytes \<Rightarrow> http_response" where
  "download_response recording content_of_file =
     \<lparr>rp_Code = 200,
      rp_Header = [(''Content-Type'', ''application/octet-stream''),
        (''Content-Length'', decimal (r_SizeBytes recording)),
        (''Content-Disposition'',
           ''attachment; filename='' @ [CHR 0x22] @ path_base (r_RelativePath recording) @ [CHR 0x22])],
      rp_Content = FileContent content_of_file\<rparr>"

text \<open>The handler once the recording is known.\<close>

definition send_recording :: "http_request \<Rightarrow> recording \<Rightarrow> http_response repo" where
  "send_recording r recording =
     or_500 (GetPassByID (r_PassID recording)) (\<lambda>pass.
     if \<not> CanViewPass (currentUser r) pass then ret (writeError 404 ''not_found'' ''not found'')
     else
     attempt_or (open_file (r_StoredPath recording))
       (\<lambda>_. ret (writeError 404 ''content_missing'' ''the recording content is no longer available''))
       (\<lambda>content_of_file. ret (download_response recording content_of_file)))"

definition handleDownloadRecording :: handler where
  "handleDownloadRecording r =
     (if \<not> isSHA256Hex (hr_PathValue r) then bad_request ''invalid recording id''
      else
      attempt_or (GetRecording (hr_PathValue r))
        (\<lambda>e. if errors_is e ErrNotFound then ret (writeError 404 ''not_found'' ''not found'')
             else ret internalError)
        (send_recording r))"

section \<open>Every request is answered, and by steps of the server\<close>

lemma recording_answers [answer_intro]:
  "answers (handleListRecordings r)" "answers (handleListPassRecordings s r)"
  "answers (handleDownloadRecording r)"
  unfolding handleListRecordings_def handleListPassRecordings_def handleDownloadRecording_def send_recording_def
  by (intro answer_intro)+

context guarantee begin

lemma open_file [guar_intro]: "guar G (open_file path)"
  by (simp add: open_file_def guar_def G_refl split: option.split)

end

context server_guarantee begin

lemma recording_handlers [guar_intro]:
  "guar G (handleListRecordings r)" "guar G (handleListPassRecordings s r)"
  "guar G (handleDownloadRecording r)"
  unfolding handleListRecordings_def recordings_in_scope_def handleListPassRecordings_def
    handleDownloadRecording_def send_recording_def
  by (intro http_steps pass_methods open_file attempt_or if_guar ret)+

end

end
