(* ===== verification/Http_Server.thy ===== *)
theory Http_Server
  imports Http_Accounts Http_Catalog Http_Recordings
begin

text \<open>
  The server as a whole: the route table of \<open>NewMux\<close> with its gates and the health handlers
  (\<open>server.go\<close>), the web client's files (\<open>static.go\<close>) and cross-origin requests (\<open>cors.go\<close>).  The
  multiplexer of \<open>net/http\<close> redirects a path that is not clean before it dispatches; \<open>nr_Path\<close> is
  the path after that.
\<close>

section \<open>Health\<close>

definition handleHealth :: "http_server \<Rightarrow> handler" where
  "handleHealth s r =
     ret (writeJSON 200 [(''status'', VString ''ok''), (''version'', VString (hs_Version s))])"

definition check :: "http_server \<Rightarrow> string \<Rightarrow> bool repo" where
  "check s name = draw (\<lambda>e n. hs_Probe s name n)"

definition accepting_uploads :: "file_store \<Rightarrow> bool repo" where
  "accepting_uploads fs = attempt_or (EnsureSpaceFor fs 0) (\<lambda>_. ret False) (\<lambda>_. ret True)"

definition storage_fields :: "http_server \<Rightarrow> any_map repo" where
  "storage_fields s =
     (case hs_Files s of
        None \<Rightarrow> ret []
      | Some fs \<Rightarrow>
          attempt_or (RecordingsUsage fs) (\<lambda>_. ret []) (\<lambda>usage.
          attempt (accepting_uploads fs) (\<lambda>accepting.
          attempt (asks env_round) (\<lambda>rnd.
            ret [(''storage'', VObject
              [(''recordings_free_bytes'', VInt (uint (us_FreeBytes usage))),
               (''recordings_used_percentage'',
                  VFloat (rnd (math_round (rnd (us_UsedPercentage usage * 10)) / 10))),
               (''accepting_uploads'', VBool accepting)])]))))"

definition handleReady :: "http_server \<Rightarrow> handler" where
  "handleReady s r =
     attempt (check s ''postgres'') (\<lambda>postgres.
     attempt (check s ''redis'') (\<lambda>redis_ok.
     attempt (check s ''mongodb'') (\<lambda>mongodb.
     attempt (check s ''prediction'') (\<lambda>prediction.
       let ready = list_all id [postgres, redis_ok, mongodb, prediction]
       in attempt (storage_fields s) (\<lambda>storage.
          ret (writeJSON (if ready then 200 else 503)
            ([(''status'', VString (if ready then ''ready'' else ''not_ready'')),
              (''version'', VString (hs_Version s)),
              (''components'', VObject [(''postgres'', VBool postgres), (''redis'', VBool redis_ok),
                 (''mongodb'', VBool mongodb), (''prediction'', VBool prediction)])] @ storage)))))))"

section \<open>The route table\<close>

datatype gate = Open | SignedIn | Authenticated | RoleGated user_role

fun apply_gate :: "gate \<Rightarrow> handler \<Rightarrow> handler" where
  "apply_gate Open h = h"
| "apply_gate SignedIn h = requireAuth h"
| "apply_gate Authenticated h = authenticated h"
| "apply_gate (RoleGated role) h = roleGated role h"

record route =
  rt_Method :: string
  rt_Pattern :: string
  rt_Gate :: gate
  rt_Handler :: handler

definition handle_route :: "string \<Rightarrow> string \<Rightarrow> gate \<Rightarrow> handler \<Rightarrow> route" where
  "handle_route meth pattern g h = \<lparr>rt_Method = meth, rt_Pattern = pattern, rt_Gate = g, rt_Handler = h\<rparr>"

definition routes :: "http_server \<Rightarrow> route list" where
  "routes s =
    [handle_route ''GET'' ''/health'' Open (handleHealth s),
     handle_route ''GET'' ''/readyz'' Open (handleReady s),
     handle_route ''POST'' ''/api/auth/login'' Open (handleLogin s),
     handle_route ''POST'' ''/api/auth/logout'' SignedIn handleLogout,
     handle_route ''POST'' ''/api/auth/change-password'' SignedIn (handleChangePassword s),
     handle_route ''GET'' ''/api/auth/me'' SignedIn handleMe,
     handle_route ''GET'' ''/api/users'' (RoleGated RoleAdmin) handleListUsers,
     handle_route ''POST'' ''/api/users'' (RoleGated RoleAdmin) (handleCreateUser s),
     handle_route ''PATCH'' ''/api/users/{id}'' (RoleGated RoleRoot) (handleUpdateUser s),
     handle_route ''DELETE'' ''/api/users/{id}'' (RoleGated RoleRoot) (handleDeleteUser s),
     handle_route ''GET'' ''/api/satellites'' Authenticated handleListSatellites,
     handle_route ''GET'' ''/api/satellites/{id}'' Authenticated (handleGetSatellite s),
     handle_route ''GET'' ''/api/satellites/{id}/tles'' Authenticated (handleGetSatelliteTLEs s),
     handle_route ''GET'' ''/api/satellites/{id}/passes'' Authenticated (handlePredictSatellitePasses s),
     handle_route ''POST'' ''/api/satellites'' (RoleGated RoleRoot) (handleAddSatellite s),
     handle_route ''PATCH'' ''/api/satellites/{id}'' (RoleGated RoleRoot) (handleUpdateSatellite s),
     handle_route ''DELETE'' ''/api/satellites/{id}'' (RoleGated RoleRoot) (handleDeleteSatellite s),
     handle_route ''POST'' ''/api/satellites/refresh-tles'' (RoleGated RoleAdmin) (handleRefreshTLEs s),
     handle_route ''POST'' ''/api/satellites/{id}/refresh-metadata'' (RoleGated RoleRoot)
       (handleRefreshSatelliteMetadata s),
     handle_route ''GET'' ''/api/passes'' Authenticated handleListPasses,
     handle_route ''POST'' ''/api/passes'' Authenticated (handleRequestPass s),
     handle_route ''GET'' ''/api/passes/{id}'' Authenticated (handleGetPass s),
     handle_route ''POST'' ''/api/passes/{id}/approve'' (RoleGated RoleAdmin) (handleApprovePass s),
     handle_route ''POST'' ''/api/passes/{id}/reject'' (RoleGated RoleAdmin) (handleRejectPass s),
     handle_route ''POST'' ''/api/passes/{id}/cancel'' Authenticated (handleCancelPass s),
     handle_route ''GET'' ''/api/passes/{id}/plan'' (RoleGated RoleAdmin) (handleGetPassPlan s),
     handle_route ''GET'' ''/api/scheduling-config'' (RoleGated RoleAdmin) handleGetSchedulingConfig,
     handle_route ''PUT'' ''/api/scheduling-config'' (RoleGated RoleRoot) (handleUpdateSchedulingConfig s),
     handle_route ''GET'' ''/api/station'' (RoleGated RoleAdmin) handleStationStatus,
     handle_route ''GET'' ''/api/tle-status'' (RoleGated RoleAdmin) handleTLEStatus,
     handle_route ''GET'' ''/api/station/config'' (RoleGated RoleRoot) handleGetStationConfig,
     handle_route ''PATCH'' ''/api/station'' (RoleGated RoleRoot) (handleUpdateStation s),
     handle_route ''PUT'' ''/api/station/bands/{band}'' (RoleGated RoleRoot) (handleUpdateBandConfig s),
     handle_route ''PUT'' ''/api/station/hardware'' (RoleGated RoleRoot) (handleUpdateHardwareConfig s),
     handle_route ''GET'' ''/api/audit'' (RoleGated RoleRoot) handleListAudit,
     handle_route ''GET'' ''/api/pipelines'' Authenticated (handleListPipelines s),
     handle_route ''POST'' ''/api/pipelines'' (RoleGated RoleAdmin) (handleCreatePipeline s),
     handle_route ''GET'' ''/api/recordings'' Authenticated handleListRecordings,
     handle_route ''GET'' ''/api/passes/{id}/recordings'' Authenticated (handleListPassRecordings s),
     handle_route ''GET'' ''/api/recordings/{id}/download'' Authenticated handleDownloadRecording,
     handle_route ''GET'' ''/api/workers'' (RoleGated RoleAdmin) (handleListWorkers s),
     handle_route ''GET'' ''/api/setup'' Authenticated handleSetupStatus,
     handle_route ''POST'' ''/api/setup'' Authenticated (handleSetup s)]"

section \<open>Matching\<close>

definition is_wildcard :: "string \<Rightarrow> bool" where
  "is_wildcard seg \<longleftrightarrow> take 1 seg = ''{''"

text \<open>The value of the wildcard, if the path matches; a wildcard stands for one segment.\<close>

fun match_segments :: "string list \<Rightarrow> string list \<Rightarrow> string option" where
  "match_segments [] [] = Some ''''"
| "match_segments (p # ps) (q # qs) =
     (if is_wildcard p
      then if q = '''' then None else map_option (\<lambda>_. q) (match_segments ps qs)
      else if p = q then match_segments ps qs else None)"
| "match_segments _ _ = None"

definition match_path :: "string \<Rightarrow> string \<Rightarrow> string option" where
  "match_path pattern path = match_segments (split_on (CHR ''/'') pattern) (split_on (CHR ''/'') path)"

text \<open>A pattern for GET also takes HEAD.\<close>

definition method_matches :: "string \<Rightarrow> string \<Rightarrow> bool" where
  "method_matches pattern meth \<longleftrightarrow> meth = pattern \<or> pattern = ''GET'' \<and> meth = ''HEAD''"

definition route_matches :: "string \<Rightarrow> string \<Rightarrow> route \<Rightarrow> bool" where
  "route_matches meth path rt \<longleftrightarrow>
     method_matches (rt_Method rt) meth \<and> match_path (rt_Pattern rt) path \<noteq> None"

section \<open>internal/httpapi/static.go\<close>

text \<open>
  What the file handler decides from the path and from which of the files exist: no such page,
  the client's start page, or the file itself; the flag says whether caching is forbidden.
\<close>

datatype static_choice = NoPage | StartPage bool | ServedFile string bool

definition isUncachedPath :: "string \<Rightarrow> bool" where
  "isUncachedPath url_path \<longleftrightarrow>
     url_path = ''/'' \<or> has_suffix url_path ''/index.html'' \<or>
     clean_path url_path \<in> {''/flutter_service_worker.js'', ''/flutter_bootstrap.js'', ''/version.json''}"

definition staticHandler :: "string \<Rightarrow> (string \<Rightarrow> bool) \<Rightarrow> string \<Rightarrow> static_choice" where
  "staticHandler root_dir is_file url_path =
     (if url_path = ''/api'' \<or> has_prefix url_path ''/api/'' then NoPage
      else let requested = path_join [root_dir, clean_path (''/'' @ url_path)]
           in if \<not> is_file requested then StartPage (isUncachedPath url_path)
              else ServedFile requested (isUncachedPath url_path))"

text \<open>The handler is registered if a directory is configured that has a start page.\<close>

definition registerStatic :: "(string \<Rightarrow> bool) \<Rightarrow> string \<Rightarrow> bool" where
  "registerStatic is_file root_dir \<longleftrightarrow> root_dir \<noteq> '''' \<and> is_file (path_join [root_dir, ''index.html''])"

section \<open>Dispatch\<close>

record net_request =
  nr_Method :: string
  nr_Path :: string
  nr_Origin :: string
  nr_PreflightMethod :: string
  nr_Request :: http_request

definition plain_text :: "int \<Rightarrow> string \<Rightarrow> http_response" where
  "plain_text code msg =
     \<lparr>rp_Code = code, rp_Header = [(''Content-Type'', ''text/plain; charset=utf-8'')],
      rp_Content = FileContent msg\<rparr>"

text \<open>
  What \<open>net/http\<close> answers for the file: it sends a path that ends in \<open>/index.html\<close> to the directory,
  and a file that is asked for with a slash at the end to the name without it.  The query that it
  appends to the location, ranges and conditional requests are left out.
\<close>

definition local_redirect :: "string \<Rightarrow> http_response" where
  "local_redirect location =
     \<lparr>rp_Code = 301, rp_Header = [(''Location'', location)], rp_Content = NoContent\<rparr>"

definition file_response :: "(string \<Rightarrow> bytes option) \<Rightarrow> string \<Rightarrow> http_response" where
  "file_response contents path =
     \<lparr>rp_Code = 200, rp_Header = [],
      rp_Content = (case contents path of None \<Rightarrow> NoContent | Some c \<Rightarrow> FileContent c)\<rparr>"

definition no_cache_header :: "bool \<Rightarrow> http_response \<Rightarrow> http_response" where
  "no_cache_header no_cache rsp =
     (if no_cache then rsp\<lparr>rp_Header := (''Cache-Control'', ''no-cache'') # rp_Header rsp\<rparr> else rsp)"

definition static_response :: "string \<Rightarrow> string \<Rightarrow> static_choice \<Rightarrow> (string \<Rightarrow> bytes option) \<Rightarrow> http_response" where
  "static_response root_dir url_path choice contents =
     (case choice of
        NoPage \<Rightarrow> plain_text 404 ''404 page not found''
      | StartPage no_cache \<Rightarrow> no_cache_header no_cache
          (if has_suffix url_path ''/index.html'' then local_redirect ''./''
           else file_response contents (path_join [root_dir, ''index.html'']))
      | ServedFile path no_cache \<Rightarrow> no_cache_header no_cache
          (if has_suffix url_path ''/index.html'' then local_redirect ''./''
           else if \<not> has_suffix url_path ''/'' then file_response contents path
           else if path_base url_path \<in> {''/'', ''.''}
           then plain_text 500 ''http: attempting to traverse a non-directory''
           else local_redirect (''../'' @ path_base url_path)))"

text \<open>
  The web client is a directory that nothing in the server writes: \<open>web\<close> gives its files.
\<close>

definition mux :: "http_server \<Rightarrow> string \<Rightarrow> (string \<Rightarrow> bytes option) \<Rightarrow> net_request \<Rightarrow> http_response repo" where
  "mux s web_dir web rq =
     (let static_on = registerStatic (\<lambda>p. web p \<noteq> None) web_dir in
      case find (route_matches (nr_Method rq) (nr_Path rq)) (routes s) of
        Some rt \<Rightarrow>
          (case match_path (rt_Pattern rt) (nr_Path rq) of
             None \<Rightarrow> ret (plain_text 404 ''404 page not found'')
           | Some v \<Rightarrow> apply_gate (rt_Gate rt) (rt_Handler rt)
               ((nr_Request rq)\<lparr>hr_PathValue := v, hr_User := None, hr_Token := None\<rparr>))
      | None \<Rightarrow>
          if static_on \<and> method_matches ''GET'' (nr_Method rq)
          then ret (static_response web_dir (nr_Path rq) (staticHandler web_dir (\<lambda>p. web p \<noteq> None) (nr_Path rq)) web)
          else if static_on \<or> list_ex (\<lambda>rt. match_path (rt_Pattern rt) (nr_Path rq) \<noteq> None) (routes s)
          then ret (plain_text 405 ''Method Not Allowed'')
          else ret (plain_text 404 ''404 page not found''))"

section \<open>internal/httpapi/cors.go\<close>

record cors_options =
  co_AllowedOrigins :: "string list"
  co_AllowLocalhost :: bool

definition Enabled :: "cors_options \<Rightarrow> bool" where
  "Enabled opts \<longleftrightarrow> co_AllowedOrigins opts \<noteq> [] \<or> co_AllowLocalhost opts"

text \<open>\<open>url.Parse\<close> with \<open>Hostname\<close> is the parameter \<open>parse_url\<close>: scheme and host name.\<close>

definition allows :: "(string \<Rightarrow> (string \<times> string) option) \<Rightarrow> cors_options \<Rightarrow> string \<Rightarrow> bool" where
  "allows parse_url opts origin =
     (if origin = '''' then False
      else if origin \<in> set (co_AllowedOrigins opts) then True
      else if \<not> co_AllowLocalhost opts then False
      else case parse_url origin of
             None \<Rightarrow> False
           | Some (scheme, hostname) \<Rightarrow>
               if scheme \<noteq> ''http'' \<and> scheme \<noteq> ''https'' then False
               else hostname \<in> {''localhost'', ''127.0.0.1'', ''::1''})"

definition add_header :: "(string \<times> string) list \<Rightarrow> http_response \<Rightarrow> http_response" where
  "add_header hs rsp = rsp\<lparr>rp_Header := hs @ rp_Header rsp\<rparr>"

definition origin_headers :: "bool \<Rightarrow> string \<Rightarrow> (string \<times> string) list" where
  "origin_headers allowed origin =
     (''Vary'', ''Origin'') #
     (if allowed
      then [(''Access-Control-Allow-Origin'', origin), (''Access-Control-Expose-Headers'', ''Content-Disposition'')]
      else [])"

definition preflight_headers :: "(string \<times> string) list" where
  "preflight_headers =
     [(''Access-Control-Allow-Methods'', join_on '', '' [''GET'', ''POST'', ''PATCH'', ''PUT'', ''DELETE'', ''OPTIONS'']),
      (''Access-Control-Allow-Headers'', ''Authorization, Content-Type, Accept''),
      (''Access-Control-Max-Age'', ''600'')]"

definition vary_preflight :: "(string \<times> string) list" where
  "vary_preflight =
     [(''Vary'', ''Access-Control-Request-Method''), (''Vary'', ''Access-Control-Request-Headers'')]"

definition WithCORS ::
  "(string \<Rightarrow> (string \<times> string) option) \<Rightarrow> cors_options \<Rightarrow> (net_request \<Rightarrow> http_response repo) \<Rightarrow>
   net_request \<Rightarrow> http_response repo" where
  "WithCORS parse_url opts next_handler rq =
     (if \<not> Enabled opts then next_handler rq
      else
      let allowed = allows parse_url opts (nr_Origin rq);
          hs = origin_headers allowed (nr_Origin rq)
      in if nr_Method rq = ''OPTIONS'' \<and> nr_PreflightMethod rq \<noteq> ''''
         then if \<not> allowed then ret (add_header (hs @ vary_preflight) (write_header 403))
              else ret (add_header (hs @ vary_preflight @ preflight_headers) (write_header 204))
         else attempt (next_handler rq) (\<lambda>rsp. ret (add_header hs rsp)))"

section \<open>Every request is answered, and by steps of the server\<close>

lemma health_answers [answer_intro]: "answers (handleHealth s r)" "answers (handleReady s r)"
  unfolding handleHealth_def handleReady_def check_def storage_fields_def accepting_uploads_def Let_def
  by (intro answer_intro)+

lemma answers_gate [answer_intro]: "(\<And>r. answers (h r)) \<Longrightarrow> answers (apply_gate g h r)"
  by (cases g) (auto intro: answer_intro)

lemma find_SomeD: "find P xs = Some x \<Longrightarrow> x \<in> set xs \<and> P x"
  by (induction xs) (auto split: if_splits)

lemma route_sel [simp]:
  "rt_Method (handle_route m p g h) = m" "rt_Pattern (handle_route m p g h) = p"
  "rt_Gate (handle_route m p g h) = g" "rt_Handler (handle_route m p g h) = h"
  by (simp_all add: handle_route_def)

lemma routes_answer: "rt \<in> set (routes s) \<Longrightarrow> answers (rt_Handler rt r)"
  by (auto simp: routes_def intro: answer_intro)

lemma mux_answers: "answers (mux s web_dir web rq)"
  unfolding mux_def Let_def
  by (auto intro!: answer_intro routes_answer dest!: find_SomeD split: option.split)

context guarantee begin

lemma apply_gate [guar_intro]: "(\<And>r. guar G (h r)) \<Longrightarrow> guar G (apply_gate g h r)"
  by (cases g) (auto intro: http_gates)

lemma health_handlers [guar_intro]: "guar G (handleHealth s r)" "guar G (handleReady s r)"
  unfolding handleHealth_def handleReady_def check_def storage_fields_def accepting_uploads_def Let_def
    EnsureSpaceFor_def RecordingsUsage_def
  by (intro attempt attempt_or draw asks external case_option_guar if_guar ret fail)+

end

context server_guarantee begin

lemma routes_guar: "rt \<in> set (routes s) \<Longrightarrow> guar G (rt_Handler rt r)"
  by (auto simp: routes_def health_handlers account_handlers catalog_handlers pass_handlers
      station_handlers setup_handlers recording_handlers)

lemma mux [guar_intro]: "guar G (mux s web_dir web rq)"
  unfolding mux_def Let_def
  by (auto intro!: apply_gate ret routes_guar dest!: find_SomeD split: option.split)

lemma WithCORS [guar_intro]:
  "(\<And>r. guar G (h r)) \<Longrightarrow> guar G (WithCORS parse_url opts h rq)"
  unfolding WithCORS_def Let_def by (intro if_guar ret attempt; simp)

end

end
