(* ===== verification/Http_Outcomes.thy ===== *)
theory Http_Outcomes
  imports Http_Server
begin

text \<open>
  When a handler's step returns what: the equations of \<open>Outcomes\<close> for the steps of the HTTP
  handlers, the status codes of the error responses, and what the middleware lets through.
\<close>

section \<open>Steps\<close>

lemma or_500_eq [outcome]:
  "or_500 m k w = (z, w') \<longleftrightarrow>
     (\<exists>e. m w = (Inl e, w') \<and> z = Inr internalError) \<or> (\<exists>x w1. m w = (Inr x, w1) \<and> k x w1 = (z, w'))"
  by (auto simp: or_500_def attempt_or_eq ret_eq)

lemma or_domain_eq [outcome]:
  "or_domain s m k w = (z, w') \<longleftrightarrow>
     (\<exists>e. m w = (Inl e, w') \<and> z = Inr (writeDomainError s e)) \<or>
     (\<exists>x w1. m w = (Inr x, w1) \<and> k x w1 = (z, w'))"
  by (auto simp: or_domain_def attempt_or_eq ret_eq)

lemma or_scheduling_eq [outcome]:
  "or_scheduling s m k w = (z, w') \<longleftrightarrow>
     (\<exists>e. m w = (Inl e, w') \<and> z = Inr (writeSchedulingError s e)) \<or>
     (\<exists>x w1. m w = (Inr x, w1) \<and> k x w1 = (z, w'))"
  by (auto simp: or_scheduling_def attempt_or_eq ret_eq)

lemma bad_request_eq [outcome]:
  "bad_request msg w = (z, w') \<longleftrightarrow> z = Inr (writeError 400 ''invalid_request'' msg) \<and> w' = w"
  by (simp add: bad_request_def ret_eq)

lemma attempt_asks [outcome]: "attempt (asks f) k w = k (f (env w)) w"
  by (simp add: attempt_def attempt_or_def asks_def)

lemma attempt_draw [outcome]: "attempt (draw f) k w = k (f (env w) (tick w)) (advance w)"
  by (simp add: attempt_def attempt_or_def draw_def)

lemma attempt_clock [outcome]: "attempt clock_now k w = k (env_clock (env w) (tick w)) (advance w)"
  by (simp add: attempt_def attempt_or_def clock_now_def)

lemma with_body_eq [outcome]:
  "with_body target r k w =
     (case decodeJSON (target (env w)) (hr_Body r) of
        None \<Rightarrow> bad_request ''malformed request body'' w | Some x \<Rightarrow> k x w)"
  by (simp add: with_body_def attempt_asks split: option.split)

lemma pathUUID_eq [outcome]:
  "pathUUID r k w =
     (case env_parse_uuid (env w) (hr_PathValue r) of None \<Rightarrow> bad_request ''invalid id'' w | Some i \<Rightarrow> k i w)"
  by (simp add: pathUUID_def attempt_asks split: option.split)

lemma respond_eq [outcome]: "respond f w = (z, w') \<longleftrightarrow> z = Inr (f (env w)) \<and> w' = w"
  by (auto simp: respond_def attempt_asks ret_eq)

lemma http_audit_eq [outcome]:
  "http_audit r action ty ref details k w = (z, w') \<longleftrightarrow>
     (\<exists>a w1. AppendAudit (audit_entry (Some (u_ID (currentUser r))) action ty ref details) w = (a, w1) \<and>
        k w1 = (z, w'))"
  by (simp add: http_audit_def ignoring_eq)

text \<open>What the audit record leaves alone.\<close>

lemma AppendAudit_effect:
  assumes "AppendAudit a w = (z, w')"
  shows "env w' = env w" and "files w' = files w" and "redis w' = redis w" and "tx w = NoTx \<Longrightarrow> tx w' = NoTx"
    and "tick w' = Suc (tick w)"
    and "db w' = (db w)\<lparr>t_audit_records := t_audit_records (db w')\<rparr>"
  using assms
  by (auto simp: AppendAudit_def query_row_def translated_def scan_row_def run_stmt_def
      insert_audit_stmt_def Let_def split: prod.splits sum.splits option.splits if_splits)

lemma AppendAudit_tables:
  assumes "AppendAudit a w = (z, w')"
  shows "t_users (db w') = t_users (db w)" "t_stations (db w') = t_stations (db w)"
    "t_band_configs (db w') = t_band_configs (db w)" "t_hardware_configs (db w') = t_hardware_configs (db w)"
    "t_scheduling_configs (db w') = t_scheduling_configs (db w)" "t_workers (db w') = t_workers (db w)"
    "t_satellites (db w') = t_satellites (db w)" "t_pipelines (db w') = t_pipelines (db w)"
    "t_passes (db w') = t_passes (db w)" "t_initialized_at (db w') = t_initialized_at (db w)"
  by (subst AppendAudit_effect(6) [OF assms]; simp)+

section \<open>Codes\<close>

lemma code_simps [simp]:
  "rp_Code (writeJSON c m) = c" "rp_Code (writeError c kd msg) = c" "rp_Code (write_header c) = c"
  "rp_Code internalError = 500" "rp_Code unauthenticated = 401" "rp_Code (not_initialized msg) = 409"
  by (simp_all add: writeJSON_def writeError_def write_header_def internalError_def unauthenticated_def
      not_initialized_def)

lemma code_if: "400 \<le> rp_Code a \<Longrightarrow> 400 \<le> rp_Code b \<Longrightarrow> 400 \<le> rp_Code (if c then a else b)"
  by simp

lemma code_ge: "400 \<le> c \<Longrightarrow> 400 \<le> rp_Code (writeError c kd msg)" "400 \<le> rp_Code internalError"
  by simp_all

lemma large_code: "c \<ge> 400 \<Longrightarrow> c \<noteq> 200 \<and> c \<noteq> 201 \<and> c \<noteq> 204" for c :: int
  by simp

lemma error_codes:
  "400 \<le> rp_Code (writeDomainError s e)" "400 \<le> rp_Code (writeSchedulingError s e)"
proof -
  show "400 \<le> rp_Code (writeDomainError s e)"
    unfolding writeDomainError_def by (intro code_if code_ge; simp)
  show "400 \<le> rp_Code (writeSchedulingError s e)"
  proof (cases "as_conflict e")
    case None
    show ?thesis
      unfolding writeSchedulingError_def None option.case
      by (intro code_if code_ge; simp)
  next
    case (Some c)
    show ?thesis
      unfolding writeSchedulingError_def Some option.case case_prod_beta by (simp only: code_simps, simp?)
  qed
qed

lemmas error_is_no_success [simp] =
  large_code [OF error_codes(1), THEN conjunct1] large_code [OF error_codes(2), THEN conjunct1]
  large_code [OF error_codes(1), THEN conjunct2, THEN conjunct1]
  large_code [OF error_codes(2), THEN conjunct2, THEN conjunct1]
  large_code [OF error_codes(1), THEN conjunct2, THEN conjunct2]

section \<open>The middleware\<close>

text \<open>The account a token stands for: its session is held and not expired, its user exists.\<close>

definition session_user :: "world \<Rightarrow> string \<Rightarrow> user option" where
  "session_user w token =
     (case redis w (session_key (env w) token) of
        None \<Rightarrow> None
      | Some (s, expires) \<Rightarrow>
          if expires \<le> env_clock (env w) (tick w) then None
          else find_row (\<lambda>u. u_ID u = s_UserID s) (t_users (db w)))"

fun admits :: "gate \<Rightarrow> user \<Rightarrow> bool" where
  "admits Open u \<longleftrightarrow> True"
| "admits SignedIn u \<longleftrightarrow> True"
| "admits Authenticated u \<longleftrightarrow> \<not> u_MustChangePassword u"
| "admits (RoleGated role) u \<longleftrightarrow> \<not> u_MustChangePassword u \<and> AtLeast u role"

lemma get_session_Inr:
  "get_session token w = (Inr x, w') \<longleftrightarrow>
     env_redis_up (env w) (tick w) \<and> w' = advance w \<and>
     (\<exists>expires. redis w (session_key (env w) token) = Some (x, expires) \<and>
        env_clock (env w) (tick w) < expires)"
  by (auto simp: get_session_def split: option.splits)

lemma Resolve_Inr:
  assumes "Resolve token w = (Inr u, w')"
  shows "session_user w token = Some u \<and> db w' = db w \<and> env w' = env w \<and> files w' = files w \<and>
    redis w' = redis w"
proof -
  from assms obtain x w1 where "get_session token w = (Inr x, w1)" "GetUserByID (s_UserID x) w1 = (Inr u, w')"
    unfolding Resolve_def attempt_or_eq branches ignoring_eq fail_eq ret_eq by blast
  then show ?thesis by (auto simp: get_session_Inr GetUserByID_Inr session_user_def)
qed

definition with_context :: "http_request \<Rightarrow> user \<Rightarrow> http_request" where
  "with_context r u = r\<lparr>hr_User := Some u, hr_Token := Some (bearerToken r)\<rparr>"

lemma with_context_simps [simp]:
  "currentUser (with_context r u) = u" "hr_Body (with_context r u) = hr_Body r"
  "hr_PathValue (with_context r u) = hr_PathValue r" "hr_Query (with_context r u) = hr_Query r"
  by (simp_all add: with_context_def currentUser_def)

lemma requireAuth_cases:
  assumes "requireAuth h r w = (z, w')"
  obtains (refused) rsp where "z = Inr rsp" "rp_Code rsp \<in> {401, 500}" "db w' = db w"
  | (passed) u w1 where "session_user w (bearerToken r) = Some u" "db w1 = db w" "env w1 = env w"
      "files w1 = files w" "h (with_context r u) w1 = (z, w')"
proof -
  have db: "db w1 = db w" if "Resolve token w = (y, w1)" for token y w1
    using reading.Resolve that by (rule reads_db)
  show ?thesis
  proof (cases "bearerToken r = ''''")
    case True
    with assms show ?thesis by (intro refused [of unauthenticated]) (simp_all add: requireAuth_def ret_eq)
  next
    case False
    obtain y w1 where y: "Resolve (bearerToken r) w = (y, w1)" by fastforce
    show ?thesis
    proof (cases y)
      case (Inl e)
      with assms False y have "z = Inr unauthenticated \<or> z = Inr internalError" "w' = w1"
        by (auto simp: requireAuth_def Let_def attempt_or_def ret_def split: if_splits)
      with db [OF y] show ?thesis by (auto intro: refused [of unauthenticated] refused [of internalError])
    next
      case (Inr u)
      with assms False y have "h (with_context r u) w1 = (z, w')"
        by (simp add: requireAuth_def Let_def attempt_or_def with_context_def)
      with Resolve_Inr [of "bearerToken r" w u w1] y Inr show ?thesis by (intro passed) simp_all
    qed
  qed
qed

lemma gate_cases:
  assumes "apply_gate g h r w = (z, w')" and "g \<noteq> Open"
  obtains (refused) rsp where "z = Inr rsp" "rp_Code rsp \<in> {401, 403, 500}" "db w' = db w"
  | (passed) u w1 where "session_user w (bearerToken r) = Some u" "admits g u" "db w1 = db w" "env w1 = env w"
      "files w1 = files w" "h (with_context r u) w1 = (z, w')"
proof -
  obtain h' where gate: "apply_gate g h = requireAuth h'"
    and inner: "\<And>u. h' (with_context r u) =
      (if admits g u then h (with_context r u)
       else if u_MustChangePassword u
       then ret (writeError 403 ''password_change_required'' ''change your password before using the system'')
       else ret (writeError 403 ''forbidden'' ''not permitted''))"
  proof (cases g)
    case SignedIn
    then show ?thesis by (intro that [of h]) auto
  next
    case Authenticated
    then show ?thesis
      by (intro that [of "requirePasswordChanged h"]) (auto simp: authenticated_def requirePasswordChanged_def)
  next
    case (RoleGated role)
    then show ?thesis
      by (intro that [of "requirePasswordChanged (requireRole role h)"])
        (auto simp: roleGated_def requirePasswordChanged_def requireRole_def)
  qed (use assms(2) in simp)
  from assms(1) gate have "requireAuth h' r w = (z, w')" by simp
  then show ?thesis
  proof (cases rule: requireAuth_cases)
    case (refused rsp)
    then show ?thesis by (intro that(1)) auto
  next
    case (passed u w1)
    show ?thesis
    proof (cases "admits g u")
      case True
      with passed show ?thesis by (intro that(2)) (simp_all add: inner)
    next
      case False
      with passed have "rp_Code rsp = 403 \<and> w' = w1" if "z = Inr rsp" for rsp
        using that by (auto simp: inner ret_eq split: if_splits)
      moreover from False passed obtain rsp where "z = Inr rsp"
        by (auto simp: inner ret_eq split: if_splits)
      ultimately show ?thesis using passed(2) by (intro that(1)) auto
    qed
  qed
qed

section \<open>Matching a path\<close>

lemma match_segments_plain:
  "match_segments ps qs = Some v \<Longrightarrow> list_all (\<lambda>p. \<not> is_wildcard p) ps \<Longrightarrow> qs = ps"
  by (induction ps qs rule: match_segments.induct) (auto split: if_splits)

lemma match_path_plain:
  assumes "match_path pattern path = Some v"
    and "list_all (\<lambda>p. \<not> is_wildcard p) (split_on (CHR ''/'') pattern)"
  shows "path = pattern"
proof -
  from match_segments_plain [of "split_on (CHR ''/'') pattern" "split_on (CHR ''/'') path" v] assms
  have "split_on (CHR ''/'') path = split_on (CHR ''/'') pattern" by (simp add: match_path_def)
  then show ?thesis by (metis join_split)
qed

end
