(* ===== verification/Http_Props.thy ===== *)
theory Http_Props
  imports Http_Outcomes
begin

text \<open>
  What holds of the HTTP interface as a whole: every request is answered, nothing changes without
  the authority that the route demands, and what a caller may not see is not shown.
\<close>

section \<open>Access\<close>

lemma open_routes:
  assumes "rt \<in> set (routes s)" and "rt_Gate rt = Open"
  shows "rt = handle_route ''GET'' ''/health'' Open (handleHealth s) \<or> rt = handle_route ''GET'' ''/readyz'' Open (handleReady s) \<or>
    rt = handle_route ''POST'' ''/api/auth/login'' Open (handleLogin s)"
  using assms by (auto simp: routes_def)

lemma login_path: "match_path ''/api/auth/login'' path = Some v \<Longrightarrow> path = ''/api/auth/login''"
  by (erule match_path_plain) (simp add: is_wildcard_def)

lemma mux_cases:
  assumes "mux s web_dir web rq w = (z, w')"
  obtains (elsewhere) "w' = w"
  | (handled) rt v where "rt \<in> set (routes s)" "route_matches (nr_Method rq) (nr_Path rq) rt"
      "match_path (rt_Pattern rt) (nr_Path rq) = Some v"
      "apply_gate (rt_Gate rt) (rt_Handler rt)
         ((nr_Request rq)\<lparr>hr_PathValue := v, hr_User := None, hr_Token := None\<rparr>) w = (z, w')"
proof (cases "find (route_matches (nr_Method rq) (nr_Path rq)) (routes s)")
  case None
  with assms show ?thesis by (intro elsewhere) (simp add: mux_def Let_def ret_def split: if_splits)
next
  case (Some rt)
  note rt = find_SomeD [OF Some]
  from rt obtain v where v: "match_path (rt_Pattern rt) (nr_Path rq) = Some v"
    by (auto simp: route_matches_def)
  with assms Some show ?thesis by (intro handled [of rt v] rt [THEN conjunct1] rt [THEN conjunct2])
      (simp_all add: mux_def Let_def)
qed

text \<open>
  C4.  Nothing changes without authority: a request that changes any table, other than a login,
  carries the token of a session that has not expired, of an account that exists, and that
  account passes the gate of the route: it has changed its initial password (except on the
  account routes), and it has the role that the route demands.
\<close>

theorem http_change_needs_authority:
  assumes "mux s web_dir web rq w = (z, w')" and "db w' \<noteq> db w"
    and "\<not> (nr_Method rq = ''POST'' \<and> nr_Path rq = ''/api/auth/login'')"
  shows "\<exists>rt u. rt \<in> set (routes s) \<and> route_matches (nr_Method rq) (nr_Path rq) rt \<and>
    rt_Gate rt \<noteq> Open \<and> session_user w (bearerToken (nr_Request rq)) = Some u \<and> admits (rt_Gate rt) u"
  using assms(1)
proof (cases rule: mux_cases)
  case elsewhere
  with assms(2) show ?thesis by simp
next
  case (handled rt v)
  let ?r = "(nr_Request rq)\<lparr>hr_PathValue := v, hr_User := None, hr_Token := None\<rparr>"
  have quiet: "guar (=) (handleHealth s r)" "guar (=) (handleReady s r)" for r
    by (rule reading.health_handlers)+
  have "rt_Gate rt \<noteq> Open"
  proof
    assume gate: "rt_Gate rt = Open"
    with handled(4) have run: "rt_Handler rt ?r w = (z, w')" by simp
    from open_routes [OF handled(1) gate] show False
    proof (elim disjE)
      assume "rt = handle_route ''GET'' ''/health'' Open (handleHealth s)"
      with run reads_db [OF quiet(1)] assms(2) show False by fastforce
    next
      assume "rt = handle_route ''GET'' ''/readyz'' Open (handleReady s)"
      with run reads_db [OF quiet(2)] assms(2) show False by fastforce
    next
      assume "rt = handle_route ''POST'' ''/api/auth/login'' Open (handleLogin s)"
      with handled(2,3) assms(3) show False
        by (auto simp: route_matches_def method_matches_def dest: login_path)
    qed
  qed
  with handled(4) show ?thesis
  proof (cases rule: gate_cases)
    case (refused rsp)
    with assms(2) show ?thesis by simp
  next
    case (passed u w1)
    moreover have "bearerToken ?r = bearerToken (nr_Request rq)" by (simp add: bearerToken_def)
    ultimately show ?thesis using handled \<open>rt_Gate rt \<noteq> Open\<close> by metis
  qed
qed

text \<open>A server on the sample system, with alice and the administrator signed in.\<close>

definition sample_http :: http_server where
  "sample_http =
     \<lparr>hs_Version = ''1'', hs_Files = Some \<lparr>fs_recordingsRoot = ''/r'', fs_pipelinesRoot = ''/p''\<rparr>,
      hs_Auth = sample_auth, hs_Catalog = \<lparr>cs_chain = [], cs_metadata = None\<rparr>, hs_Scheduling = sample_service,
      hs_Prediction = sv_predictor sample_service, hs_Codec = sample_codec,
      hs_Json = (\<lambda>_. Some (JObject [(''p'', JObject [])])), hs_ErrorText = (\<lambda>_. ''error''),
      hs_Collate = length, hs_Probe = (\<lambda>_ _. True)\<rparr>"

definition signed_in :: "uuid \<Rightarrow> world \<Rightarrow> world" where
  "signed_in i w = w\<lparr>redis := [sessionKeyPrefix @ replicate 64 (CHR ''0'') \<mapsto>
     (\<lparr>s_UserID = i, s_Role = '''', s_CreatedAt = 0\<rparr>, 1000000)]\<rparr>"

definition sample_http_request :: "json \<Rightarrow> http_request" where
  "sample_http_request v =
     \<lparr>hr_Authorization = ''Bearer token'', hr_PathValue = '''', hr_Query = (\<lambda>_. ''''),
      hr_Body = \<lparr>rb_Size = 100, rb_Values = [v], rb_Clean = True\<rparr>, hr_User = None, hr_Token = None\<rparr>"

definition sample_net :: "string \<Rightarrow> string \<Rightarrow> json \<Rightarrow> net_request" where
  "sample_net meth path v =
     \<lparr>nr_Method = meth, nr_Path = path, nr_Origin = '''', nr_PreflightMethod = '''',
      nr_Request = sample_http_request v\<rparr>"

definition first_pass_world :: "pass_status \<Rightarrow> pass_visibility \<Rightarrow> world" where
  "first_pass_world status vis = world_with 20
     (sample_database\<lparr>t_passes := [(sample_pass status)\<lparr>p_ID := 1, p_Visibility := vis\<rparr>]\<rparr>)"

lemma http_change_needs_authority_witness:
  "\<exists>rt u. rt \<in> set (routes sample_http) \<and> route_matches ''POST'' ''/api/passes/one/cancel'' rt \<and>
    rt_Gate rt \<noteq> Open \<and>
    session_user (signed_in 3 (first_pass_world PassApproved VisibilityPrivate)) ''token'' = Some u \<and>
    admits (rt_Gate rt) u"
proof -
  let ?w = "signed_in 3 (first_pass_world PassApproved VisibilityPrivate)"
  let ?rq = "sample_net ''POST'' ''/api/passes/one/cancel'' JNull"
  obtain z w' where run: "mux sample_http '''' (\<lambda>_. None) ?rq ?w = (z, w')" by fastforce
  have "map p_Status (t_passes (db (snd (mux sample_http '''' (\<lambda>_. None) ?rq ?w)))) = [PassCancelled]"
    by code_simp
  moreover have "map p_Status (t_passes (db ?w)) = [PassApproved]" by code_simp
  ultimately have "db w' \<noteq> db ?w" using run by auto
  moreover have "bearerToken (nr_Request ?rq) = ''token''" by code_simp
  ultimately show ?thesis
    using http_change_needs_authority [OF run] by (simp add: sample_net_def)
qed

end
