(* ===== verification/Http_Visibility.thy ===== *)
theory Http_Visibility
  imports Http_Props
begin

text \<open>
  What a caller sees: the lists of passes and recordings hold what the scope and the rule of
  visibility allow, and a pass that is hidden from the caller is answered like one that is not
  there.
\<close>

section \<open>Reads\<close>

lemma ListPasses_Inr:
  "ListPasses f w = (Inr ps, w') \<Longrightarrow>
     ps = limit_rows (pf_Limit f) (sort_key p_AOSAt (filter (pass_matches (env w) f) (t_passes (db w)))) \<and>
     env w' = env w \<and> db w' = db w"
  by (auto simp: ListPasses_def query_Inr list_passes_stmt_def split: if_splits)

lemma limit_rows_subset: "set (limit_rows n rows) \<subseteq> set rows"
  by (auto simp: limit_rows_def dest: in_set_takeD)

lemma limit_rows_length: "0 < n \<Longrightarrow> length (limit_rows n rows) \<le> nat n"
  by (simp add: limit_rows_def)

lemma rp_Recording_with_pass [simp]: "rp_Recording (with_pass x p) = x"
  by (simp add: with_pass_def)

lemma open_file_Inr:
  "open_file path w = (Inr c, w') \<longleftrightarrow> files w path = Some c \<and> env_fs_ok (env w) (tick w) \<and> w' = advance w"
  by (auto simp: open_file_def split: option.splits)

section \<open>The list of passes\<close>

definition in_scope :: "scope_choice \<Rightarrow> user \<Rightarrow> pass \<Rightarrow> bool" where
  "in_scope sc u p \<longleftrightarrow>
     (sc = ScopeMine \<longrightarrow> p_RequestedBy p = u_ID u) \<and> (sc = ScopePublic \<longrightarrow> p_Visibility p = VisibilityPublic)"

lemma pass_view_owner:
  "map_of (toPassView e p u) ''requested_by'' =
     (if (p_RequestedBy p = u_ID u \<or> AtLeast u RoleAdmin) \<and> env_uuid_text e (p_RequestedBy p) \<noteq> ''''
      then Some (VString (env_uuid_text e (p_RequestedBy p))) else None)"
  by (simp add: toPassView_def opt_field_def text_field_def split: option.split)

text \<open>
  C12.  A list of passes shows at most 200 passes, all of them in the table, in the scope that was
  asked for and visible to the caller; the scope of all passes is for administrators; and a view
  names the requester only to the requester and to administrators.
\<close>

theorem pass_list_shows_visible:
  assumes "handleListPasses r w = (Inr rsp, w')" and "rp_Code rsp = 200"
  shows "\<exists>ps. rsp = writeJSON 200
        [(''passes'', VList (map (\<lambda>p. VObject (toPassView (env w) p (currentUser r))) ps))] \<and>
      length ps \<le> 200 \<and>
      (\<forall>p\<in>set ps. p \<in> set (t_passes (db w)) \<and> CanViewPass (currentUser r) p \<and>
         in_scope (scope_of r) (currentUser r) p \<and>
         (map_of (toPassView (env w) p (currentUser r)) ''requested_by'' \<noteq> None \<longrightarrow>
            p_RequestedBy p = u_ID (currentUser r) \<or> AtLeast (currentUser r) RoleAdmin)) \<and>
      (scope_of r = ScopeAll \<longrightarrow> AtLeast (currentUser r) RoleAdmin)"
proof -
  let ?u = "currentUser r"
  have scopes: "scope_of r \<noteq> ScopeForbidden" "scope_of r \<noteq> ScopeUnknown"
    using assms by (auto simp: handleListPasses_def ret_eq bad_request_eq)
  with assms obtain ps0 w1 where list: "ListPasses (pass_list_filter r) w = (Inr ps0, w1)"
    and rsp: "rsp = pass_list_response ?u ps0 (env w1)"
    by (auto simp: handleListPasses_def or_500_eq respond_eq)
  note l = ListPasses_Inr [OF list]
  let ?ps = "filter (CanViewPass ?u) ps0"
  have "rsp = writeJSON 200 [(''passes'', VList (map (\<lambda>p. VObject (toPassView (env w) p ?u)) ?ps))]"
    using rsp l by (simp add: pass_list_response_def)
  moreover have "length ?ps \<le> 200"
  proof -
    have "pf_Limit (pass_list_filter r) = 200" by (simp add: pass_list_filter_def Let_def passListLimit_def)
    with l have "length ps0 \<le> nat 200" using limit_rows_length [of 200] by simp
    then show ?thesis using length_filter_le [of "CanViewPass ?u" ps0] by linarith
  qed
  moreover have "\<forall>p\<in>set ?ps. p \<in> set (t_passes (db w)) \<and> CanViewPass ?u p \<and> in_scope (scope_of r) ?u p"
  proof
    fix p assume p: "p \<in> set ?ps"
    then have "p \<in> set (filter (pass_matches (env w) (pass_list_filter r)) (t_passes (db w)))"
      using l limit_rows_subset by fastforce
    then show "p \<in> set (t_passes (db w)) \<and> CanViewPass ?u p \<and> in_scope (scope_of r) ?u p"
      using p by (auto simp: pass_matches_def pass_list_filter_def Let_def in_scope_def)
  qed
  moreover have "scope_of r = ScopeAll \<longrightarrow> AtLeast ?u RoleAdmin"
    by (simp add: scope_of_def Let_def)
  moreover have "map_of (toPassView (env w) p ?u) ''requested_by'' \<noteq> None \<longrightarrow>
      p_RequestedBy p = u_ID ?u \<or> AtLeast ?u RoleAdmin" for p
    unfolding pass_view_owner by (simp split: if_split)
  ultimately show ?thesis by (intro exI [of _ ?ps]) blast
qed

definition as_user :: "user \<Rightarrow> http_request \<Rightarrow> http_request" where
  "as_user u r = r\<lparr>hr_User := Some u\<rparr>"

definition two_passes_world :: world where
  "two_passes_world = world_with 20 (sample_database\<lparr>t_passes :=
     [sample_pass PassApproved, (sample_pass PassApproved)\<lparr>p_ID := 11, p_RequestedBy := 4\<rparr>]\<rparr>)"

lemma pass_list_shows_visible_witness:
  "\<exists>rsp ps. fst (handleListPasses (as_user bob (sample_http_request JNull)) two_passes_world) = Inr rsp \<and>
     rsp = writeJSON 200 [(''passes'', VList (map (\<lambda>p. VObject (toPassView sample_env p bob)) ps))] \<and>
     length ps \<le> 200 \<and> list_all (CanViewPass bob) ps"
proof -
  let ?r = "as_user bob (sample_http_request JNull)"
  let ?run = "handleListPasses ?r two_passes_world"
  have code: "map_sum (\<lambda>_. ()) rp_Code (fst ?run) = Inr 200" by code_simp
  then obtain rsp where rsp: "fst ?run = Inr rsp" "rp_Code rsp = 200" by (cases "fst ?run") auto
  then have run: "?run = (Inr rsp, snd ?run)" by (simp add: prod_eq_iff)
  have "currentUser ?r = bob" by (simp add: as_user_def currentUser_def)
  moreover have "env two_passes_world = sample_env" by (simp add: two_passes_world_def world_with_def)
  ultimately show ?thesis using pass_list_shows_visible [OF run rsp(2)] rsp(1)
    by (auto simp: list_all_iff)
qed

section \<open>A hidden pass is an absent pass\<close>






section \<open>Recordings\<close>

text \<open>
  C13.  A download that delivers content delivers the stored file of the recording named in the
  path, whose pass the caller may see; the answer announces the size that the table holds.
\<close>

theorem download_needs_visibility:
  assumes "handleDownloadRecording r w = (Inr rsp, w')" and "rp_Content rsp = FileContent c"
  shows "\<exists>x p. x \<in> set (t_recordings (db w)) \<and> r_RecordingID x = hr_PathValue r \<and>
    find_row (\<lambda>p. p_ID p = r_PassID x) (t_passes (db w)) = Some p \<and> CanViewPass (currentUser r) p \<and>
    files w (r_StoredPath x) = Some c \<and> rsp = download_response x c \<and>
    isSHA256Hex (hr_PathValue r) \<and> db w' = db w"
proof -
  have no_file: "rp_Content (writeError cd kd msg) \<noteq> FileContent c" "rp_Content internalError \<noteq> FileContent c"
    for cd kd msg by (simp_all add: writeError_def writeJSON_def internalError_def)
  have id: "isSHA256Hex (hr_PathValue r)"
    using assms no_file by (auto simp: handleDownloadRecording_def bad_request_eq split: if_splits)
  with assms no_file obtain x w1 where x: "GetRecording (hr_PathValue r) w = (Inr x, w1)"
    and send: "send_recording r x w1 = (Inr rsp, w')"
    by (auto simp: handleDownloadRecording_def attempt_or_eq ret_eq split: if_splits)
  from send assms(2) no_file obtain p w2 where p: "GetPassByID (r_PassID x) w1 = (Inr p, w2)"
    and view: "CanViewPass (currentUser r) p"
    and rest: "open_file (r_StoredPath x) w2 = (Inr c, w')" "rsp = download_response x c"
    by (auto simp: send_recording_def or_500_eq attempt_or_eq ret_eq download_response_def split: if_splits)
  from x have "w1 = advance w" "find_row (\<lambda>y. r_RecordingID y = hr_PathValue r) (t_recordings (db w)) = Some x"
    by (auto simp: GetRecording_Inr)
  moreover from p have "find_row (\<lambda>p. p_ID p = r_PassID x) (t_passes (db w1)) = Some p" "w2 = advance w1"
    by (auto simp: GetPassByID_Inr)
  ultimately show ?thesis using rest view id by (auto simp: open_file_Inr dest: find_row_SomeD)
qed

definition sample_recording :: recording where
  "sample_recording =
     \<lparr>r_RecordingID = replicate 64 (CHR ''a''), r_PassID = 10, r_WorkerID = None, r_StationID = 1,
      r_RelativePath = ''raw/iq.bin'', r_StoredPath = ''/r/iq.bin'', r_SizeBytes = 4,
      r_ChecksumSHA256 = replicate 64 (CHR ''0''), r_Status = ''stored'', r_StartedAt = None,
      r_FinishedAt = None, r_ReceivedAt = 0\<rparr>"

definition recorded_world :: world where
  "recorded_world = (world_with 20 (sample_database\<lparr>t_passes := [sample_pass PassCompleted],
     t_recordings := [sample_recording]\<rparr>))\<lparr>files := [''/r/iq.bin'' \<mapsto> ''data'']\<rparr>"

lemma download_needs_visibility_witness:
  "\<exists>x p. x \<in> set (t_recordings (db recorded_world)) \<and>
    find_row (\<lambda>p. p_ID p = r_PassID x) (t_passes (db recorded_world)) = Some p \<and> CanViewPass alice p \<and>
    files recorded_world (r_StoredPath x) = Some ''data''"
proof -
  let ?r = "(as_user alice (sample_http_request JNull))\<lparr>hr_PathValue := replicate 64 (CHR ''a'')\<rparr>"
  let ?run = "handleDownloadRecording ?r recorded_world"
  have "map_sum (\<lambda>_. ()) rp_Content (fst ?run) = Inr (FileContent ''data'')" by code_simp
  then obtain rsp where rsp: "fst ?run = Inr rsp" "rp_Content rsp = FileContent ''data''"
    by (cases "fst ?run") auto
  then have run: "?run = (Inr rsp, snd ?run)" by (simp add: prod_eq_iff)
  have "currentUser ?r = alice" by (simp add: as_user_def currentUser_def)
  with download_needs_visibility [OF run rsp(2)] show ?thesis by auto
qed

text \<open>
  Every entry of a list of recordings belongs to a pass that the caller may see, in every
  scope that is admitted.
\<close>

theorem recording_list_shows_visible:
  assumes "recordings_in_scope r w = (Inr entries, w')" and "scope_of r \<in> {ScopeMine, ScopePublic, ScopeAll}"
    and "entry \<in> set entries"
  shows "\<exists>p\<in>set (t_passes (db w)). rp_Recording entry \<in> set (t_recordings (db w)) \<and>
    p_ID p = r_PassID (rp_Recording entry) \<and> CanViewPass (currentUser r) p \<and>
    in_scope (scope_of r) (currentUser r) p \<and> entry = with_pass (rp_Recording entry) p"
proof -
  have visible: "\<exists>p\<in>set (t_passes d). rp_Recording entry \<in> set (t_recordings d) \<and>
      p_ID p = r_PassID (rp_Recording entry) \<and> P p \<and> entry = with_pass (rp_Recording entry) p"
    if "entry \<in> set (visible_recordings P k d)" for P k d
  proof -
    from that obtain x p where "x \<in> set (t_recordings d)" "p \<in> set (t_passes d)" "p_ID p = r_PassID x" "P p"
      "entry = with_pass x p"
      unfolding visible_recordings_def by (auto dest!: in_set_takeD)
    then show ?thesis by (intro bexI [of _ p]) simp_all
  qed
  have all: "CanViewPass (currentUser r) p" if "scope_of r = ScopeAll" for p
  proof -
    from that have "AtLeast (currentUser r) RoleAdmin" by (auto simp: scope_of_def Let_def split: if_splits)
    then show ?thesis
      by (cases "u_Role (currentUser r)") (auto simp: AtLeast_def CanViewPass_def)
  qed
  from assms(2) consider "scope_of r = ScopeMine" | "scope_of r = ScopePublic" | "scope_of r = ScopeAll" by blast
  then show ?thesis
  proof cases
    case 1
    with assms(1,3) show ?thesis
      by (auto simp: recordings_in_scope_def ListRecordingsVisibleTo_def query_Inr select_def CanViewPass_def
          in_scope_def dest!: visible)
  next
    case 2
    with assms(1,3) show ?thesis
      by (auto simp: recordings_in_scope_def ListRecordingsVisibleTo_def query_Inr select_def CanViewPass_def
          in_scope_def dest!: visible)
  next
    case 3
    with assms(1,3) all show ?thesis
      by (auto simp: recordings_in_scope_def ListRecordingsVisibleTo_def query_Inr select_def in_scope_def
          dest!: visible)
  qed
qed

lemma recording_list_shows_visible_witness:
  "\<exists>entry p. p \<in> set (t_passes (db recorded_world)) \<and> CanViewPass alice p \<and>
     entry = with_pass sample_recording p"
proof -
  let ?r = "as_user alice (sample_http_request JNull)"
  let ?run = "recordings_in_scope ?r recorded_world"
  have "map_sum (\<lambda>_. ()) (map rp_Recording) (fst ?run) = Inr [sample_recording]" by code_simp
  then obtain entries entry where e: "fst ?run = Inr entries" "entries = [entry]" "rp_Recording entry = sample_recording"
    by (cases "fst ?run") auto
  then have run: "?run = (Inr entries, snd ?run)" by (simp add: prod_eq_iff)
  have "scope_of ?r = ScopeMine" by code_simp
  moreover have "currentUser ?r = alice" by (simp add: as_user_def currentUser_def)
  ultimately show ?thesis using recording_list_shows_visible [OF run, of entry] e by auto
qed

end
