(* ===== verification/Http_Effects.thy ===== *)
theory Http_Effects
  imports Http_Visibility
begin

text \<open>
  What the requests that change something have done when they report success, and that they have
  done nothing when they do not: the first-run setup, the creation of accounts, the upload of a
  pipeline; and that every request is taken by one route at most and is answered.
\<close>

section \<open>First-run setup\<close>

text \<open>The bands of the request write to one table only.\<close>

definition only_bands :: "database \<Rightarrow> database \<Rightarrow> bool" where
  "only_bands d d' \<longleftrightarrow> (\<exists>bs. d' = d\<lparr>t_band_configs := bs\<rparr>)"

interpretation bands: guarantee only_bands
proof
  show "only_bands d d" for d by (auto simp: only_bands_def intro: exI [of _ "t_band_configs d"])
  show "only_bands d1 d2 \<Longrightarrow> only_bands d2 d3 \<Longrightarrow> only_bands d1 d3" for d1 d2 d3
    by (auto simp: only_bands_def)
qed

lemma setup_bands: "guar only_bands (for_each bs (\<lambda>b. UpsertStationBandConfig (f b)))"
  unfolding UpsertStationBandConfig_def
  by (intro bands.for_each bands.query)
    (auto simp: stmt_guar_def upsert_band_stmt_def only_bands_def Let_def split: option.splits)

text \<open>What the transaction has added: a station with its hardware, configuration and worker.\<close>

definition set_up :: "uuid \<Rightarrow> setup_request \<Rightarrow> database \<Rightarrow> database \<Rightarrow> bool" where
  "set_up actorID rq d d' \<longleftrightarrow>
     (\<exists>st c k. t_stations d' = t_stations d @ [st] \<and> st_Name st = su_StationName rq \<and>
        st_ActiveRFBand st = rf_band_of (su_ActiveRFBand rq) \<and>
        exists_row (\<lambda>h. hw_StationID h = st_ID st) (t_hardware_configs d') \<and>
        t_scheduling_configs d' = t_scheduling_configs d @ [c] \<and> sc_StationID c = st_ID st \<and>
        sc_CreatedBy c = Some actorID \<and> config_checks c \<and>
        t_workers d' = t_workers d @ [k] \<and> w_StationID k = st_ID st \<and> w_Name k = su_WorkerName rq \<and>
        w_ConnectionState k = WorkerOffline)"

lemma update_rows_hit: "list_ex P rows \<Longrightarrow> c \<in> set (update_rows P (\<lambda>_. c) rows)"
  by (induction rows) (auto simp: update_rows_def)

lemma UpsertStationHardwareConfig_Inr:
  assumes "UpsertStationHardwareConfig c w = (Inr (), w')"
  obtains hs where "db w' = (db w)\<lparr>t_hardware_configs := hs\<rparr>" "c \<in> set hs"
proof -
  let ?same = "\<lambda>h. hw_StationID h = hw_StationID c"
  let ?hs = "if exists_row ?same (t_hardware_configs (db w))
    then update_rows ?same (\<lambda>_. c) (t_hardware_configs (db w)) else t_hardware_configs (db w) @ [c]"
  from assms have "db w' = (db w)\<lparr>t_hardware_configs := ?hs\<rparr>"
    by (auto simp: UpsertStationHardwareConfig_def query_Inr upsert_hardware_stmt_def split: option.splits)
  moreover have "c \<in> set ?hs" by (simp add: exists_row_def update_rows_hit)
  ultimately show ?thesis by (rule that)
qed

lemma same_marker: "t_initialized_at d = Some a \<Longrightarrow> d = d\<lparr>t_initialized_at := Some a\<rparr>"
  by (cases d) simp

lemma MarkSystemInitialized_Inr:
  assumes "MarkSystemInitialized now w = (Inr (), w')"
  shows "\<exists>moment. db w' = (db w)\<lparr>t_initialized_at := Some moment\<rparr>"
proof (cases "t_initialized_at (db w)")
  case None
  with assms show ?thesis by (auto simp: MarkSystemInitialized_def query_Inr mark_initialized_stmt_def)
next
  case (Some a)
  with assms have "db w' = db w" by (auto simp: MarkSystemInitialized_def query_Inr mark_initialized_stmt_def)
  also note same_marker [OF Some]
  finally show ?thesis ..
qed

lemma setup_tx_Inr:
  assumes "setup_tx actorID now rq w = (Inr sid, w')"
  shows "set_up actorID rq (db w) (db w') \<and> t_initialized_at (db w') \<noteq> None"
proof -
  from assms obtain st w1 w2 w3 c w4 k w5 where
    st: "CreateStation (setup_station rq) w = (Inr st, w1)"
    and bs: "for_each (su_Bands rq) (\<lambda>b. UpsertStationBandConfig (setup_band (st_ID st) b)) w1 = (Inr (), w2)"
    and hw: "UpsertStationHardwareConfig (setup_hardware (st_ID st) rq) w2 = (Inr (), w3)"
    and c: "CreateSchedulingConfig (setup_config (st_ID st) actorID now rq) w3 = (Inr c, w4)"
    and k: "CreateWorker (setup_worker (st_ID st) rq) w4 = (Inr k, w5)"
    and m: "MarkSystemInitialized now w5 = (Inr (), w')"
    by (auto simp: setup_tx_def attempt_Inr ret_eq)
  from st have "db w1 = (db w)\<lparr>t_stations := t_stations (db w) @ [st]\<rparr>" "st_Name st = su_StationName rq"
    "st_ActiveRFBand st = rf_band_of (su_ActiveRFBand rq)"
    by (auto simp: CreateStation_def query_row_Inr insert_station_stmt_def setup_station_def Let_def
        split: option.splits)
  moreover from guarD [OF setup_bands bs] obtain bs where "db w2 = (db w1)\<lparr>t_band_configs := bs\<rparr>"
    by (auto simp: only_bands_def)
  moreover from hw obtain hs where "db w3 = (db w2)\<lparr>t_hardware_configs := hs\<rparr>"
    "setup_hardware (st_ID st) rq \<in> set hs"
    by (rule UpsertStationHardwareConfig_Inr)
  moreover from this have "exists_row (\<lambda>h. hw_StationID h = st_ID st) hs"
    unfolding exists_row_def list_ex_iff
    by (intro bexI [of _ "setup_hardware (st_ID st) rq"]) (simp_all add: setup_hardware_def)
  moreover from c have "db w4 = (db w3)\<lparr>t_scheduling_configs := t_scheduling_configs (db w3) @ [c]\<rparr>"
    "sc_StationID c = st_ID st" "sc_CreatedBy c = Some actorID" "config_checks c"
    by (auto simp: CreateSchedulingConfig_def query_row_Inr insert_scheduling_config_stmt_def setup_config_def
        stored_config_def Let_def split: if_splits)
  moreover from k have "db w5 = (db w4)\<lparr>t_workers := t_workers (db w4) @ [k]\<rparr>"
    "w_StationID k = st_ID st" "w_Name k = su_WorkerName rq" "w_ConnectionState k = WorkerOffline"
    by (auto simp: CreateWorker_def query_row_Inr insert_worker_stmt_def setup_worker_def Let_def
        split: if_splits)
  moreover from m obtain moment where "db w' = (db w5)\<lparr>t_initialized_at := Some moment\<rparr>"
    by (blast dest: MarkSystemInitialized_Inr)
  ultimately show ?thesis unfolding set_up_def
    by (intro conjI exI [of _ st] exI [of _ c] exI [of _ k]) simp_all
qed

lemma validateSetup_Inr:
  assumes "validateSetup e n rq = Inr valid"
  shows "su_StationName valid = su_StationName rq" "su_ActiveRFBand valid = su_ActiveRFBand rq"
    "su_WorkerName valid = su_WorkerName rq" "TrimSpace (su_StationName rq) \<noteq> ''''" "isBand (su_ActiveRFBand rq)"
  using assms by (auto simp: validateSetup_def Let_def split: if_splits option.splits)

lemma run_setup_cases:
  assumes "run_setup s r valid w = (Inr rsp, w')"
  obtains (refused) "db w' = db w" "400 \<le> rp_Code rsp"
  | (done_it) d log where "rp_Code rsp = 201" "t_initialized_at (db w) = None" "t_initialized_at d \<noteq> None"
      "set_up (u_ID (currentUser r)) valid (db w) d" "db w' = d\<lparr>t_audit_records := log\<rparr>"
proof -
  obtain y w1 where look: "SystemInitializedAt w = (y, w1)" by fastforce
  have db1: "db w1 = db w" using reading.reads look by (blast intro: reads_db)
  show ?thesis
  proof (cases y)
    case (Inl e)
    with look assms have "rsp = internalError" "w' = w1"
      by (auto simp: run_setup_def or_500_def attempt_or_def ret_def)
    with db1 show ?thesis by (intro refused) simp_all
  next
    case (Inr already)
    from look Inr have already: "already = t_initialized_at (db w)"
      by (auto simp: SystemInitializedAt_def query_Inr select_Inr)
    show ?thesis
    proof (cases "already = None")
      case False
      with look Inr assms have "rp_Code rsp = 409" "w' = w1"
        by (auto simp: run_setup_def or_500_eq ret_eq)
      with db1 show ?thesis by (intro refused) simp_all
    next
      case True
      let ?now = "env_clock (env w1) (tick w1)" and ?w2 = "advance w1"
      obtain z w3 where t: "InTx (setup_tx (u_ID (currentUser r)) ?now valid) ?w2 = (z, w3)" by fastforce
      show ?thesis
      proof (cases z)
        case (Inl e)
        with t have "db w3 = db ?w2" using clean_failD [OF clean_InTx] by blast
        moreover from look Inr True t \<open>y = Inr already\<close> assms have "rsp = writeDomainError s e" "w' = w3"
          by (auto simp: run_setup_def or_500_eq attempt_clock or_domain_eq \<open>z = Inl e\<close>)
        ultimately show ?thesis using db1 by (intro refused) (simp_all add: error_codes)
      next
        case (Inr sid)
        with look True t \<open>y = Inr already\<close> assms obtain a w4 e where
          audit: "AppendAudit a w3 = (e, w4)" and rsp: "rp_Code rsp = 201" "w' = w4"
          by (auto simp: run_setup_def or_500_eq attempt_clock or_domain_eq http_audit_eq respond_eq)
        from t Inr obtain w5 where "setup_tx (u_ID (currentUser r)) ?now valid ((advance ?w2)\<lparr>tx := TxOpen\<rparr>) = (Inr sid, w5)"
          "db w3 = db w5"
          by (auto dest!: InTx_Inr)
        with setup_tx_Inr have "set_up (u_ID (currentUser r)) valid (db w) (db w3)" "t_initialized_at (db w3) \<noteq> None"
          using db1 by fastforce+
        with AppendAudit_effect(6) [OF audit] rsp already True show ?thesis
          by (intro done_it [of "db w3" "t_audit_records (db w4)"]) simp_all
      qed
    qed
  qed
qed

lemma handleSetup_cases:
  assumes "handleSetup s r w = (Inr rsp, w')"
  obtains (refused) "db w' = db w" "400 \<le> rp_Code rsp"
  | (done_it) rq where "rp_Code rsp = 201" "CanRunFirstRunSetup (currentUser r)"
      "decodeJSON (decode_setup (env w)) (hr_Body r) = Some rq" "isBand (su_ActiveRFBand rq)"
      "TrimSpace (su_StationName rq) \<noteq> ''''" "set_up (u_ID (currentUser r)) rq (db w) (db w')"
      "t_initialized_at (db w) = None" "t_initialized_at (db w') \<noteq> None"
proof -
  consider "db w' = db w" "400 \<le> rp_Code rsp"
    | rq valid where "CanRunFirstRunSetup (currentUser r)"
      "decodeJSON (decode_setup (env w)) (hr_Body r) = Some rq" "validateSetup (env w) (tick w) rq = Inr valid"
      "run_setup s r valid (advance w) = (Inr rsp, w')"
    using assms
    by (auto simp: handleSetup_def ret_eq with_body_eq bad_request_eq attempt_draw
        split: if_splits option.splits sum.splits)
  then show ?thesis
  proof cases
    case 1
    then show ?thesis by (rule refused)
  next
    case (2 rq valid)
    note v = validateSetup_Inr [OF 2(3)]
    from 2(4) show ?thesis
    proof (cases rule: run_setup_cases)
      case refused
      with that(1) show ?thesis by simp
    next
      case (done_it d log)
      from done_it(4,5) v have "set_up (u_ID (currentUser r)) rq (db w) (db w')" by (simp add: set_up_def)
      with done_it(1-3,5) 2(1,2) v(4,5) show ?thesis by (intro that(2)) simp_all
    qed
  qed
qed

text \<open>
  C11.  First-run setup happens once and as a whole.  It answers 201 only to root, for a valid
  request, on a system that has not been set up, and then a station of the requested name and
  band is there with its hardware, an accepted scheduling configuration and a worker that is
  offline, and the marker is set; any other answer leaves every table as it was.
\<close>

theorem setup_outcome:
  assumes "handleSetup s r w = (Inr rsp, w')"
  shows "if rp_Code rsp = 201
    then u_Role (currentUser r) = RoleRoot \<and> t_initialized_at (db w) = None \<and>
      t_initialized_at (db w') \<noteq> None \<and>
      (\<exists>rq. decodeJSON (decode_setup (env w)) (hr_Body r) = Some rq \<and> isBand (su_ActiveRFBand rq) \<and>
         TrimSpace (su_StationName rq) \<noteq> '''' \<and> set_up (u_ID (currentUser r)) rq (db w) (db w'))
    else db w' = db w"
  using assms by (cases rule: handleSetup_cases) (auto simp: CanRunFirstRunSetup_def)

definition setup_json :: json where
  "setup_json = JObject
     [(''station_name'', JString ''S''), (''active_rf_band'', JString ''vhf''),
      (''bands'', JArray [JObject [(''band'', JString ''uhf'')]]), (''rotator_serial_port'', JString ''/dev/r''),
      (''rotator_baud_rate'', JInt 9600), (''worker_name'', JString ''worker'')]"

definition bare_world :: world where
  "bare_world = world_with 0 (empty_database\<lparr>t_users := [Sample.root]\<rparr>)"

lemma setup_outcome_witness:
  "\<exists>rsp w'. handleSetup sample_http (as_user Sample.root (sample_http_request setup_json)) bare_world = (Inr rsp, w') \<and>
     rp_Code rsp = 201 \<and> t_initialized_at (db w') \<noteq> None \<and> length (t_workers (db w')) = 1"
proof -
  let ?r = "as_user Sample.root (sample_http_request setup_json)"
  let ?run = "handleSetup sample_http ?r bare_world"
  have "map_sum (\<lambda>_. ()) rp_Code (fst ?run) = Inr 201" by code_simp
  then obtain rsp where rsp: "fst ?run = Inr rsp" "rp_Code rsp = 201" by (cases "fst ?run") auto
  then have run: "?run = (Inr rsp, snd ?run)" by (simp add: prod_eq_iff)
  have "t_workers (db bare_world) = []"
    by (simp add: bare_world_def world_with_def empty_database_def)
  with setup_outcome [OF run] rsp(2) have "length (t_workers (db (snd ?run))) = 1"
    "t_initialized_at (db (snd ?run)) \<noteq> None" by (auto simp: set_up_def)
  with run rsp(2) show ?thesis by (intro exI [of _ rsp] exI [of _ "snd ?run"]) simp
qed

section \<open>Accounts\<close>

lemma HashPassword_keeps:
  "HashPassword idkey cpus password w = (z, w') \<Longrightarrow> db w' = db w \<and> env w' = env w"
  by (auto simp: HashPassword_def split: option.splits)

lemma CreateUser_Inr:
  "CreateUser u w = (Inr row, w') \<Longrightarrow>
     t_users (db w') = t_users (db w) @ [row] \<and>
     row = u\<lparr>u_ID := u_ID row, u_CreatedAt := u_CreatedAt row, u_UpdatedAt := u_UpdatedAt row\<rparr>"
  by (auto simp: CreateUser_def query_row_Inr insert_user_stmt_def Let_def split: option.splits)

lemma clean_CreateUser: "clean_fail (CreateUser u)"
  unfolding CreateUser_def
  by (rule clean_query_row) (auto simp: insert_user_stmt_def Let_def split: option.splits)

lemma create_account_cases:
  assumes "create_account s r username password role w = (Inr rsp, w')"
  obtains (refused) "db w' = db w" "400 \<le> rp_Code rsp"
  | (created) hash row w1 where "rp_Code rsp = 201"
      "HashPassword (as_idkey (hs_Auth s)) (as_cpus (hs_Auth s)) password w = (Inr hash, w1)"
      "t_users (db w') = t_users (db w) @ [row]" "u_Username row = username" "u_Role row = role"
      "u_PasswordHash row = hash" "u_MustChangePassword row"
proof -
  obtain y w1 where h: "HashPassword (as_idkey (hs_Auth s)) (as_cpus (hs_Auth s)) password w = (y, w1)"
    by fastforce
  note db1 = HashPassword_keeps [OF h]
  show ?thesis
  proof (cases y)
    case (Inl e)
    with h assms have "rsp = internalError" "w' = w1" by (auto simp: create_account_def or_500_eq)
    with db1 show ?thesis by (intro refused) simp_all
  next
    case (Inr hash)
    obtain z w2 where c: "CreateUser (new_user username hash role) w1 = (z, w2)" by fastforce
    show ?thesis
    proof (cases z)
      case (Inl e)
      with h \<open>y = Inr hash\<close> c assms have "rsp = writeDomainError s e" "w' = w2"
        by (auto simp: create_account_def or_500_eq or_domain_eq)
      moreover from clean_failD [OF clean_CreateUser] c Inl have "db w2 = db w1" by blast
      ultimately show ?thesis using db1 by (intro refused) (simp_all add: error_codes)
    next
      case (Inr row)
      with h \<open>y = Inr hash\<close> c assms obtain a e w3 where "AppendAudit a w2 = (e, w3)" "rp_Code rsp = 201" "w' = w3"
        by (auto simp: create_account_def or_500_eq or_domain_eq http_audit_eq respond_eq)
      moreover from c Inr CreateUser_Inr have users: "t_users (db w2) = t_users (db w) @ [row]"
        and row: "row = (new_user username hash role)\<lparr>u_ID := u_ID row, u_CreatedAt := u_CreatedAt row,
          u_UpdatedAt := u_UpdatedAt row\<rparr>" using db1 by fastforce+
      moreover have "u_Username row = username" "u_Role row = role" "u_PasswordHash row = hash"
        "u_MustChangePassword row" by (subst row; simp add: new_user_def)+
      ultimately show ?thesis using h \<open>y = Inr hash\<close> AppendAudit_tables(1)
        by (intro created [of hash w1 row]) simp_all
    qed
  qed
qed

text \<open>
  C14.  An account is created (201) only in a role that the caller may create, under the trimmed
  name that was asked for, with a password that is long enough and that the stored hash verifies,
  and it passes no gate but those of the account routes before the password has been changed.
  Any other answer leaves every table as it was.  The hypotheses on Argon2 and the random source
  are those of the hashing theorem.
\<close>

theorem account_created:
  assumes "handleCreateUser s r w = (Inr rsp, w')" and "0 < as_cpus (hs_Auth s)"
    and "\<And>p t k m th n. length (as_idkey (hs_Auth s) p t k m th n) = n"
    and "\<forall>n salt. env_salt (env w) n = Some salt \<longrightarrow> length salt = argonSaltLen"
  shows "if rp_Code rsp = 201
    then \<exists>rq u. decodeJSON (decode_create_user (env w)) (hr_Body r) = Some rq \<and>
      t_users (db w') = t_users (db w) @ [u] \<and> u_Username u = TrimSpace (cu_Username rq) \<and>
      u_Username u \<noteq> '''' \<and> u_Role u = requested_role rq \<and>
      CanCreateUserWithRole (currentUser r) (u_Role u) \<and> MinPasswordLength \<le> length (cu_Password rq) \<and>
      VerifyPassword (as_idkey (hs_Auth s)) (cu_Password rq) (u_PasswordHash u) = Inr () \<and>
      (\<forall>g. admits g u \<longrightarrow> g \<in> {Open, SignedIn})
    else db w' = db w"
proof -
  consider "db w' = db w" "rp_Code rsp \<noteq> 201"
    | rq where "decodeJSON (decode_create_user (env w)) (hr_Body r) = Some rq"
      "TrimSpace (cu_Username rq) \<noteq> ''''" "CanCreateUserWithRole (currentUser r) (requested_role rq)"
      "ValidatePassword (cu_Password rq) = Inr ()"
      "create_account s r (TrimSpace (cu_Username rq)) (cu_Password rq) (requested_role rq) w = (Inr rsp, w')"
    using assms(1)
    by (auto simp: handleCreateUser_def with_body_eq bad_request_eq ret_eq Let_def
        split: if_splits option.splits sum.splits)
  then show ?thesis
  proof cases
    case 1
    then show ?thesis by simp
  next
    case (2 rq)
    from 2(5) show ?thesis
    proof (cases rule: create_account_cases)
      case refused
      then show ?thesis by simp
    next
      case (created hash row w1)
      have "VerifyPassword (as_idkey (hs_Auth s)) (cu_Password rq) hash = Inr ()"
        using hash_verifies [OF created(2) assms(2,3)] assms(4) by auto
      moreover have "MinPasswordLength \<le> length (cu_Password rq)"
        using 2(4) by (auto simp: ValidatePassword_def split: if_splits)
      moreover have "admits g row \<Longrightarrow> g \<in> {Open, SignedIn}" for g
        using created(7) by (cases g) auto
      ultimately show ?thesis using created 2(1-3) by auto
    qed
  qed
qed

section \<open>Dispatch\<close>















section \<open>Pipelines\<close>

lemma CreatePipeline_Inr:
  assumes "CreatePipeline p by_user w = (Inr created, w')"
  obtains row where "created = p\<lparr>pi_ID := pl_ID row\<rparr>" "files w' = files w" "env w' = env w"
    "row \<in> set (t_pipelines (db w'))" "pl_Name row = pi_Name p" "pl_IsCustom row = pi_IsCustom p"
    "pl_ChecksumSHA256 row = optional (pi_ChecksumSHA256 p)" "pl_UploadedBy row = by_user"
proof -
  let ?row = "\<lparr>pl_ID = env_uuid (env w) (tick w), pl_Name = pi_Name p, pl_IsCustom = pi_IsCustom p,
    pl_DefinitionPath = optional (pi_DefinitionPath p), pl_ChecksumSHA256 = optional (pi_ChecksumSHA256 p),
    pl_UploadedBy = by_user\<rparr>"
  from assms obtain i w1 where row: "query_row (insert_pipeline_stmt p by_user) w = (Inr i, w1)"
    and "created = p\<lparr>pi_ID := i\<rparr>" "w' = w1"
    by (auto simp: CreatePipeline_def attempt_Inr ret_eq)
  moreover from row have "i = pl_ID ?row" "db w1 = (db w)\<lparr>t_pipelines := t_pipelines (db w) @ [?row]\<rparr>"
    "files w1 = files w" "env w1 = env w"
    by (auto simp: query_row_Inr insert_pipeline_stmt_def Let_def split: option.splits)
  ultimately show ?thesis by (intro that [of ?row]) simp_all
qed

lemma WritePipeline_Inr:
  "WritePipeline fs i content w = (Inr path, w') \<Longrightarrow>
     PipelinePath fs i = Inr path \<and> files w' = (files w)(path \<mapsto> content) \<and> db w' = db w"
  by (auto simp: WritePipeline_def attempt_Inr from_result_eq wrapping_Inr WriteFile_def write_behind_def ret_eq
      split: if_splits)

lemma SetPipelineDefinitionPath_Inr:
  "SetPipelineDefinitionPath i path w = (Inr u, w') \<Longrightarrow> files w' = files w \<and>
     t_pipelines (db w') = update_rows (\<lambda>p. pl_ID p = i) (\<lambda>p. p\<lparr>pl_DefinitionPath := Some path\<rparr>) (t_pipelines (db w))"
  by (auto simp: SetPipelineDefinitionPath_def exec_one_Inr set_pipeline_path_stmt_def)

text \<open>
  An upload of a pipeline that reports success (201) has added a custom pipeline of that
  name and uploader to the table, with the checksum of the definition and the path of the one
  file that was written, which holds exactly the definition and lies under the store's root for
  pipelines; the definition was neither empty nor larger than 256 KiB.
\<close>

theorem pipeline_uploaded:
  assumes "handleCreatePipeline s r w = (Inr rsp, w')" and "rp_Code rsp = 201"
  shows "\<exists>rq fs row path. decodeJSON (decode_create_pipeline (env w)) (hr_Body r) = Some rq \<and>
    hs_Files s = Some fs \<and> row \<in> set (t_pipelines (db w')) \<and> pl_Name row = TrimSpace (cpq_Name rq) \<and>
    pl_IsCustom row \<and> pl_UploadedBy row = Some (u_ID (currentUser r)) \<and>
    pl_ChecksumSHA256 row = optional (env_sha256hex (env w) (cpq_Definition rq)) \<and>
    pl_DefinitionPath row = Some path \<and> PipelinePath fs (env_uuid_text (env w) (pl_ID row)) = Inr path \<and>
    files w' = (files w)(path \<mapsto> cpq_Definition rq) \<and>
    cpq_Definition rq \<noteq> '''' \<and> int (length (cpq_Definition rq)) \<le> 256 * 1024"
proof -
  from assms obtain rq fs where rq: "decodeJSON (decode_create_pipeline (env w)) (hr_Body r) = Some rq"
    and len: "cpq_Definition rq \<noteq> ''''" "int (length (cpq_Definition rq)) \<le> 256 * 1024"
    and fs: "hs_Files s = Some fs"
    and store: "store_pipeline s r fs (TrimSpace (cpq_Name rq)) (cpq_Definition rq) (advance w) = (Inr rsp, w')"
    by (auto simp: handleCreatePipeline_def with_body_eq bad_request_eq ret_eq attempt_draw Let_def
        maxPipelineBytes_def split: if_splits option.splits)
  let ?sum = "env_sha256hex (env w) (cpq_Definition rq)"
  let ?p = "pending_pipeline (TrimSpace (cpq_Name rq)) ?sum"
  from store assms(2) obtain created w1 path w2 u w3 a e where
    c: "CreatePipeline ?p (Some (u_ID (currentUser r))) (advance w) = (Inr created, w1)"
    and p: "WritePipeline fs (env_uuid_text (env w1) (pi_ID created)) (cpq_Definition rq) w1 = (Inr path, w2)"
    and set_path: "SetPipelineDefinitionPath (pi_ID created) path w2 = (Inr u, w3)"
    and audit: "AppendAudit a w3 = (e, w')"
    by (auto simp: store_pipeline_def attempt_asks or_domain_eq or_500_eq http_audit_eq respond_eq)
  from c obtain row where created: "created = ?p\<lparr>pi_ID := pl_ID row\<rparr>"
    and c: "files w1 = files w" "env w1 = env w" and row: "row \<in> set (t_pipelines (db w1))"
    "pl_Name row = pi_Name ?p" "pl_IsCustom row = pi_IsCustom ?p"
    "pl_ChecksumSHA256 row = optional (pi_ChecksumSHA256 ?p)" "pl_UploadedBy row = Some (u_ID (currentUser r))"
    by (rule CreatePipeline_Inr) simp
  from created have i: "pi_ID created = pl_ID row" by simp
  note p = WritePipeline_Inr [OF p] and set_path = SetPipelineDefinitionPath_Inr [OF set_path]
  have fields: "pl_Name row = TrimSpace (cpq_Name rq)" "pl_IsCustom row" "pl_ChecksumSHA256 row = optional ?sum"
    using row(2-4) by (simp_all add: pending_pipeline_def)
  let ?row = "row\<lparr>pl_DefinitionPath := Some path\<rparr>"
  have "?row \<in> set (t_pipelines (db w'))"
    using row(1) i p set_path AppendAudit_tables(8) [OF audit] by (auto simp: update_rows_def)
  moreover have "files w' = (files w)(path \<mapsto> cpq_Definition rq)"
    using c p set_path AppendAudit_effect(2) [OF audit] by simp
  moreover have "PipelinePath fs (env_uuid_text (env w) (pl_ID ?row)) = Inr path" using c p i by simp
  ultimately show ?thesis using rq fs len fields row(5)
    by (intro exI [of _ rq] exI [of _ fs] exI [of _ ?row] exI [of _ path]) simp
qed

definition pipeline_json :: json where
  "pipeline_json = JObject [(''name'', JString '' p ''), (''definition'', JString ''{}'')]"

lemma pipeline_uploaded_witness:
  "\<exists>row path. row \<in> set (t_pipelines (db (snd (handleCreatePipeline sample_http
       (as_user Sample.admin (sample_http_request pipeline_json)) (world_with 20 sample_database))))) \<and>
     pl_Name row = ''p'' \<and> pl_DefinitionPath row = Some path"
proof -
  let ?r = "as_user Sample.admin (sample_http_request pipeline_json)" and ?w = "world_with 20 sample_database"
  let ?run = "handleCreatePipeline sample_http ?r ?w"
  have "map_sum (\<lambda>_. ()) rp_Code (fst ?run) = Inr 201" by code_simp
  then obtain rsp where rsp: "fst ?run = Inr rsp" "rp_Code rsp = 201" by (cases "fst ?run") auto
  then have run: "?run = (Inr rsp, snd ?run)" by (simp add: prod_eq_iff)
  have "map_option (\<lambda>rq. TrimSpace (cpq_Name rq))
      (decodeJSON (decode_create_pipeline (env ?w)) (hr_Body ?r)) = Some ''p''" by code_simp
  with pipeline_uploaded [OF run rsp(2)] show ?thesis by auto
qed

definition account_json :: json where
  "account_json = JObject [(''username'', JString ''carol''), (''password'', JString ''correct horse battery'')]"

definition salted_sample :: world where
  "salted_sample = salted_world\<lparr>db := sample_database\<rparr>"

lemma account_created_witness:
  "\<exists>u. t_users (db (snd (handleCreateUser sample_http
       (as_user Sample.admin (sample_http_request account_json)) salted_sample))) = t_users sample_database @ [u] \<and>
     u_Role u = RoleUser \<and>
     VerifyPassword sample_idkey ''correct horse battery'' (u_PasswordHash u) = Inr ()"
proof -
  let ?r = "as_user Sample.admin (sample_http_request account_json)"
  let ?run = "handleCreateUser sample_http ?r salted_sample"
  have "map_sum (\<lambda>_. ()) rp_Code (fst ?run) = Inr 201" by code_simp
  then obtain rsp where rsp: "fst ?run = Inr rsp" "rp_Code rsp = 201" by (cases "fst ?run") auto
  then have run: "?run = (Inr rsp, snd ?run)" by (simp add: prod_eq_iff)
  have s: "as_idkey (hs_Auth sample_http) = sample_idkey" "0 < as_cpus (hs_Auth sample_http)"
    by (simp_all add: sample_http_def sample_auth_def)
  have key: "length (as_idkey (hs_Auth sample_http) p t k m th n) = n" for p t k m th n
    unfolding s(1) by (rule sample_idkey_length)
  have salt: "\<forall>n salt. env_salt (env salted_sample) n = Some salt \<longrightarrow> length salt = argonSaltLen"
    by (auto simp: salted_sample_def salted_world_def argonSaltLen_def)
  have rq: "map_option (\<lambda>rq. (cu_Password rq, requested_role rq))
      (decodeJSON (decode_create_user (env salted_sample)) (hr_Body ?r)) = Some (''correct horse battery'', RoleUser)"
    by code_simp
  have "db salted_sample = sample_database" by (simp add: salted_sample_def)
  with account_created [OF run s(2) key salt] rsp(2) rq show ?thesis unfolding s(1) by auto
qed

end
