(* ===== verification/Config.thy ===== *)
theory Config
  imports Http_Server "HOL-Library.Multiset" "HOL-Library.Char_ord" "HOL-Library.List_Lexorder"
begin

text \<open>
  The configuration of the server (\<open>internal/config/config.go\<close>) and the level of its log
  (\<open>internal/logging/logging.go\<close>).  The process environment is a function from names to values
  with the empty string for a variable that is not set; \<open>os.Stat\<close> is the set of the paths that it
  finds; the order in which Go runs through a map is given by a rank of the keys.
\<close>

section \<open>Reading the environment\<close>

type_synonym environment = "string \<Rightarrow> string"

definition env_text :: "environment \<Rightarrow> string \<Rightarrow> string \<Rightarrow> string" where
  "env_text getenv name fallback =
     (let v = TrimSpace (getenv name) in if v \<noteq> '''' then v else fallback)"

definition envList :: "environment \<Rightarrow> string \<Rightarrow> string list" where
  "envList getenv name = filter (\<lambda>v. v \<noteq> '''') (map TrimSpace (split_on (CHR '','') (getenv name)))"

definition envBool :: "environment \<Rightarrow> string \<Rightarrow> bool \<Rightarrow> bool" where
  "envBool getenv name fallback =
     (let v = to_lower (TrimSpace (getenv name))
      in if v = '''' then fallback else v \<in> {''1'', ''true'', ''yes''})"

datatype config_error =
    MissingVariables "string list"
  | SecretTooShort
  | HalfTLS
  | NotReadable string
  | NotWholeSeconds string
  | NotPositive string

definition envDuration :: "environment \<Rightarrow> string \<Rightarrow> duration \<Rightarrow> config_error + duration" where
  "envDuration getenv name fallback =
     (let raw = TrimSpace (getenv name)
      in if raw = '''' then Inr fallback
         else case Atoi raw of
                None \<Rightarrow> Inl (NotWholeSeconds name)
              | Some s \<Rightarrow> if s \<le> 0 then Inl (NotPositive name) else Inr (duration_of_seconds s))"

section \<open>The sort\<close>

text \<open>The inner loop lets the element at \<open>j\<close> sink to the left, the outer loop takes the next one.\<close>

function sink_left :: "string list \<Rightarrow> nat \<Rightarrow> string list" where
  "sink_left out j =
     (if 0 < j \<and> out ! j < out ! (j - 1)
      then sink_left (out[j := out ! (j - 1), j - 1 := out ! j]) (j - 1)
      else out)"
  by pat_completeness auto
termination by (relation "measure snd") auto

declare sink_left.simps [simp del]

lemma length_sink_left [simp]: "length (sink_left out j) = length out"
  by (induction out j rule: sink_left.induct) (subst sink_left.simps, simp)

function insertion_from :: "string list \<Rightarrow> nat \<Rightarrow> string list" where
  "insertion_from out i = (if i < length out then insertion_from (sink_left out i) (i + 1) else out)"
  by pat_completeness auto
termination by (relation "measure (\<lambda>(out, i). length out - i)") auto

declare insertion_from.simps [simp del]

definition sorted_values :: "string list \<Rightarrow> string list" where
  "sorted_values vs = insertion_from vs 1"

section \<open>The configuration\<close>

record config =
  cfg_Environment :: string
  cfg_LogLevel :: string
  cfg_HTTPAddress :: string
  cfg_GRPCAddress :: string
  cfg_PostgresURL :: string
  cfg_RedisURL :: string
  cfg_MongoURL :: string
  cfg_MongoDB :: string
  cfg_PredictionAddress :: string
  cfg_RecordingsDir :: string
  cfg_PipelinesDir :: string
  cfg_WebDir :: string
  cfg_CelestrakURL :: string
  cfg_SatNOGSURL :: string
  cfg_TLERefreshEnabled :: bool
  cfg_WorkerSharedSecret :: string
  cfg_AllowedOrigins :: "string list"
  cfg_TLSCertFile :: string
  cfg_TLSKeyFile :: string
  cfg_StartupTimeout :: duration
  cfg_SessionTTL :: duration

definition read_config :: "environment \<Rightarrow> duration \<Rightarrow> duration \<Rightarrow> config" where
  "read_config getenv startup_timeout session_ttl =
     \<lparr>cfg_Environment = env_text getenv ''AAGASA_ENV'' ''development'',
      cfg_LogLevel = env_text getenv ''AAGASA_LOG_LEVEL'' ''info'',
      cfg_HTTPAddress = env_text getenv ''AAGASA_HTTP_ADDRESS'' '':8080'',
      cfg_GRPCAddress = env_text getenv ''AAGASA_GRPC_ADDRESS'' '':9090'',
      cfg_PostgresURL = getenv ''AAGASA_POSTGRES_URL'',
      cfg_RedisURL = getenv ''AAGASA_REDIS_URL'',
      cfg_MongoURL = getenv ''AAGASA_MONGO_URL'',
      cfg_MongoDB = env_text getenv ''AAGASA_MONGO_DATABASE'' ''aagasa'',
      cfg_PredictionAddress = env_text getenv ''AAGASA_PREDICTION_ADDRESS'' ''127.0.0.1:9091'',
      cfg_RecordingsDir = env_text getenv ''AAGASA_RECORDINGS_DIR'' ''/var/lib/aagasa/recordings'',
      cfg_PipelinesDir = env_text getenv ''AAGASA_PIPELINES_DIR'' ''/var/lib/aagasa/pipelines'',
      cfg_WebDir = env_text getenv ''AAGASA_WEB_DIR'' ''/app/web'',
      cfg_CelestrakURL = getenv ''AAGASA_CELESTRAK_URL'',
      cfg_SatNOGSURL = getenv ''AAGASA_SATNOGS_URL'',
      cfg_TLERefreshEnabled = envBool getenv ''AAGASA_TLE_REFRESH_ENABLED'' True,
      cfg_WorkerSharedSecret = getenv ''AAGASA_WORKER_SHARED_SECRET'',
      cfg_AllowedOrigins = envList getenv ''AAGASA_ALLOWED_ORIGINS'',
      cfg_TLSCertFile = getenv ''AAGASA_TLS_CERT_FILE'',
      cfg_TLSKeyFile = getenv ''AAGASA_TLS_KEY_FILE'',
      cfg_StartupTimeout = startup_timeout, cfg_SessionTTL = session_ttl\<rparr>"

definition required_variables :: "config \<Rightarrow> (string \<times> string) list" where
  "required_variables c =
     [(''AAGASA_POSTGRES_URL'', cfg_PostgresURL c), (''AAGASA_REDIS_URL'', cfg_RedisURL c),
      (''AAGASA_MONGO_URL'', cfg_MongoURL c), (''AAGASA_WORKER_SHARED_SECRET'', cfg_WorkerSharedSecret c)]"

definition missing_variables :: "(string \<Rightarrow> nat) \<Rightarrow> config \<Rightarrow> string list" where
  "missing_variables rank c =
     map fst (filter (\<lambda>(_, v). TrimSpace v = '''') (sort_key (rank \<circ> fst) (required_variables c)))"

definition tls_files :: "config \<Rightarrow> (string \<times> string) list" where
  "tls_files c = [(''AAGASA_TLS_CERT_FILE'', cfg_TLSCertFile c), (''AAGASA_TLS_KEY_FILE'', cfg_TLSKeyFile c)]"

definition TLSEnabled :: "config \<Rightarrow> bool" where
  "TLSEnabled c \<longleftrightarrow> TrimSpace (cfg_TLSCertFile c) \<noteq> '''' \<and> TrimSpace (cfg_TLSKeyFile c) \<noteq> ''''"

definition AllowLocalhostOrigins :: "config \<Rightarrow> bool" where
  "AllowLocalhostOrigins c \<longleftrightarrow> cfg_Environment c = ''development''"

definition validate :: "(string \<Rightarrow> nat) \<Rightarrow> (string \<Rightarrow> bool) \<Rightarrow> config \<Rightarrow> config_error + unit" where
  "validate rank found c =
     (let missing = missing_variables rank c;
          cert_given = TrimSpace (cfg_TLSCertFile c) \<noteq> '''';
          key_given = TrimSpace (cfg_TLSKeyFile c) \<noteq> ''''
      in if missing \<noteq> [] then Inl (MissingVariables (sorted_values missing))
         else if length (cfg_WorkerSharedSecret c) < 32 then Inl SecretTooShort
         else if cert_given \<noteq> key_given then Inl HalfTLS
         else if cert_given
         then (case find (\<lambda>(_, path). \<not> found path) (sort_key (rank \<circ> fst) (tls_files c)) of
                 Some (name, _) \<Rightarrow> Inl (NotReadable name)
               | None \<Rightarrow> Inr ())
         else Inr ())"

definition Load :: "environment \<Rightarrow> (string \<Rightarrow> nat) \<Rightarrow> (string \<Rightarrow> bool) \<Rightarrow> config_error + config" where
  "Load getenv rank found =
     (case envDuration getenv ''AAGASA_STARTUP_TIMEOUT'' (10 * second) of
        Inl e \<Rightarrow> Inl e
      | Inr timeout \<Rightarrow>
          (case envDuration getenv ''AAGASA_SESSION_TTL'' (12 * hour) of
             Inl e \<Rightarrow> Inl e
           | Inr session_ttl \<Rightarrow>
               let c = read_config getenv timeout session_ttl
               in (case validate rank found c of Inl e \<Rightarrow> Inl e | Inr _ \<Rightarrow> Inr c)))"

section \<open>internal/logging/logging.go\<close>

datatype log_level = LevelDebug | LevelInfo | LevelWarn | LevelError

definition parseLevel :: "string \<Rightarrow> log_level" where
  "parseLevel level =
     (let l = to_lower (TrimSpace level)
      in if l = ''debug'' then LevelDebug
         else if l = ''warn'' \<or> l = ''warning'' then LevelWarn
         else if l = ''error'' then LevelError
         else LevelInfo)"

section \<open>The sort sorts\<close>

lemma sink_left_inserts:
  "\<exists>zs. sink_left (ps @ x # qs) (length ps) = zs @ qs \<and> mset zs = mset (x # ps) \<and>
     (sorted ps \<longrightarrow> sorted zs)"
proof (induction ps arbitrary: qs rule: rev_induct)
  case Nil
  show ?case by (subst sink_left.simps) (auto intro: exI [of _ "[x]"])
next
  case (snoc y ps)
  let ?out = "(ps @ [y]) @ x # qs"
  have at: "?out ! length (ps @ [y]) = x" "?out ! (length (ps @ [y]) - 1) = y"
    by (simp_all add: nth_append)
  show ?case
  proof (cases "x < y")
    case True
    have "?out[length (ps @ [y]) := y, length (ps @ [y]) - 1 := x] = ps @ x # y # qs"
      by (simp add: list_update_append)
    with True at have step: "sink_left ?out (length (ps @ [y])) = sink_left (ps @ x # y # qs) (length ps)"
      by (subst sink_left.simps) simp
    from snoc.IH [of "y # qs"] obtain zs where zs: "sink_left (ps @ x # y # qs) (length ps) = zs @ y # qs"
      "mset zs = mset (x # ps)" "sorted ps \<longrightarrow> sorted zs" by blast
    from zs(2) have set_zs: "set zs = set (x # ps)" by (rule mset_eq_setD)
    from zs(3) True have "sorted (ps @ [y]) \<longrightarrow> sorted (zs @ [y])" by (auto simp: sorted_append set_zs)
    with step zs show ?thesis by (intro exI [of _ "zs @ [y]"]) simp
  next
    case False
    with at have "sink_left ?out (length (ps @ [y])) = ?out"
      by (subst sink_left.simps) simp
    moreover from False have "sorted (ps @ [y]) \<longrightarrow> sorted ((ps @ [y]) @ [x])" by (auto simp: sorted_append)
    ultimately show ?thesis by (intro exI [of _ "(ps @ [y]) @ [x]"]) simp
  qed
qed

lemma insertion_from_sorts:
  assumes "sorted (take i out)"
  shows "sorted (insertion_from out i) \<and> mset (insertion_from out i) = mset out"
  using assms
proof (induction out i rule: insertion_from.induct)
  case (1 out i)
  show ?case
  proof (cases "i < length out")
    case True
    then have out: "out = take i out @ out ! i # drop (Suc i) out" by (rule id_take_nth_drop)
    have len: "length (take i out) = i" using True by simp
    from sink_left_inserts [of "take i out" "out ! i" "drop (Suc i) out"] out len
    obtain zs where zs: "sink_left out i = zs @ drop (Suc i) out" "mset zs = mset (out ! i # take i out)"
      "sorted (take i out) \<longrightarrow> sorted zs" by auto
    have "mset (sink_left out i) = mset out"
      by (subst (2) out) (simp add: zs)
    moreover have "length zs = Suc i" using len zs(2) by (metis length_Cons size_mset)
    then have "take (i + 1) (sink_left out i) = zs" by (simp add: zs)
    ultimately show ?thesis using 1 True zs(3) by (subst (1 2) insertion_from.simps) simp
  next
    case False
    with 1 show ?thesis by (subst (1 2) insertion_from.simps) simp
  qed
qed

lemma sorted_values_is_sort: "sorted_values vs = sort vs"
proof -
  have "sorted (take 1 vs)" by (cases vs) simp_all
  from insertion_from_sorts [OF this] show ?thesis
    unfolding sorted_values_def using properties_for_sort by metis
qed

end
