(* ===== verification/Startup.thy ===== *)
theory Startup
  imports Config Worker_Upload
begin

text \<open>
  The programs around the services: opening the data stores (\<open>internal/store/store.go\<close>), the
  assembly of the server and what it then does with requests, worker calls and timers
  (\<open>cmd/aagasa-server/main.go\<close>), and the recovery of the root password
  (\<open>cmd/aagasa-rootpw/main.go\<close>).  Log lines and time limits are left out.
\<close>

section \<open>internal/store/store.go\<close>

datatype handle = PostgresPool | RedisClient | MongoClient

text \<open>
  Each connection step of the drivers succeeds or fails; the second component is the handles that
  are still open when \<open>Open\<close> returns.  \<open>Close\<close> closes every handle that was set.
\<close>

type_synonym driver_step = "string \<Rightarrow> err + unit"

definition Close_stores :: "handle list \<Rightarrow> handle list \<Rightarrow> handle list" where
  "Close_stores stores opened = filter (\<lambda>h. h \<notin> set stores) opened"

definition open_step ::
  "driver_step \<Rightarrow> string \<Rightarrow> string \<Rightarrow> handle list \<Rightarrow> ((err + handle list) \<times> handle list) \<Rightarrow>
   (err + handle list) \<times> handle list" where
  "open_step try_step name msg stores rest =
     (case try_step name of Inl e \<Rightarrow> (Inl (ErrWrap msg e), Close_stores stores stores) | Inr _ \<Rightarrow> rest)"

definition Open_stores :: "driver_step \<Rightarrow> (err + handle list) \<times> handle list" where
  "Open_stores try_step =
     open_step try_step ''pgxpool.New'' ''configure postgres'' []
     (open_step try_step ''postgres ping'' ''connect postgres'' [PostgresPool]
     (open_step try_step ''redis.ParseURL'' ''configure redis'' [PostgresPool]
     (open_step try_step ''redis ping'' ''connect redis'' [PostgresPool, RedisClient]
     (open_step try_step ''mongo.Connect'' ''configure mongodb'' [PostgresPool, RedisClient]
     (open_step try_step ''mongo ping'' ''connect mongodb'' [PostgresPool, RedisClient, MongoClient]
       (Inr [PostgresPool, RedisClient, MongoClient], [PostgresPool, RedisClient, MongoClient]))))))"

section \<open>cmd/aagasa-server/main.go: assembly\<close>

text \<open>
  What the process finds: its environment, the drivers, the clients of the external services, and
  the libraries.
\<close>

record machine =
  mc_getenv :: environment
  mc_rank :: "string \<Rightarrow> nat"
  mc_found :: "string \<Rightarrow> bool"
  mc_step :: "nat \<Rightarrow> driver_step"
  mc_idkey :: idkey
  mc_cpus :: nat
  mc_codec :: codec
  mc_json :: "string \<Rightarrow> json option"
  mc_error_text :: "err \<Rightarrow> string"
  mc_collate :: "string \<Rightarrow> nat"
  mc_probe :: "string \<Rightarrow> nat \<Rightarrow> bool"
  mc_providers :: "string \<Rightarrow> string \<Rightarrow> tle_provider list"
  mc_metadata :: "string \<Rightarrow> nat \<Rightarrow> int \<Rightarrow> err + tle_metadata"
  mc_backend :: "string \<Rightarrow> backend"
  mc_parse_url :: "string \<Rightarrow> (string \<times> string) option"
  mc_web :: "string \<Rightarrow> bytes option"

definition Version :: string where "Version = ''0.1.0''"

record running_server =
  rs_Config :: config
  rs_Http :: http_server
  rs_Cors :: cors_options
  rs_Worker :: worker_service
  rs_TLS :: bool

definition driver :: "machine \<Rightarrow> string \<Rightarrow> unit repo" where
  "driver m name = external (\<lambda>n. mc_step m n name)"

definition config_err :: "config_error \<Rightarrow> err" where
  "config_err e =
     ErrText (case e of
         MissingVariables names \<Rightarrow> ''missing required environment variables: '' @ join_on '', '' names
       | SecretTooShort \<Rightarrow> ''AAGASA_WORKER_SHARED_SECRET must be at least 32 characters''
       | HalfTLS \<Rightarrow> ''AAGASA_TLS_CERT_FILE and AAGASA_TLS_KEY_FILE must be set together''
       | NotReadable name \<Rightarrow> name @ '' is not readable''
       | NotWholeSeconds name \<Rightarrow> name @ '' must be a whole number of seconds''
       | NotPositive name \<Rightarrow> name @ '' must be positive'')"

definition assembled :: "machine \<Rightarrow> config \<Rightarrow> file_store \<Rightarrow> running_server" where
  "assembled m c fs =
     (let backend = mc_backend m (cfg_PredictionAddress c)
      in \<lparr>rs_Config = c,
          rs_Http =
            \<lparr>hs_Version = Version, hs_Files = Some fs,
             hs_Auth = \<lparr>as_sessionTTL = cfg_SessionTTL c, as_idkey = mc_idkey m, as_cpus = mc_cpus m\<rparr>,
             hs_Catalog = \<lparr>cs_chain = mc_providers m (cfg_CelestrakURL c) (cfg_SatNOGSURL c),
                           cs_metadata = Some (mc_metadata m (cfg_SatNOGSURL c))\<rparr>,
             hs_Scheduling = \<lparr>sv_predictor = backend, sv_plans = Some (mc_codec m)\<rparr>,
             hs_Prediction = backend, hs_Codec = mc_codec m, hs_Json = mc_json m,
             hs_ErrorText = mc_error_text m, hs_Collate = mc_collate m, hs_Probe = mc_probe m\<rparr>,
          rs_Cors = \<lparr>co_AllowedOrigins = cfg_AllowedOrigins c, co_AllowLocalhost = AllowLocalhostOrigins c\<rparr>,
          rs_Worker = \<lparr>ws_files = fs, ws_codec = mc_codec m, ws_serverVersion = Version\<rparr>,
          rs_TLS = TLSEnabled c\<rparr>)"

text \<open>
  Up to the moment when the server listens.  The health of the prediction service is only logged.
\<close>

definition start :: "machine \<Rightarrow> running_server repo" where
  "start m =
     (case Load (mc_getenv m) (mc_rank m) (mc_found m) of
        Inl e \<Rightarrow> fail (config_err e)
      | Inr c \<Rightarrow>
          attempt (external (\<lambda>n. fst (Open_stores (mc_step m n)))) (\<lambda>_.
          attempt (New_store (cfg_RecordingsDir c) (cfg_PipelinesDir c)) (\<lambda>fs.
          let server = assembled m c fs
          in attempt (EnsureBootstrapRoot (hs_Auth (rs_Http server))) (\<lambda>_.
             attempt (wrapping ''dial prediction service'' (driver m ''grpc.NewClient'')) (\<lambda>_.
             attempt (if TLSEnabled c then wrapping ''load TLS material'' (driver m ''tls.LoadX509KeyPair'')
                      else ret ()) (\<lambda>_.
             attempt (driver m ''net.Listen'') (\<lambda>_. ret server)))))))"

section \<open>cmd/aagasa-server/main.go: service\<close>

text \<open>
  What reaches the server once it runs.  Each event is handled by itself; answers and errors go to
  the caller.
\<close>

datatype server_event =
    HttpRequest net_request
  | WorkerCall grpc_metadata worker_call
  | MonitorRun "monitor_event list"
  | RefreshRun "refresh_event list"

fun serve :: "machine \<Rightarrow> running_server \<Rightarrow> server_event \<Rightarrow> unit repo" where
  "serve m sv (HttpRequest rq) =
     ignoring (WithCORS (mc_parse_url m) (rs_Cors sv)
        (mux (rs_Http sv) (cfg_WebDir (rs_Config sv)) (mc_web m)) rq) (ret ())"
| "serve m sv (WorkerCall ctx call) =
     ignoring (grpc_serve (rs_Worker sv) (cfg_WorkerSharedSecret (rs_Config sv)) ctx call) (ret ())"
| "serve m sv (MonitorRun events) = RunStaleWorkerMonitor events"
| "serve m sv (RefreshRun events) =
     (if cfg_TLERefreshEnabled (rs_Config sv) then RunRefreshLoop (hs_Catalog (rs_Http sv)) events else ret ())"

definition run_server :: "machine \<Rightarrow> server_event list \<Rightarrow> unit repo" where
  "run_server m events = attempt (start m) (\<lambda>sv. for_each events (serve m sv))"

text \<open>
  The end of the process: a listener fails, or a signal stops both servers, which wait for their
  open calls; the exit status.
\<close>

datatype server_stop = ServeFailed err | ShutdownRequested

definition server_process :: "machine \<Rightarrow> server_event list \<Rightarrow> server_stop \<Rightarrow> unit repo" where
  "server_process m events stop =
     attempt (run_server m events) (\<lambda>_.
       case stop of ServeFailed e \<Rightarrow> fail e | ShutdownRequested \<Rightarrow> ret ())"

definition server_exit_status :: "(err + unit) \<times> world \<Rightarrow> int" where
  "server_exit_status result = (if is_ok (fst result) then 0 else 1)"

section \<open>cmd/aagasa-rootpw/main.go\<close>

text \<open>Standard input: a terminal, which answers the two prompts, or a stream of bytes.\<close>

datatype password_input = Terminal "err + string" "err + string" | Stream bytes

definition newline :: char where "newline = char_of (10 :: nat)"
definition carriage_return :: char where "carriage_return = char_of (13 :: nat)"

text \<open>The first token of \<open>bufio.Scanner\<close>: a line without its end, of less than 64 KiB.\<close>

definition scan_line :: "bytes \<Rightarrow> string option" where
  "scan_line input =
     (let line = takeWhile (\<lambda>c. c \<noteq> newline) input
      in if input = [] \<or> 65536 \<le> int (length line) then None
         else Some (trim_suffix line [carriage_return]))"

definition trim_line_end :: "string \<Rightarrow> string" where
  "trim_line_end line = rev (dropWhile (\<lambda>c. c = newline \<or> c = carriage_return) (rev line))"

definition readPassword :: "password_input \<Rightarrow> err + string" where
  "readPassword input =
     (case input of
        Terminal first second_answer \<Rightarrow>
          (case first of
             Inl e \<Rightarrow> Inl (ErrWrap ''read password'' e)
           | Inr p \<Rightarrow>
               (case second_answer of
                  Inl e \<Rightarrow> Inl (ErrWrap ''read password'' e)
                | Inr q \<Rightarrow> if p \<noteq> q then Inl (ErrText ''passwords do not match'') else Inr p))
      | Stream content \<Rightarrow>
          (case scan_line content of
             None \<Rightarrow> Inl (ErrText ''no password supplied on stdin'')
           | Some line \<Rightarrow> Inr (trim_line_end line)))"

definition recovery_audit :: "user \<Rightarrow> audit_record" where
  "recovery_audit owner =
     (audit_entry (Some (u_ID owner)) ''auth.root_password_reset_via_cli'' ''user'' (RefID (u_ID owner)) [])
       \<lparr>a_Reason := ''server-side recovery''\<rparr>"

text \<open>From the root account on.\<close>

definition set_root_password :: "machine \<Rightarrow> password_input \<Rightarrow> user \<Rightarrow> unit repo" where
  "set_root_password m input owner =
     attempt (from_result (readPassword input)) (\<lambda>password.
     attempt (from_result (ValidatePassword password)) (\<lambda>_.
     attempt (HashPassword (mc_idkey m) (mc_cpus m) password) (\<lambda>hash.
     attempt (SetPassword (u_ID owner) hash) (\<lambda>_.
     attempt (wrapping ''record audit entry'' (AppendAudit (recovery_audit owner))) (\<lambda>_. ret ())))))"

definition rootpw :: "machine \<Rightarrow> password_input \<Rightarrow> unit repo" where
  "rootpw m input =
     (if mc_getenv m ''AAGASA_POSTGRES_URL'' = '''' then fail (ErrText ''AAGASA_POSTGRES_URL is not set'')
      else
      attempt (wrapping ''connect'' (driver m ''pgxpool.New'')) (\<lambda>_.
      attempt_or (GetUserByUsername BootstrapUsername)
        (\<lambda>e. if errors_is e ErrNotFound
             then fail (ErrText ''no root account exists; start the server once to bootstrap it'')
             else fail e)
      (\<lambda>owner.
        if u_Role owner \<noteq> RoleRoot then fail (ErrText ''account is not the root account'')
        else set_root_password m input owner)))"

section \<open>Everything is a sequence of steps of the server\<close>

context guarantee begin

lemma driver [guar_intro]: "guar G (driver m name)"
  unfolding driver_def by (rule external)

lemma New_store [guar_intro]: "guar G (New_store recordings pipelines)"
  unfolding New_store_def path_abs_def
  by (intro attempt wrapping for_each fs_steps ret asks external if_guar case_option_guar fail)

end

context server_guarantee begin

lemma start [guar_intro]: "guar G (start m)"
  unfolding start_def Let_def
  by (intro case_sum_guar fail attempt external New_store auth_operations wrapping driver if_guar ret)

lemma serve [guar_intro]: "guar G (serve m sv event)"
  by (cases event)
    (auto simp: ignoring_def intro!: attempt_or WithCORS mux grpc_serve RunStaleWorkerMonitor refresh_loop ret)

lemma run_server [guar_intro]: "guar G (run_server m events)"
  unfolding run_server_def by (intro attempt start for_each serve)

lemma server_process [guar_intro]: "guar G (server_process m events stop)"
  unfolding server_process_def by (intro attempt run_server) (cases stop; simp add: fail ret)

lemma rootpw [guar_intro]: "guar G (rootpw m input)"
  unfolding rootpw_def set_root_password_def
  by (intro if_guar fail attempt attempt_or wrapping driver reads from_result outside accounts ret)

end

end
