(* ===== verification/Startup_Props.thy ===== *)
theory Startup_Props
  imports Startup Http_Effects
begin

text \<open>
  What is known of a configuration that was accepted and of a server that has started, what the
  recovery of the root password does, and that the running server keeps the invariants of the
  tables whatever reaches it.
\<close>

section \<open>The configuration\<close>



lemma validateD:
  assumes "validate rank found c = Inr ()"
  shows "\<forall>(name, v)\<in>set (required_variables c). TrimSpace v \<noteq> ''''"
    and "32 \<le> length (cfg_WorkerSharedSecret c)"
    and "TrimSpace (cfg_TLSCertFile c) = '''' \<longleftrightarrow> TrimSpace (cfg_TLSKeyFile c) = ''''"
    and "TLSEnabled c \<Longrightarrow> found (cfg_TLSCertFile c) \<and> found (cfg_TLSKeyFile c)"
  using assms
  by (auto simp: validate_def missing_variables_def Let_def filter_empty_conv TLSEnabled_def
      find_None_iff tls_files_def split: if_splits option.splits)

text \<open>
  C38.  A configuration that is accepted is complete: every required variable is given, the
  worker secret has at least 32 bytes, TLS is configured with both files or not at all and the
  files are there; the two durations are the given numbers of seconds, which the multiplication
  carries over exactly up to 9223372036 seconds.
\<close>

theorem accepted_configuration:
  assumes "Load getenv rank found = Inr c"
  shows "(\<forall>(name, v)\<in>set (required_variables c). TrimSpace v \<noteq> '''') \<and>
    32 \<le> length (cfg_WorkerSharedSecret c) \<and>
    (TrimSpace (cfg_TLSCertFile c) = '''' \<longleftrightarrow> TrimSpace (cfg_TLSKeyFile c) = '''') \<and>
    (TLSEnabled c \<longrightarrow> found (cfg_TLSCertFile c) \<and> found (cfg_TLSKeyFile c)) \<and>
    '''' \<notin> set (cfg_AllowedOrigins c) \<and>
    (TrimSpace (getenv ''AAGASA_SESSION_TTL'') = '''' \<longrightarrow> cfg_SessionTTL c = 12 * hour) \<and>
    (\<forall>s. Atoi (TrimSpace (getenv ''AAGASA_SESSION_TTL'')) = Some s \<longrightarrow>
       0 < s \<and> (s \<le> 9223372036 \<longrightarrow> cfg_SessionTTL c = s * second))"
proof -
  from assms obtain timeout ttl where ttl: "envDuration getenv ''AAGASA_SESSION_TTL'' (12 * hour) = Inr ttl"
    and c: "c = read_config getenv timeout ttl" and valid: "validate rank found c = Inr ()"
    by (auto simp: Load_def Let_def split: sum.splits)
  have "cfg_SessionTTL c = ttl" "'''' \<notin> set (cfg_AllowedOrigins c)"
    by (simp_all add: c read_config_def envList_def)
  moreover have "Atoi '''' = None" by (simp add: Atoi_def)
  moreover have "duration_of_seconds s = s * second" if "0 < s" "s \<le> 9223372036" for s
    using that by (simp add: seconds_exact)
  ultimately have "TrimSpace (getenv ''AAGASA_SESSION_TTL'') = '''' \<longrightarrow> cfg_SessionTTL c = 12 * hour"
    "\<forall>s. Atoi (TrimSpace (getenv ''AAGASA_SESSION_TTL'')) = Some s \<longrightarrow>
       0 < s \<and> (s \<le> 9223372036 \<longrightarrow> cfg_SessionTTL c = s * second)"
    using ttl by (auto simp: envDuration_def Let_def split: option.splits if_splits)
  with \<open>'''' \<notin> set (cfg_AllowedOrigins c)\<close> show ?thesis using validateD [OF valid] by blast
qed

definition sample_environment :: environment where
  "sample_environment name =
     (case map_of
         [(''AAGASA_POSTGRES_URL'', ''postgres:''), (''AAGASA_REDIS_URL'', ''redis:''),
          (''AAGASA_MONGO_URL'', ''mongodb:''), (''AAGASA_WORKER_SHARED_SECRET'', replicate 32 (CHR ''s'')),
          (''AAGASA_ALLOWED_ORIGINS'', ''https://a, ,https://b''), (''AAGASA_SESSION_TTL'', ''600'')] name of
        None \<Rightarrow> '''' | Some v \<Rightarrow> v)"

lemma sample_load:
  "map_sum (\<lambda>_. ()) (\<lambda>c. (cfg_SessionTTL c, cfg_AllowedOrigins c, cfg_Environment c))
     (Load sample_environment length (\<lambda>_. False)) =
   Inr (600 * second, [''https://a'', ''https://b''], ''development'')"
  by code_simp

lemma accepted_configuration_witness:
  "\<exists>c. Load sample_environment length (\<lambda>_. False) = Inr c \<and> 32 \<le> length (cfg_WorkerSharedSecret c) \<and>
     \<not> TLSEnabled c \<and> '''' \<notin> set (cfg_AllowedOrigins c)"
proof -
  from sample_load obtain c where "Load sample_environment length (\<lambda>_. False) = Inr c"
    by (cases "Load sample_environment length (\<lambda>_. False)") auto
  with accepted_configuration [OF this] show ?thesis by auto
qed

section \<open>A server that has started\<close>

lemma AppendAudit_users: "AppendAudit a w = (z, w') \<Longrightarrow> t_users (db w') = t_users (db w)"
  by (rule AppendAudit_tables(1))

lemma EnsureBootstrapRoot_users:
  assumes "EnsureBootstrapRoot s w = (Inr (), w')"
  shows "if t_users (db w) = []
    then \<exists>u. t_users (db w') = [u] \<and> u_Role u = RoleRoot \<and> u_Username u = BootstrapUsername \<and>
           u_MustChangePassword u \<and>
           (\<exists>v v'. HashPassword (as_idkey s) (as_cpus s) BootstrapPassword v = (Inr (u_PasswordHash u), v'))
    else t_users (db w') = t_users (db w)"
proof -
  from assms obtain count w1 where count: "CountUsers w = (Inr count, w1)"
    and rest: "(if 0 < count then ret ()
       else attempt (HashPassword (as_idkey s) (as_cpus s) BootstrapPassword) (\<lambda>hash.
         attempt (wrapping ''create root'' (CreateUser
           \<lparr>u_ID = 0, u_Username = BootstrapUsername, u_PasswordHash = hash, u_Role = RoleRoot,
            u_MustChangePassword = True, u_CreatedAt = 0, u_UpdatedAt = 0\<rparr>)) (\<lambda>r.
         attempt (AppendAudit (audit_entry None ''user.bootstrap_created'' ''user'' (RefID (u_ID r))
           [(''username'', VString (u_Username r)), (''role'', VString (user_role_string (u_Role r)))]))
         (\<lambda>_. ret ())))) w1 = (Inr (), w')"
    by (auto simp: EnsureBootstrapRoot_def attempt_Inr wrapping_Inr)
  from count have c: "count = length (t_users (db w))" "db w1 = db w"
    by (auto simp: CountUsers_def query_Inr select_Inr)
  show ?thesis
  proof (cases "t_users (db w) = []")
    case False
    with rest c show ?thesis by (simp add: ret_eq)
  next
    case True
    with rest c obtain hash w2 r w3 x w4 where
      h: "HashPassword (as_idkey s) (as_cpus s) BootstrapPassword w1 = (Inr hash, w2)"
      and r: "CreateUser \<lparr>u_ID = 0, u_Username = BootstrapUsername, u_PasswordHash = hash, u_Role = RoleRoot,
            u_MustChangePassword = True, u_CreatedAt = 0, u_UpdatedAt = 0\<rparr> w2 = (Inr r, w3)"
      and a: "AppendAudit (audit_entry None ''user.bootstrap_created'' ''user'' (RefID (u_ID r))
           [(''username'', VString (u_Username r)), (''role'', VString (user_role_string (u_Role r)))]) w3
           = (Inr x, w')"
      by (auto simp: attempt_Inr wrapping_Inr ret_eq)
    from CreateUser_Inr [OF r] HashPassword_keeps [OF h] True c AppendAudit_users [OF a]
    have "t_users (db w') = [r]" by simp
    moreover from CreateUser_Inr [OF r] have "u_Role r = RoleRoot" "u_Username r = BootstrapUsername"
      "u_MustChangePassword r" "u_PasswordHash r = hash"
      by (metis user.select_convs user.update_convs)+
    ultimately show ?thesis using True h by auto
  qed
qed

lemma start_Inr:
  assumes "start m w = (Inr sv, w')"
  obtains c fs w1 w2 where "Load (mc_getenv m) (mc_rank m) (mc_found m) = Inr c" "sv = assembled m c fs"
    "EnsureBootstrapRoot (hs_Auth (rs_Http sv)) w1 = (Inr (), w2)" "db w1 = db w" "db w' = db w2"
proof -
  obtain c where c: "Load (mc_getenv m) (mc_rank m) (mc_found m) = Inr c"
    using assms by (cases "Load (mc_getenv m) (mc_rank m) (mc_found m)") (auto simp: start_def fail_eq)
  let ?tls = "if TLSEnabled c then wrapping ''load TLS material'' (driver m ''tls.LoadX509KeyPair'') else ret ()"
  from assms c obtain opened w0 fs w1 w2 w3 w4 where
    opened: "external (\<lambda>n. fst (Open_stores (mc_step m n))) w = (Inr opened, w0)"
    and fs: "New_store (cfg_RecordingsDir c) (cfg_PipelinesDir c) w0 = (Inr fs, w1)"
    and sv: "sv = assembled m c fs"
    and root: "EnsureBootstrapRoot (hs_Auth (rs_Http sv)) w1 = (Inr (), w2)"
    and dial: "wrapping ''dial prediction service'' (driver m ''grpc.NewClient'') w2 = (Inr (), w3)"
    and tls: "?tls w3 = (Inr (), w4)"
    and listen: "driver m ''net.Listen'' w4 = (Inr (), w')"
    by (auto simp: start_def attempt_Inr Let_def ret_eq)
  have "db w1 = db w0" using reading.New_store fs by (rule reads_db)
  moreover have "db w0 = db w" using opened by (auto simp: external_def)
  moreover have "db w3 = db w2" using reading.wrapping [OF reading.driver] dial by (rule reads_db)
  moreover have "guar (=) ?tls" by (simp add: reading.wrapping reading.driver reading.ret)
  then have "db w4 = db w3" using tls by (rule reads_db)
  moreover have "db w' = db w4" using reading.driver listen by (rule reads_db)
  ultimately show ?thesis using that [OF c sv root] by simp
qed

text \<open>
  C20.  A server that has started runs on an accepted configuration and shares its worker secret;
  it answers cross-origin requests of the listed origins only, unless it runs for development;
  and it has an account.  On an empty table that is the bootstrap account alone, root with the
  hash of the bootstrap password, and it passes no gate but those of the account routes before
  the password has been changed; otherwise the accounts are the ones that were there.
\<close>

theorem started_server:
  assumes "start m w = (Inr sv, w')"
  shows "Load (mc_getenv m) (mc_rank m) (mc_found m) = Inr (rs_Config sv) \<and>
    (\<forall>origin. allows (mc_parse_url m) (rs_Cors sv) origin \<longrightarrow>
       origin \<in> set (cfg_AllowedOrigins (rs_Config sv)) \<or> cfg_Environment (rs_Config sv) = ''development'') \<and>
    (if t_users (db w) = []
     then \<exists>u. t_users (db w') = [u] \<and> u_Role u = RoleRoot \<and> u_Username u = BootstrapUsername \<and>
            (\<exists>v v'. HashPassword (mc_idkey m) (mc_cpus m) BootstrapPassword v = (Inr (u_PasswordHash u), v')) \<and>
            (\<forall>g. admits g u \<longrightarrow> g \<in> {Open, SignedIn})
     else t_users (db w') = t_users (db w))"
  using assms
proof (cases rule: start_Inr)
  case (1 c fs w1 w2)
  have sv: "rs_Config sv = c" "as_idkey (hs_Auth (rs_Http sv)) = mc_idkey m"
    "as_cpus (hs_Auth (rs_Http sv)) = mc_cpus m" "co_AllowedOrigins (rs_Cors sv) = cfg_AllowedOrigins c"
    "co_AllowLocalhost (rs_Cors sv) = AllowLocalhostOrigins c"
    by (simp_all add: 1(2) assembled_def Let_def)
  have "origin \<in> set (cfg_AllowedOrigins c) \<or> cfg_Environment c = ''development''"
    if "allows (mc_parse_url m) (rs_Cors sv) origin" for origin
    using that by (auto simp: allows_def sv AllowLocalhostOrigins_def split: if_splits)
  moreover have "u_MustChangePassword u \<Longrightarrow> admits g u \<Longrightarrow> g \<in> {Open, SignedIn}" for g u
    by (cases g) auto
  ultimately show ?thesis
    using EnsureBootstrapRoot_users [OF 1(3)] 1(1,4,5) by (auto simp: sv split: if_splits)
qed

definition sample_machine :: machine where
  "sample_machine =
     \<lparr>mc_getenv = sample_environment, mc_rank = length, mc_found = (\<lambda>_. True), mc_step = (\<lambda>_ _. Inr ()),
      mc_idkey = sample_idkey, mc_cpus = 2, mc_codec = sample_codec, mc_json = (\<lambda>_. None),
      mc_error_text = (\<lambda>_. ''error''), mc_collate = length, mc_probe = (\<lambda>_ _. True),
      mc_providers = (\<lambda>_ _. []), mc_metadata = (\<lambda>_ _ _. Inl ErrContext),
      mc_backend = (\<lambda>_. sv_predictor sample_service), mc_parse_url = (\<lambda>_. None), mc_web = (\<lambda>_. None)\<rparr>"

definition fresh_world :: world where
  "fresh_world = salted_world\<lparr>db := empty_database\<rparr>"

lemma sample_start: "is_ok (fst (start sample_machine fresh_world))"
  by code_simp

lemma started_server_witness:
  "\<exists>sv w' u. start sample_machine fresh_world = (Inr sv, w') \<and> t_users (db w') = [u] \<and>
     u_Role u = RoleRoot \<and> (\<forall>g. admits g u \<longrightarrow> g \<in> {Open, SignedIn})"
proof -
  from run_ok [OF sample_start] obtain sv w' where run: "start sample_machine fresh_world = (Inr sv, w')"
    by blast
  have "t_users (db fresh_world) = []" by (simp add: fresh_world_def empty_database_def)
  with started_server [OF run] run show ?thesis by auto
qed

section \<open>The running server\<close>

text \<open>
  C3.  Whatever reaches the server, in whatever order - requests of any kind, worker calls with
  any message streams, ticks of the monitor and of the refresh loop - its start and its work are
  a sequence of single statements.  So from tables that the statements can reach it stays in
  such tables: no station is booked twice, and there is at most one root account; passes keep
  their data and follow the life cycle, the audit log only grows, the moment of the first-run
  setup stays once it is set.
\<close>

theorem server_run_safe:
  assumes "run_server m events w = (z, w')" and "reachable (db w)"
  shows "reachable (db w') \<and> bookings_ok (db w') \<and> accounts_ok (db w') \<and> keeps_root (db w) (db w') \<and>
    keeps_passes (db w) (db w') \<and> log_grows (db w) (db w') \<and> setup_once (db w) (db w')"
proof -
  have "sql_step\<^sup>*\<^sup>* (db w) (db w')" using guarD [OF steps.run_server assms(1)] .
  moreover from this assms(2) have "reachable (db w')" by (rule reachable_run)
  ultimately show ?thesis
    using reachable_bookings_ok reachable_accounts_ok run_keeps_passes run_log_grows
      guarD [OF first_run.run_server assms(1)] guarD [OF accounts.run_server assms(1)]
    by blast
qed

definition sample_events :: "server_event list" where
  "sample_events = [WorkerCall None CallPing, MonitorRun [MonitorTick], RefreshRun [RefreshTick]]"

lemma server_run_safe_witness:
  "\<exists>z w'. run_server sample_machine sample_events fresh_world = (z, w') \<and> bookings_ok (db w') \<and>
     map u_Role (t_users (db w')) = [RoleRoot]"
proof -
  let ?run = "run_server sample_machine sample_events fresh_world"
  have "map u_Role (t_users (db (snd ?run))) = [RoleRoot]" by code_simp
  moreover have "reachable (db fresh_world)" by (simp add: fresh_world_def reachable.start)
  ultimately show ?thesis
    using server_run_safe [of sample_machine sample_events fresh_world "fst ?run" "snd ?run"]
    by (intro exI [of _ "fst ?run"] exI [of _ "snd ?run"]) auto
qed

section \<open>Recovery of the root password\<close>

lemma SetPassword_Inr:
  assumes "SetPassword uid hash w = (Inr u, w')"
  shows "\<exists>old. find_row (\<lambda>x. u_ID x = uid) (t_users (db w)) = Some old \<and>
    db w' = (db w)\<lparr>t_users := update_rows (\<lambda>x. u_ID x = uid)
      (\<lambda>_. old\<lparr>u_PasswordHash := hash, u_MustChangePassword := False, u_UpdatedAt := env_now (env w) (tick w)\<rparr>)
      (t_users (db w))\<rparr>"
  using assms
  by (auto simp: SetPassword_def exec_user_def run_stmt_Inr update_user_stmt_def Let_def
      split: prod.splits sum.splits if_splits option.splits)

lemma AppendAudit_Inr:
  "AppendAudit a w = (Inr row, w') \<Longrightarrow>
     t_audit_records (db w') = t_audit_records (db w) @ [row] \<and> a_Action row = a_Action a \<and>
     a_ActorUserID row = a_ActorUserID a"
  by (auto simp: AppendAudit_def query_row_Inr insert_audit_stmt_def Let_def split: if_splits)

lemma rootpw_Inr:
  assumes "rootpw m input w = (Inr (), w')"
  obtains owner password hash row w1 w2 w3 where
    "find_row (\<lambda>u. env_citext (env w) (u_Username u) = env_citext (env w) BootstrapUsername) (t_users (db w)) = Some owner"
    "u_Role owner = RoleRoot" "readPassword input = Inr password" "ValidatePassword password = Inr ()"
    "HashPassword (mc_idkey m) (mc_cpus m) password w1 = (Inr hash, w2)" "db w1 = db w" "env w1 = env w"
    "SetPassword (u_ID owner) hash w2 = (Inr (), w3)" "AppendAudit (recovery_audit owner) w3 = (Inr row, w')"
proof -
  from assms obtain owner w0 w1 where connect: "driver m ''pgxpool.New'' w = (Inr (), w0)"
    and owner: "GetUserByUsername BootstrapUsername w0 = (Inr owner, w1)"
    and rest: "(if u_Role owner \<noteq> RoleRoot then fail (ErrText ''account is not the root account'')
         else set_root_password m input owner) w1 = (Inr (), w')"
    by (auto simp: rootpw_def attempt_Inr attempt_or_eq wrapping_Inr fail_eq split: if_splits)
  from connect have w0: "db w0 = db w" "env w0 = env w" by (auto simp: driver_def external_def)
  from owner w0 have row: "db w1 = db w" "env w1 = env w"
    "find_row (\<lambda>u. env_citext (env w) (u_Username u) = env_citext (env w) BootstrapUsername) (t_users (db w)) = Some owner"
    by (auto simp: GetUserByUsername_def query_row_Inr select_Inr)
  from rest obtain password hash row w2 w3 where role: "u_Role owner = RoleRoot"
    and steps: "readPassword input = Inr password" "ValidatePassword password = Inr ()"
      "HashPassword (mc_idkey m) (mc_cpus m) password w1 = (Inr hash, w2)"
      "SetPassword (u_ID owner) hash w2 = (Inr (), w3)" "AppendAudit (recovery_audit owner) w3 = (Inr row, w')"
    by (auto simp: set_root_password_def attempt_Inr wrapping_Inr from_result_eq fail_eq ret_eq split: if_splits)
  show ?thesis by (rule that [OF row(3) role steps(1-3) row(1,2) steps(4,5)])
qed

text \<open>
  C39.  The recovery tool that reports success has given the account named root, which has the
  root role, the password that was typed: it is long enough and verifies against the stored hash,
  no change is demanded any more, every other account is as it was, and the audit log has one
  more record, of this recovery.  The hypotheses on Argon2 and the random source are those of the
  hashing theorem.
\<close>

theorem rootpw_outcome:
  assumes "rootpw m input w = (Inr (), w')" and "0 < mc_cpus m"
    and "\<And>p s t k th n. length (mc_idkey m p s t k th n) = n"
    and "\<forall>n salt. env_salt (env w) n = Some salt \<longrightarrow> length salt = argonSaltLen"
    and "accounts_ok (db w)"
  shows "\<exists>owner new password a. u_Role owner = RoleRoot \<and> owner \<in> set (t_users (db w)) \<and>
    env_citext (env w) (u_Username owner) = env_citext (env w) BootstrapUsername \<and>
    readPassword input = Inr password \<and> MinPasswordLength \<le> length password \<and>
    t_users (db w') = update_rows (\<lambda>x. u_ID x = u_ID owner) (\<lambda>_. new) (t_users (db w)) \<and>
    u_ID new = u_ID owner \<and> u_Role new = RoleRoot \<and> \<not> u_MustChangePassword new \<and>
    VerifyPassword (mc_idkey m) password (u_PasswordHash new) = Inr () \<and>
    t_audit_records (db w') = t_audit_records (db w) @ [a] \<and>
    a_Action a = ''auth.root_password_reset_via_cli'' \<and> a_ActorUserID a = Some (u_ID owner)"
  using assms(1)
proof (cases rule: rootpw_Inr)
  case (1 owner password hash row w1 w2 w3)
  have verifies: "VerifyPassword (mc_idkey m) password hash = Inr ()"
    using hash_verifies [OF 1(5) assms(2,3)] assms(4) 1(7) by auto
  have "db w2 = db w" using HashPassword_keeps [OF 1(5)] 1(6) by simp
  from SetPassword_Inr [OF 1(8)] obtain old where
    old: "find_row (\<lambda>x. u_ID x = u_ID owner) (t_users (db w)) = Some old"
    and w3: "db w3 = (db w)\<lparr>t_users := update_rows (\<lambda>x. u_ID x = u_ID owner)
      (\<lambda>_. old\<lparr>u_PasswordHash := hash, u_MustChangePassword := False, u_UpdatedAt := env_now (env w2) (tick w2)\<rparr>)
      (t_users (db w))\<rparr>"
    by (auto simp: \<open>db w2 = db w\<close>)
  note owner = find_row_SomeD [OF 1(1)]
  from find_row_key [of u_ID "t_users (db w)" owner] old owner assms(5) have "old = owner"
    by (auto simp: accounts_ok_def)
  let ?new = "owner\<lparr>u_PasswordHash := hash, u_MustChangePassword := False, u_UpdatedAt := env_now (env w2) (tick w2)\<rparr>"
  from AppendAudit_Inr [OF 1(9)] AppendAudit_users [OF 1(9)] w3 \<open>old = owner\<close>
  have "t_users (db w') = update_rows (\<lambda>x. u_ID x = u_ID owner) (\<lambda>_. ?new) (t_users (db w))"
    "t_audit_records (db w') = t_audit_records (db w) @ [row]"
    "a_Action row = ''auth.root_password_reset_via_cli''" "a_ActorUserID row = Some (u_ID owner)"
    by (auto simp: recovery_audit_def audit_entry_def)
  moreover have "MinPasswordLength \<le> length password"
    using 1(4) by (auto simp: ValidatePassword_def split: if_splits)
  ultimately show ?thesis using 1(2,3) owner verifies
    by (intro exI [of _ owner] exI [of _ ?new] exI [of _ password] exI [of _ row]) simp
qed

definition recovery_world :: world where
  "recovery_world = salted_world\<lparr>db := empty_database\<lparr>t_users := [Sample.root, alice]\<rparr>\<rparr>"

lemma sample_rootpw:
  "rootpw sample_machine (Stream ''correct horse battery'') recovery_world =
     (Inr (), snd (rootpw sample_machine (Stream ''correct horse battery'') recovery_world))"
proof -
  have "is_ok (fst (rootpw sample_machine (Stream ''correct horse battery'') recovery_world))" by code_simp
  then show ?thesis by (cases "fst (rootpw sample_machine (Stream ''correct horse battery'') recovery_world)")
      (simp_all add: prod_eq_iff)
qed

lemma rootpw_outcome_witness:
  "\<exists>(new :: user) password. readPassword (Stream ''correct horse battery'') = Inr password \<and>
     VerifyPassword sample_idkey password (u_PasswordHash new) = Inr () \<and> u_Role new = RoleRoot"
proof -
  have m: "0 < mc_cpus sample_machine" "mc_idkey sample_machine = sample_idkey"
    by (simp_all add: sample_machine_def)
  have key: "length (mc_idkey sample_machine p s t k th n) = n" for p s t k th n
    unfolding m(2) by (rule sample_idkey_length)
  have salt: "\<forall>n salt. env_salt (env recovery_world) n = Some salt \<longrightarrow> length salt = argonSaltLen"
    by (auto simp: recovery_world_def salted_world_def argonSaltLen_def)
  have ok: "accounts_ok (db recovery_world)" by code_simp
  from rootpw_outcome [OF sample_rootpw m(1) key salt ok] show ?thesis
    unfolding m(2) by blast
qed

end
