(* ===== verification/Seed.thy ===== *)
theory Seed
  imports Startup
begin

text \<open>
  The development seed (\<open>cmd/aagasa-seed/main.go\<close>): a client that waits for the server, signs in as
  root, runs the first-run setup and adds accounts and satellites, all over HTTP.  What it reaches
  - the clock, \<open>time.Sleep\<close>, \<open>http.Client.Do\<close> with the JSON library - is an argument of type
  \<open>'w outside\<close> over any state \<open>'w\<close>; at the end of the theory the server of \<open>Startup\<close> behind a network
  is one such outside.  Lines that are printed are left out; the exit status is the result.
\<close>

section \<open>The outside\<close>

record seed_call =
  ca_Method :: string
  ca_URL :: string
  ca_Header :: "(string \<times> string) list"
  ca_Body :: "any_map option"

record seed_reply =
  re_Status :: int
  re_Body :: string

record 'w outside =
  od_now :: "'w \<Rightarrow> time \<times> 'w"
  od_sleep :: "duration \<Rightarrow> 'w \<Rightarrow> 'w"
  od_send :: "seed_call \<Rightarrow> 'w \<Rightarrow> (err + seed_reply) \<times> 'w"
  od_parse :: "string \<Rightarrow> json option"
  od_fold :: "string \<Rightarrow> string"

section \<open>Errors\<close>

datatype seed_error =
    TransportError err
  | ApiError int string string
  | DecodeError
  | SeedText string
  | AlreadyConfigured string
  | SeedWrap string seed_error

text \<open>\<open>errors.As\<close> for the answer of the server, and \<open>errors.Is\<close> for \<open>errAlreadyConfigured\<close>.\<close>

fun status_code_of :: "seed_error \<Rightarrow> int option" where
  "status_code_of (ApiError code kind msg) = Some code"
| "status_code_of (SeedWrap msg e) = status_code_of e"
| "status_code_of _ = None"

definition isConflict :: "seed_error \<Rightarrow> bool" where
  "isConflict e \<longleftrightarrow> status_code_of e = Some 409"

fun is_already_configured :: "seed_error \<Rightarrow> bool" where
  "is_already_configured (AlreadyConfigured msg) = True"
| "is_already_configured (SeedWrap msg e) = is_already_configured e"
| "is_already_configured _ = False"

section \<open>The client\<close>

record 'w client =
  cl_base :: string
  cl_token :: string
  cl_out :: 'w

type_synonym ('w, 'a) client_op = "'w client \<Rightarrow> (seed_error + 'a) \<times> 'w client"

definition give :: "seed_error + 'a \<Rightarrow> ('w, 'a) client_op" where
  "give r c = (r, c)"

definition on_result ::
  "('w, 'a) client_op \<Rightarrow> (seed_error + 'a \<Rightarrow> ('w, 'b) client_op) \<Rightarrow> ('w, 'b) client_op" where
  "on_result m k c = (case m c of (r, c') \<Rightarrow> k r c')"

definition and_then ::
  "('w, 'a) client_op \<Rightarrow> ('a \<Rightarrow> ('w, 'b) client_op) \<Rightarrow> ('w, 'b) client_op" where
  "and_then m k = on_result m (\<lambda>r. case r of Inl e \<Rightarrow> give (Inl e) | Inr x \<Rightarrow> k x)"

definition described :: "string \<Rightarrow> ('w, 'a) client_op \<Rightarrow> ('w, 'a) client_op" where
  "described msg m = on_result m (\<lambda>r. give (case r of Inl e \<Rightarrow> Inl (SeedWrap msg e) | Inr x \<Rightarrow> Inr x))"

definition read_token :: "(string \<Rightarrow> ('w, 'a) client_op) \<Rightarrow> ('w, 'a) client_op" where
  "read_token k c = k (cl_token c) c"

definition set_token :: "string \<Rightarrow> ('w, 'a) client_op \<Rightarrow> ('w, 'a) client_op" where
  "set_token t k c = k (c\<lparr>cl_token := t\<rparr>)"

section \<open>Answers\<close>

text \<open>
  The fields of a struct in an object; unlike the server's \<open>decodeJSON\<close>, keys that the struct does
  not have are passed over.
\<close>

definition lenient_fields ::
  "(string \<Rightarrow> string) \<Rightarrow> string list \<Rightarrow> (string \<times> json) list \<Rightarrow> (string \<times> json) list" where
  "lenient_fields folded names m =
     concat (map (\<lambda>(k, v).
       case (if k \<in> set names then Some k else find (\<lambda>n. folded n = folded k) names) of
         None \<Rightarrow> [] | Some n \<Rightarrow> [(n, v)]) m)"

fun lenient_object :: "(string \<Rightarrow> string) \<Rightarrow> string list \<Rightarrow> json \<Rightarrow> (string \<times> json) list option" where
  "lenient_object folded names JNull = Some []"
| "lenient_object folded names (JObject m) = Some (lenient_fields folded names m)"
| "lenient_object folded names _ = None"

definition decode_failure :: "'w outside \<Rightarrow> string \<Rightarrow> (string \<times> string) option" where
  "decode_failure out raw =
     Option.bind (od_parse out raw) (\<lambda>v.
     Option.bind (lenient_object (od_fold out) [''error'', ''message''] v) (\<lambda>fs.
     Option.bind (plain json_string ''error'' '''' fs) (\<lambda>code.
     Option.bind (plain json_string ''message'' '''' fs) (\<lambda>message. Some (code, message)))))"

text \<open>
  The target of a call: no target, or the decoder of a struct, from the struct's zero value.
\<close>

datatype 'a target = NoTarget 'a | DecodeInto 'a "json \<Rightarrow> 'a option"

definition decode_login_answer :: "(string \<Rightarrow> string) \<Rightarrow> json \<Rightarrow> (string \<times> bool) option" where
  "decode_login_answer folded v =
     Option.bind (lenient_object folded [''token'', ''must_change_password''] v) (\<lambda>fs.
     Option.bind (plain json_string ''token'' '''' fs) (\<lambda>token.
     Option.bind (plain json_bool ''must_change_password'' False fs) (\<lambda>must_change.
       Some (token, must_change))))"

definition decode_setup_status :: "(string \<Rightarrow> string) \<Rightarrow> json \<Rightarrow> bool option" where
  "decode_setup_status folded v =
     Option.bind (lenient_object folded [''initialized''] v) (plain json_bool ''initialized'' False)"

definition call_header :: "any_map option \<Rightarrow> string \<Rightarrow> (string \<times> string) list" where
  "call_header body token =
     (if body \<noteq> None then [(''Content-Type'', ''application/json'')] else []) @
     (if token \<noteq> '''' then [(''Authorization'', ''Bearer '' @ token)] else [])"

definition read_answer :: "'w outside \<Rightarrow> 'a target \<Rightarrow> seed_reply \<Rightarrow> seed_error + 'a" where
  "read_answer out target reply =
     (if 400 \<le> re_Status reply
      then (case decode_failure out (re_Body reply) of
              None \<Rightarrow> Inl (ApiError (re_Status reply) '''' '''')
            | Some (code, message) \<Rightarrow> Inl (ApiError (re_Status reply) code message))
      else case target of
             NoTarget z \<Rightarrow> Inr z
           | DecodeInto z dec \<Rightarrow>
               if re_Body reply = '''' then Inr z
               else case Option.bind (od_parse out (re_Body reply)) dec of
                      None \<Rightarrow> Inl DecodeError | Some x \<Rightarrow> Inr x)"

definition do_request ::
  "'w outside \<Rightarrow> string \<Rightarrow> string \<Rightarrow> any_map option \<Rightarrow> 'a target \<Rightarrow> ('w, 'a) client_op" where
  "do_request out meth path body target c =
     (case od_send out
         \<lparr>ca_Method = meth, ca_URL = cl_base c @ path, ca_Header = call_header body (cl_token c),
          ca_Body = body\<rparr> (cl_out c) of
        (Inl e, w) \<Rightarrow> (Inl (TransportError e), c\<lparr>cl_out := w\<rparr>)
      | (Inr reply, w) \<Rightarrow> (read_answer out target reply, c\<lparr>cl_out := w\<rparr>))"

section \<open>Waiting for the server\<close>

definition ready_call :: "string \<Rightarrow> seed_call" where
  "ready_call base = \<lparr>ca_Method = ''GET'', ca_URL = base @ ''/readyz'', ca_Header = [], ca_Body = None\<rparr>"

text \<open>
  One round of the loop, with the sleep at its end; it returns the result when the function returns.
\<close>

definition wait_round ::
  "'w outside \<Rightarrow> string \<Rightarrow> time \<Rightarrow> 'w \<Rightarrow> (seed_error + unit) option \<times> 'w" where
  "wait_round out base deadline w =
     (case od_now out w of (now, w1) \<Rightarrow>
        if \<not> before now deadline then (Some (Inl (SeedText ''the server did not become ready'')), w1)
        else case od_send out (ready_call base) w1 of
          (Inl e, w2) \<Rightarrow> (None, od_sleep out (2 * second) w2)
        | (Inr reply, w2) \<Rightarrow>
            if re_Status reply = 200 then (Some (Inr ()), w2)
            else case od_now out w2 of (later, w3) \<Rightarrow>
              if after (time_add later (5 * second)) deadline
              then (Some (Inl (SeedText (''server not ready: '' @ TrimSpace (re_Body reply)))), w3)
              else (None, od_sleep out (2 * second) w3))"

partial_function (option) wait_loop ::
  "'w outside \<Rightarrow> string \<Rightarrow> time \<Rightarrow> 'w \<Rightarrow> ((seed_error + unit) \<times> 'w) option" where
  "wait_loop out base deadline w =
     (case wait_round out base deadline w of
        (Some r, w') \<Rightarrow> Some (r, w')
      | (None, w') \<Rightarrow> wait_loop out base deadline w')"

declare wait_loop.simps [code]

definition waitForServer ::
  "'w outside \<Rightarrow> string \<Rightarrow> duration \<Rightarrow> 'w \<Rightarrow> ((seed_error + unit) \<times> 'w) option" where
  "waitForServer out base limit w =
     (case od_now out w of (now, w1) \<Rightarrow> wait_loop out base (time_add now limit) w1)"

section \<open>Signing in\<close>

definition seed_bootstrapPassword :: string where "seed_bootstrapPassword = ''toor''"

definition login :: "'w outside \<Rightarrow> string \<Rightarrow> string \<Rightarrow> ('w, string \<times> bool) client_op" where
  "login out username password =
     do_request out ''POST'' ''/api/auth/login''
       (Some [(''username'', VString username), (''password'', VString password)])
       (DecodeInto ('''', False) (decode_login_answer (od_fold out)))"

definition change_password_body :: "string \<Rightarrow> string \<Rightarrow> any_map" where
  "change_password_body current new =
     [(''current_password'', VString current), (''new_password'', VString new)]"

definition changePassword :: "'w outside \<Rightarrow> string \<Rightarrow> string \<Rightarrow> ('w, unit) client_op" where
  "changePassword out current new =
     and_then (described ''change the root password''
       (do_request out ''POST'' ''/api/auth/change-password'' (Some (change_password_body current new))
          (NoTarget ())))
     (\<lambda>_. and_then (login out ''root'' new) (\<lambda>(token, _). set_token token (give (Inr ()))))"

definition foreign_password :: string where
  "foreign_password =
     ''already configured with its own credentials: root''@[CHR 0x27]@''s password is neither the bootstrap one nor the one '' @
     ''given, so pass the real one with --root-password '' @
     ''(AAGASA_ROOT_PASSWORD for dev-env.sh), or start a clean environment '' @
     ''with ''@[CHR 0x27]@''scripts/dev-env.sh reset''@[CHR 0x27]"

definition signInAsRoot :: "'w outside \<Rightarrow> string \<Rightarrow> ('w, unit) client_op" where
  "signInAsRoot out password =
     on_result (login out ''root'' password) (\<lambda>first_try.
     case first_try of
       Inr (token, must_change) \<Rightarrow>
         set_token token
           (if must_change then changePassword out password password else give (Inr ()))
     | Inl _ \<Rightarrow>
         on_result (login out ''root'' seed_bootstrapPassword) (\<lambda>second_try.
         case second_try of
           Inl _ \<Rightarrow> give (Inl (AlreadyConfigured foreign_password))
         | Inr (token, must_change) \<Rightarrow>
             set_token token
               (if \<not> must_change
                then give (Inl (SeedText ''the bootstrap password works but no change is demanded, which should be impossible''))
                else
                and_then (changePassword out seed_bootstrapPassword password) (\<lambda>_.
                and_then (described ''sign in after the password change'' (login out ''root'' password))
                  (\<lambda>(token', _). set_token token' (give (Inr ())))))))"

section \<open>First-run setup\<close>

record seed_setup =
  ss_StationName :: string
  ss_Latitude :: float64
  ss_Longitude :: float64
  ss_AltitudeM :: float64
  ss_WorkerName :: string
  ss_LeadTimeSeconds :: int

definition seed_bands :: any_val where
  "seed_bands = VList
     [VObject [(''band'', VString ''vhf''), (''antenna_description'', VString ''Turnstile''),
        (''center_frequency_hz'', VInt 137100000), (''sample_rate_hz'', VInt 2048000), (''gain_db'', VFloat 40)],
      VObject [(''band'', VString ''uhf''), (''antenna_description'', VString ''Yagi''),
        (''center_frequency_hz'', VInt 435000000), (''sample_rate_hz'', VInt 2048000), (''gain_db'', VFloat 40)]]"

definition seed_setup_body :: "environment \<Rightarrow> seed_setup \<Rightarrow> any_map" where
  "seed_setup_body getenv rq =
     (let port = getenv ''AAGASA_ROTATOR_SERIAL_PORT''
      in [(''station_name'', VString (ss_StationName rq)),
          (''latitude'', VFloat (ss_Latitude rq)), (''longitude'', VFloat (ss_Longitude rq)),
          (''altitude_m'', VFloat (ss_AltitudeM rq)), (''timezone'', VString ''UTC''),
          (''active_rf_band'', VString ''vhf''), (''bands'', seed_bands),
          (''rotator_serial_port'', VString (if port = '''' then ''/tmp/aagasa-rotator'' else port)),
          (''rotator_baud_rate'', VInt 9600),
          (''rotator_park_azimuth_degrees'', VInt 0), (''rotator_park_elevation_degrees'', VInt 0),
          (''sdr_device_identifier'', VString ''rtlsdr''),
          (''minimum_lead_time_seconds'', VInt (ss_LeadTimeSeconds rq)),
          (''pre_pass_buffer_seconds'', VInt 60), (''post_pass_buffer_seconds'', VInt 60),
          (''recording_pre_roll_seconds'', VInt 10), (''recording_post_roll_seconds'', VInt 10),
          (''minimum_elevation_degrees'', VFloat 10), (''worker_name'', VString (ss_WorkerName rq))])"

definition ensureSetup :: "'w outside \<Rightarrow> environment \<Rightarrow> seed_setup \<Rightarrow> ('w, unit) client_op" where
  "ensureSetup out getenv rq =
     and_then (described ''read setup status''
       (do_request out ''GET'' ''/api/setup'' None (DecodeInto False (decode_setup_status (od_fold out)))))
     (\<lambda>initialized.
       if initialized then give (Inr ())
       else described ''first-run setup''
         (do_request out ''POST'' ''/api/setup'' (Some (seed_setup_body getenv rq)) (NoTarget ())))"

section \<open>Accounts and satellites\<close>

record seed_user =
  su_Username :: string
  su_Password :: string
  su_Role :: string

definition seedUsers :: "seed_user list" where
  "seedUsers =
     [\<lparr>su_Username = ''operator'', su_Password = ''operator-development-password'', su_Role = ''user''\<rparr>,
      \<lparr>su_Username = ''approver'', su_Password = ''approver-development-password'', su_Role = ''admin''\<rparr>]"

definition seedSatellites :: "int list" where "seedSatellites = [25544, 33591, 40069]"

definition first_password_change :: "'w outside \<Rightarrow> seed_user \<Rightarrow> string \<Rightarrow> ('w, unit) client_op" where
  "first_password_change out user initial =
     and_then (described (''sign in as '' @ su_Username user) (login out (su_Username user) initial))
     (\<lambda>(token, must_change).
       if \<not> must_change
       then give (Inl (SeedText (su_Username user @ '' was created without needing a password change'')))
       else set_token token (described (''first password change for '' @ su_Username user)
         (do_request out ''POST'' ''/api/auth/change-password''
            (Some (change_password_body initial (su_Password user))) (NoTarget ()))))"

fun ensure_each_user :: "'w outside \<Rightarrow> string \<Rightarrow> seed_user list \<Rightarrow> ('w, unit) client_op" where
  "ensure_each_user out root_token [] = give (Inr ())"
| "ensure_each_user out root_token (user # users) =
     (let initial = su_Password user @ ''-initial''
      in set_token root_token
        (on_result (do_request out ''POST'' ''/api/users''
           (Some [(''username'', VString (su_Username user)), (''password'', VString initial),
              (''role'', VString (su_Role user))]) (NoTarget ()))
         (\<lambda>created. case created of
            Inl e \<Rightarrow>
              if isConflict e then ensure_each_user out root_token users
              else give (Inl (SeedWrap (''create '' @ su_Username user) e))
          | Inr _ \<Rightarrow>
              and_then (first_password_change out user initial) (\<lambda>_. ensure_each_user out root_token users))))"

text \<open>The deferred assignment puts the token of root back on every return.\<close>

definition ensureUsers :: "'w outside \<Rightarrow> ('w, unit) client_op" where
  "ensureUsers out =
     read_token (\<lambda>root_token.
       on_result (ensure_each_user out root_token seedUsers) (\<lambda>r. set_token root_token (give r)))"

fun ensure_each_satellite :: "'w outside \<Rightarrow> int list \<Rightarrow> ('w, unit) client_op" where
  "ensure_each_satellite out [] = give (Inr ())"
| "ensure_each_satellite out (noradID # rest) =
     on_result (do_request out ''POST'' ''/api/satellites'' (Some [(''norad_id'', VInt noradID)]) (NoTarget ()))
       (\<lambda>_. ensure_each_satellite out rest)"

definition ensureSatellites :: "'w outside \<Rightarrow> ('w, unit) client_op" where
  "ensureSatellites out = ensure_each_satellite out seedSatellites"

section \<open>The program\<close>

record seed_flags =
  fl_server :: string
  fl_rootPassword :: string
  fl_station :: string
  fl_latitude :: float64
  fl_longitude :: float64
  fl_altitude :: float64
  fl_worker :: string
  fl_leadTime :: int

definition default_flags :: seed_flags where
  "default_flags =
     \<lparr>fl_server = ''http://127.0.0.1:8080'', fl_rootPassword = '''', fl_station = ''Development Station'',
      fl_latitude = 13394944 / 1000000, fl_longitude = 77729444 / 1000000, fl_altitude = 915,
      fl_worker = ''worker-1'', fl_leadTime = 60\<rparr>"

definition trim_right_slashes :: "string \<Rightarrow> string" where
  "trim_right_slashes s = rev (dropWhile (\<lambda>c. c = CHR ''/'') (rev s))"

definition setup_of_flags :: "seed_flags \<Rightarrow> seed_setup" where
  "setup_of_flags f =
     \<lparr>ss_StationName = fl_station f, ss_Latitude = fl_latitude f, ss_Longitude = fl_longitude f,
      ss_AltitudeM = fl_altitude f, ss_WorkerName = fl_worker f, ss_LeadTimeSeconds = fl_leadTime f\<rparr>"

definition exitAlreadyConfigured :: int where "exitAlreadyConfigured = 3"

definition exit_status :: "(seed_error + unit) \<times> 'w client \<Rightarrow> int \<times> 'w" where
  "exit_status x = (if fst x = Inr () then 0 else 1, cl_out (snd x))"

text \<open>The result is the exit status; no result means that the program does not end.\<close>

definition seed_main :: "'w outside \<Rightarrow> environment \<Rightarrow> seed_flags \<Rightarrow> 'w \<Rightarrow> (int \<times> 'w) option" where
  "seed_main out getenv f w =
     (let base = trim_right_slashes (fl_server f); password = fl_rootPassword f in
      if TrimSpace password = '''' \<or> length password < 12 then Some (1, w)
      else Option.bind (waitForServer out base (2 * minute) w) (\<lambda>(ready, w1).
        case ready of
          Inl _ \<Rightarrow> Some (1, w1)
        | Inr _ \<Rightarrow>
            (case signInAsRoot out password \<lparr>cl_base = base, cl_token = '''', cl_out = w1\<rparr> of
               (Inl e, c) \<Rightarrow> Some (if is_already_configured e then exitAlreadyConfigured else 1, cl_out c)
             | (Inr _, c) \<Rightarrow>
                 Some (exit_status
                   (and_then (ensureSetup out getenv (setup_of_flags f)) (\<lambda>_.
                    and_then (ensureUsers out) (\<lambda>_. ensureSatellites out)) c)))))"

end
