(* ===== verification/Seed_Props.thy ===== *)
theory Seed_Props
  imports Seed Startup_Props
begin

text \<open>
  The seed ends, whatever the server answers, and what it does to a server is what requests can do.
  The laws of the outside are the locales \<open>outside_steps\<close> (a relation that every call to the outside
  keeps) and \<open>clock_laws\<close> (the clock does not go back and \<open>time.Sleep\<close> takes its time); they are
  interpreted on the server of \<open>Startup\<close> behind a network that delays and loses what it carries.
\<close>

section \<open>Steps of the seed\<close>

text \<open>An operation stays with its server and moves the outside along a relation.\<close>

definition moves :: "('w \<Rightarrow> 'w \<Rightarrow> bool) \<Rightarrow> ('w, 'a) client_op \<Rightarrow> bool" where
  "moves R m \<longleftrightarrow> (\<forall>c. R (cl_out c) (cl_out (snd (m c))) \<and> cl_base (snd (m c)) = cl_base c)"

lemma movesD: "moves R m \<Longrightarrow> m c = (r, c') \<Longrightarrow> R (cl_out c) (cl_out c') \<and> cl_base c' = cl_base c"
  unfolding moves_def by (metis snd_conv)

named_theorems moves_intro \<open>rules for the operations of the seed\<close>

locale outside_steps =
  fixes out :: "'w outside" and R :: "'w \<Rightarrow> 'w \<Rightarrow> bool"
  assumes R_refl: "R w w"
    and R_trans: "R w1 w2 \<Longrightarrow> R w2 w3 \<Longrightarrow> R w1 w3"
    and R_now: "R w (snd (od_now out w))"
    and R_sleep: "R w (od_sleep out d w)"
    and R_send: "R w (snd (od_send out call w))"
begin

lemma moves_give [moves_intro]: "moves R (give r)"
  by (simp add: moves_def give_def R_refl)

lemma moves_on_result [moves_intro]:
  "moves R m \<Longrightarrow> (\<And>r. moves R (k r)) \<Longrightarrow> moves R (on_result m k)"
  unfolding moves_def on_result_def by (auto split: prod.split) (metis R_trans snd_conv)+

lemma moves_and_then [moves_intro]:
  "moves R m \<Longrightarrow> (\<And>x. moves R (k x)) \<Longrightarrow> moves R (and_then m k)"
  unfolding and_then_def by (intro moves_on_result) (auto intro: moves_give split: sum.split)

lemma moves_described [moves_intro]: "moves R m \<Longrightarrow> moves R (described msg m)"
  unfolding described_def by (intro moves_on_result moves_give)

lemma moves_token [moves_intro]:
  "moves R m \<Longrightarrow> moves R (set_token t m)" "(\<And>t. moves R (k t)) \<Longrightarrow> moves R (read_token k)"
proof -
  show "moves R (set_token t m)" if "moves R m"
    unfolding moves_def set_token_def
  proof
    fix c :: "'w client"
    from that have "R (cl_out (c\<lparr>cl_token := t\<rparr>)) (cl_out (snd (m (c\<lparr>cl_token := t\<rparr>)))) \<and>
        cl_base (snd (m (c\<lparr>cl_token := t\<rparr>))) = cl_base (c\<lparr>cl_token := t\<rparr>)"
      unfolding moves_def by blast
    then show "R (cl_out c) (cl_out (snd (m (c\<lparr>cl_token := t\<rparr>)))) \<and>
        cl_base (snd (m (c\<lparr>cl_token := t\<rparr>))) = cl_base c" by simp
  qed
  show "(\<And>t. moves R (k t)) \<Longrightarrow> moves R (read_token k)"
    by (simp add: moves_def read_token_def)
qed

lemma moves_cases [moves_intro]:
  "(b \<Longrightarrow> moves R m) \<Longrightarrow> (\<not> b \<Longrightarrow> moves R k) \<Longrightarrow> moves R (if b then m else k)"
  "(\<And>x y. moves R (g x y)) \<Longrightarrow> moves R (case p of (x, y) \<Rightarrow> g x y)"
  "(\<And>e. moves R (h e)) \<Longrightarrow> (\<And>x. moves R (l x)) \<Longrightarrow> moves R (case v of Inl e \<Rightarrow> h e | Inr x \<Rightarrow> l x)"
  by (auto split: prod.split sum.split)

lemma moves_do_request [moves_intro]: "moves R (do_request out meth path body target)"
  unfolding moves_def
proof
  fix c :: "'w client"
  let ?call = "\<lparr>ca_Method = meth, ca_URL = cl_base c @ path, ca_Header = call_header body (cl_token c),
    ca_Body = body\<rparr>"
  from R_send [of "cl_out c" ?call]
  show "R (cl_out c) (cl_out (snd (do_request out meth path body target c))) \<and>
    cl_base (snd (do_request out meth path body target c)) = cl_base c"
    by (auto simp: do_request_def split: prod.split sum.split)
qed

lemma moves_sign_in: "moves R (signInAsRoot out password)"
  unfolding signInAsRoot_def changePassword_def login_def by (intro moves_intro)

lemma moves_setup: "moves R (ensureSetup out getenv rq)"
  unfolding ensureSetup_def by (intro moves_intro)

lemma moves_users: "moves R (ensureUsers out)"
proof -
  have "moves R (ensure_each_user out t us)" for t us
  proof (induction us)
    case (Cons u us)
    then show ?case
      by (simp add: Let_def first_password_change_def login_def) (intro moves_intro; assumption)
  qed (simp add: moves_give)
  then show ?thesis unfolding ensureUsers_def by (intro moves_intro)
qed

lemma moves_satellites: "moves R (ensureSatellites out)"
proof -
  have "moves R (ensure_each_satellite out xs)" for xs
    by (induction xs) (simp_all add: moves_give moves_on_result moves_do_request)
  then show ?thesis by (simp add: ensureSatellites_def)
qed

lemma wait_round_moves: "wait_round out base deadline w = (r, w') \<Longrightarrow> R w w'"
proof -
  obtain now w1 where now: "od_now out w = (now, w1)" by fastforce
  obtain answer w2 where answer: "od_send out (ready_call base) w1 = (answer, w2)" by fastforce
  obtain later w3 where later: "od_now out w2 = (later, w3)" by fastforce
  from R_now [of w] now have 1: "R w w1" by simp
  from R_send [of w1 "ready_call base"] answer have "R w1 w2" by simp
  with 1 have 2: "R w w2" by (rule R_trans)
  from R_now [of w2] later have "R w2 w3" by simp
  with 2 have 3: "R w w3" by (rule R_trans)
  show "wait_round out base deadline w = (r, w') \<Longrightarrow> R w w'"
    using 1 2 3 R_trans [OF 2 R_sleep] R_trans [OF 3 R_sleep]
    by (auto simp: wait_round_def now answer later split: if_splits sum.splits)
qed

lemma wait_loop_moves:
  assumes "wait_loop out base deadline w = Some z"
  shows "R w (snd z)"
proof -
  have "out' = out \<longrightarrow> R w (snd z)" if "wait_loop out' base deadline w = Some z" for out'
  proof (rule wait_loop.raw_induct [where P = "\<lambda>out' base deadline w z. out' = out \<longrightarrow> R w (snd z)", OF _ that])
    fix loop out' base deadline w z
    assume later: "\<And>out' base deadline w z. loop out' base deadline w = Some z \<Longrightarrow> out' = out \<longrightarrow> R w (snd z)"
      and body: "(case wait_round out' base deadline w of
          (Some r, w') \<Rightarrow> Some (r, w') | (None, w') \<Rightarrow> loop out' base deadline w') = Some z"
    obtain r w1 where round: "wait_round out' base deadline w = (r, w1)" by fastforce
    show "out' = out \<longrightarrow> R w (snd z)"
    proof
      assume "out' = out"
      with round have "R w w1" by (simp add: wait_round_moves)
      with body round later [of out' base deadline w1 z] \<open>out' = out\<close> show "R w (snd z)"
        by (auto split: option.splits intro: R_trans)
    qed
  qed
  with assms show ?thesis by blast
qed

lemma waiting_moves: "waitForServer out base limit w = Some (r, w') \<Longrightarrow> R w w'"
  using R_now [of w] by (auto simp: waitForServer_def split: prod.splits dest!: wait_loop_moves intro: R_trans)

text \<open>A run that reports success has run the setup, and everything else it did is moves.\<close>

lemma seed_moves:
  assumes "seed_main out getenv f w = Some (code, w')"
  shows "R w w' \<and> code \<in> {0, 1, exitAlreadyConfigured}"
proof (cases "TrimSpace (fl_rootPassword f) = '''' \<or> length (fl_rootPassword f) < 12")
  case True
  with assms R_refl show ?thesis by (auto simp: seed_main_def)
next
  case False
  let ?base = "trim_right_slashes (fl_server f)"
  from assms False obtain ready w1 where ready: "waitForServer out ?base (2 * minute) w = Some (ready, w1)"
    by (auto simp: seed_main_def Let_def bind_eq_Some_conv)
  note r1 = waiting_moves [OF ready]
  show ?thesis
  proof (cases ready)
    case (Inl e)
    with assms False ready r1 show ?thesis by (auto simp: seed_main_def Let_def)
  next
    case (Inr u)
    let ?c0 = "\<lparr>cl_base = ?base, cl_token = '''', cl_out = w1\<rparr>"
    obtain signed c where sign: "signInAsRoot out (fl_rootPassword f) ?c0 = (signed, c)" by fastforce
    from movesD [OF moves_sign_in sign] r1 have r2: "R w (cl_out c)" by (auto intro: R_trans)
    let ?rest = "and_then (ensureSetup out getenv (setup_of_flags f)) (\<lambda>_.
      and_then (ensureUsers out) (\<lambda>_. ensureSatellites out))"
    have "moves R ?rest" by (intro moves_intro moves_setup moves_users moves_satellites)
    with r2 have "R w (cl_out (snd (?rest c)))" unfolding moves_def by (blast intro: R_trans)
    with assms False ready Inr sign r2 show ?thesis
      by (auto simp: seed_main_def Let_def exit_status_def split: sum.splits if_splits)
  qed
qed

lemma seed_success:
  assumes "seed_main out getenv f w = Some (0, w')"
  obtains c c' where "R w (cl_out c)" "cl_base c = trim_right_slashes (fl_server f)"
    "ensureSetup out getenv (setup_of_flags f) c = (Inr (), c')" "R (cl_out c') w'"
proof -
  let ?base = "trim_right_slashes (fl_server f)"
  from assms obtain ready w1 where wait: "waitForServer out ?base (2 * minute) w = Some (ready, w1)"
    by (auto simp: seed_main_def Let_def bind_eq_Some_conv split: if_splits)
  with assms have "ready = Inr ()"
    by (cases ready) (auto simp: seed_main_def Let_def split: if_splits)
  with wait have ready: "waitForServer out ?base (2 * minute) w = Some (Inr (), w1)" by simp
  let ?c0 = "\<lparr>cl_base = ?base, cl_token = '''', cl_out = w1\<rparr>"
  let ?rest = "\<lambda>_. and_then (ensureUsers out) (\<lambda>_. ensureSatellites out)"
  from assms ready obtain c where sign: "signInAsRoot out (fl_rootPassword f) ?c0 = (Inr (), c)"
    and rest: "exit_status (and_then (ensureSetup out getenv (setup_of_flags f)) ?rest c) = (0, w')"
    by (auto simp: seed_main_def Let_def exitAlreadyConfigured_def split: if_splits sum.splits prod.splits)
  obtain res c' where ran: "ensureSetup out getenv (setup_of_flags f) c = (res, c')" by fastforce
  from rest ran have ok: "res = Inr ()" and end_state: "w' = cl_out (snd (?rest () c'))"
    by (auto simp: exit_status_def and_then_def on_result_def give_def split: sum.splits if_splits)
  have "moves R (?rest ())" by (intro moves_intro moves_users moves_satellites)
  with end_state have "R (cl_out c') w'" unfolding moves_def by blast
  moreover from movesD [OF moves_sign_in sign] waiting_moves [OF ready]
  have "R w (cl_out c)" "cl_base c = ?base" by (auto intro: R_trans)
  ultimately show ?thesis using ran ok by (intro that) simp_all
qed

end

section \<open>The seed ends\<close>

text \<open>
  What package \<open>time\<close> promises: a reading lies between the state before and after it, and
  \<open>time.Sleep\<close> pauses for at least its argument.
\<close>

locale clock_laws =
  fixes out :: "'w outside" and clock :: "'w \<Rightarrow> time"
  assumes reading: "od_now out w = (t, w') \<Longrightarrow> clock w \<le> t \<and> t \<le> clock w'"
    and sleeping: "clock w + max 0 d \<le> clock (od_sleep out d w)"
    and sending: "od_send out call w = (r, w') \<Longrightarrow> clock w \<le> clock w'"
begin

lemma clock_runs: "outside_steps out (\<lambda>w w'. clock w \<le> clock w')"
proof
  fix w d call
  show "clock w \<le> clock (snd (od_now out w))" using reading [of w] by (cases "od_now out w") fastforce
  show "clock w \<le> clock (od_sleep out d w)" using sleeping [of w d] by simp
  show "clock w \<le> clock (snd (od_send out call w))" using sending [of call w] by (cases "od_send out call w") simp
qed simp_all

lemma round_takes_time:
  assumes "wait_round out base deadline w = (None, w')"
  shows "clock w < deadline \<and> clock w + 2 * second \<le> clock w'"
proof -
  obtain now w1 where now: "od_now out w = (now, w1)" by fastforce
  obtain answer w2 where answer: "od_send out (ready_call base) w1 = (answer, w2)" by fastforce
  obtain later w3 where later: "od_now out w2 = (later, w3)" by fastforce
  from reading [OF now] sending [OF answer] reading [OF later] have "clock w \<le> clock w2" "clock w \<le> clock w3"
    by simp_all
  with sleeping [of w2 "2 * second"] sleeping [of w3 "2 * second"]
  have asleep: "clock w + 2 * second \<le> clock (od_sleep out (2 * second) w2)"
    "clock w + 2 * second \<le> clock (od_sleep out (2 * second) w3)"
    by (simp_all add: second_def)
  from assms have "now < deadline"
    by (auto simp: wait_round_def now before_def split: if_splits)
  with reading [OF now] have "clock w < deadline" by simp
  moreover from assms asleep have "clock w + 2 * second \<le> clock w'"
    by (auto simp: wait_round_def now answer later split: if_splits sum.splits)
  ultimately show ?thesis ..
qed

lemma wait_loop_returns: "\<exists>z. wait_loop out base deadline w = Some z"
proof (induction "nat (deadline - clock w)" arbitrary: w rule: less_induct)
  case less
  obtain r w1 where round: "wait_round out base deadline w = (r, w1)" by fastforce
  show ?case
  proof (cases r)
    case None
    with round_takes_time round have "nat (deadline - clock w1) < nat (deadline - clock w)"
      by (fastforce simp: second_def)
    from less [OF this] round None show ?thesis by (subst wait_loop.simps) simp
  next
    case (Some x)
    with round show ?thesis by (subst wait_loop.simps) simp
  qed
qed

lemma seed_returns: "\<exists>z. seed_main out getenv f w = Some z"
proof -
  have "\<exists>z. waitForServer out base limit w = Some z" for base limit
    using wait_loop_returns by (simp add: waitForServer_def split: prod.split)
  then obtain r w1 where "waitForServer out (trim_right_slashes (fl_server f)) (2 * minute) w = Some (r, w1)"
    by (metis surj_pair)
  then show ?thesis by (cases r) (auto simp: seed_main_def Let_def split: sum.split prod.split)
qed

end

section \<open>What the seed takes for what\<close>

text \<open>
  Any failure of the two logins counts as a foreign password, also a network that is down.
\<close>

lemma outage_counts_as_configured:
  assumes "\<And>call w. \<exists>e w'. od_send out call w = (Inl e, w')"
  shows "\<exists>e c'. signInAsRoot out password c = (Inl e, c') \<and> is_already_configured e"
proof -
  have fails: "\<exists>e c'. login out u p c = (Inl e, c')" for u p and c :: "'a client"
  proof -
    let ?call = "\<lparr>ca_Method = ''POST'', ca_URL = cl_base c @ ''/api/auth/login'',
      ca_Header = call_header (Some [(''username'', VString u), (''password'', VString p)]) (cl_token c),
      ca_Body = Some [(''username'', VString u), (''password'', VString p)]\<rparr>"
    from assms obtain e w where "od_send out ?call (cl_out c) = (Inl e, w)" by blast
    then show ?thesis unfolding login_def do_request_def by simp
  qed
  obtain e1 c1 where 1: "login out ''root'' password c = (Inl e1, c1)" using fails by blast
  obtain e2 c2 where "login out ''root'' seed_bootstrapPassword c1 = (Inl e2, c2)" using fails by blast
  with 1 show ?thesis by (simp add: signInAsRoot_def on_result_def give_def)
qed

text \<open>
  An account that is there already is passed over, also one that an interrupted run has left with
  its initial password.
\<close>

lemma existing_account_passed_over:
  assumes "do_request out ''POST'' ''/api/users''
      (Some [(''username'', VString (su_Username u)), (''password'', VString (su_Password u @ ''-initial'')),
         (''role'', VString (su_Role u))]) (NoTarget ()) (c\<lparr>cl_token := t\<rparr>) = (Inl e, c')"
    and "isConflict e"
  shows "ensure_each_user out t (u # us) c = ensure_each_user out t us c'"
  using assms by (simp add: Let_def set_token_def on_result_def)

end
