(* ===== verification/Seed_Network.thy ===== *)
theory Seed_Network
  imports Seed_Props
begin

text \<open>
  The seed and the server together: the server of \<open>Startup\<close> behind a network that takes its time,
  refuses connections and loses answers.  The seed always ends; what it did is a sequence of
  statements of the server; and when it reports success, the station is set up.
\<close>

section \<open>A server behind a network\<close>

text \<open>
  \<open>nk_body\<close> is a request body as the server reads it and \<open>nk_text\<close> the text of a response; the other
  fields say how long the \<open>n\<close>th call takes and whether its connection or its answer is lost.
\<close>

record network =
  nk_base :: string
  nk_body :: "any_map \<Rightarrow> request_body"
  nk_text :: "any_val \<Rightarrow> string"
  nk_parse :: "string \<Rightarrow> json option"
  nk_fold :: "string \<Rightarrow> string"
  nk_delay :: "nat \<Rightarrow> nat"
  nk_refused :: "nat \<Rightarrow> err option"
  nk_lost :: "nat \<Rightarrow> err option"

record net =
  nt_world :: world
  nt_clock :: time
  nt_calls :: nat

definition net_tick :: "network \<Rightarrow> duration \<Rightarrow> net \<Rightarrow> net" where
  "net_tick k d n =
     n\<lparr>nt_clock := nt_clock n + max 0 d + int (nk_delay k (nt_calls n)), nt_calls := Suc (nt_calls n)\<rparr>"

definition net_request_of :: "network \<Rightarrow> seed_call \<Rightarrow> net_request" where
  "net_request_of k call =
     \<lparr>nr_Method = ca_Method call, nr_Path = drop (length (nk_base k)) (ca_URL call),
      nr_Origin = '''', nr_PreflightMethod = '''',
      nr_Request =
        \<lparr>hr_Authorization = (case map_of (ca_Header call) ''Authorization'' of None \<Rightarrow> '''' | Some v \<Rightarrow> v),
         hr_PathValue = '''', hr_Query = (\<lambda>_. ''''),
         hr_Body = (case ca_Body call of None \<Rightarrow> \<lparr>rb_Size = 0, rb_Values = [], rb_Clean = True\<rparr>
                                       | Some m \<Rightarrow> nk_body k m),
         hr_User = None, hr_Token = None\<rparr>\<rparr>"

definition reply_of :: "network \<Rightarrow> http_response \<Rightarrow> seed_reply" where
  "reply_of k rsp =
     \<lparr>re_Status = rp_Code rsp,
      re_Body = (case rp_Content rsp of NoContent \<Rightarrow> '''' | Document v \<Rightarrow> nk_text k v | FileContent b \<Rightarrow> b)\<rparr>"

definition net_send ::
  "network \<Rightarrow> (net_request \<Rightarrow> http_response repo) \<Rightarrow> seed_call \<Rightarrow> net \<Rightarrow> (err + seed_reply) \<times> net" where
  "net_send k server call n =
     (let i = nt_calls n; n1 = net_tick k 0 n in
      case nk_refused k i of
        Some e \<Rightarrow> (Inl e, n1)
      | None \<Rightarrow>
          if \<not> has_prefix (ca_URL call) (nk_base k) then (Inl (ErrText ''connection refused''), n1)
          else case server (net_request_of k call) (nt_world n) of
            (Inl e, w) \<Rightarrow> (Inl e, n1\<lparr>nt_world := w\<rparr>)
          | (Inr rsp, w) \<Rightarrow>
              ((case nk_lost k i of Some e \<Rightarrow> Inl e | None \<Rightarrow> Inr (reply_of k rsp)), n1\<lparr>nt_world := w\<rparr>))"

definition behind :: "network \<Rightarrow> (net_request \<Rightarrow> http_response repo) \<Rightarrow> net outside" where
  "behind k server =
     \<lparr>od_now = (\<lambda>n. (nt_clock n, n)), od_sleep = net_tick k, od_send = net_send k server,
      od_parse = nk_parse k, od_fold = nk_fold k\<rparr>"

definition server_http :: "machine \<Rightarrow> running_server \<Rightarrow> net_request \<Rightarrow> http_response repo" where
  "server_http m sv =
     WithCORS (mc_parse_url m) (rs_Cors sv) (mux (rs_Http sv) (cfg_WebDir (rs_Config sv)) (mc_web m))"

lemma net_tick_sel [simp]:
  "nt_world (net_tick k d n) = nt_world n"
  "nt_clock (net_tick k d n) = nt_clock n + max 0 d + int (nk_delay k (nt_calls n))"
  by (simp_all add: net_tick_def)

interpretation networked: clock_laws "behind k server" nt_clock for k server
proof
  fix w w' :: net and t d call r
  show "od_now (behind k server) w = (t, w') \<Longrightarrow> nt_clock w \<le> t \<and> t \<le> nt_clock w'"
    by (auto simp: behind_def)
  show "nt_clock w + max 0 d \<le> nt_clock (od_sleep (behind k server) d w)"
    by (simp add: behind_def)
  show "od_send (behind k server) call w = (r, w') \<Longrightarrow> nt_clock w \<le> nt_clock w'"
    by (auto simp: behind_def net_send_def Let_def split: option.splits if_splits prod.splits sum.splits)
qed

lemma net_send_moves:
  assumes "\<And>rq. guar G (server rq)" and "\<And>d. G d d"
  shows "G (db (nt_world n)) (db (nt_world (snd (net_send k server call n))))"
proof -
  obtain z w where run: "server (net_request_of k call) (nt_world n) = (z, w)" by fastforce
  from guarD [OF assms(1) run] assms(2) run show ?thesis
    by (auto simp: net_send_def Let_def split: option.split sum.split)
qed

definition net_steps :: "net \<Rightarrow> net \<Rightarrow> bool" where
  "net_steps n n' \<longleftrightarrow> sql_step\<^sup>*\<^sup>* (db (nt_world n)) (db (nt_world n'))"

interpretation statements: outside_steps "behind k (server_http m sv)" net_steps for k m sv
proof
  have "guar sql_step\<^sup>*\<^sup>* (server_http m sv rq)" for rq
    unfolding server_http_def by (intro steps.WithCORS steps.mux)
  then show "net_steps n (snd (od_send (behind k (server_http m sv)) call n))" for n call
    by (simp add: behind_def net_steps_def net_send_moves)
qed (auto simp: net_steps_def behind_def)

section \<open>The setup over the network\<close>

lemma WithCORS_passes:
  assumes "WithCORS parse_url opts h rq w = (Inr rsp, w')" and "nr_Method rq \<noteq> ''OPTIONS''"
  obtains rsp0 where "h rq w = (Inr rsp0, w')" "rp_Code rsp0 = rp_Code rsp" "rp_Content rsp0 = rp_Content rsp"
  using assms
  by (auto simp: WithCORS_def Let_def attempt_Inr ret_eq add_header_def split: if_splits)

lemma setup_routes:
  "find (route_matches ''GET'' ''/api/setup'') (routes s) =
     Some (handle_route ''GET'' ''/api/setup'' Authenticated handleSetupStatus)"
  "find (route_matches ''POST'' ''/api/setup'') (routes s) =
     Some (handle_route ''POST'' ''/api/setup'' Authenticated (handleSetup s))"
  by (simp_all add: routes_def route_matches_def method_matches_def match_path_def is_wildcard_def)

lemma setup_match: "match_path ''/api/setup'' ''/api/setup'' = Some ''''"
  by (simp add: match_path_def is_wildcard_def)

lemma admitted:
  assumes "apply_gate g h r w = (Inr rsp, w')" and "g \<noteq> Open" and "rp_Code rsp < 400"
  obtains u w1 where "h (with_context r u) w1 = (Inr rsp, w')"
proof (rule gate_cases [OF assms(1,2)])
  fix rsp'
  assume "(Inr rsp :: err + http_response) = Inr rsp'" and "rp_Code rsp' \<in> {401, 403, 500}"
  with assms(3) show thesis by auto
qed (rule that)

lemma status_answer:
  assumes "server_http m sv rq w = (Inr rsp, w')" and "nr_Method rq = ''GET''"
    and "nr_Path rq = ''/api/setup''" and "rp_Code rsp < 400"
  obtains doc where "rp_Content rsp = Document (VObject doc)"
    "map_of doc ''initialized'' = Some (VBool (t_initialized_at (db w') \<noteq> None))"
proof -
  from assms(1,2) obtain rsp0 where run: "mux (rs_Http sv) (cfg_WebDir (rs_Config sv)) (mc_web m) rq w = (Inr rsp0, w')"
    and same: "rp_Code rsp0 = rp_Code rsp" "rp_Content rsp0 = rp_Content rsp"
    unfolding server_http_def by (auto elim: WithCORS_passes)
  from run assms(2,3) have "apply_gate Authenticated handleSetupStatus
      ((nr_Request rq)\<lparr>hr_PathValue := '''', hr_User := None, hr_Token := None\<rparr>) w = (Inr rsp0, w')"
    by (simp add: mux_def setup_routes setup_match)
  then obtain u w1 where "handleSetupStatus
      (with_context ((nr_Request rq)\<lparr>hr_PathValue := '''', hr_User := None, hr_Token := None\<rparr>) u) w1 = (Inr rsp0, w')"
    by (rule admitted) (use same assms(4) in simp_all)
  with same assms(4) obtain moment where look: "SystemInitializedAt w1 = (Inr moment, w')"
    and rsp: "rsp0 = writeJSON 200 ([(''initialized'', VBool (moment \<noteq> None))] @ opt_field ''initialized_at'' VTime moment)"
    by (auto simp: handleSetupStatus_def or_500_eq ret_eq split: sum.splits)
  from look have marker: "moment = t_initialized_at (db w')"
    by (auto simp: SystemInitializedAt_def query_Inr select_Inr)
  let ?doc = "[(''initialized'', VBool (moment \<noteq> None))] @ opt_field ''initialized_at'' VTime moment"
  have "rp_Content rsp = Document (VObject ?doc)" using rsp same(2) by (simp add: writeJSON_def)
  moreover have "map_of ?doc ''initialized'' = Some (VBool (t_initialized_at (db w') \<noteq> None))"
    using marker by simp
  ultimately show ?thesis by (rule that)
qed

lemma setup_answer:
  assumes "server_http m sv rq w = (Inr rsp, w')" and "nr_Method rq = ''POST''"
    and "nr_Path rq = ''/api/setup''" and "rp_Code rsp < 400"
  shows "t_initialized_at (db w') \<noteq> None"
proof -
  from assms(1,2) obtain rsp0 where run: "mux (rs_Http sv) (cfg_WebDir (rs_Config sv)) (mc_web m) rq w = (Inr rsp0, w')"
    and same: "rp_Code rsp0 = rp_Code rsp"
    unfolding server_http_def by (auto elim: WithCORS_passes)
  from run assms(2,3) have "apply_gate Authenticated (handleSetup (rs_Http sv))
      ((nr_Request rq)\<lparr>hr_PathValue := '''', hr_User := None, hr_Token := None\<rparr>) w = (Inr rsp0, w')"
    by (simp add: mux_def setup_routes setup_match)
  then obtain u w1 where "handleSetup (rs_Http sv)
      (with_context ((nr_Request rq)\<lparr>hr_PathValue := '''', hr_User := None, hr_Token := None\<rparr>) u) w1 = (Inr rsp0, w')"
    by (rule admitted) (use same assms(4) in simp_all)
  then show ?thesis
    by (cases rule: handleSetup_cases) (use same assms(4) in auto)
qed

lemma do_request_Inr:
  assumes "do_request (behind k server) meth path body target c = (Inr x, c')" and "cl_base c = nk_base k"
  obtains rq rsp where "server rq (nt_world (cl_out c)) = (Inr rsp, nt_world (cl_out c'))"
    "nr_Method rq = meth" "nr_Path rq = path" "rp_Code rsp < 400"
    "read_answer (behind k server) target (reply_of k rsp) = Inr x"
proof -
  let ?call = "\<lparr>ca_Method = meth, ca_URL = cl_base c @ path, ca_Header = call_header body (cl_token c),
    ca_Body = body\<rparr>"
  let ?rq = "net_request_of k ?call"
  obtain z w where run: "server ?rq (nt_world (cl_out c)) = (z, w)" by fastforce
  from assms run obtain rsp where "z = Inr rsp" "nt_world (cl_out c') = w"
    and ans: "read_answer (behind k server) target (reply_of k rsp) = Inr x"
    by (auto simp: do_request_def behind_def net_send_def Let_def split: option.splits sum.splits if_splits)
  moreover from ans have "rp_Code rsp < 400"
    by (auto simp: read_answer_def reply_of_def split: if_splits option.splits)
  moreover have "nr_Method ?rq = meth" "nr_Path ?rq = path"
    by (simp_all add: net_request_of_def assms(2))
  ultimately show ?thesis using run by (intro that) simp_all
qed

text \<open>What the JSON library keeps of the answer to a request for the status.\<close>

definition keeps_status :: "network \<Rightarrow> bool" where
  "keeps_status k \<longleftrightarrow> (\<forall>doc b c. map_of doc ''initialized'' = Some (VBool b) \<longrightarrow>
     Option.bind (nk_parse k (nk_text k (VObject doc))) (decode_setup_status (nk_fold k)) = Some c \<longrightarrow> c = b)"

lemma ensureSetup_done:
  assumes "ensureSetup (behind k (server_http m sv)) getenv rq c = (Inr (), c')"
    and "cl_base c = nk_base k" and "keeps_status k"
  shows "t_initialized_at (db (nt_world (cl_out c'))) \<noteq> None"
proof -
  let ?out = "behind k (server_http m sv)"
  let ?ask = "do_request ?out ''GET'' ''/api/setup'' None (DecodeInto False (decode_setup_status (od_fold ?out)))"
  let ?tell = "do_request ?out ''POST'' ''/api/setup'' (Some (seed_setup_body getenv rq)) (NoTarget ())"
  obtain r c1 where ask: "?ask c = (r, c1)" by fastforce
  obtain z c2 where tell: "?tell c1 = (z, c2)" by fastforce
  from ask assms(1) obtain b where r: "r = Inr b"
    by (auto simp: ensureSetup_def and_then_def described_def on_result_def give_def split: sum.splits)
  show ?thesis
  proof (cases b)
    case True
    with ask r assms(1) have "c' = c1"
      by (auto simp: ensureSetup_def and_then_def described_def on_result_def give_def)
    from ask have "?ask c = (Inr True, c1)" using r True by simp
    then show ?thesis
    proof (rule do_request_Inr [OF _ assms(2)])
      fix q rsp
      assume served: "server_http m sv q (nt_world (cl_out c)) = (Inr rsp, nt_world (cl_out c1))"
        "nr_Method q = ''GET''" "nr_Path q = ''/api/setup''" "rp_Code rsp < 400"
        and ans: "read_answer ?out (DecodeInto False (decode_setup_status (od_fold ?out))) (reply_of k rsp) = Inr True"
      from served obtain doc where "rp_Content rsp = Document (VObject doc)"
        and doc: "map_of doc ''initialized'' = Some (VBool (t_initialized_at (db (nt_world (cl_out c1))) \<noteq> None))"
        by (rule status_answer)
      with ans served(4) have "Option.bind (nk_parse k (nk_text k (VObject doc))) (decode_setup_status (nk_fold k)) = Some True"
        by (auto simp: read_answer_def reply_of_def behind_def split: if_splits option.splits)
      with assms(3) doc \<open>c' = c1\<close> show ?thesis unfolding keeps_status_def by blast
    qed
  next
    case False
    with ask r tell assms(1) have "z = Inr ()" "c' = c2"
      by (auto simp: ensureSetup_def and_then_def described_def on_result_def give_def split: sum.splits)
    moreover have "cl_base c1 = nk_base k"
      using movesD [OF statements.moves_do_request ask] assms(2) by simp
    ultimately show ?thesis
      using do_request_Inr [of k "server_http m sv" _ _ _ "NoTarget ()" c1 "()" c2] tell setup_answer by metis
  qed
qed

section \<open>The outcome\<close>

text \<open>
  C36.  The development seed ends with exit status 0, 1 or 3, whatever the network loses or delays and
  whatever the server answers - also when the server never becomes ready.  All it does to the
  server's tables is a sequence of the server's statements.  When it reports success, the first-run
  setup has been done.
\<close>

theorem seed_ends:
  assumes "nk_base k = trim_right_slashes (fl_server f)" and "keeps_status k"
  shows "\<exists>code n'. seed_main (behind k (server_http m sv)) getenv f n = Some (code, n') \<and>
    code \<in> {0, 1, 3} \<and> sql_step\<^sup>*\<^sup>* (db (nt_world n)) (db (nt_world n')) \<and>
    (code = 0 \<longrightarrow> t_initialized_at (db (nt_world n')) \<noteq> None)"
proof -
  let ?out = "behind k (server_http m sv)"
  obtain code n' where run: "seed_main ?out getenv f n = Some (code, n')"
    using networked.seed_returns [of k "server_http m sv" getenv f n] by fastforce
  have "t_initialized_at (db (nt_world n')) \<noteq> None" if "code = 0"
  proof -
    from run that have "seed_main ?out getenv f n = Some (0, n')" by simp
    then obtain c c' where base: "cl_base c = trim_right_slashes (fl_server f)"
      and ran: "ensureSetup ?out getenv (setup_of_flags f) c = (Inr (), c')" and rest: "net_steps (cl_out c') n'"
      by (rule statements.seed_success)
    from base assms(1) have "cl_base c = nk_base k" by simp
    from ensureSetup_done [OF ran this assms(2)] have "t_initialized_at (db (nt_world (cl_out c'))) \<noteq> None" .
    moreover from rest have "setup_once (db (nt_world (cl_out c'))) (db (nt_world n'))"
      unfolding net_steps_def by (induction rule: rtranclp_induct) (auto simp: setup_once_def dest: setup_once_step)
    ultimately show ?thesis by (auto simp: setup_once_def)
  qed
  with run statements.seed_moves [OF run] show ?thesis
    by (auto simp: net_steps_def exitAlreadyConfigured_def)
qed

text \<open>
  A run on a small system on which the accounts of the seed are there: the first connection is
  refused, and so are those for the satellites.
\<close>

fun sample_json :: "any_val \<Rightarrow> json" and sample_json_list :: "any_val list \<Rightarrow> json list"
  and sample_json_map :: "any_map \<Rightarrow> (string \<times> json) list" where
  "sample_json VNull = JNull"
| "sample_json (VBool b) = JBool b"
| "sample_json (VFloat x) = JDec x"
| "sample_json (VInt i) = JInt i"
| "sample_json (VInt64 i) = JInt i"
| "sample_json (VString s) = JString s"
| "sample_json (VTime t) = JString ''now''"
| "sample_json (VList vs) = JArray (sample_json_list vs)"
| "sample_json (VObject m) = JObject (sample_json_map m)"
| "sample_json_list [] = []"
| "sample_json_list (v # vs) = sample_json v # sample_json_list vs"
| "sample_json_map [] = []"
| "sample_json_map ((k, v) # m) = (k, sample_json v) # sample_json_map m"

fun sample_text :: "any_val \<Rightarrow> string" where
  "sample_text (VObject m) =
     (case map_of m ''initialized'' of
        Some (VBool b) \<Rightarrow> if b then ''Y'' else ''N''
      | _ \<Rightarrow> (case map_of m ''token'' of
                Some (VString t) \<Rightarrow> (if map_of m ''must_change_password'' = Some (VBool True) then ''T'' else ''F'') @ t
              | _ \<Rightarrow> ''-''))"
| "sample_text _ = ''-''"

fun sample_parse :: "string \<Rightarrow> json option" where
  "sample_parse [] = None"
| "sample_parse (c # t) =
     (if c = CHR ''Y'' \<or> c = CHR ''N'' then Some (JObject [(''initialized'', JBool (c = CHR ''Y''))])
      else if c = CHR ''T'' \<or> c = CHR ''F''
      then Some (JObject [(''token'', JString t), (''must_change_password'', JBool (c = CHR ''T''))])
      else None)"

definition sample_network :: network where
  "sample_network =
     \<lparr>nk_base = ''http://s'',
      nk_body = (\<lambda>m. \<lparr>rb_Size = 100, rb_Values = [sample_json (VObject m)], rb_Clean = True\<rparr>),
      nk_text = sample_text, nk_parse = sample_parse, nk_fold = (\<lambda>s. s), nk_delay = (\<lambda>_. 5),
      nk_refused = (\<lambda>i. if i = 0 \<or> 7 \<le> i then Some ErrContext else None), nk_lost = (\<lambda>_. None)\<rparr>"

definition one_key :: idkey where
  "one_key password salt t m th n = ''k''"

definition seeded_user :: "uuid \<Rightarrow> string \<Rightarrow> user_role \<Rightarrow> user" where
  "seeded_user i name role = (sample_user i name role)\<lparr>u_PasswordHash := encode_hash 2 ''s'' ''k''\<rparr>"

definition seeded_net :: net where
  "seeded_net =
     \<lparr>nt_world = world_with 0 (empty_database\<lparr>t_initialized_at := Some 0,
        t_users := [seeded_user 1 ''root'' RoleRoot, seeded_user 2 ''operator'' RoleUser,
                    seeded_user 3 ''approver'' RoleAdmin]\<rparr>),
      nt_clock = 0, nt_calls = 0\<rparr>"

definition seeded_config :: config where
  "seeded_config =
     \<lparr>cfg_Environment = '''', cfg_LogLevel = '''', cfg_HTTPAddress = '''', cfg_GRPCAddress = '''',
      cfg_PostgresURL = '''', cfg_RedisURL = '''', cfg_MongoURL = '''', cfg_MongoDB = '''',
      cfg_PredictionAddress = '''', cfg_RecordingsDir = ''/r'', cfg_PipelinesDir = ''/p'', cfg_WebDir = '''',
      cfg_CelestrakURL = '''', cfg_SatNOGSURL = '''', cfg_TLERefreshEnabled = False,
      cfg_WorkerSharedSecret = '''', cfg_AllowedOrigins = [], cfg_TLSCertFile = '''', cfg_TLSKeyFile = '''',
      cfg_StartupTimeout = second, cfg_SessionTTL = hour\<rparr>"

definition seeded_server :: running_server where
  "seeded_server = assembled (sample_machine\<lparr>mc_idkey := one_key, mc_backend := (\<lambda>_ _ _. Inl ErrContext),
       mc_codec := \<lparr>co_marshal = (\<lambda>_. None), co_unmarshal = (\<lambda>_. None)\<rparr>\<rparr>) seeded_config
     \<lparr>fs_recordingsRoot = ''/r'', fs_pipelinesRoot = ''/p''\<rparr>"

definition sample_flags :: seed_flags where
  "sample_flags = default_flags\<lparr>fl_server := ''http://s/'', fl_rootPassword := ''abcdefghijkl''\<rparr>"

definition sample_seeding :: "(int \<times> net) option" where
  "sample_seeding =
     seed_main (behind sample_network (server_http sample_machine seeded_server)) (\<lambda>_. '''') sample_flags seeded_net"

lemma sample_seeding_status: "map_option fst sample_seeding = Some 0"
  by code_simp

lemma sample_network_keeps_status: "keeps_status sample_network"
  unfolding keeps_status_def
proof (intro allI impI)
  fix doc b c
  assume "map_of doc ''initialized'' = Some (VBool b)"
    and "Option.bind (nk_parse sample_network (nk_text sample_network (VObject doc)))
      (decode_setup_status (nk_fold sample_network)) = Some c"
  then show "c = b"
    by (cases b) (simp_all add: sample_network_def decode_setup_status_def lenient_fields_def plain_def)
qed

lemma seed_ends_witness:
  "\<exists>n'. seed_main (behind sample_network (server_http sample_machine seeded_server)) (\<lambda>_. '''') sample_flags seeded_net =
     Some (0, n') \<and> t_initialized_at (db (nt_world n')) \<noteq> None"
proof -
  have "nk_base sample_network = trim_right_slashes (fl_server sample_flags)"
    by (simp add: sample_network_def sample_flags_def trim_right_slashes_def)
  from seed_ends [OF this sample_network_keeps_status, of sample_machine seeded_server "\<lambda>_. ''''" seeded_net]
  obtain code n' where run: "seed_main (behind sample_network (server_http sample_machine seeded_server)) (\<lambda>_. '''')
      sample_flags seeded_net = Some (code, n')"
    and outcome: "code = 0 \<longrightarrow> t_initialized_at (db (nt_world n')) \<noteq> None"
    by blast
  from run sample_seeding_status have "code = 0" by (simp add: sample_seeding_def)
  with run outcome show ?thesis by blast
qed

end
