(* ===== verification/Migrate.thy ===== *)
theory Migrate
  imports Config
begin

text \<open>
  The administration of the data stores: the migrations (\<open>internal/store/migrate.go\<close>), the
  collections of MongoDB (\<open>internal/store/mongo.go\<close>) and the command that runs them
  (\<open>cmd/aagasa-migrate/main.go\<close>).  The libraries - \<open>database/sql\<close>, goose, the MongoDB driver - are
  an argument over any state \<open>'s\<close> of the servers; the model counts the handles that are open.
\<close>

section \<open>Libraries\<close>

record index_model =
  ix_Keys :: "(string \<times> int) list"
  ix_Name :: string
  ix_Unique :: bool
  ix_ExpireAfterSeconds :: "int option"

record 's store_tools =
  tl_Open :: "string \<Rightarrow> err + unit"
  tl_SetDialect :: "string \<Rightarrow> err + unit"
  tl_Up :: "string \<Rightarrow> 's \<Rightarrow> (err + unit) \<times> 's"
  tl_DownTo :: "string \<Rightarrow> int \<Rightarrow> 's \<Rightarrow> (err + unit) \<times> 's"
  tl_GetDBVersion :: "string \<Rightarrow> 's \<Rightarrow> (err + int) \<times> 's"
  tl_Connect :: "string \<Rightarrow> err + unit"
  tl_CreateMany :: "string \<Rightarrow> string \<Rightarrow> string \<Rightarrow> index_model list \<Rightarrow> 's \<Rightarrow> (err + unit) \<times> 's"

record 's desk =
  dk_Handles :: nat
  dk_Servers :: 's

type_synonym ('s, 'a) tool = "'s desk \<Rightarrow> (err + 'a) \<times> 's desk"

definition opened :: "'s desk \<Rightarrow> 's desk" where "opened d = d\<lparr>dk_Handles := Suc (dk_Handles d)\<rparr>"
definition closed :: "'s desk \<Rightarrow> 's desk" where "closed d = d\<lparr>dk_Handles := dk_Handles d - 1\<rparr>"

definition library :: "string \<Rightarrow> ('s \<Rightarrow> (err + 'a) \<times> 's) \<Rightarrow> ('s, 'a) tool" where
  "library msg f d =
     (case f (dk_Servers d) of (r, s) \<Rightarrow>
        (case r of Inl e \<Rightarrow> Inl (ErrWrap msg e) | Inr x \<Rightarrow> Inr x, d\<lparr>dk_Servers := s\<rparr>))"

definition tool_then :: "('s, 'a) tool \<Rightarrow> ('a \<Rightarrow> ('s, 'b) tool) \<Rightarrow> ('s, 'b) tool" where
  "tool_then m k d = (case m d of (Inl e, d') \<Rightarrow> (Inl e, d') | (Inr x, d') \<Rightarrow> k x d')"

text \<open>\<open>defer db.Close()\<close>.\<close>

definition deferring_close :: "('s, 'a) tool \<Rightarrow> ('s, 'a) tool" where
  "deferring_close m d = (case m d of (r, d') \<Rightarrow> (r, closed d'))"

section \<open>internal/store/migrate.go\<close>

definition newMigrationProvider :: "'s store_tools \<Rightarrow> string \<Rightarrow> ('s, unit) tool" where
  "newMigrationProvider t databaseURL d =
     (case tl_Open t databaseURL of
        Inl e \<Rightarrow> (Inl (ErrWrap ''open database'' e), d)
      | Inr _ \<Rightarrow>
          (case tl_SetDialect t ''postgres'' of
             Inl e \<Rightarrow> (Inl (ErrWrap ''set dialect'' e), closed (opened d))
           | Inr _ \<Rightarrow> (Inr (), opened d)))"

definition MigrateUp :: "'s store_tools \<Rightarrow> string \<Rightarrow> ('s, unit) tool" where
  "MigrateUp t databaseURL =
     tool_then (newMigrationProvider t databaseURL) (\<lambda>_.
       deferring_close (library ''apply migrations'' (tl_Up t databaseURL)))"

definition MigrateDownTo :: "'s store_tools \<Rightarrow> string \<Rightarrow> int \<Rightarrow> ('s, unit) tool" where
  "MigrateDownTo t databaseURL version =
     tool_then (newMigrationProvider t databaseURL) (\<lambda>_.
       deferring_close (library ''roll back migrations'' (tl_DownTo t databaseURL version)))"

definition MigrationVersion :: "'s store_tools \<Rightarrow> string \<Rightarrow> ('s, int) tool" where
  "MigrationVersion t databaseURL =
     tool_then (newMigrationProvider t databaseURL) (\<lambda>_.
       deferring_close (library ''read schema version'' (tl_GetDBVersion t databaseURL)))"

section \<open>internal/store/mongo.go\<close>

definition CollectionPassExecutions :: string where "CollectionPassExecutions = ''pass_executions''"
definition CollectionWorkerTelemetry :: string where "CollectionWorkerTelemetry = ''worker_telemetry''"

definition TelemetryRetention :: duration where "TelemetryRetention = 14 * 24 * hour"

record pass_execution =
  pe_PassID :: string
  pe_WorkerID :: string
  pe_StationID :: string
  pe_SatelliteID :: string
  pe_StartedAt :: time
  pe_EndedAt :: "time option"
  pe_Outcome :: string
  pe_Details :: any_map

record worker_telemetry =
  wt_WorkerID :: string
  wt_StationID :: string
  wt_RecordedAt :: time
  wt_Measurements :: any_map

definition execution_indexes :: "index_model list" where
  "execution_indexes =
     [\<lparr>ix_Keys = [(''pass_id'', 1), (''started_at'', 1)], ix_Name = ''pass_execution_attempt'',
       ix_Unique = True, ix_ExpireAfterSeconds = None\<rparr>,
      \<lparr>ix_Keys = [(''station_id'', 1), (''started_at'', -1)], ix_Name = ''station_recent_executions'',
       ix_Unique = False, ix_ExpireAfterSeconds = None\<rparr>]"

text \<open>\<open>int32(TelemetryRetention.Seconds())\<close>: whole seconds, an exact floating-point number.\<close>

definition telemetry_indexes :: "index_model list" where
  "telemetry_indexes =
     [\<lparr>ix_Keys = [(''worker_id'', 1), (''recorded_at'', -1)], ix_Name = ''worker_recent_telemetry'',
       ix_Unique = False, ix_ExpireAfterSeconds = None\<rparr>,
      \<lparr>ix_Keys = [(''recorded_at'', 1)], ix_Name = ''telemetry_expiry'', ix_Unique = False,
       ix_ExpireAfterSeconds = Some (sint (word_of_int (TelemetryRetention div second) :: 32 word))\<rparr>]"

definition EnsureMongoCollections :: "'s store_tools \<Rightarrow> string \<Rightarrow> string \<Rightarrow> ('s, unit) tool" where
  "EnsureMongoCollections t mongoURL databaseName =
     tool_then (library (''create '' @ CollectionPassExecutions @ '' indexes'')
       (tl_CreateMany t mongoURL databaseName CollectionPassExecutions execution_indexes)) (\<lambda>_.
     tool_then (library (''create '' @ CollectionWorkerTelemetry @ '' indexes'')
       (tl_CreateMany t mongoURL databaseName CollectionWorkerTelemetry telemetry_indexes)) (\<lambda>_ d.
     (Inr (), d)))"

definition EnsureMongoDatabase :: "'s store_tools \<Rightarrow> string \<Rightarrow> string \<Rightarrow> ('s, unit) tool" where
  "EnsureMongoDatabase t mongoURL databaseName d =
     (case tl_Connect t mongoURL of
        Inl e \<Rightarrow> (Inl (ErrWrap ''connect mongodb'' e), d)
      | Inr _ \<Rightarrow> deferring_close (EnsureMongoCollections t mongoURL databaseName) (opened d))"

section \<open>cmd/aagasa-migrate/main.go\<close>

text \<open>The value of a successful run is the line it prints.\<close>

definition usage_error :: "string \<Rightarrow> ('s, string) tool" where
  "usage_error msg d = (Inl (ErrText msg), d)"

definition print_version :: "'s store_tools \<Rightarrow> string \<Rightarrow> ('s, string) tool" where
  "print_version t databaseURL =
     tool_then (MigrationVersion t databaseURL) (\<lambda>version d. (Inr (''schema version '' @ decimal version), d))"

definition run_migrate :: "'s store_tools \<Rightarrow> environment \<Rightarrow> string list \<Rightarrow> ('s, string) tool" where
  "run_migrate t getenv args =
     (let databaseURL = getenv ''AAGASA_POSTGRES_URL'' in
      if databaseURL = '''' then usage_error ''AAGASA_POSTGRES_URL is not set''
      else case args of
        [] \<Rightarrow> usage_error ''usage: aagasa-migrate up|version|mongo-init|down-to <version>''
      | command # rest \<Rightarrow>
          if command = ''up''
          then tool_then (MigrateUp t databaseURL) (\<lambda>_. print_version t databaseURL)
          else if command = ''version'' then print_version t databaseURL
          else if command = ''mongo-init''
          then (let mongoURL = getenv ''AAGASA_MONGO_URL'';
                    name = getenv ''AAGASA_MONGO_DATABASE'';
                    databaseName = (if name = '''' then ''aagasa'' else name)
                in if mongoURL = '''' then usage_error ''AAGASA_MONGO_URL is not set''
                   else tool_then (EnsureMongoDatabase t mongoURL databaseName)
                     (\<lambda>_ d. (Inr (''mongodb collections ready in '' @ databaseName), d)))
          else if command = ''down-to''
          then (case rest of
                  [arg] \<Rightarrow>
                    (case Atoi arg of
                       None \<Rightarrow> usage_error ''version must be a number''
                     | Some version \<Rightarrow>
                         tool_then (MigrateDownTo t databaseURL version) (\<lambda>_ d. (Inr '''', d)))
                | _ \<Rightarrow> usage_error ''usage: aagasa-migrate down-to <version>'')
          else usage_error (''unknown command: '' @ command))"

definition migrate_exit_status :: "(err + string) \<times> 's desk \<Rightarrow> int" where
  "migrate_exit_status r = (if is_ok (fst r) then 0 else 1)"

section \<open>Handles and effects\<close>

text \<open>\<open>settles R m\<close>: every handle that \<open>m\<close> opens is closed again, and the servers move along \<open>R\<close>.\<close>

definition settles :: "('s \<Rightarrow> 's \<Rightarrow> bool) \<Rightarrow> ('s, 'a) tool \<Rightarrow> bool" where
  "settles R m \<longleftrightarrow>
     (\<forall>d. dk_Handles (snd (m d)) = dk_Handles d \<and> R (dk_Servers d) (dk_Servers (snd (m d))))"

lemma handle_sel [simp]:
  "dk_Servers (opened d) = dk_Servers d" "dk_Servers (closed d) = dk_Servers d"
  "dk_Handles (opened d) = Suc (dk_Handles d)" "dk_Handles (closed d) = dk_Handles d - 1"
  by (simp_all add: opened_def closed_def)

lemma settlesD:
  "settles R m \<Longrightarrow> m d = (r, d') \<Longrightarrow> dk_Handles d' = dk_Handles d \<and> R (dk_Servers d) (dk_Servers d')"
  unfolding settles_def by (metis snd_conv)

text \<open>The relation of the servers that the libraries keep.\<close>

locale tool_effects =
  fixes R :: "'s \<Rightarrow> 's \<Rightarrow> bool"
  assumes effect_refl: "R s s"
    and effect_trans: "R s1 s2 \<Longrightarrow> R s2 s3 \<Longrightarrow> R s1 s3"
begin

lemma settles_library: "(\<And>s. R s (snd (f s))) \<Longrightarrow> settles R (library msg f)"
  by (auto simp: settles_def library_def split: prod.split) (metis snd_conv)

lemma settles_then:
  assumes "settles R m" and "\<And>x. settles R (k x)"
  shows "settles R (tool_then m k)"
  unfolding settles_def
proof
  fix d
  obtain r d1 where m: "m d = (r, d1)" by fastforce
  note 1 = settlesD [OF assms(1) m]
  show "dk_Handles (snd (tool_then m k d)) = dk_Handles d \<and>
    R (dk_Servers d) (dk_Servers (snd (tool_then m k d)))"
  proof (cases r)
    case (Inl e)
    with 1 m show ?thesis by (simp add: tool_then_def)
  next
    case (Inr x)
    obtain z d2 where k: "k x d1 = (z, d2)" by fastforce
    from settlesD [OF assms(2) k] 1 m Inr k show ?thesis
      by (auto simp: tool_then_def intro: effect_trans)
  qed
qed

lemma settles_return: "settles R (\<lambda>d. (r, d))"
  by (simp add: settles_def effect_refl)

lemma settles_provider:
  assumes "settles R m"
  shows "settles R (tool_then (newMigrationProvider t url) (\<lambda>_. deferring_close m))"
proof -
  have "dk_Handles d' = Suc (dk_Handles d) \<and> R (dk_Servers d) (dk_Servers d')" if "m (opened d) = (r, d')" for d d' r
    using settlesD [OF assms that] by simp
  then show ?thesis
    by (auto simp: settles_def tool_then_def newMigrationProvider_def deferring_close_def effect_refl
        split: sum.split prod.split)
qed

lemma settles_mongo:
  assumes "\<And>c ix s. R s (snd (tl_CreateMany t url name c ix s))"
  shows "settles R (EnsureMongoDatabase t url name)"
proof -
  have "settles R (EnsureMongoCollections t url name)"
    unfolding EnsureMongoCollections_def
    by (intro settles_then settles_library settles_return assms)
  from settlesD [OF this] have "dk_Handles d' = Suc (dk_Handles d) \<and> R (dk_Servers d) (dk_Servers d')"
    if "EnsureMongoCollections t url name (opened d) = (r, d')" for d d' r
    using that by fastforce
  then show ?thesis
    by (auto simp: settles_def EnsureMongoDatabase_def deferring_close_def effect_refl
        split: sum.split prod.split)
qed

lemma settles_version:
  assumes "\<And>s. R s (snd (tl_GetDBVersion t url s))"
  shows "settles R (print_version t url)"
  unfolding print_version_def MigrationVersion_def
  by (intro settles_then settles_return settles_provider settles_library assms)

lemma settles_run:
  assumes "\<And>s. R s (snd (tl_Up t (getenv ''AAGASA_POSTGRES_URL'') s))"
    and "\<And>v s. R s (snd (tl_DownTo t (getenv ''AAGASA_POSTGRES_URL'') v s))"
    and "\<And>s. R s (snd (tl_GetDBVersion t (getenv ''AAGASA_POSTGRES_URL'') s))"
    and "\<And>url name c ix s. R s (snd (tl_CreateMany t url name c ix s))"
  shows "settles R (run_migrate t getenv args)"
proof -
  let ?url = "getenv ''AAGASA_POSTGRES_URL''"
  have usage: "settles R (usage_error msg)" for msg :: string
    by (simp add: settles_def usage_error_def effect_refl)
  have up: "settles R (tool_then (MigrateUp t ?url) (\<lambda>_. print_version t ?url))"
    unfolding MigrateUp_def by (intro settles_then settles_provider settles_library settles_version assms)
  have down: "settles R (tool_then (MigrateDownTo t ?url v) (\<lambda>_ d. (Inr '''', d)))" for v
    unfolding MigrateDownTo_def by (intro settles_then settles_return settles_provider settles_library assms)
  have mongo: "settles R (tool_then (EnsureMongoDatabase t u n) (\<lambda>_ d. (Inr line, d)))" for u n and line :: string
    by (intro settles_then settles_return settles_mongo assms)
  show ?thesis
    unfolding run_migrate_def Let_def
    by (auto simp: usage up down mongo settles_version assms split: list.split option.split)
qed

end

text \<open>What a run does to the servers is a sequence of calls of the libraries.\<close>

inductive library_call :: "'s store_tools \<Rightarrow> 's \<Rightarrow> 's \<Rightarrow> bool" for t :: "'s store_tools" where
  up: "library_call t s (snd (tl_Up t url s))"
| down_to: "library_call t s (snd (tl_DownTo t url v s))"
| version: "library_call t s (snd (tl_GetDBVersion t url s))"
| create_many: "library_call t s (snd (tl_CreateMany t url name c ix s))"

interpretation calls: tool_effects "(library_call t)\<^sup>*\<^sup>*" for t :: "'s store_tools"
  by unfold_locales auto

lemma migrate_settles:
  assumes "run_migrate t getenv args d = (r, d')"
  shows "dk_Handles d' = dk_Handles d \<and> (library_call t)\<^sup>*\<^sup>* (dk_Servers d) (dk_Servers d')"
proof -
  have "settles (library_call t)\<^sup>*\<^sup>* (run_migrate t getenv args)"
    by (rule calls.settles_run) (blast intro: library_call.intros)+
  from settlesD [OF this assms] show ?thesis .
qed

text \<open>Which runs reach a server at all.\<close>

definition reaches_servers :: "environment \<Rightarrow> string list \<Rightarrow> bool" where
  "reaches_servers getenv args \<longleftrightarrow>
     getenv ''AAGASA_POSTGRES_URL'' \<noteq> '''' \<and>
     (case args of
        [] \<Rightarrow> False
      | command # rest \<Rightarrow>
          command \<in> {''up'', ''version''} \<or>
          command = ''mongo-init'' \<and> getenv ''AAGASA_MONGO_URL'' \<noteq> '''' \<or>
          command = ''down-to'' \<and> (\<exists>arg. rest = [arg] \<and> Atoi arg \<noteq> None))"

lemma migrate_usage_errors:
  assumes "\<not> reaches_servers getenv args"
  shows "\<exists>msg. run_migrate t getenv args d = (Inl (ErrText msg), d)"
proof (cases "getenv ''AAGASA_POSTGRES_URL'' = '''' \<or> args = []")
  case True
  then show ?thesis by (cases args) (auto simp: run_migrate_def usage_error_def Let_def)
next
  case False
  then obtain command rest where args: "args = command # rest" by (cases args) auto
  consider "command = ''mongo-init''" | "command = ''down-to''"
    | "command \<notin> {''up'', ''version'', ''mongo-init'', ''down-to''}"
    using assms False by (auto simp: reaches_servers_def args)
  then show ?thesis
  proof cases
    case 1
    then show ?thesis using assms False by (simp add: reaches_servers_def args run_migrate_def usage_error_def)
  next
    case 2
    then show ?thesis using assms False
      by (auto simp: reaches_servers_def args run_migrate_def usage_error_def split: list.split option.split)
  next
    case 3
    then show ?thesis using False by (simp add: args run_migrate_def usage_error_def)
  qed
qed

text \<open>A rollback that succeeds has rolled back to the version that was typed, with one call of goose.\<close>

lemma migrate_down_to:
  assumes "run_migrate t getenv [''down-to'', arg] d = (Inr line, d')"
  shows "\<exists>v. Atoi arg = Some v \<and> tl_DownTo t (getenv ''AAGASA_POSTGRES_URL'') v (dk_Servers d) = (Inr (), dk_Servers d')"
  using assms
  by (auto simp: run_migrate_def usage_error_def MigrateDownTo_def newMigrationProvider_def tool_then_def
      deferring_close_def library_def closed_def opened_def Let_def split: if_splits option.splits sum.splits prod.splits)

text \<open>The retention fits the field of the index.\<close>

lemma telemetry_retention: "ix_ExpireAfterSeconds (telemetry_indexes ! 1) = Some 1209600"
  by (simp add: telemetry_indexes_def TelemetryRetention_def hour_def minute_def second_def)

end
