(* ===== verification/Prediction_Client.thy ===== *)
theory Prediction_Client
  imports Prediction Go_Text
begin

text \<open>
  \<open>internal/prediction/client.go\<close>: the connection to the prediction service and its health.  The
  answers of the service are arguments; the messages are those of \<open>prediction.proto\<close>, and an
  enumeration of the protocol may carry a number that has no name.
\<close>

datatype serving_status = STATUS_UNSPECIFIED | STATUS_SERVING | STATUS_NOT_SERVING | StatusNumber int

record health_response =
  hp_Status :: serving_status
  hp_Version :: string

type_synonym health_backend = "nat \<Rightarrow> err + health_response"

text \<open>\<open>String\<close> of the enumeration; the number of an unnamed value is not negative here.\<close>

fun status_text :: "serving_status \<Rightarrow> string" where
  "status_text STATUS_UNSPECIFIED = ''STATUS_UNSPECIFIED''"
| "status_text STATUS_SERVING = ''STATUS_SERVING''"
| "status_text STATUS_NOT_SERVING = ''STATUS_NOT_SERVING''"
| "status_text (StatusNumber n) = decimal n"

text \<open>The connection; \<open>grpc.NewClient\<close> checks the address only and connects on the first call.\<close>

record prediction_client =
  pc_Address :: string
  pc_Health :: health_backend
  pc_Open :: bool

definition Dial :: "(string \<Rightarrow> err + health_backend) \<Rightarrow> string \<Rightarrow> err + prediction_client" where
  "Dial new_client address =
     (case new_client address of
        Inl e \<Rightarrow> Inl (ErrWrap ''dial prediction service'' e)
      | Inr h \<Rightarrow> Inr \<lparr>pc_Address = address, pc_Health = h, pc_Open = True\<rparr>)"

definition Close_client :: "prediction_client \<Rightarrow> prediction_client" where
  "Close_client c = c\<lparr>pc_Open := False\<rparr>"

text \<open>A call over a closed connection is canceled.\<close>

definition call_health :: "prediction_client \<Rightarrow> health_response repo" where
  "call_health c =
     external (\<lambda>n. if pc_Open c then pc_Health c n else Inl (GrpcStatus ''Canceled'' ''grpc: the client connection is closing''))"

definition Health :: "prediction_client \<Rightarrow> unit repo" where
  "Health c =
     attempt (wrapping ''prediction health'' (call_health c)) (\<lambda>response.
       if hp_Status response \<noteq> STATUS_SERVING
       then fail (ErrText (''prediction service not serving: '' @ status_text (hp_Status response)))
       else ret ())"

definition Client_Version :: "prediction_client \<Rightarrow> string repo" where
  "Client_Version c =
     attempt (wrapping ''prediction health'' (call_health c)) (\<lambda>response. ret (hp_Version response))"

text \<open>The service counts as healthy exactly when it answers and says that it serves.\<close>

lemma Health_ok:
  "is_ok (fst (Health c w)) \<longleftrightarrow>
     pc_Open c \<and> (\<exists>v. pc_Health c (tick w) = Inr \<lparr>hp_Status = STATUS_SERVING, hp_Version = v\<rparr>)"
proof (cases "pc_Open c")
  case True
  show ?thesis
  proof (cases "pc_Health c (tick w)")
    case (Inr rsp)
    then show ?thesis using True
      by (cases rsp) (auto simp: Health_def call_health_def wrapping_def attempt_def attempt_or_def external_def fail_def ret_def)
  qed (use True in \<open>simp add: Health_def call_health_def wrapping_def attempt_def attempt_or_def external_def fail_def\<close>)
qed (simp add: Health_def call_health_def wrapping_def attempt_def attempt_or_def external_def fail_def)

context guarantee begin

lemma prediction_client [guar_intro]: "guar G (Health c)" "guar G (Client_Version c)"
  unfolding Health_def Client_Version_def call_health_def
  by (intro attempt wrapping external if_guar fail ret)+

end

end
