(* ===== verification/Http_Static.thy ===== *)
theory Http_Static
  imports Http_Props
begin

text \<open>
  The web client's files and cross-origin requests: what the server delivers from the directory of
  the client lies in that directory, and only origins that are allowed may read an answer.
\<close>

section \<open>Clean paths below a directory\<close>

lemma clean_elements_rooted:
  assumes "\<forall>p\<in>set ps. CHR ''/'' \<notin> set p"
  shows "\<forall>q\<in>set (clean_elements True ps). plain_element q"
  using assms
proof (induction ps rule: rev_induct)
  case (snoc p ps)
  then have "\<forall>q\<in>set (clean_elements True ps). plain_element q" by simp
  with snoc.prems show ?case
    by (auto simp: clean_elements_def clean_element_def plain_element_def dest: in_set_butlastD)
qed (simp add: clean_elements_def)

text \<open>A path of a request, cleaned and joined to the root: plain elements below the root.\<close>

lemma joined_below:
  assumes "root_ok base"
  obtains qs where "path_join [base, clean_path (''/'' @ url)] = (if qs = [] then base else base @ ''/'' @ join_on ''/'' qs)"
    "\<forall>q\<in>set qs. plain_element q"
proof -
  let ?c = "CHR ''/''"
  let ?qs = "clean_elements True (split_on ?c (''/'' @ url))"
  have rooted: "is_rooted (CHR ''/'' # url)" by (simp add: is_rooted_def has_prefix_def)
  have plain: "\<forall>q\<in>set ?qs. plain_element q"
    by (rule clean_elements_rooted) (use split_on_free in blast)
  have cleaned: "clean_path (''/'' @ url) = ''/'' @ join_on ''/'' ?qs"
    by (simp add: clean_path_def rooted Let_def)
  from assms have base: "is_rooted base" "clean_path base = base" "base \<noteq> ''/''" "base \<noteq> ''''"
    by (auto simp: root_ok_def is_rooted_def has_prefix_def)
  have joined: "path_join [base, ''/'' @ join_on ''/'' ?qs] = clean_path (base @ ''/'' @ ''/'' @ join_on ''/'' ?qs)"
    using base(4) by (simp add: path_join_def)
  have rooted': "is_rooted (base @ s)" for s
    using base(1,4) by (cases base) (auto simp: is_rooted_def has_prefix_def)
  show ?thesis
  proof (cases "?qs = []")
    case True
    have "split_on ?c (base @ ''/'' @ ''/'') = split_on ?c base @ [[], []]"
      by (simp add: split_on_join)
    then have "clean_path (base @ ''/'' @ ''/'') = clean_path base"
      using rooted' [of "''/'' @ ''/''"] base(1)
      by (simp add: clean_path_def Let_def clean_elements_def clean_element_def)
    with True joined cleaned base(2) show ?thesis by (intro that [of "[]"]) simp_all
  next
    case False
    have "split_on ?c (base @ ''/'' @ ''/'' @ join_on ''/'' ?qs) = split_on ?c base @ [[]] @ ?qs"
      using False plain by (simp add: split_on_join split_join plain_element_def)
    moreover have "split_on ?c (base @ ''/'' @ join_on ''/'' ?qs) = split_on ?c base @ ?qs"
      using False plain by (simp add: split_on_join split_join plain_element_def)
    ultimately have "clean_path (base @ ''/'' @ ''/'' @ join_on ''/'' ?qs) = clean_path (base @ ''/'' @ join_on ''/'' ?qs)"
      using rooted' [of "''/'' @ ''/'' @ join_on ''/'' ?qs"] rooted' [of "''/'' @ join_on ''/'' ?qs"]
      by (simp add: clean_path_def Let_def clean_elements_def clean_element_def)
    also have "\<dots> = base @ ''/'' @ join_on ''/'' ?qs"
      using clean_path_under [OF base(2,1,3) False plain] .
    finally show ?thesis using joined cleaned False plain by (intro that [of ?qs]) simp_all
  qed
qed

lemma start_page: "root_ok base \<Longrightarrow> path_join [base, ''index.html''] = base @ ''/'' @ join_on ''/'' [''index.html'']"
  by (rule path_join_under) (auto simp: root_ok_def plain_element_def)

section \<open>Files of the web client\<close>

lemma file_response_200:
  "rp_Code (no_cache_header b (file_response contents path)) = 200"
  "rp_Content (no_cache_header b (file_response contents path)) =
     (case contents path of None \<Rightarrow> NoContent | Some c \<Rightarrow> FileContent c)"
  by (simp_all add: no_cache_header_def file_response_def)

lemma other_answers:
  "rp_Code (no_cache_header b (local_redirect l)) = 301"
  "rp_Code (no_cache_header b (plain_text c m)) = c"
  by (simp_all add: no_cache_header_def local_redirect_def plain_text_def)

lemma static_file:
  assumes "rp_Code (static_response root_dir url (staticHandler root_dir (\<lambda>p. web p \<noteq> None) url) web) = 200"
    and "root_ok root_dir" and "web root_dir = None" and "web (path_join [root_dir, ''index.html'']) \<noteq> None"
  shows "url \<noteq> ''/api'' \<and> \<not> has_prefix url ''/api/'' \<and>
    (\<exists>qs c. qs \<noteq> [] \<and> (\<forall>q\<in>set qs. plain_element q) \<and>
       rp_Content (static_response root_dir url (staticHandler root_dir (\<lambda>p. web p \<noteq> None) url) web) = FileContent c \<and>
       web (root_dir @ ''/'' @ join_on ''/'' qs) = Some c)"
proof -
  obtain ps where ps: "path_join [root_dir, clean_path (''/'' @ url)] = (if ps = [] then root_dir else root_dir @ ''/'' @ join_on ''/'' ps)"
    and plain: "\<forall>q\<in>set ps. plain_element q"
    using joined_below [OF assms(2)] by blast
  let ?file = "path_join [root_dir, clean_path (''/'' @ url)]"
  have not_api: "url \<noteq> ''/api'' \<and> \<not> has_prefix url ''/api/''"
    using assms(1) by (auto simp: staticHandler_def static_response_def plain_text_def)
  show ?thesis
  proof (cases "web ?file")
    case None
    with not_api assms(1) have "rp_Content (static_response root_dir url (staticHandler root_dir (\<lambda>p. web p \<noteq> None) url) web) =
        (case web (path_join [root_dir, ''index.html'']) of None \<Rightarrow> NoContent | Some c \<Rightarrow> FileContent c)"
      by (auto simp: staticHandler_def static_response_def Let_def file_response_200 other_answers split: if_splits)
    with assms(4) not_api show ?thesis
      unfolding start_page [OF assms(2)]
      by (intro conjI exI [of _ "[''index.html'']"]) (auto simp: plain_element_def)
  next
    case (Some c)
    with not_api assms(1) have "rp_Content (static_response root_dir url (staticHandler root_dir (\<lambda>p. web p \<noteq> None) url) web) = FileContent c"
      by (auto simp: staticHandler_def static_response_def Let_def file_response_200 other_answers split: if_splits)
    moreover from Some ps assms(3) have "ps \<noteq> []" by auto
    ultimately show ?thesis using Some ps plain not_api by (intro conjI exI [of _ ps]) auto
  qed
qed

text \<open>
  C22.  Whatever path a client asks for, what the server delivers as a file of the web client lies in
  the configured directory: its path is the directory followed by plain names, without any element
  that leads upwards.  Paths of the interface are never answered with a file, and the tables stay
  as they are.
\<close>

theorem web_client_files:
  assumes "mux s web_dir web rq w = (Inr rsp, w')" and "rp_Code rsp = 200"
    and "find (route_matches (nr_Method rq) (nr_Path rq)) (routes s) = None"
    and "root_ok web_dir" and "web web_dir = None"
  shows "w' = w \<and> method_matches ''GET'' (nr_Method rq) \<and>
    nr_Path rq \<noteq> ''/api'' \<and> \<not> has_prefix (nr_Path rq) ''/api/'' \<and>
    (\<exists>qs c. qs \<noteq> [] \<and> (\<forall>q\<in>set qs. plain_element q) \<and> rp_Content rsp = FileContent c \<and>
       web (web_dir @ ''/'' @ join_on ''/'' qs) = Some c)"
proof -
  let ?static = "static_response web_dir (nr_Path rq) (staticHandler web_dir (\<lambda>p. web p \<noteq> None) (nr_Path rq)) web"
  from assms(1-3) have on: "registerStatic (\<lambda>p. web p \<noteq> None) web_dir" "method_matches ''GET'' (nr_Method rq)"
    and rsp: "rsp = ?static" "w' = w"
    by (auto simp: mux_def Let_def ret_eq plain_text_def split: if_splits)
  from on(1) have "web (path_join [web_dir, ''index.html'']) \<noteq> None" by (simp add: registerStatic_def)
  with static_file [where web = web, OF _ assms(4,5), of "nr_Path rq"] assms(2) rsp on(2) show ?thesis by auto
qed

definition sample_web :: "string \<Rightarrow> bytes option" where
  "sample_web = [''/web/index.html'' \<mapsto> ''start'', ''/web/app.js'' \<mapsto> ''code'', ''/etc/passwd'' \<mapsto> ''secret'']"

lemma web_client_files_witness:
  "\<exists>c. rp_Content (projr (fst (mux sample_http ''/web'' sample_web (sample_net ''GET'' ''/../../etc/passwd'' JNull) sample_world)))
     = FileContent c \<and> c \<noteq> ''secret''"
proof -
  let ?rq = "sample_net ''GET'' ''/../../etc/passwd'' JNull"
  let ?run = "mux sample_http ''/web'' sample_web ?rq sample_world"
  have none: "find (route_matches (nr_Method ?rq) (nr_Path ?rq)) (routes sample_http) = None"
    by (simp add: sample_net_def routes_def route_matches_def method_matches_def match_path_def is_wildcard_def)
  have ok: "root_ok ''/web''" by code_simp
  have outside: "sample_web ''/web'' = None" by (simp add: sample_web_def)
  have "is_ok (fst ?run)" using mux_answers by (simp add: answers_def)
  then obtain rsp w' where run: "?run = (Inr rsp, w')" by (blast dest: run_ok)
  have "rp_Code (projr (fst ?run)) = 200" by code_simp
  with run have "rp_Code rsp = 200" by simp
  from web_client_files [OF run this none ok outside] obtain qs c where
    "rp_Content rsp = FileContent c" and found: "sample_web (''/web/'' @ join_on ''/'' qs) = Some c"
    by auto
  moreover from found have "c \<noteq> ''secret''" by (auto simp: sample_web_def split: if_splits)
  ultimately show ?thesis using run by simp
qed

section \<open>Cross-origin requests\<close>

definition granted_origins :: "http_response \<Rightarrow> string list" where
  "granted_origins rsp = map snd (filter (\<lambda>(k, v). k = ''Access-Control-Allow-Origin'') (rp_Header rsp))"

text \<open>
  Only an allowed origin is granted, and only to itself; a preflight request reaches no handler.
\<close>

lemma granted_origin:
  assumes "WithCORS parse_url opts h rq w = (Inr rsp, w')" and "origin \<in> set (granted_origins rsp)"
    and "\<And>rsp0 w1. h rq w = (Inr rsp0, w1) \<Longrightarrow> granted_origins rsp0 = []"
  shows "Enabled opts \<and> origin = nr_Origin rq \<and> allows parse_url opts origin"
  using assms
  by (auto simp: WithCORS_def Let_def attempt_Inr ret_eq add_header_def granted_origins_def origin_headers_def
      vary_preflight_def preflight_headers_def write_header_def filter_empty_conv split: if_splits)

lemma preflight_reaches_no_handler:
  assumes "Enabled opts" and "nr_Method rq = ''OPTIONS''" and "nr_PreflightMethod rq \<noteq> ''''"
  shows "snd (WithCORS parse_url opts h rq w) = w \<and> is_ok (fst (WithCORS parse_url opts h rq w))"
  using assms by (auto simp: WithCORS_def Let_def ret_def)

lemma origins_that_are_listed:
  "\<not> co_AllowLocalhost opts \<Longrightarrow> allows parse_url opts origin \<Longrightarrow> origin \<in> set (co_AllowedOrigins opts)"
  by (auto simp: allows_def split: if_splits)

end
