(* ===== verification/Store_Interval.thy ===== *)
theory Store_Interval
  imports Http_Passes Sample
begin

text \<open>
  How a duration travels through an \<open>interval\<close> column: \<open>seconds\<close> makes it a floating-point number,
  \<open>make_interval\<close> rounds that to microseconds, \<open>EXTRACT(EPOCH ..)\<close> gives it back as a floating-point
  number, and \<open>duration\<close> truncates the product with a thousand million
  (\<open>internal/store/repository.go\<close>).  The store's model has this trip as \<open>env_interval\<close>; here it is
  spelled out, and it loses nothing for whole seconds.
\<close>

section \<open>The conversions\<close>

definition seconds :: "env \<Rightarrow> duration \<Rightarrow> float64" where
  "seconds e d = float_units e second d"

definition duration_of_float :: "env \<Rightarrow> float64 \<Rightarrow> duration" where
  "duration_of_float e secs = float_to_int64 e (env_round e (secs * of_int second))"

text \<open>\<open>rint\<close> rounds to the nearest integer, halves to the even one.\<close>

definition rint :: "rat \<Rightarrow> int" where
  "rint x =
     (let f = \<lfloor>x\<rfloor>; rest = x - of_int f
      in if rest < 1 / 2 \<or> rest = 1 / 2 \<and> even f then f else f + 1)"

text \<open>The interval in microseconds.\<close>

definition make_interval :: "env \<Rightarrow> float64 \<Rightarrow> int" where
  "make_interval e secs = rint (env_round e (secs * 1000000))"

definition extract_epoch :: "env \<Rightarrow> int \<Rightarrow> float64" where
  "extract_epoch e us = env_round e (of_int us / 1000000)"

definition interval_round_trip :: "env \<Rightarrow> duration \<Rightarrow> duration" where
  "interval_round_trip e d = duration_of_float e (extract_epoch e (make_interval e (seconds e d)))"

section \<open>Whole seconds\<close>

text \<open>
  What double precision promises of its rounding: a number with at most 53 significant bits, here
  an integer far below the largest double, is kept.
\<close>

definition rounding_exact :: "env \<Rightarrow> bool" where
  "rounding_exact e \<longleftrightarrow>
     (\<forall>m k. \<bar>m\<bar> \<le> 2 ^ 53 \<longrightarrow> k \<le> 900 \<longrightarrow> env_round e (of_int (m * 2 ^ k)) = of_int (m * 2 ^ k))"

lemma exact_int:
  assumes "rounding_exact e" and "\<bar>m\<bar> \<le> 2 ^ 53" and "k \<le> 900"
  shows "env_round e (of_int m * 2 ^ k) = of_int m * 2 ^ k"
  using assms unfolding rounding_exact_def by (metis of_int_mult of_int_numeral of_int_power)

lemma rint_of_int [simp]: "rint (of_int i) = i"
  by (simp add: rint_def)

lemma truncate_of_int [simp]: "Database.truncate (of_int i) = i"
  by (simp add: Database.truncate_def)

text \<open>
  The greatest whole number of seconds whose nanoseconds are still exact: their 512th part has
  53 bits.
\<close>

definition max_exact_seconds :: int where "max_exact_seconds = 4611686018"

lemma whole_second_units:
  assumes "rounding_exact e" and "\<bar>s\<bar> \<le> max_exact_seconds"
  shows "seconds e (s * second) = of_int s"
proof -
  have "\<bar>s\<bar> \<le> 2 ^ 53" using assms(2) by (simp add: max_exact_seconds_def)
  then have "env_round e (of_int s) = of_int s" "env_round e 0 = 0"
    using exact_int [OF assms(1), of s 0] exact_int [OF assms(1), of 0 0] by simp_all
  moreover have "Database.truncate (of_int (s * second) / of_int second) = s"
    by (simp add: second_def)
  ultimately show ?thesis by (simp add: seconds_def float_units_def Let_def)
qed

lemma interval_exact:
  assumes "rounding_exact e" and "\<bar>s\<bar> \<le> max_exact_seconds"
  shows "interval_round_trip e (s * second) = s * second"
proof -
  note s = assms(2) [unfolded max_exact_seconds_def]
  have us: "env_round e (of_int s * 1000000) = of_int (s * 1000000)"
    using exact_int [OF assms(1), of "s * 15625" 6] s by (simp add: abs_mult ac_simps)
  have secs: "env_round e (of_int s) = of_int s"
    using exact_int [OF assms(1), of s 0] s by simp
  have ns: "env_round e (of_int s * of_int second) = of_int (s * second)"
    using exact_int [OF assms(1), of "s * 1953125" 9] s by (simp add: second_def abs_mult ac_simps)
  have "extract_epoch e (make_interval e (seconds e (s * second))) = of_int s"
    unfolding extract_epoch_def make_interval_def whole_second_units [OF assms] us rint_of_int
    using secs by simp
  then have "interval_round_trip e (s * second) = float_to_int64 e (of_int (s * second))"
    by (simp only: interval_round_trip_def duration_of_float_def ns)
  also have "\<dots> = s * second"
  proof -
    have "- (2 ^ 63) \<le> s * second" "s * second < 2 ^ 63" using s by (simp_all add: second_def)
    then show ?thesis unfolding float_to_int64_def truncate_of_int by simp
  qed
  finally show ?thesis .
qed

lemma seconds_no_wrap: "\<bar>s\<bar> \<le> max_exact_seconds \<Longrightarrow> duration_of_seconds s = s * second"
  by (simp add: seconds_exact max_exact_seconds_def)

text \<open>
  C29.  A scheduling configuration that is submitted in whole seconds is read back as it was
  submitted: the product with the nanoseconds of a second, the number of seconds as a
  floating-point number, the interval of the database and the way back lose nothing, up to 4611686018
  seconds.
\<close>

theorem whole_seconds_survive:
  assumes "rounding_exact e" and "env_interval e = interval_round_trip e"
    and "list_all (\<lambda>(_, v). 0 \<le> v \<and> v \<le> max_exact_seconds) (config_request_seconds rq)"
  shows "let c = stored_config e n (requested_config rq) in
    sc_MinimumLeadTime c = scq_MinimumLeadTimeSeconds rq * second \<and>
    sc_PrePassBuffer c = scq_PrePassBufferSeconds rq * second \<and>
    sc_PostPassBuffer c = scq_PostPassBufferSeconds rq * second \<and>
    sc_RecordingPreRoll c = scq_RecordingPreRollSeconds rq * second \<and>
    sc_RecordingPostRoll c = scq_RecordingPostRollSeconds rq * second"
  using assms(3)
  by (simp add: Let_def stored_config_def requested_config_def config_request_seconds_def seconds_fields_def
      assms(2) seconds_no_wrap interval_exact [OF assms(1)])

definition interval_env :: env where
  "interval_env = sample_env\<lparr>env_interval := interval_round_trip sample_env\<rparr>"

definition sample_config_request :: scheduling_config_request where
  "sample_config_request =
     \<lparr>scq_MinimumLeadTimeSeconds = 3600, scq_PrePassBufferSeconds = 60, scq_PostPassBufferSeconds = 60,
      scq_RecordingPreRollSeconds = 10, scq_RecordingPostRollSeconds = 4611686018,
      scq_MinimumElevationDegrees = 10\<rparr>"

lemma whole_seconds_survive_witness:
  "sc_RecordingPostRoll (stored_config interval_env 0 (requested_config sample_config_request)) =
     4611686018000000000"
proof -
  have exact: "rounding_exact interval_env"
    by (simp add: rounding_exact_def interval_env_def sample_env_def)
  have same: "env_interval interval_env = interval_round_trip interval_env"
    by (rule ext) (simp add: interval_env_def sample_env_def interval_round_trip_def duration_of_float_def
        extract_epoch_def make_interval_def seconds_def float_units_def float_to_int64_def)
  have "list_all (\<lambda>(_, v). 0 \<le> v \<and> v \<le> max_exact_seconds) (config_request_seconds sample_config_request)"
    by (simp add: config_request_seconds_def seconds_fields_def sample_config_request_def max_exact_seconds_def)
  from whole_seconds_survive [OF exact same this, of 0] show ?thesis
    by (simp add: Let_def sample_config_request_def second_def)
qed

end
