(* ===== verification/Spec2Isabelle.thy ===== *)
theory Spec2Isabelle
  imports Store_Props Sched_Decide Auth_Service Worker_Sync_Props Filestore_Props Catalog_Props
    Http_Props Http_Visibility Http_Effects Startup_Props Seed_Network Migrate Prediction_Client Http_Static
    Store_Interval
begin

text \<open>
  A model of the Aagasa server (\<open>src/server/go\<close>), which lets users book passes of satellites over
  a ground station and drives the worker at the station.

  \<^bold>\<open>The program.\<close>  One process (\<open>cmd/aagasa-server\<close>) serves an HTTP interface for people and the web
  client (\<open>internal/httpapi\<close>) and a gRPC interface for workers (\<open>internal/workerapi\<close>), and runs two
  loops: one marks silent workers offline, one refreshes orbital elements.  The handlers call the
  services - authentication (\<open>internal/auth\<close>), scheduling (\<open>internal/scheduling\<close>), the pass plan
  generator (\<open>internal/passplan\<close>), the catalogue (\<open>internal/catalog\<close>, \<open>internal/tle\<close>), the file store
  (\<open>internal/filestore\<close>) - and these share the tables of one PostgreSQL database through
  \<open>internal/store\<close>; sessions are in Redis.  The prediction service is another process.

  \<^bold>\<open>The state.\<close>  \<open>Database\<close> has a record with one list per table (\<open>database\<close>) and a \<open>world\<close> around it:
  the tables, the sessions, the files, the state of the transaction, a tick, and an environment
  \<open>env\<close> that gives for each tick what comes from outside - clock, random values, faults of the
  database, of Redis and of the file system - and what libraries compute (UUID texts, SHA-256,
  rounding to double precision, parsing of times).  Each call to the outside takes one tick, so
  nothing that two calls return is assumed equal.  An operation is a function
  \<open>world \<Rightarrow> (err + 'a) \<times> world\<close> (\<open>repo\<close>): Go's error return is \<open>Inl\<close>, and every early return is a
  branch.  A SQL statement is a function on the tables (\<open>stmt\<close>) with the checks, unique indexes,
  foreign keys, exclusion constraint and triggers of the migrations; \<open>run_stmt\<close> makes it fail as
  the environment says, and \<open>InTx\<close> is the transaction, with rollback and aborted state.

  \<^bold>\<open>Theories.\<close>
  \<^item> \<open>Prelude\<close>, \<open>Errors\<close>, \<open>Go_Text\<close>: lists of rows, times and durations in nanoseconds, Go's error
    values with \<open>errors.Is\<close>, and the functions of \<open>strings\<close>, \<open>strconv\<close> and \<open>path\<close> that the code uses.
  \<^item> \<open>Domain\<close> (\<open>internal/domain\<close>): structs as records; an enumeration is a datatype of the declared
    constants with one more constructor for any other string.
  \<^item> \<open>Database\<close>, \<open>Store_Accounts\<close>, \<open>Store_Station\<close>, \<open>Store_Catalog\<close>, \<open>Store_Passes\<close>
    (\<open>internal/store\<close>): each method of the repository with its statement.
  \<^item> \<open>Store_Steps\<close>, \<open>Store_Invariants\<close>: single statements as a step relation \<open>sql_step\<close>, the tables
    that are reachable by any interleaving of statements, and the invariants; \<open>Outcomes\<close> says when
    a composed operation returns what.
  \<^item> \<open>Prediction\<close>, \<open>PassPlan\<close>, \<open>Sched_Rules\<close>, \<open>Sched_Service\<close>: predictions, plans, and the scheduling
    service with requests, the override by root, decisions, cancellations and configurations.
  \<^item> \<open>Auth_Password\<close>, \<open>Auth_Service\<close>: password hashes with their encoding, sessions, login.
  \<^item> \<open>Tle\<close>, \<open>Catalog\<close>: element sets, providers, the satellite catalogue and the refresh loop.
  \<^item> \<open>Filestore\<close>, \<open>Worker_Sync\<close>, \<open>Worker_Upload\<close>: paths and files, the calls of the worker, the monitor.
  \<^item> \<open>Json\<close>, \<open>Http_Core\<close>: decoding of request bodies into structs, responses, the middleware.
  \<^item> \<open>Http_Accounts\<close>, \<open>Http_Passes\<close>, \<open>Http_Setup\<close>, \<open>Http_Station\<close>, \<open>Http_Catalog\<close>,
    \<open>Http_Recordings\<close>: one definition per handler, with its checks in their order.
  \<^item> \<open>Http_Server\<close>: the route table with the gate of each route, dispatch, health, static files and
    cross-origin requests.
  \<^item> \<open>Config\<close>, \<open>Startup\<close>: the configuration, the assembly of the server and the events it handles
    (\<open>run_server\<close>), the recovery of the root password.
  \<^item> \<open>Http_Static\<close>: the files of the web client and what is granted to other origins.
  \<^item> \<open>Store_Interval\<close>: the trip of a duration through an \<open>interval\<close> column, spelled out.
  \<^item> \<open>Prediction_Client\<close>: connection to the prediction service and its health.
  \<^item> \<open>Seed\<close>, \<open>Seed_Props\<close>, \<open>Seed_Network\<close> (\<open>cmd/aagasa-seed\<close>): the development seed, a client over any
    outside with clock and network, and the same client with the server of \<open>Startup\<close> at the other
    end of the network.
  \<^item> \<open>Migrate\<close> (\<open>cmd/aagasa-migrate\<close>): the command for migrations and MongoDB indexes, with the handles
    it opens and closes.
  \<^item> \<open>Sample\<close>: a small system on which the witnesses run.

  \<^bold>\<open>Interfaces.\<close>  \<open>guarantee\<close> (in \<open>Database\<close>) is the contract of a relation between tables that is
  reflexive and transitive: every way of composing operations keeps it.  \<open>server_guarantee\<close> adds that
  single statements keep it, and derives it for every operation, handler and worker call up to
  \<open>run_server\<close>.  Its interpretations are the invariants - bookings, the life of a pass, the audit log,
  accounts, the first-run marker - and the sequences of statements themselves, so each invariant
  holds of the whole server.  \<open>outside_steps\<close> and \<open>clock_laws\<close> (in \<open>Seed_Props\<close>) are what a client
  may expect of clock and network, interpreted on the server behind a network; \<open>tool_effects\<close> (in
  \<open>Migrate\<close>) is a relation that the migration library keeps.

  \<^bold>\<open>What the theorems show.\<close>  The safety of bookings and the life cycle of passes in every reachable
  state, for any interleaving of statements, and that the running server stays in such states;
  what each operation of the services has done when it reports success and that it has done
  nothing when it reports an error, with the exceptions that the code has; transactions, retries
  and first-run setup as all or nothing; who may change something over HTTP and who sees which
  pass and recording; that every request is answered; password hashes, sessions, worker
  credentials; uploads, synchronisation and the monitor; paths under their roots; element sets;
  configurations that are accepted, where a number of seconds no longer fits, and that whole seconds
  survive the database; that the web client's files stay in their directory; that the development
  seed ends whatever the network does, and that its success means a station that is set up.

  \<^bold>\<open>Bounds.\<close>  The retries of \<open>CreatePass\<close> are the code's five.  \<open>TrimSpace\<close> recurses over the length of
  its argument, which is enough as every step drops a character.  Loops over tickers and streams
  (\<open>RunStaleWorkerMonitor\<close>, \<open>RunRefreshLoop\<close>, uploads, \<open>run_server\<close>) take the list of what arrives
  and hold for every such list.  The seed waits for the server in a loop that is a
  \<open>partial_function\<close>, so that not ending is a value; it is proved to end.  Everything else recurses over its data or has a termination proof.

  \<^bold>\<open>Parameters.\<close>  Argon2, the gRPC and protobuf codecs, the JSON library, the parser of URLs, goose, the MongoDB driver, the
  collation of the database, the prediction service and the providers of elements are arguments;
  where a theorem needs something of them, it is a hypothesis of the theorem.

  \<^bold>\<open>Not modelled.\<close>  Log lines, time limits of contexts and network connections, which have no effect on
  the state; the order in which statements of concurrent operations interleave is left open by
  \<open>sql_step\<close>, while the theorems on single operations are about an operation that runs by itself.
  A floating-point number is a rational with explicit rounding where the code rounds; NaN and the
  infinities do not occur in the tables.  What goose and the MongoDB driver do is theirs; the schema that the migrations give is in the
  model of the store.  The protobuf code is generated, and the test support connects tests to
  databases: both are left out, and so are the lines that the commands print.
\<close>

end
